(* ===== verification/Prelude.thy ===== *)
theory Prelude
  imports Main "HOL-Library.Word"
begin

text \<open>
  Shared vocabulary of the development: the machine-integer types of the source, Rust's
  \<open>Result\<close> with panics, state-passing actions with early return (the \<open>?\<close> operator), checked
  arithmetic, little-endian byte conversions, and the bit lemmas the components share.

  Integers have the width the source gives them; \<open>+\<close>, \<open>-\<close> and \<open>*\<close> wrap around, as Rust's
  do in the release profile. The debug profile panics instead: \<open>Debug_Build\<close> models the exit path
  that way and shows where the two profiles part.
\<close>

unbundle bit_operations_syntax

section \<open>Machine integers\<close>

type_synonym u8 = "8 word"
type_synonym u16 = "16 word"
type_synonym u32 = "32 word"
type_synonym u64 = "64 word"

named_theorems const_defs \<open>the source's named constants, unfolded to literals\<close>
named_theorems ops \<open>definitions of the operations of a component\<close>
named_theorems act_simps \<open>how the action combinators run\<close>

definition U64_MAX :: u64 where
  [const_defs]: "U64_MAX = - 1"

definition checked_add :: "u64 \<Rightarrow> u64 \<Rightarrow> u64 option" where
  "checked_add a b = (if unat a + unat b < 2 ^ 64 then Some (a + b) else None)"

definition checked_mul :: "u64 \<Rightarrow> u64 \<Rightarrow> u64 option" where
  "checked_mul a b = (if unat a * unat b < 2 ^ 64 then Some (a * b) else None)"

lemma checked_add_SomeD: "checked_add a b = Some c \<Longrightarrow> unat c = unat a + unat b"
  by (auto simp: checked_add_def unat_word_ariths split: if_splits)

lemma checked_mul_SomeD: "checked_mul a b = Some c \<Longrightarrow> unat c = unat a * unat b"
  by (auto simp: checked_mul_def unat_word_ariths split: if_splits)

lemma checked_add_None_iff: "checked_add a b = None \<longleftrightarrow> 2 ^ 64 \<le> unat a + unat b"
  by (auto simp: checked_add_def)

lemma checked_mul_None_iff: "checked_mul a b = None \<longleftrightarrow> 2 ^ 64 \<le> unat a * unat b"
  by (auto simp: checked_mul_def)

lemma unat_max: "unat (- 1 :: 'a::len word) = 2 ^ LENGTH('a) - 1"
  by (simp add: unsigned_minus_1_eq_mask mask_eq_exp_minus_1)

lemma unat_lt: "unat a < 2 ^ LENGTH('a)" for a :: "'a::len word"
  by (rule unsigned_less)

section \<open>Results and actions\<close>

text \<open>
  \<open>Result<T, E>\<close>, with the panic of a failed assertion as a third outcome. An action runs in a
  state and returns an outcome with the state after it; the state is kept on every outcome,
  because an early return does not undo what ran before it.
\<close>

datatype ('e, 'a) result = Ok 'a | Err 'e | Panic

type_synonym ('s, 'e, 'a) action = "'s \<Rightarrow> ('e, 'a) result \<times> 's"

definition ret :: "'a \<Rightarrow> ('s, 'e, 'a) action" where
  "ret x s = (Ok x, s)"

definition throw :: "'e \<Rightarrow> ('s, 'e, 'a) action" where
  "throw e s = (Err e, s)"

definition panic_with :: "('s, 'e, 'a) action" where
  "panic_with s = (Panic, s)"

definition gets :: "('s \<Rightarrow> 'a) \<Rightarrow> ('s, 'e, 'a) action" where
  "gets f s = (Ok (f s), s)"

definition modify :: "('s \<Rightarrow> 's) \<Rightarrow> ('s, 'e, unit) action" where
  "modify f s = (Ok (), f s)"

text \<open>\<open>and_then m f\<close> is \<open>let x = m?; f(x)\<close>.\<close>

definition and_then :: "('s, 'e, 'a) action \<Rightarrow> ('a \<Rightarrow> ('s, 'e, 'b) action) \<Rightarrow> ('s, 'e, 'b) action" where
  "and_then m f s = (case m s of (r, t) \<Rightarrow>
     (case r of Ok x \<Rightarrow> f x t | Err e \<Rightarrow> (Err e, t) | Panic \<Rightarrow> (Panic, t)))"

definition map_err :: "('e \<Rightarrow> 'f) \<Rightarrow> ('s, 'e, 'a) action \<Rightarrow> ('s, 'f, 'a) action" where
  "map_err g m s = (case m s of (r, t) \<Rightarrow>
     (case r of Ok x \<Rightarrow> (Ok x, t) | Err e \<Rightarrow> (Err (g e), t) | Panic \<Rightarrow> (Panic, t)))"

text \<open>\<open>.ok()\<close>: the value, or \<open>None\<close> after an error.\<close>

definition ok_or_none :: "('s, 'e, 'a) action \<Rightarrow> ('s, 'f, 'a option) action" where
  "ok_or_none m s = (case m s of (r, t) \<Rightarrow>
     (case r of Ok x \<Rightarrow> (Ok (Some x), t) | Err e \<Rightarrow> (Ok None, t) | Panic \<Rightarrow> (Panic, t)))"

text \<open>A pure \<open>Result\<close> used with \<open>?\<close> inside an action.\<close>

definition lift_result :: "('e, 'a) result \<Rightarrow> ('s, 'e, 'a) action" where
  "lift_result r s = (r, s)"

primrec map_result_err :: "('e \<Rightarrow> 'f) \<Rightarrow> ('e, 'a) result \<Rightarrow> ('f, 'a) result" where
  "map_result_err g (Ok x) = Ok x"
| "map_result_err g (Err e) = Err (g e)"
| "map_result_err g Panic = Panic"

primrec for_each :: "'x list \<Rightarrow> ('x \<Rightarrow> ('s, 'e, unit) action) \<Rightarrow> ('s, 'e, unit) action" where
  "for_each [] body = ret ()"
| "for_each (x # xs) body = and_then (body x) (\<lambda>_. for_each xs body)"

lemma run_ret [simp, act_simps]: "ret x s = (Ok x, s)"
  by (simp add: ret_def)

lemma run_throw [simp, act_simps]: "throw e s = (Err e, s)"
  by (simp add: throw_def)

lemma run_panic_with [simp, act_simps]: "panic_with s = (Panic, s)"
  by (simp add: panic_with_def)

lemma run_gets [simp, act_simps]: "gets f s = (Ok (f s), s)"
  by (simp add: gets_def)

lemma run_modify [simp, act_simps]: "modify f s = (Ok (), f s)"
  by (simp add: modify_def)

lemma run_lift_result [simp, act_simps]: "lift_result r s = (r, s)"
  by (simp add: lift_result_def)

lemma and_then_Ok [act_simps]: "m s = (Ok x, t) \<Longrightarrow> and_then m f s = f x t"
  by (simp add: and_then_def)

lemma and_then_Err [act_simps]: "m s = (Err e, t) \<Longrightarrow> and_then m f s = (Err e, t)"
  by (simp add: and_then_def)

lemma and_then_run:
  "and_then m f s = (case fst (m s) of Ok x \<Rightarrow> f x (snd (m s)) | Err e \<Rightarrow> (Err e, snd (m s)) | Panic \<Rightarrow> (Panic, snd (m s)))"
  by (simp add: and_then_def split_beta)

lemma and_then_OkE:
  assumes "and_then m f s = (Ok y, u)"
  obtains x t where "m s = (Ok x, t)" and "f x t = (Ok y, u)"
  using assms by (auto simp: and_then_def split: prod.splits result.splits)

lemma and_then_Ok_iff: "and_then a f s = (Ok y, u) \<longleftrightarrow> (\<exists>x t. a s = (Ok x, t) \<and> f x t = (Ok y, u))"
  by (auto simp: and_then_def split: prod.splits result.splits)

lemma map_err_Ok_iff [simp]: "map_err g m s = (Ok x, t) \<longleftrightarrow> m s = (Ok x, t)"
  by (auto simp: map_err_def split: prod.splits result.splits)

lemma map_err_Ok [act_simps]: "m s = (Ok x, t) \<Longrightarrow> map_err g m s = (Ok x, t)"
  by simp

lemma map_err_Err [act_simps]: "m s = (Err e, t) \<Longrightarrow> map_err g m s = (Err (g e), t)"
  by (simp add: map_err_def)

lemma ok_or_none_Ok [act_simps]: "m s = (Ok x, t) \<Longrightarrow> ok_or_none m s = (Ok (Some x), t)"
  by (simp add: ok_or_none_def)

lemma ok_or_none_Err [act_simps]: "m s = (Err e, t) \<Longrightarrow> ok_or_none m s = (Ok None, t)"
  by (simp add: ok_or_none_def)

lemma map_err_run: "map_err g act s = (map_result_err g (fst (act s)), snd (act s))"
  by (cases "act s"; cases "fst (act s)") (simp_all add: map_err_def)

lemma map_result_err_eq_Ok [simp]: "map_result_err g r = Ok x \<longleftrightarrow> r = Ok x"
  by (cases r) auto

text \<open>A loop whose every pass succeeds, keeping a relation between states, succeeds.\<close>

lemma for_each_Ok_invariant:
  assumes "\<And>x s. x \<in> set xs \<Longrightarrow> I s \<Longrightarrow> \<exists>t. body x s = (Ok (), t) \<and> I t"
    and "I s"
  shows "\<exists>t. for_each xs body s = (Ok (), t) \<and> I t"
  using assms
proof (induction xs arbitrary: s)
  case Nil
  then show ?case by simp
next
  case (Cons x xs)
  from Cons.prems obtain t where "body x s = (Ok (), t)" and "I t"
    by (meson list.set_intros(1))
  moreover from Cons.IH [of t] Cons.prems(1) \<open>I t\<close>
  obtain u where "for_each xs body t = (Ok (), u)" and "I u"
    by auto
  ultimately show ?case by (auto simp: and_then_Ok)
qed

lemma for_each_append:
  "for_each (xs @ ys) body = and_then (for_each xs body) (\<lambda>_. for_each ys body)"
proof (induction xs)
  case Nil
  show ?case by (simp add: fun_eq_iff and_then_def)
next
  case (Cons x xs)
  then show ?case
    by (simp add: fun_eq_iff and_then_def split: prod.splits result.splits)
qed

text \<open>
  An action is total when it always returns a value, panic-free when it never panics, and keeps a part of the
  state when no outcome changes it. Each combinator passes these on.
\<close>

named_theorems act_rules \<open>totality, panic freedom and frame rules of the combinators\<close>

definition total :: "('s, 'e, 'a) action \<Rightarrow> bool" where
  "total act \<longleftrightarrow> (\<forall>s. \<exists>x. fst (act s) = Ok x)"

definition panic_free :: "('s, 'e, 'a) action \<Rightarrow> bool" where
  "panic_free act \<longleftrightarrow> (\<forall>s. fst (act s) \<noteq> Panic)"

definition keeps :: "('s \<Rightarrow> 'x) \<Rightarrow> ('s, 'e, 'a) action \<Rightarrow> bool" where
  "keeps f act \<longleftrightarrow> (\<forall>s. f (snd (act s)) = f s)"

lemma total_rules [act_rules]:
  "total (ret x)" "total (gets f)" "total (modify h)"
  by (simp_all add: total_def)

lemma total_and_then [act_rules]:
  assumes "total m" and "\<And>x. total (f x)"
  shows "total (and_then m f)"
  unfolding total_def
proof
  fix s
  obtain x t where "m s = (Ok x, t)" using assms(1) unfolding total_def by (metis prod.collapse)
  then show "\<exists>y. fst (and_then m f s) = Ok y"
    using assms(2) [of x] by (simp add: and_then_Ok total_def)
qed

lemma total_case [act_rules]:
  "total a \<Longrightarrow> (\<And>x. total (b x)) \<Longrightarrow> total (case ox of None \<Rightarrow> a | Some x \<Rightarrow> b x)"
  "total c \<Longrightarrow> total d \<Longrightarrow> total (if P then c else d)"
  "(\<And>x y. total (g x y)) \<Longrightarrow> total (case p of (x, y) \<Rightarrow> g x y)"
  by (auto split: option.split prod.split)

lemma totalE:
  assumes "total act"
  obtains x t where "act s = (Ok x, t)"
  using assms by (metis total_def prod.collapse)

lemma panic_free_rules [act_rules]:
  "panic_free (ret x)" "panic_free (gets f)" "panic_free (modify h)" "panic_free (throw e)"
  by (simp_all add: panic_free_def)

lemma panic_free_and_then [act_rules]:
  "panic_free m \<Longrightarrow> (\<And>x. panic_free (f x)) \<Longrightarrow> panic_free (and_then m f)"
  by (auto simp: panic_free_def and_then_def split: prod.splits result.splits) (metis fst_conv)

lemma panic_free_map_err [act_rules]: "panic_free m \<Longrightarrow> panic_free (map_err g m)"
  by (auto simp: panic_free_def map_err_def split: prod.splits result.splits) (metis fst_conv)

lemma panic_free_case [act_rules]:
  "panic_free a \<Longrightarrow> (\<And>x. panic_free (b x)) \<Longrightarrow> panic_free (case ox of None \<Rightarrow> a | Some x \<Rightarrow> b x)"
  "panic_free c \<Longrightarrow> panic_free d \<Longrightarrow> panic_free (if P then c else d)"
  by (auto split: option.split)

lemma total_panic_free: "total act \<Longrightarrow> panic_free act"
  by (metis panic_free_def result.distinct(3) total_def)

lemma keeps_rules [act_rules]:
  "keeps f (ret x)" "keeps f (gets g)" "keeps f (throw e)" "(\<And>s. f (h s) = f s) \<Longrightarrow> keeps f (modify h)"
  by (simp_all add: keeps_def)

lemma keeps_and_then [act_rules]: "keeps f m \<Longrightarrow> (\<And>x. keeps f (g x)) \<Longrightarrow> keeps f (and_then m g)"
  by (auto simp: keeps_def and_then_def split: prod.splits result.splits) (metis snd_conv)+

lemma keeps_map_err [act_rules]: "keeps f m \<Longrightarrow> keeps f (map_err g m)"
  by (auto simp: keeps_def map_err_def split: prod.splits result.splits) (metis snd_conv)+

lemma keeps_case [act_rules]:
  "keeps f a \<Longrightarrow> (\<And>x. keeps f (b x)) \<Longrightarrow> keeps f (case ox of None \<Rightarrow> a | Some x \<Rightarrow> b x)"
  "keeps f c \<Longrightarrow> keeps f d \<Longrightarrow> keeps f (if P then c else d)"
  "(\<And>x y. keeps f (g x y)) \<Longrightarrow> keeps f (case p of (x, y) \<Rightarrow> g x y)"
  by (auto split: option.split prod.split)

lemma keepsD: "keeps f act \<Longrightarrow> act s = (r, t) \<Longrightarrow> f t = f s"
  by (metis keeps_def snd_conv)

section \<open>Bits\<close>

lemma bit_mask_word [simp]: "bit (mask n :: 'a::len word) k \<longleftrightarrow> k < n \<and> k < LENGTH('a)"
  by (auto simp: bit_mask_iff)

lemma and_eq_self_iff_bits:
  fixes a b :: "'a::len word"
  shows "a AND b = b \<longleftrightarrow> (\<forall>n. bit b n \<longrightarrow> bit a n)"
  by (auto simp: bit_eq_iff bit_simps dest: bit_imp_le_length)

lemma and_eq_0_iff_bits:
  fixes a b :: "'a::len word"
  shows "a AND b = 0 \<longleftrightarrow> (\<forall>n. bit b n \<longrightarrow> \<not> bit a n)"
  by (auto simp: bit_eq_iff bit_simps dest: bit_imp_le_length)

lemma bit_test:
  fixes a :: "'a::len word"
  shows "a AND push_bit n 1 = 0 \<longleftrightarrow> \<not> bit a n"
proof -
  have "bit (push_bit n (1 :: 'a word)) k \<longleftrightarrow> k = n \<and> n < LENGTH('a)" for k
    by (auto simp: bit_simps)
  then show ?thesis by (auto simp: and_eq_0_iff_bits dest: bit_imp_le_length)
qed

lemma bit_push_bit_1: "bit (push_bit k 1 :: 'a::len word) n \<longleftrightarrow> n = k \<and> k < LENGTH('a)"
  by (auto simp: bit_simps)

lemma and_mask_unat:
  fixes w :: "'a::len word"
  shows "unat (w AND mask n) = unat w mod 2 ^ n"
  by (simp only: take_bit_eq_mask [symmetric] unsigned_take_bit_eq) (simp add: take_bit_eq_mod)

lemma drop_bit_unat:
  fixes w :: "'a::len word"
  shows "unat (drop_bit n w) = unat w div 2 ^ n"
  by (simp only: unsigned_drop_bit_eq) (simp add: drop_bit_eq_div take_bit_eq_mod unsigned_less)

lemma and_not_mask_unat:
  fixes w :: "'a::len word"
  shows "unat (w AND NOT (mask n)) = unat w div 2 ^ n * 2 ^ n"
proof -
  have "w AND NOT (mask n) = push_bit n (drop_bit n w)"
    by (rule bit_word_eqI) (auto simp: bit_simps)
  moreover have "unat w div 2 ^ n * 2 ^ n < 2 ^ LENGTH('a)"
    using div_times_less_eq_dividend [of "unat w" "2 ^ n"] unsigned_less [where 'a = nat, of w]
    by (rule order_le_less_trans)
  ultimately show ?thesis
    by (simp only: unsigned_push_bit_eq drop_bit_unat) (simp add: push_bit_eq_mult take_bit_eq_mod)
qed

lemma word_of_unat: "unat w = n \<Longrightarrow> w = of_nat n" for w :: "'a::len word"
  by (metis of_nat_unat ucast_id)

lemma or_disjoint_unat:
  fixes a b :: "'a::len word"
  assumes "a AND b = 0"
  shows "unat (a OR b) = unat a + unat b"
proof -
  have "unat a AND unat b = 0" using assms by (metis unsigned_0 unsigned_and_eq)
  then show ?thesis by (simp add: unsigned_or_eq disjunctive_add_eq_or)
qed

lemma unat_diff_swap:
  fixes a b :: u64
  assumes "a \<noteq> b"
  shows "unat (b - a) = 2 ^ 64 - unat (a - b)"
proof -
  have "(a - b) + (b - a) = 0" by simp
  then have "unat ((a - b) + (b - a)) = 0" by simp
  then have "(unat (a - b) + unat (b - a)) mod 2 ^ 64 = 0"
    by (simp only: unat_word_ariths(1)) simp
  moreover have "unat (a - b) < 2 ^ 64" "unat (b - a) < 2 ^ 64"
    using unsigned_less [of "a - b"] unsigned_less [of "b - a"] by simp_all
  moreover have "0 < unat (a - b)" using assms by (simp add: unat_gt_0)
  ultimately show ?thesis
    by (cases "unat (a - b) + unat (b - a) < 2 ^ 64") (auto simp: le_mod_geq)
qed

lemma disjoint_intervals:
  fixes a b :: nat
  assumes "{a..<a + n} \<inter> {b..<b + k} = {}" and "0 < n" and "0 < k"
  shows "a + n \<le> b \<or> b + k \<le> a"
proof (rule ccontr)
  assume "\<not> ?thesis"
  then have "max a b \<in> {a..<a + n} \<inter> {b..<b + k}" using assms(2,3) by (simp add: max_def)
  then show False using assms(1) by simp
qed

lemma unat_u32_less: "unat (w :: u32) < 2 ^ 32"
  using unsigned_less [where 'a = nat, of w] by simp

lemma unat_u64_less: "unat (w :: u64) < 2 ^ 64"
  using unsigned_less [where 'a = nat, of w] by simp

lemma take_bit_u64 [simp]: "take_bit 64 (w :: u64) = w"
  by (simp add: take_bit_word_eq_self)

lemma ucast_u32_back: "ucast (ucast x :: u64) = (x :: u32)"
  and ucast_u8_back: "ucast (ucast b :: u64) = (b :: u8)"
  by (rule bit_word_eqI, simp add: bit_simps)+

lemma take_bit_ucast_u16 [simp]:
  "take_bit 16 (ucast (w :: u16) :: u64) = ucast w" "take_bit 32 (ucast (w :: u16) :: u64) = ucast w"
  by (rule bit_word_eqI, auto simp: bit_simps dest: bit_imp_le_length)+

lemma take_bit_ucast_u32 [simp]: "take_bit 32 (ucast (w :: u32) :: u64) = ucast w"
  by (rule bit_word_eqI) (auto simp: bit_simps dest: bit_imp_le_length)

lemma unat_ucast_u32 [simp]: "unat (ucast (w :: u32) :: u64) = unat w"
proof -
  have "unat w < 2 ^ 64" using unat_u32_less [of w] by simp
  then have "take_bit 64 (unat w) = unat w" by (simp add: take_bit_nat_eq_self_iff)
  then show ?thesis by (simp add: unsigned_ucast_eq)
qed

section \<open>Little-endian bytes\<close>

text \<open>\<open>to_le_bytes\<close> and \<open>from_le_bytes\<close> of the fixed-width integers, low byte first.\<close>

definition to_le_bytes :: "'a::len word \<Rightarrow> u8 list" where
  "to_le_bytes w = map (\<lambda>i. ucast (drop_bit (8 * i) w)) [0..<LENGTH('a) div 8]"

primrec from_le_bytes :: "u8 list \<Rightarrow> 'a::len word" where
  "from_le_bytes [] = 0"
| "from_le_bytes (b # bs) = ucast b OR push_bit 8 (from_le_bytes bs)"

lemma bit_from_le_bytes:
  "bit (from_le_bytes bs :: 'a::len word) n \<longleftrightarrow>
     n < LENGTH('a) \<and> n div 8 < length bs \<and> bit (bs ! (n div 8)) (n mod 8)"
proof (induction bs arbitrary: n)
  case Nil
  show ?case by simp
next
  case (Cons b bs)
  show ?case
  proof (cases "n < 8")
    case True
    then show ?thesis by (auto simp: bit_simps)
  next
    case False
    then have *: "n div 8 = Suc ((n - 8) div 8)" and **: "(n - 8) mod 8 = n mod 8"
      by (simp_all add: le_div_geq le_mod_geq)
    have "\<not> bit b n" using False by (auto dest: bit_imp_le_length)
    then show ?thesis using False Cons.IH [of "n - 8"] * **
      by (auto simp: bit_simps)
  qed
qed

lemma length_to_le_bytes [simp]: "length (to_le_bytes (w :: 'a::len word)) = LENGTH('a) div 8"
  by (simp add: to_le_bytes_def)

lemma nth_to_le_bytes:
  "i < LENGTH('a) div 8 \<Longrightarrow> to_le_bytes (w :: 'a::len word) ! i = ucast (drop_bit (8 * i) w)"
  by (simp add: to_le_bytes_def)

text \<open>Storing an integer as bytes and reading it back gives the same integer.\<close>

lemma le_bytes_round_trip:
  assumes "8 dvd LENGTH('a)"
  shows "from_le_bytes (to_le_bytes (w :: 'a::len word)) = w"
proof (rule bit_word_eqI)
  fix n assume n: "n < LENGTH('a)"
  with assms have d: "n div 8 < LENGTH('a) div 8" by (auto simp: dvd_def)
  then show "bit (from_le_bytes (to_le_bytes w) :: 'a word) n = bit w n"
    using n by (simp add: bit_from_le_bytes nth_to_le_bytes bit_simps)
qed

lemma le_bytes_round_trip_widths [simp]:
  "from_le_bytes (to_le_bytes (a :: u16)) = a"
  "from_le_bytes (to_le_bytes (b :: u32)) = b"
  "from_le_bytes (to_le_bytes (c :: u64)) = c"
  by (simp_all add: le_bytes_round_trip)

end
