(* ===== verification/Platform.thy ===== *)
theory Platform
  imports Prelude
begin

text \<open>
  What the program runs on and does not contain: the processor's instructions and the UEFI boot
  services. Each is a field of the record \<open>platform\<close>, a parameter of every definition that
  uses it, over an abstract machine state \<open>'m\<close>. A VMX instruction returns the RFLAGS it leaves
  behind, because RFLAGS is how the program learns its outcome. What the program relies on is
  stated as the assumptions of the locales at the end; \<open>Reference_Machine\<close> gives a machine that
  has them.

  The second half models \<open>vmx/page.rs\<close>, the zeroed page allocation every other component uses.
\<close>

section \<open>The parameter: instructions and boot services\<close>

record cpuid_result =
  eax :: u32
  ebx :: u32
  ecx :: u32
  edx :: u32

datatype memory_type = LOADER_CODE | LOADER_DATA

record 'm platform =
  i_vmread :: "u64 \<Rightarrow> 'm \<Rightarrow> u64 \<times> u64 \<times> 'm" \<comment> \<open>encoding; value, RFLAGS\<close>
  i_vmwrite :: "u64 \<Rightarrow> u64 \<Rightarrow> 'm \<Rightarrow> u64 \<times> 'm" \<comment> \<open>encoding, value; RFLAGS\<close>
  i_vmclear :: "u64 \<Rightarrow> 'm \<Rightarrow> u64 \<times> 'm" \<comment> \<open>physical address; RFLAGS\<close>
  i_vmptrld :: "u64 \<Rightarrow> 'm \<Rightarrow> u64 \<times> 'm"
  i_vmxon :: "u64 \<Rightarrow> 'm \<Rightarrow> u64 \<times> 'm"
  i_vmxoff :: "'m \<Rightarrow> u64 \<times> 'm"
  i_invept :: "u64 \<Rightarrow> u64 \<Rightarrow> u64 \<Rightarrow> 'm \<Rightarrow> u64 \<times> 'm" \<comment> \<open>type, descriptor low and high\<close>
  i_rdmsr :: "u32 \<Rightarrow> 'm \<Rightarrow> u32 \<times> u32 \<times> 'm" \<comment> \<open>ECX; EAX, EDX\<close>
  i_wrmsr :: "u32 \<Rightarrow> u32 \<Rightarrow> u32 \<Rightarrow> 'm \<Rightarrow> 'm" \<comment> \<open>ECX, EAX, EDX\<close>
  i_cpuid :: "u32 \<Rightarrow> u32 \<Rightarrow> 'm \<Rightarrow> cpuid_result" \<comment> \<open>EAX, ECX\<close>
  i_in8 :: "u16 \<Rightarrow> 'm \<Rightarrow> u8 \<times> 'm"
  i_in16 :: "u16 \<Rightarrow> 'm \<Rightarrow> u16 \<times> 'm"
  i_in32 :: "u16 \<Rightarrow> 'm \<Rightarrow> u32 \<times> 'm"
  i_out8 :: "u16 \<Rightarrow> u8 \<Rightarrow> 'm \<Rightarrow> 'm"
  i_out16 :: "u16 \<Rightarrow> u16 \<Rightarrow> 'm \<Rightarrow> 'm"
  i_out32 :: "u16 \<Rightarrow> u32 \<Rightarrow> 'm \<Rightarrow> 'm"
  i_read_cr0 :: "'m \<Rightarrow> u64"
  i_read_cr3 :: "'m \<Rightarrow> u64"
  i_read_cr4 :: "'m \<Rightarrow> u64"
  i_write_cr0 :: "u64 \<Rightarrow> 'm \<Rightarrow> 'm"
  i_write_cr4 :: "u64 \<Rightarrow> 'm \<Rightarrow> 'm"
  i_sgdt :: "'m \<Rightarrow> u8 list" \<comment> \<open>the 10-byte memory operand\<close>
  i_sidt :: "'m \<Rightarrow> u8 list"
  i_lgdt :: "u8 list \<Rightarrow> 'm \<Rightarrow> 'm"
  i_lidt :: "u8 list \<Rightarrow> 'm \<Rightarrow> 'm"
  i_ltr :: "u16 \<Rightarrow> 'm \<Rightarrow> 'm"
  i_cs :: "'m \<Rightarrow> u16"
  i_ss :: "'m \<Rightarrow> u16"
  i_ds :: "'m \<Rightarrow> u16"
  i_es :: "'m \<Rightarrow> u16"
  i_fs :: "'m \<Rightarrow> u16"
  i_gs :: "'m \<Rightarrow> u16"
  i_str :: "'m \<Rightarrow> u16"
  i_pushfq :: "'m \<Rightarrow> u64"
  i_sti :: "'m \<Rightarrow> 'm"
  i_load8 :: "u64 \<Rightarrow> 'm \<Rightarrow> u8" \<comment> \<open>one byte of memory\<close>
  i_store8 :: "u64 \<Rightarrow> u8 \<Rightarrow> 'm \<Rightarrow> 'm"
  f_allocate_pages :: "memory_type \<Rightarrow> nat \<Rightarrow> 'm \<Rightarrow> u64 option \<times> 'm"
  f_free_pages :: "u64 \<Rightarrow> nat \<Rightarrow> 'm \<Rightarrow> bool \<times> 'm"
  f_memory_map :: "'m \<Rightarrow> (u64 \<times> u64) list option \<times> 'm" \<comment> \<open>start and page count per region\<close>

section \<open>Memory accesses wider than a byte\<close>

definition load_bytes :: "'m platform \<Rightarrow> u64 \<Rightarrow> nat \<Rightarrow> 'm \<Rightarrow> u8 list" where
  "load_bytes hw a n m = map (\<lambda>i. i_load8 hw (a + of_nat i) m) [0..<n]"

primrec store_bytes :: "'m platform \<Rightarrow> u64 \<Rightarrow> u8 list \<Rightarrow> 'm \<Rightarrow> 'm" where
  "store_bytes hw a [] m = m"
| "store_bytes hw a (b # bs) m = store_bytes hw (a + 1) bs (i_store8 hw a b m)"

definition load64 :: "'m platform \<Rightarrow> u64 \<Rightarrow> 'm \<Rightarrow> u64" where
  "load64 hw a m = from_le_bytes (load_bytes hw a 8 m)"

definition store64 :: "'m platform \<Rightarrow> u64 \<Rightarrow> u64 \<Rightarrow> 'm \<Rightarrow> 'm" where
  "store64 hw a v m = store_bytes hw a (to_le_bytes v) m"

definition store32 :: "'m platform \<Rightarrow> u64 \<Rightarrow> u32 \<Rightarrow> 'm \<Rightarrow> 'm" where
  "store32 hw a v m = store_bytes hw a (to_le_bytes v) m"

text \<open>Memory keeps each byte written to it until the byte is written again.\<close>

locale memory_laws =
  fixes hw :: "'m platform"
  assumes load_store: "i_load8 hw a (i_store8 hw b v m) = (if a = b then v else i_load8 hw a m)"
begin

lemma load_store_bytes_outside:
  assumes "length bs \<le> unat (a - b) \<or> bs = []" and "length bs \<le> 2 ^ 63"
  shows "i_load8 hw a (store_bytes hw b bs m) = i_load8 hw a m"
  using assms
proof (induction bs arbitrary: b m)
  case Nil
  then show ?case by simp
next
  case (Cons x bs)
  then have far: "Suc (length bs) \<le> unat (a - b)" by simp
  then have ne: "a \<noteq> b" by auto
  have "a - (b + 1) = (a - b) - 1" by simp
  moreover from ne have "a - b \<noteq> 0" by simp
  ultimately have "unat (a - (b + 1)) = unat (a - b) - 1"
    by (metis unat_minus_one)
  with far have "length bs \<le> unat (a - (b + 1))" by simp
  then have "i_load8 hw a (store_bytes hw (b + 1) bs (i_store8 hw b x m))
      = i_load8 hw a (i_store8 hw b x m)"
    using Cons.prems(2) by (intro Cons.IH) auto
  then show ?case using ne by (simp add: load_store)
qed

lemma load_store_bytes_inside:
  assumes "i < length bs" and "length bs \<le> 2 ^ 63"
  shows "i_load8 hw (b + of_nat i) (store_bytes hw b bs m) = bs ! i"
  using assms
proof (induction bs arbitrary: b m i)
  case Nil
  then show ?case by simp
next
  case (Cons x bs)
  show ?case
  proof (cases i)
    case 0
    have "unat (b - (b + 1)) = 2 ^ 64 - 1"
      by (simp add: unsigned_minus_1_eq_mask mask_eq_exp_minus_1)
    then have "i_load8 hw b (store_bytes hw (b + 1) bs (i_store8 hw b x m))
        = i_load8 hw b (i_store8 hw b x m)"
      using Cons.prems(2) by (intro load_store_bytes_outside) auto
    with 0 show ?thesis by (simp add: load_store)
  next
    case (Suc j)
    have "b + of_nat i = (b + 1) + of_nat j" by (simp add: Suc)
    then show ?thesis using Cons.IH [of j "b + 1"] Cons.prems Suc by (simp add: add.assoc)
  qed
qed

text \<open>A byte after a run of stores, by its address.\<close>

lemma load_after_store:
  assumes "unat b + length bs \<le> 2 ^ 63" and "x < 2 ^ 64"
  shows "i_load8 hw (of_nat x) (store_bytes hw b bs m)
    = (if unat b \<le> x \<and> x < unat b + length bs then bs ! (x - unat b) else i_load8 hw (of_nat x) m)"
proof -
  have ux: "unat (of_nat x :: u64) = x" using assms(2) by (simp add: unat_of_nat)
  show ?thesis
  proof (cases "unat b \<le> x")
    case True
    then have x: "of_nat x = b + of_nat (x - unat b)" by (simp add: of_nat_diff)
    have d: "unat (of_nat x - b) = x - unat b" using ux True by (simp add: unat_sub word_le_nat_alt)
    show ?thesis
    proof (cases "x < unat b + length bs")
      case inside: True
      then have "i_load8 hw (b + of_nat (x - unat b)) (store_bytes hw b bs m) = bs ! (x - unat b)"
        using True assms(1) by (intro load_store_bytes_inside) auto
      then show ?thesis using True inside unfolding x by simp
    next
      case False
      then show ?thesis using True assms(1) d by (subst load_store_bytes_outside) auto
    qed
  next
    case False
    then have "b \<noteq> of_nat x" using ux by auto
    moreover have "unat (b - of_nat x) = unat b - x" using False ux by (simp add: unat_sub word_le_nat_alt)
    ultimately have "unat (of_nat x - b) = 2 ^ 64 - (unat b - x)" using unat_diff_swap [of b "of_nat x"] by simp
    then show ?thesis using False assms(1) by (subst load_store_bytes_outside) auto
  qed
qed

lemma load_bytes_store_bytes:
  assumes "length bs \<le> 2 ^ 63"
  shows "load_bytes hw a (length bs) (store_bytes hw a bs m) = bs"
  using assms by (intro nth_equalityI) (simp_all add: load_bytes_def load_store_bytes_inside)

lemma load64_store64 [simp]: "load64 hw a (store64 hw a v m) = v"
proof -
  have "load_bytes hw a 8 (store_bytes hw a (to_le_bytes v) m) = to_le_bytes v"
    using load_bytes_store_bytes [of "to_le_bytes v" a m] by simp
  then show ?thesis by (simp add: load64_def store64_def)
qed

lemma load64_store64_apart:
  assumes "8 \<le> unat (a - b)" and "8 \<le> unat (b - a)"
  shows "load64 hw a (store64 hw b v m) = load64 hw a m"
proof -
  have "i_load8 hw (a + of_nat i) (store_bytes hw b (to_le_bytes v) m) = i_load8 hw (a + of_nat i) m"
    if "i < 8" for i
  proof (rule load_store_bytes_outside)
    have "unat (a - b) + 8 \<le> 2 ^ 64"
    proof -
      have "unat (b - a) = 2 ^ 64 - unat (a - b)"
        using assms(1) by (intro unat_diff_swap) auto
      with assms(2) show ?thesis by linarith
    qed
    then have "unat (a - b + of_nat i) = unat (a - b) + i"
      using that by (simp add: unat_word_ariths unat_of_nat)
    then show "length (to_le_bytes v) \<le> unat (a + of_nat i - b) \<or> to_le_bytes v = []"
      using assms(1) by (simp add: algebra_simps)
  qed simp
  then have "load_bytes hw a 8 (store_bytes hw b (to_le_bytes v) m) = load_bytes hw a 8 m"
    by (simp add: load_bytes_def)
  then show ?thesis by (simp add: load64_def store64_def)
qed

end

section \<open>Pages (vmx/page.rs)\<close>

definition PAGE_SIZE :: nat where
  [const_defs]: "PAGE_SIZE = 4096"

definition allocate_zeroed_pages_of_type ::
  "'m platform \<Rightarrow> nat \<Rightarrow> memory_type \<Rightarrow> 'e \<Rightarrow> ('m, 'e, u64) action" where
  "allocate_zeroed_pages_of_type hw count ty allocation_error m =
     (case f_allocate_pages hw ty count m of (pages, m1) \<Rightarrow>
       (case pages of
          None \<Rightarrow> (Err allocation_error, m1)
        | Some a \<Rightarrow>
            if unat a mod PAGE_SIZE \<noteq> 0 then (Panic, m1)
            else (Ok a, store_bytes hw a (replicate (count * PAGE_SIZE) 0) m1)))"

definition allocate_zeroed_pages :: "'m platform \<Rightarrow> nat \<Rightarrow> 'e \<Rightarrow> ('m, 'e, u64) action" where
  "allocate_zeroed_pages hw count allocation_error =
     allocate_zeroed_pages_of_type hw count LOADER_DATA allocation_error"

definition allocate_zeroed_page :: "'m platform \<Rightarrow> 'e \<Rightarrow> ('m, 'e, u64) action" where
  "allocate_zeroed_page hw allocation_error = allocate_zeroed_pages hw 1 allocation_error"

lemma allocate_zeroed_pages_of_type_aligned:
  assumes "allocate_zeroed_pages_of_type hw count ty e m = (Ok a, m')"
  shows "unat a mod 4096 = 0"
  using assms
  by (auto simp: allocate_zeroed_pages_of_type_def const_defs split: prod.splits option.splits if_splits)

definition page_aligned :: "u64 \<Rightarrow> bool" where
  "page_aligned a \<longleftrightarrow> unat a mod 4096 = 0 \<and> unat a < 2 ^ 52"

text \<open>
  Boot services hand out pages nobody owns (\<open>taken\<close> is what is owned) below the physical-address limit of
  52 bits, and leave the memory in use alone.
\<close>

locale page_allocator = memory_laws +
  fixes taken :: "'a \<Rightarrow> nat set"
  assumes alloc_fresh: "f_allocate_pages hw ty n m = (Some a, m') \<Longrightarrow>
      unat a + n * 4096 \<le> 2 ^ 52 \<and> {unat a..<unat a + n * 4096} \<inter> taken m = {} \<and>
      taken m' = taken m \<union> {unat a..<unat a + n * 4096}"
    and alloc_keeps: "f_allocate_pages hw ty n m = (Some a, m') \<Longrightarrow> x \<in> taken m \<Longrightarrow>
      i_load8 hw (of_nat x) m' = i_load8 hw (of_nat x) m"
    and store_taken: "taken (i_store8 hw a v m) = taken m"
begin

lemma store_bytes_taken [simp]: "taken (store_bytes hw a bs m) = taken m"
  by (induction bs arbitrary: a m) (simp_all add: store_taken)

lemma allocate_of_type_OkD:
  assumes "allocate_zeroed_pages_of_type hw n ty e m = (Ok a, m')"
  shows "page_aligned a \<or> n = 0" and "unat a + n * 4096 \<le> 2 ^ 52"
    and "{unat a..<unat a + n * 4096} \<inter> taken m = {}" and "taken m' = taken m \<union> {unat a..<unat a + n * 4096}"
    and "x \<in> taken m \<Longrightarrow> x < 2 ^ 64 \<Longrightarrow> i_load8 hw (of_nat x) m' = i_load8 hw (of_nat x) m"
    and "x \<in> {unat a..<unat a + n * 4096} \<Longrightarrow> i_load8 hw (of_nat x) m' = 0"
proof -
  obtain m1 where m1: "f_allocate_pages hw ty n m = (Some a, m1)" "unat a mod 4096 = 0"
    "m' = store_bytes hw a (replicate (n * 4096) 0) m1"
    using assms
    by (auto simp: allocate_zeroed_pages_of_type_def PAGE_SIZE_def split: prod.splits option.splits if_splits)
  note f = alloc_fresh [OF m1(1)]
  show bound: "unat a + n * 4096 \<le> 2 ^ 52" using f by simp
  then show "page_aligned a \<or> n = 0" using m1(2) by (auto simp: page_aligned_def)
  show "{unat a..<unat a + n * 4096} \<inter> taken m = {}" using f by simp
  show "taken m' = taken m \<union> {unat a..<unat a + n * 4096}" using f m1(3) by simp
  show "i_load8 hw (of_nat x) m' = i_load8 hw (of_nat x) m" if "x \<in> taken m" "x < 2 ^ 64"
    using that f bound alloc_keeps [OF m1(1) that(1)]
    by (auto simp: m1(3) load_after_store)
  show "i_load8 hw (of_nat x) m' = 0" if "x \<in> {unat a..<unat a + n * 4096}"
    using that bound by (auto simp: m1(3) load_after_store less_diff_conv2 add.commute)
qed

lemmas allocate_zeroed_pages_OkD = allocate_of_type_OkD [where ty = LOADER_DATA, folded allocate_zeroed_pages_def]

end

end
