(* ===== verification/Instruction.thy ===== *)
theory Instruction
  imports Platform
begin

text \<open>
  Outcome reporting of the VMX instructions (\<open>vmx/instruction.rs\<close>): the RFLAGS value an
  instruction leaves behind, decoded into success, VMfailInvalid or VMfailValid.
\<close>

datatype VmxFail = Invalid | Valid

definition RFLAGS_CF :: u64 where
  [const_defs]: "RFLAGS_CF = push_bit 0 1"

definition RFLAGS_ZF :: u64 where
  [const_defs]: "RFLAGS_ZF = push_bit 6 1"

definition check_rflags :: "u64 \<Rightarrow> (VmxFail, unit) result" where
  "check_rflags rflags =
     (if rflags AND RFLAGS_CF \<noteq> 0 then Err Invalid
      else if rflags AND RFLAGS_ZF \<noteq> 0 then Err Valid
      else Ok ())"

text \<open>The macro \<open>vmx_asm!\<close>: run one instruction, then decode the RFLAGS it left.\<close>

definition vmx_asm :: "('m \<Rightarrow> u64 \<times> 'm) \<Rightarrow> ('m, VmxFail, unit) action" where
  "vmx_asm instr m = (case instr m of (rflags, m') \<Rightarrow> (check_rflags rflags, m'))"

lemma check_rflags_cases:
  "check_rflags rflags = Ok () \<longleftrightarrow> \<not> bit rflags 0 \<and> \<not> bit rflags 6"
  "check_rflags rflags = Err Invalid \<longleftrightarrow> bit rflags 0"
  "check_rflags rflags = Err Valid \<longleftrightarrow> \<not> bit rflags 0 \<and> bit rflags 6"
  unfolding check_rflags_def RFLAGS_CF_def RFLAGS_ZF_def bit_test by simp_all

lemma check_rflags_not_Panic [simp]: "check_rflags rflags \<noteq> Panic"
  by (simp add: check_rflags_def)

end
