(* ===== verification/Vmcs_Fields.thy ===== *)
theory Vmcs_Fields
  imports Prelude
begin

text \<open>
  The VMCS field encodings and control bits of \<open>vmx/vmcs/fields.rs\<close>, constant by constant, and
  the layout of an encoding that the module's documentation gives: width in bits 14:13, type in
  bits 11:10, index in bits 9:1, access in bit 0.
\<close>

named_theorems field_defs \<open>VMCS field encodings, unfolded to literals\<close>

section \<open>Encodings and control bits\<close>

definition PIN_BASED_VM_EXEC_CONTROL :: u32 where
  [field_defs]: "PIN_BASED_VM_EXEC_CONTROL = 0x4000"

definition PRIMARY_VM_EXEC_CONTROL :: u32 where
  [field_defs]: "PRIMARY_VM_EXEC_CONTROL = 0x4002"

definition PIN_BASED_NMI_EXITING :: u32 where
  [const_defs]: "PIN_BASED_NMI_EXITING = push_bit 3 1"

definition PIN_BASED_VIRTUAL_NMIS :: u32 where
  [const_defs]: "PIN_BASED_VIRTUAL_NMIS = push_bit 5 1"

definition CPU_BASED_NMI_WINDOW_EXITING :: u32 where
  [const_defs]: "CPU_BASED_NMI_WINDOW_EXITING = push_bit 22 1"

definition CPU_BASED_USE_IO_BITMAPS :: u32 where
  [const_defs]: "CPU_BASED_USE_IO_BITMAPS = push_bit 25 1"

definition CPU_BASED_USE_MSR_BITMAPS :: u32 where
  [const_defs]: "CPU_BASED_USE_MSR_BITMAPS = push_bit 28 1"

definition CPU_BASED_ACTIVATE_SECONDARY_CONTROLS :: u32 where
  [const_defs]: "CPU_BASED_ACTIVATE_SECONDARY_CONTROLS = push_bit 31 1"

definition SECONDARY_ENABLE_EPT :: u32 where
  [const_defs]: "SECONDARY_ENABLE_EPT = push_bit 1 1"

definition SECONDARY_ENABLE_VPID :: u32 where
  [const_defs]: "SECONDARY_ENABLE_VPID = push_bit 5 1"

definition EXCEPTION_BITMAP :: u32 where
  [field_defs]: "EXCEPTION_BITMAP = 0x4004"

definition PAGE_FAULT_ERROR_CODE_MASK :: u32 where
  [field_defs]: "PAGE_FAULT_ERROR_CODE_MASK = 0x4006"

definition PAGE_FAULT_ERROR_CODE_MATCH :: u32 where
  [field_defs]: "PAGE_FAULT_ERROR_CODE_MATCH = 0x4008"

definition CR3_TARGET_COUNT :: u32 where
  [field_defs]: "CR3_TARGET_COUNT = 0x400A"

definition VM_EXIT_CONTROLS :: u32 where
  [field_defs]: "VM_EXIT_CONTROLS = 0x400C"

definition VM_EXIT_MSR_STORE_COUNT :: u32 where
  [field_defs]: "VM_EXIT_MSR_STORE_COUNT = 0x400E"

definition VM_EXIT_MSR_LOAD_COUNT :: u32 where
  [field_defs]: "VM_EXIT_MSR_LOAD_COUNT = 0x4010"

definition VM_ENTRY_CONTROLS :: u32 where
  [field_defs]: "VM_ENTRY_CONTROLS = 0x4012"

definition VM_ENTRY_MSR_LOAD_COUNT :: u32 where
  [field_defs]: "VM_ENTRY_MSR_LOAD_COUNT = 0x4014"

definition VM_ENTRY_INTERRUPTION_INFO :: u32 where
  [field_defs]: "VM_ENTRY_INTERRUPTION_INFO = 0x4016"

definition VM_ENTRY_EXCEPTION_ERROR_CODE :: u32 where
  [field_defs]: "VM_ENTRY_EXCEPTION_ERROR_CODE = 0x4018"

definition SECONDARY_VM_EXEC_CONTROL :: u32 where
  [field_defs]: "SECONDARY_VM_EXEC_CONTROL = 0x401E"

definition IO_BITMAP_A :: u32 where
  [field_defs]: "IO_BITMAP_A = 0x2000"

definition IO_BITMAP_B :: u32 where
  [field_defs]: "IO_BITMAP_B = 0x2002"

definition MSR_BITMAP :: u32 where
  [field_defs]: "MSR_BITMAP = 0x2004"

definition EPT_POINTER :: u32 where
  [field_defs]: "EPT_POINTER = 0x201A"

definition VM_EXIT_HOST_ADDRESS_SPACE_SIZE :: u32 where
  [const_defs]: "VM_EXIT_HOST_ADDRESS_SPACE_SIZE = push_bit 9 1"

definition VM_EXIT_LOAD_IA32_PAT :: u64 where
  [const_defs]: "VM_EXIT_LOAD_IA32_PAT = push_bit 19 1"

definition VM_EXIT_LOAD_IA32_EFER :: u64 where
  [const_defs]: "VM_EXIT_LOAD_IA32_EFER = push_bit 21 1"

definition VM_ENTRY_IA32E_MODE_GUEST :: u32 where
  [const_defs]: "VM_ENTRY_IA32E_MODE_GUEST = push_bit 9 1"

definition VM_ENTRY_LOAD_IA32_PAT :: u64 where
  [const_defs]: "VM_ENTRY_LOAD_IA32_PAT = push_bit 14 1"

definition VM_ENTRY_LOAD_IA32_EFER :: u64 where
  [const_defs]: "VM_ENTRY_LOAD_IA32_EFER = push_bit 15 1"

definition VM_INSTRUCTION_ERROR :: u32 where
  [field_defs]: "VM_INSTRUCTION_ERROR = 0x4400"

definition VM_EXIT_REASON :: u32 where
  [field_defs]: "VM_EXIT_REASON = 0x4402"

definition VM_EXIT_INTERRUPTION_INFO :: u32 where
  [field_defs]: "VM_EXIT_INTERRUPTION_INFO = 0x4404"

definition IDT_VECTORING_INFO :: u32 where
  [field_defs]: "IDT_VECTORING_INFO = 0x4408"

definition VM_EXIT_INSTRUCTION_LEN :: u32 where
  [field_defs]: "VM_EXIT_INSTRUCTION_LEN = 0x440C"

definition EXIT_QUALIFICATION :: u32 where
  [field_defs]: "EXIT_QUALIFICATION = 0x6400"

definition GUEST_PHYSICAL_ADDRESS :: u32 where
  [field_defs]: "GUEST_PHYSICAL_ADDRESS = 0x2400"

definition GUEST_LINEAR_ADDRESS :: u32 where
  [field_defs]: "GUEST_LINEAR_ADDRESS = 0x640A"

definition GUEST_ES_SELECTOR :: u32 where
  [field_defs]: "GUEST_ES_SELECTOR = 0x0800"

definition GUEST_CS_SELECTOR :: u32 where
  [field_defs]: "GUEST_CS_SELECTOR = 0x0802"

definition GUEST_SS_SELECTOR :: u32 where
  [field_defs]: "GUEST_SS_SELECTOR = 0x0804"

definition GUEST_DS_SELECTOR :: u32 where
  [field_defs]: "GUEST_DS_SELECTOR = 0x0806"

definition GUEST_FS_SELECTOR :: u32 where
  [field_defs]: "GUEST_FS_SELECTOR = 0x0808"

definition GUEST_GS_SELECTOR :: u32 where
  [field_defs]: "GUEST_GS_SELECTOR = 0x080A"

definition GUEST_LDTR_SELECTOR :: u32 where
  [field_defs]: "GUEST_LDTR_SELECTOR = 0x080C"

definition GUEST_TR_SELECTOR :: u32 where
  [field_defs]: "GUEST_TR_SELECTOR = 0x080E"

definition VMCS_LINK_POINTER :: u32 where
  [field_defs]: "VMCS_LINK_POINTER = 0x2800"

definition GUEST_IA32_DEBUGCTL :: u32 where
  [field_defs]: "GUEST_IA32_DEBUGCTL = 0x2802"

definition GUEST_IA32_PAT :: u32 where
  [field_defs]: "GUEST_IA32_PAT = 0x2804"

definition GUEST_IA32_EFER :: u32 where
  [field_defs]: "GUEST_IA32_EFER = 0x2806"

definition GUEST_ES_LIMIT :: u32 where
  [field_defs]: "GUEST_ES_LIMIT = 0x4800"

definition GUEST_CS_LIMIT :: u32 where
  [field_defs]: "GUEST_CS_LIMIT = 0x4802"

definition GUEST_SS_LIMIT :: u32 where
  [field_defs]: "GUEST_SS_LIMIT = 0x4804"

definition GUEST_DS_LIMIT :: u32 where
  [field_defs]: "GUEST_DS_LIMIT = 0x4806"

definition GUEST_FS_LIMIT :: u32 where
  [field_defs]: "GUEST_FS_LIMIT = 0x4808"

definition GUEST_GS_LIMIT :: u32 where
  [field_defs]: "GUEST_GS_LIMIT = 0x480A"

definition GUEST_LDTR_LIMIT :: u32 where
  [field_defs]: "GUEST_LDTR_LIMIT = 0x480C"

definition GUEST_TR_LIMIT :: u32 where
  [field_defs]: "GUEST_TR_LIMIT = 0x480E"

definition GUEST_GDTR_LIMIT :: u32 where
  [field_defs]: "GUEST_GDTR_LIMIT = 0x4810"

definition GUEST_IDTR_LIMIT :: u32 where
  [field_defs]: "GUEST_IDTR_LIMIT = 0x4812"

definition GUEST_ES_ACCESS_RIGHTS :: u32 where
  [field_defs]: "GUEST_ES_ACCESS_RIGHTS = 0x4814"

definition GUEST_CS_ACCESS_RIGHTS :: u32 where
  [field_defs]: "GUEST_CS_ACCESS_RIGHTS = 0x4816"

definition GUEST_SS_ACCESS_RIGHTS :: u32 where
  [field_defs]: "GUEST_SS_ACCESS_RIGHTS = 0x4818"

definition GUEST_DS_ACCESS_RIGHTS :: u32 where
  [field_defs]: "GUEST_DS_ACCESS_RIGHTS = 0x481A"

definition GUEST_FS_ACCESS_RIGHTS :: u32 where
  [field_defs]: "GUEST_FS_ACCESS_RIGHTS = 0x481C"

definition GUEST_GS_ACCESS_RIGHTS :: u32 where
  [field_defs]: "GUEST_GS_ACCESS_RIGHTS = 0x481E"

definition GUEST_LDTR_ACCESS_RIGHTS :: u32 where
  [field_defs]: "GUEST_LDTR_ACCESS_RIGHTS = 0x4820"

definition GUEST_TR_ACCESS_RIGHTS :: u32 where
  [field_defs]: "GUEST_TR_ACCESS_RIGHTS = 0x4822"

definition GUEST_INTERRUPTIBILITY_STATE :: u32 where
  [field_defs]: "GUEST_INTERRUPTIBILITY_STATE = 0x4824"

definition GUEST_ACTIVITY_STATE :: u32 where
  [field_defs]: "GUEST_ACTIVITY_STATE = 0x4826"

definition GUEST_IA32_SYSENTER_CS :: u32 where
  [field_defs]: "GUEST_IA32_SYSENTER_CS = 0x482A"

definition GUEST_CR0 :: u32 where
  [field_defs]: "GUEST_CR0 = 0x6800"

definition GUEST_CR3 :: u32 where
  [field_defs]: "GUEST_CR3 = 0x6802"

definition GUEST_CR4 :: u32 where
  [field_defs]: "GUEST_CR4 = 0x6804"

definition GUEST_ES_BASE :: u32 where
  [field_defs]: "GUEST_ES_BASE = 0x6806"

definition GUEST_CS_BASE :: u32 where
  [field_defs]: "GUEST_CS_BASE = 0x6808"

definition GUEST_SS_BASE :: u32 where
  [field_defs]: "GUEST_SS_BASE = 0x680A"

definition GUEST_DS_BASE :: u32 where
  [field_defs]: "GUEST_DS_BASE = 0x680C"

definition GUEST_FS_BASE :: u32 where
  [field_defs]: "GUEST_FS_BASE = 0x680E"

definition GUEST_GS_BASE :: u32 where
  [field_defs]: "GUEST_GS_BASE = 0x6810"

definition GUEST_LDTR_BASE :: u32 where
  [field_defs]: "GUEST_LDTR_BASE = 0x6812"

definition GUEST_TR_BASE :: u32 where
  [field_defs]: "GUEST_TR_BASE = 0x6814"

definition GUEST_GDTR_BASE :: u32 where
  [field_defs]: "GUEST_GDTR_BASE = 0x6816"

definition GUEST_IDTR_BASE :: u32 where
  [field_defs]: "GUEST_IDTR_BASE = 0x6818"

definition GUEST_DR7 :: u32 where
  [field_defs]: "GUEST_DR7 = 0x681A"

definition GUEST_RSP :: u32 where
  [field_defs]: "GUEST_RSP = 0x681C"

definition GUEST_RIP :: u32 where
  [field_defs]: "GUEST_RIP = 0x681E"

definition GUEST_RFLAGS :: u32 where
  [field_defs]: "GUEST_RFLAGS = 0x6820"

definition GUEST_PENDING_DEBUG_EXCEPTIONS :: u32 where
  [field_defs]: "GUEST_PENDING_DEBUG_EXCEPTIONS = 0x6822"

definition GUEST_IA32_SYSENTER_ESP :: u32 where
  [field_defs]: "GUEST_IA32_SYSENTER_ESP = 0x6824"

definition GUEST_IA32_SYSENTER_EIP :: u32 where
  [field_defs]: "GUEST_IA32_SYSENTER_EIP = 0x6826"

definition HOST_ES_SELECTOR :: u32 where
  [field_defs]: "HOST_ES_SELECTOR = 0x0C00"

definition HOST_CS_SELECTOR :: u32 where
  [field_defs]: "HOST_CS_SELECTOR = 0x0C02"

definition HOST_SS_SELECTOR :: u32 where
  [field_defs]: "HOST_SS_SELECTOR = 0x0C04"

definition HOST_DS_SELECTOR :: u32 where
  [field_defs]: "HOST_DS_SELECTOR = 0x0C06"

definition HOST_FS_SELECTOR :: u32 where
  [field_defs]: "HOST_FS_SELECTOR = 0x0C08"

definition HOST_GS_SELECTOR :: u32 where
  [field_defs]: "HOST_GS_SELECTOR = 0x0C0A"

definition HOST_TR_SELECTOR :: u32 where
  [field_defs]: "HOST_TR_SELECTOR = 0x0C0C"

definition HOST_IA32_PAT :: u32 where
  [field_defs]: "HOST_IA32_PAT = 0x2C00"

definition HOST_IA32_EFER :: u32 where
  [field_defs]: "HOST_IA32_EFER = 0x2C02"

definition HOST_IA32_SYSENTER_CS :: u32 where
  [field_defs]: "HOST_IA32_SYSENTER_CS = 0x4C00"

definition HOST_CR0 :: u32 where
  [field_defs]: "HOST_CR0 = 0x6C00"

definition HOST_CR3 :: u32 where
  [field_defs]: "HOST_CR3 = 0x6C02"

definition HOST_CR4 :: u32 where
  [field_defs]: "HOST_CR4 = 0x6C04"

definition HOST_FS_BASE :: u32 where
  [field_defs]: "HOST_FS_BASE = 0x6C06"

definition HOST_GS_BASE :: u32 where
  [field_defs]: "HOST_GS_BASE = 0x6C08"

definition HOST_TR_BASE :: u32 where
  [field_defs]: "HOST_TR_BASE = 0x6C0A"

definition HOST_GDTR_BASE :: u32 where
  [field_defs]: "HOST_GDTR_BASE = 0x6C0C"

definition HOST_IDTR_BASE :: u32 where
  [field_defs]: "HOST_IDTR_BASE = 0x6C0E"

definition HOST_IA32_SYSENTER_ESP :: u32 where
  [field_defs]: "HOST_IA32_SYSENTER_ESP = 0x6C10"

definition HOST_IA32_SYSENTER_EIP :: u32 where
  [field_defs]: "HOST_IA32_SYSENTER_EIP = 0x6C12"

definition HOST_RSP :: u32 where
  [field_defs]: "HOST_RSP = 0x6C14"

definition HOST_RIP :: u32 where
  [field_defs]: "HOST_RIP = 0x6C16"

section \<open>The layout of an encoding\<close>

datatype field_width = Width16 | Width64 | Width32 | WidthNatural

datatype field_type = Control | ReadOnly | GuestState | HostState

definition field_width_of :: "u32 \<Rightarrow> field_width" where
  "field_width_of f = (let w = unat (drop_bit 13 f AND 3) in
     if w = 0 then Width16 else if w = 1 then Width64 else if w = 2 then Width32 else WidthNatural)"

definition field_type_of :: "u32 \<Rightarrow> field_type" where
  "field_type_of f = (let t = unat (drop_bit 10 f AND 3) in
     if t = 0 then Control else if t = 1 then ReadOnly else if t = 2 then GuestState else HostState)"

definition field_bits :: "u32 \<Rightarrow> nat" where
  "field_bits f = (case field_width_of f of Width16 \<Rightarrow> 16 | Width32 \<Rightarrow> 32 | _ \<Rightarrow> 64)"

definition all_fields :: "u32 list" where
  "all_fields =
    [PIN_BASED_VM_EXEC_CONTROL, PRIMARY_VM_EXEC_CONTROL, EXCEPTION_BITMAP,
     PAGE_FAULT_ERROR_CODE_MASK, PAGE_FAULT_ERROR_CODE_MATCH, CR3_TARGET_COUNT,
     VM_EXIT_CONTROLS, VM_EXIT_MSR_STORE_COUNT, VM_EXIT_MSR_LOAD_COUNT,
     VM_ENTRY_CONTROLS, VM_ENTRY_MSR_LOAD_COUNT, VM_ENTRY_INTERRUPTION_INFO,
     VM_ENTRY_EXCEPTION_ERROR_CODE, SECONDARY_VM_EXEC_CONTROL, IO_BITMAP_A,
     IO_BITMAP_B, MSR_BITMAP, EPT_POINTER,
     VM_INSTRUCTION_ERROR, VM_EXIT_REASON, VM_EXIT_INTERRUPTION_INFO,
     IDT_VECTORING_INFO, VM_EXIT_INSTRUCTION_LEN, EXIT_QUALIFICATION,
     GUEST_PHYSICAL_ADDRESS, GUEST_LINEAR_ADDRESS, GUEST_ES_SELECTOR,
     GUEST_CS_SELECTOR, GUEST_SS_SELECTOR, GUEST_DS_SELECTOR,
     GUEST_FS_SELECTOR, GUEST_GS_SELECTOR, GUEST_LDTR_SELECTOR,
     GUEST_TR_SELECTOR, VMCS_LINK_POINTER, GUEST_IA32_DEBUGCTL,
     GUEST_IA32_PAT, GUEST_IA32_EFER, GUEST_ES_LIMIT,
     GUEST_CS_LIMIT, GUEST_SS_LIMIT, GUEST_DS_LIMIT,
     GUEST_FS_LIMIT, GUEST_GS_LIMIT, GUEST_LDTR_LIMIT,
     GUEST_TR_LIMIT, GUEST_GDTR_LIMIT, GUEST_IDTR_LIMIT,
     GUEST_ES_ACCESS_RIGHTS, GUEST_CS_ACCESS_RIGHTS, GUEST_SS_ACCESS_RIGHTS,
     GUEST_DS_ACCESS_RIGHTS, GUEST_FS_ACCESS_RIGHTS, GUEST_GS_ACCESS_RIGHTS,
     GUEST_LDTR_ACCESS_RIGHTS, GUEST_TR_ACCESS_RIGHTS, GUEST_INTERRUPTIBILITY_STATE,
     GUEST_ACTIVITY_STATE, GUEST_IA32_SYSENTER_CS, GUEST_CR0,
     GUEST_CR3, GUEST_CR4, GUEST_ES_BASE,
     GUEST_CS_BASE, GUEST_SS_BASE, GUEST_DS_BASE,
     GUEST_FS_BASE, GUEST_GS_BASE, GUEST_LDTR_BASE,
     GUEST_TR_BASE, GUEST_GDTR_BASE, GUEST_IDTR_BASE,
     GUEST_DR7, GUEST_RSP, GUEST_RIP,
     GUEST_RFLAGS, GUEST_PENDING_DEBUG_EXCEPTIONS, GUEST_IA32_SYSENTER_ESP,
     GUEST_IA32_SYSENTER_EIP, HOST_ES_SELECTOR, HOST_CS_SELECTOR,
     HOST_SS_SELECTOR, HOST_DS_SELECTOR, HOST_FS_SELECTOR,
     HOST_GS_SELECTOR, HOST_TR_SELECTOR, HOST_IA32_PAT,
     HOST_IA32_EFER, HOST_IA32_SYSENTER_CS, HOST_CR0,
     HOST_CR3, HOST_CR4, HOST_FS_BASE,
     HOST_GS_BASE, HOST_TR_BASE, HOST_GDTR_BASE,
     HOST_IDTR_BASE, HOST_IA32_SYSENTER_ESP, HOST_IA32_SYSENTER_EIP,
     HOST_RSP, HOST_RIP]"

lemma unat_all_fields:
  "map unat all_fields =
    [0x4000, 0x4002, 0x4004, 0x4006, 0x4008, 0x400A, 0x400C, 0x400E,
     0x4010, 0x4012, 0x4014, 0x4016, 0x4018, 0x401E, 0x2000, 0x2002,
     0x2004, 0x201A, 0x4400, 0x4402, 0x4404, 0x4408, 0x440C, 0x6400,
     0x2400, 0x640A, 0x0800, 0x0802, 0x0804, 0x0806, 0x0808, 0x080A,
     0x080C, 0x080E, 0x2800, 0x2802, 0x2804, 0x2806, 0x4800, 0x4802,
     0x4804, 0x4806, 0x4808, 0x480A, 0x480C, 0x480E, 0x4810, 0x4812,
     0x4814, 0x4816, 0x4818, 0x481A, 0x481C, 0x481E, 0x4820, 0x4822,
     0x4824, 0x4826, 0x482A, 0x6800, 0x6802, 0x6804, 0x6806, 0x6808,
     0x680A, 0x680C, 0x680E, 0x6810, 0x6812, 0x6814, 0x6816, 0x6818,
     0x681A, 0x681C, 0x681E, 0x6820, 0x6822, 0x6824, 0x6826, 0x0C00,
     0x0C02, 0x0C04, 0x0C06, 0x0C08, 0x0C0A, 0x0C0C, 0x2C00, 0x2C02,
     0x4C00, 0x6C00, 0x6C02, 0x6C04, 0x6C06, 0x6C08, 0x6C0A, 0x6C0C,
     0x6C0E, 0x6C10, 0x6C12, 0x6C14, 0x6C16]"
  unfolding all_fields_def field_defs by simp

lemma all_fields_distinct: "distinct all_fields"
proof -
  have "distinct (map unat all_fields)"
    unfolding unat_all_fields by simp
  then show ?thesis by (simp add: distinct_map)
qed

text \<open>Every encoding names a full field (access bit 0), with no reserved bit set.\<close>

lemma all_fields_full_access: "list_all (\<lambda>f. f AND NOT 0x6FFE = 0) all_fields"
  by (simp add: all_fields_def field_defs)

end
