(* ===== verification/Msr.thy ===== *)
theory Msr
  imports Instruction Vmcs_Fields
begin

text \<open>
  Model-specific registers (\<open>vmx/msr.rs\<close>), feature detection (\<open>vmx/cpuid.rs\<close>, \<open>vmx/mod.rs\<close>) and
  control registers (\<open>vmx/cr.rs\<close>): MSR addresses and bits, RDMSR and WRMSR, the VMX capability
  MSRs and the choice of a legal control value from one of them.
\<close>

section \<open>Addresses and bits\<close>

definition IA32_FEATURE_CONTROL :: u32 where
  [const_defs]: "IA32_FEATURE_CONTROL = 0x3A"

definition LOCK_BIT :: u64 where
  [const_defs]: "LOCK_BIT = push_bit 0 1"

definition VMX_OUTSIDE_SMX_BIT :: u64 where
  [const_defs]: "VMX_OUTSIDE_SMX_BIT = push_bit 2 1"

definition IA32_SYSENTER_CS :: u32 where
  [const_defs]: "IA32_SYSENTER_CS = 0x174"

definition IA32_SYSENTER_ESP :: u32 where
  [const_defs]: "IA32_SYSENTER_ESP = 0x175"

definition IA32_SYSENTER_EIP :: u32 where
  [const_defs]: "IA32_SYSENTER_EIP = 0x176"

definition IA32_PAT :: u32 where
  [const_defs]: "IA32_PAT = 0x277"

definition IA32_EFER :: u32 where
  [const_defs]: "IA32_EFER = 0xC0000080"

definition EFER_NXE :: u64 where
  [const_defs]: "EFER_NXE = push_bit 11 1"

definition IA32_FS_BASE :: u32 where
  [const_defs]: "IA32_FS_BASE = 0xC0000100"

definition IA32_GS_BASE :: u32 where
  [const_defs]: "IA32_GS_BASE = 0xC0000101"

definition IA32_KERNEL_GS_BASE :: u32 where
  [const_defs]: "IA32_KERNEL_GS_BASE = 0xC0000102"

definition IA32_DEBUGCTL :: u32 where
  [const_defs]: "IA32_DEBUGCTL = 0x1D9"

definition IA32_PERF_GLOBAL_CTRL :: u32 where
  [const_defs]: "IA32_PERF_GLOBAL_CTRL = 0x38F"

definition IA32_BNDCFGS :: u32 where
  [const_defs]: "IA32_BNDCFGS = 0xD90"

definition IA32_VMX_BASIC :: u32 where
  [const_defs]: "IA32_VMX_BASIC = 0x480"

definition VMX_BASIC_TRUE_CONTROLS :: u64 where
  [const_defs]: "VMX_BASIC_TRUE_CONTROLS = push_bit 55 1"

definition IA32_VMX_PINBASED_CTLS :: u32 where
  [const_defs]: "IA32_VMX_PINBASED_CTLS = 0x481"

definition IA32_VMX_PROCBASED_CTLS :: u32 where
  [const_defs]: "IA32_VMX_PROCBASED_CTLS = 0x482"

definition IA32_VMX_EXIT_CTLS :: u32 where
  [const_defs]: "IA32_VMX_EXIT_CTLS = 0x483"

definition IA32_VMX_ENTRY_CTLS :: u32 where
  [const_defs]: "IA32_VMX_ENTRY_CTLS = 0x484"

definition IA32_VMX_TRUE_PINBASED_CTLS :: u32 where
  [const_defs]: "IA32_VMX_TRUE_PINBASED_CTLS = 0x48D"

definition IA32_VMX_TRUE_PROCBASED_CTLS :: u32 where
  [const_defs]: "IA32_VMX_TRUE_PROCBASED_CTLS = 0x48E"

definition IA32_VMX_TRUE_EXIT_CTLS :: u32 where
  [const_defs]: "IA32_VMX_TRUE_EXIT_CTLS = 0x48F"

definition IA32_VMX_TRUE_ENTRY_CTLS :: u32 where
  [const_defs]: "IA32_VMX_TRUE_ENTRY_CTLS = 0x490"

definition IA32_VMX_PROCBASED_CTLS2 :: u32 where
  [const_defs]: "IA32_VMX_PROCBASED_CTLS2 = 0x48B"

definition IA32_VMX_EPT_VPID_CAP :: u32 where
  [const_defs]: "IA32_VMX_EPT_VPID_CAP = 0x48C"

definition IA32_VMX_CR0_FIXED0 :: u32 where
  [const_defs]: "IA32_VMX_CR0_FIXED0 = 0x486"

definition IA32_VMX_CR0_FIXED1 :: u32 where
  [const_defs]: "IA32_VMX_CR0_FIXED1 = 0x487"

definition IA32_VMX_CR4_FIXED0 :: u32 where
  [const_defs]: "IA32_VMX_CR4_FIXED0 = 0x488"

definition IA32_VMX_CR4_FIXED1 :: u32 where
  [const_defs]: "IA32_VMX_CR4_FIXED1 = 0x489"

section \<open>RDMSR and WRMSR\<close>

definition rdmsr :: "'m platform \<Rightarrow> u32 \<Rightarrow> ('m, 'e, u64) action" where
  "rdmsr hw msr m = (case i_rdmsr hw msr m of (low, high, m') \<Rightarrow>
     (Ok (push_bit 32 (ucast high) OR ucast low), m'))"

definition wrmsr :: "'m platform \<Rightarrow> u32 \<Rightarrow> u64 \<Rightarrow> ('m, 'e, unit) action" where
  "wrmsr hw msr value m = (Ok (), i_wrmsr hw msr (ucast value) (ucast (drop_bit 32 value)) m)"

text \<open>The two 32-bit halves RDMSR returns and WRMSR takes make up the 64-bit value.\<close>

lemma msr_halves: "push_bit 32 (ucast (ucast (drop_bit 32 v) :: u32)) OR ucast (ucast v :: u32) = (v :: u64)"
  by (rule bit_word_eqI) (auto simp: bit_simps)

section \<open>Detection\<close>

definition is_vmx_supported :: "'m platform \<Rightarrow> 'm \<Rightarrow> bool" where
  "is_vmx_supported hw m = (drop_bit 5 (ecx (i_cpuid hw 1 0 m)) AND 1 = 1)"

definition read_feature_control :: "'m platform \<Rightarrow> ('m, 'e, u64) action" where
  "read_feature_control hw = rdmsr hw IA32_FEATURE_CONTROL"

definition feature_control_vmx_enabled :: "'m platform \<Rightarrow> ('m, 'e, bool) action" where
  "feature_control_vmx_enabled hw = and_then (read_feature_control hw) (\<lambda>value.
     let locked = value AND LOCK_BIT \<noteq> 0;
         vmx_enabled = value AND VMX_OUTSIDE_SMX_BIT \<noteq> 0
     in ret (locked \<and> vmx_enabled))"

datatype VmxCapabilities = Supported | NotSupportedByCpu | DisabledByFirmware

definition detect :: "'m platform \<Rightarrow> ('m, 'e, VmxCapabilities) action" where
  "detect hw m =
     (if \<not> is_vmx_supported hw m then (Ok NotSupportedByCpu, m)
      else and_then (feature_control_vmx_enabled hw)
             (\<lambda>enabled. ret (if enabled then Supported else DisabledByFirmware)) m)"

section \<open>Control capabilities\<close>

text \<open>\<open>ControlCapability(pub u64)\<close>: the low half requires bits, the high half allows them.\<close>

type_synonym ControlCapability = u64

datatype UnsupportedControl = UnsupportedControl

definition required :: "ControlCapability \<Rightarrow> u32" where
  "required cap = ucast cap"

definition allowed :: "ControlCapability \<Rightarrow> u32" where
  "allowed cap = ucast (drop_bit 32 cap)"

definition allows :: "ControlCapability \<Rightarrow> u32 \<Rightarrow> bool" where
  "allows cap bits = (allowed cap AND bits = bits)"

definition choose_control :: "ControlCapability \<Rightarrow> u32 \<Rightarrow> (UnsupportedControl, u32) result" where
  "choose_control cap desired =
     (if \<not> allows cap (required cap) \<or> \<not> allows cap desired then Err UnsupportedControl
      else Ok (desired OR required cap))"

record VmcsControlMsrs =
  basic :: u64
  pinbased :: ControlCapability
  primary :: ControlCapability
  exit_cap :: ControlCapability
  entry_cap :: ControlCapability
  secondary :: ControlCapability
  ept_vpid_cap :: u64

definition read_vmcs_control_msrs :: "'m platform \<Rightarrow> ('m, 'e, VmcsControlMsrs) action" where
  "read_vmcs_control_msrs hw =
     and_then (rdmsr hw IA32_VMX_BASIC) (\<lambda>basic.
     let use_true_controls = basic AND VMX_BASIC_TRUE_CONTROLS \<noteq> 0;
         (pin_id, primary_id, exit_id, entry_id) =
           (if use_true_controls
            then (IA32_VMX_TRUE_PINBASED_CTLS, IA32_VMX_TRUE_PROCBASED_CTLS,
                  IA32_VMX_TRUE_EXIT_CTLS, IA32_VMX_TRUE_ENTRY_CTLS)
            else (IA32_VMX_PINBASED_CTLS, IA32_VMX_PROCBASED_CTLS,
                  IA32_VMX_EXIT_CTLS, IA32_VMX_ENTRY_CTLS))
     in
     and_then (rdmsr hw pin_id) (\<lambda>pinbased.
     and_then (rdmsr hw primary_id) (\<lambda>primary.
     and_then (rdmsr hw exit_id) (\<lambda>exit.
     and_then (rdmsr hw entry_id) (\<lambda>entry.
     and_then (if allows primary CPU_BASED_ACTIVATE_SECONDARY_CONTROLS
               then rdmsr hw IA32_VMX_PROCBASED_CTLS2 else ret 0) (\<lambda>secondary.
     and_then (if allows secondary SECONDARY_ENABLE_EPT \<or> allows secondary SECONDARY_ENABLE_VPID
               then rdmsr hw IA32_VMX_EPT_VPID_CAP else ret 0) (\<lambda>ept_vpid_cap.
     ret \<lparr>basic = basic, pinbased = pinbased, primary = primary, exit_cap = exit,
          entry_cap = entry, secondary = secondary, ept_vpid_cap = ept_vpid_cap\<rparr>)))))))"

lemma allows_iff: "allows cap bits \<longleftrightarrow> (\<forall>n. bit bits n \<longrightarrow> bit (allowed cap) n)"
  by (simp add: allows_def and_eq_self_iff_bits)

text \<open>
  A control value is legal for a capability when it has every required bit and no bit that is
  not allowed. This is the processor's rule for the field.
\<close>

definition legal_control :: "ControlCapability \<Rightarrow> u32 \<Rightarrow> bool" where
  "legal_control cap v \<longleftrightarrow> v AND required cap = required cap \<and> allowed cap AND v = v"

lemma legal_control_iff: "legal_control cap v \<longleftrightarrow>
     (\<forall>n. bit (required cap) n \<longrightarrow> bit v n) \<and> (\<forall>n. bit v n \<longrightarrow> bit (allowed cap) n)"
  by (simp add: legal_control_def and_eq_self_iff_bits)

lemma choose_control_OkD:
  assumes "choose_control cap desired = Ok v"
  shows "v = desired OR required cap" and "legal_control cap v" and "v AND desired = desired"
  using assms
  by (auto simp: choose_control_def allows_iff legal_control_iff and_eq_self_iff_bits bit_simps
      split: if_splits)

lemma choose_control_not_Panic [simp]: "choose_control cap desired \<noteq> Panic"
  by (simp add: choose_control_def)

section \<open>Control registers\<close>

definition CR4_LA57 :: u64 where
  [const_defs]: "CR4_LA57 = push_bit 12 1"

definition CR4_VMXE :: u64 where
  [const_defs]: "CR4_VMXE = push_bit 13 1"

definition CR4_SMEP :: u64 where
  [const_defs]: "CR4_SMEP = push_bit 20 1"

definition CR4_SMAP :: u64 where
  [const_defs]: "CR4_SMAP = push_bit 21 1"

definition enable_vmxe :: "'m platform \<Rightarrow> 'm \<Rightarrow> 'm" where
  "enable_vmxe hw m = i_write_cr4 hw (i_read_cr4 hw m OR CR4_VMXE) m"

section \<open>Correctness properties\<close>

text \<open>
  C36. A control value is chosen exactly when some value the processor accepts contains the desired
  bits, and then the choice is the least such value: the desired bits and the ones the processor requires.
\<close>

theorem choose_control_least:
  "(choose_control cap desired = Ok v \<longleftrightarrow> legal_control cap v \<and> v = desired OR required cap) \<and>
   (choose_control cap desired = Err UnsupportedControl \<longleftrightarrow> (\<forall>w. \<not> (legal_control cap w \<and> w AND desired = desired)))"
proof -
  have legal: "legal_control cap (desired OR required cap) \<longleftrightarrow> allows cap (required cap) \<and> allows cap desired"
    by (auto simp: legal_control_iff allows_iff bit_or_iff)
  have "allows cap (required cap) \<and> allows cap desired"
    if "legal_control cap w" and "w AND desired = desired" for w
    using that unfolding legal_control_iff allows_iff and_eq_self_iff_bits by blast
  moreover have "(desired OR required cap) AND desired = desired"
    by (simp add: and_eq_self_iff_bits bit_or_iff)
  ultimately show ?thesis using legal by (auto simp: choose_control_def)
qed

end
