(* ===== verification/Segment.thy ===== *)
theory Segment
  imports Msr
begin

text \<open>
  Segmentation state (\<open>vmx/segment.rs\<close>): GDTR and IDTR as 10-byte operands, selectors, the
  descriptors a selector names in the GDT, and the decoding of a descriptor's base, limit and
  access rights into the form the VMCS stores.
\<close>

section \<open>Descriptor-table registers\<close>

record DescriptorTable =
  base :: u64
  limit :: u16

definition to_operand :: "DescriptorTable \<Rightarrow> u8 list" where
  "to_operand table = to_le_bytes (limit table) @ to_le_bytes (base table)"

definition from_operand :: "u8 list \<Rightarrow> DescriptorTable" where
  "from_operand operand =
     \<lparr>base = from_le_bytes (drop 2 operand), limit = from_le_bytes (take 2 operand)\<rparr>"

definition read_gdtr :: "'m platform \<Rightarrow> 'm \<Rightarrow> DescriptorTable" where
  "read_gdtr hw m = from_operand (i_sgdt hw m)"

definition read_idtr :: "'m platform \<Rightarrow> 'm \<Rightarrow> DescriptorTable" where
  "read_idtr hw m = from_operand (i_sidt hw m)"

definition load_gdtr :: "'m platform \<Rightarrow> DescriptorTable \<Rightarrow> 'm \<Rightarrow> 'm" where
  "load_gdtr hw table m = i_lgdt hw (to_operand table) m"

definition load_idtr :: "'m platform \<Rightarrow> DescriptorTable \<Rightarrow> 'm \<Rightarrow> 'm" where
  "load_idtr hw table m = i_lidt hw (to_operand table) m"

lemma length_to_operand [simp]: "length (to_operand table) = 10"
  by (simp add: to_operand_def)

lemma from_to_operand [simp]: "from_operand (to_operand table) = table"
  by (simp add: from_operand_def to_operand_def)

section \<open>Selectors and descriptors\<close>

definition SELECTOR_RPL :: u16 where
  [const_defs]: "SELECTOR_RPL = 3"

definition SELECTOR_TI :: u16 where
  [const_defs]: "SELECTOR_TI = push_bit 2 1"

definition SELECTOR_RPL_TI :: u16 where
  [const_defs]: "SELECTOR_RPL_TI = 7"

definition ACCESS_RIGHTS_UNUSABLE :: u32 where
  [const_defs]: "ACCESS_RIGHTS_UNUSABLE = push_bit 16 1"

definition DESCRIPTOR_GRANULARITY :: u64 where
  [const_defs]: "DESCRIPTOR_GRANULARITY = push_bit 55 1"

definition descriptor_offset :: "DescriptorTable \<Rightarrow> u16 \<Rightarrow> nat \<Rightarrow> nat option" where
  "descriptor_offset gdt selector sz =
     (let offset = unat (selector AND NOT SELECTOR_RPL_TI);
          fits = offset + sz \<le> unat (limit gdt) + 1
      in if selector AND SELECTOR_TI = 0 \<and> offset \<noteq> 0 \<and> fits then Some offset else None)"

text \<open>\<open>SegmentDescriptor(pub u64)\<close>: an 8-byte code or data descriptor.\<close>

type_synonym SegmentDescriptor = u64

definition descriptor_base :: "SegmentDescriptor \<Rightarrow> u64" where
  "descriptor_base d = (drop_bit 16 d AND 0xFFFFFF) OR (drop_bit 32 d AND 0xFF000000)"

definition descriptor_limit :: "SegmentDescriptor \<Rightarrow> u32" where
  "descriptor_limit d =
     (let raw = ucast (d AND 0xFFFF) OR (ucast (drop_bit 32 d) AND 0xF0000)
      in if d AND DESCRIPTOR_GRANULARITY \<noteq> 0 then push_bit 12 raw OR 0xFFF else raw)"

definition access_rights :: "SegmentDescriptor \<Rightarrow> u32" where
  "access_rights d = ucast (drop_bit 40 d) AND 0xF0FF"

definition system_descriptor_base :: "u8 list \<Rightarrow> u64" where
  "system_descriptor_base bytes =
     (let low = from_le_bytes (take 8 bytes);
          high = (from_le_bytes (take 4 (drop 8 bytes)) :: u32)
      in descriptor_base low OR push_bit 32 (ucast high))"

definition segment_base_from_gdt :: "'m platform \<Rightarrow> DescriptorTable \<Rightarrow> u16 \<Rightarrow> 'm \<Rightarrow> u64" where
  "segment_base_from_gdt hw gdt selector m =
     (case descriptor_offset gdt selector 16 of
        None \<Rightarrow> 0
      | Some offset \<Rightarrow> system_descriptor_base (load_bytes hw (base gdt + of_nat offset) 16 m))"

definition read_descriptor :: "'m platform \<Rightarrow> DescriptorTable \<Rightarrow> u16 \<Rightarrow> 'm \<Rightarrow> SegmentDescriptor option" where
  "read_descriptor hw gdt selector m =
     (case descriptor_offset gdt selector 8 of
        None \<Rightarrow> None
      | Some offset \<Rightarrow> Some (load64 hw (base gdt + of_nat offset) m))"

section \<open>The snapshot\<close>

record SegmentState =
  seg_cs :: u16
  seg_ss :: u16
  seg_ds :: u16
  seg_es :: u16
  seg_fs :: u16
  seg_gs :: u16
  seg_tr :: u16
  seg_fs_base :: u64
  seg_gs_base :: u64
  seg_tr_base :: u64
  seg_gdtr :: DescriptorTable
  seg_idtr :: DescriptorTable

definition read_fs_base :: "'m platform \<Rightarrow> ('m, 'e, u64) action" where
  "read_fs_base hw = rdmsr hw IA32_FS_BASE"

definition read_gs_base :: "'m platform \<Rightarrow> ('m, 'e, u64) action" where
  "read_gs_base hw = rdmsr hw IA32_GS_BASE"

definition read_all :: "'m platform \<Rightarrow> ('m, 'e, SegmentState) action" where
  "read_all hw =
     and_then (gets (read_gdtr hw)) (\<lambda>gdtr.
     and_then (gets (i_str hw)) (\<lambda>tr.
     and_then (gets (\<lambda>m. (i_cs hw m, i_ss hw m, i_ds hw m, i_es hw m, i_fs hw m, i_gs hw m)))
       (\<lambda>(cs, ss, ds, es, fs, gs).
     and_then (read_fs_base hw) (\<lambda>fs_base.
     and_then (read_gs_base hw) (\<lambda>gs_base.
     and_then (gets (segment_base_from_gdt hw gdtr tr)) (\<lambda>tr_base.
     and_then (gets (read_idtr hw)) (\<lambda>idtr.
     ret \<lparr>seg_cs = cs, seg_ss = ss, seg_ds = ds, seg_es = es, seg_fs = fs, seg_gs = gs,
          seg_tr = tr, seg_fs_base = fs_base, seg_gs_base = gs_base, seg_tr_base = tr_base,
          seg_gdtr = gdtr, seg_idtr = idtr\<rparr>)))))))"

section \<open>What the decoders extract\<close>

lemma descriptor_offset_SomeD:
  assumes "descriptor_offset gdt selector sz = Some offset"
  shows "offset + sz \<le> unat (limit gdt) + 1" and "0 < offset" and "8 dvd offset"
    and "offset = unat (selector AND NOT SELECTOR_RPL_TI)" and "selector AND SELECTOR_TI = 0"
proof -
  from assms have o: "offset = unat (selector AND NOT SELECTOR_RPL_TI)"
    by (simp add: descriptor_offset_def Let_def split: if_splits)
  have seven: "(7 :: u16) = mask 3" by (simp add: mask_eq_exp_minus_1)
  have "(selector AND NOT 7) AND mask 3 = 0"
    unfolding seven by (rule bit_word_eqI) (auto simp: bit_simps)
  then have "unat ((selector AND NOT 7) AND mask 3) = 0" by simp
  then have "unat (selector AND NOT 7) mod 2 ^ 3 = 0" by (simp only: and_mask_unat)
  then show "8 dvd offset" by (simp add: o SELECTOR_RPL_TI_def dvd_eq_mod_eq_0)
qed (use assms in \<open>auto simp: descriptor_offset_def Let_def split: if_splits\<close>)

text \<open>
  A selector names a descriptor of a table exactly when it is not null, has no LDT bit, and the whole descriptor lies
  within the table's limit; its offset is then the selector's index times 8.
\<close>

lemma descriptor_offset_Some_iff:
  "descriptor_offset gdt selector sz = Some offset \<longleftrightarrow>
     offset = unat selector div 8 * 8 \<and> 8 \<le> unat selector \<and> \<not> bit selector 2 \<and> offset + sz \<le> unat (limit gdt) + 1"
proof -
  have m: "SELECTOR_RPL_TI = mask 3" by (simp add: const_defs mask_eq_exp_minus_1)
  have "unat (selector AND NOT SELECTOR_RPL_TI) = unat selector div 8 * 8"
    by (simp only: m and_not_mask_unat) simp
  then show ?thesis
    unfolding descriptor_offset_def SELECTOR_TI_def bit_test Let_def by (auto simp: div_eq_0_iff not_less)
qed

end
