(* ===== verification/Vmcs.thy ===== *)
theory Vmcs
  imports Segment
begin

text \<open>
  The VMCS (\<open>vmx/vmcs/mod.rs\<close>) and the regions VMX instructions take (\<open>vmx/region.rs\<close>): field
  access, verified writes, the choice and setup of the VM-execution controls, host state, and
  the lifecycle of a VMCS region. The locale \<open>current_vmcs\<close> states what the processor promises
  of VMREAD and VMWRITE; what the program's own operations do to the fields is proved in it.
\<close>

section \<open>Requested controls and errors\<close>

record DesiredControls =
  dc_pin :: u32
  dc_primary :: u32
  dc_secondary :: u32
  dc_exit :: u32
  dc_entry :: u32

definition minimal_64_bit_guest :: DesiredControls where
  "minimal_64_bit_guest =
     \<lparr>dc_pin = PIN_BASED_NMI_EXITING OR PIN_BASED_VIRTUAL_NMIS,
      dc_primary = CPU_BASED_USE_IO_BITMAPS OR CPU_BASED_USE_MSR_BITMAPS,
      dc_secondary = SECONDARY_ENABLE_EPT,
      dc_exit = VM_EXIT_HOST_ADDRESS_SPACE_SIZE,
      dc_entry = VM_ENTRY_IA32E_MODE_GUEST\<rparr>"

definition primary_request :: "DesiredControls \<Rightarrow> u32" where
  "primary_request desired =
     (if dc_secondary desired \<noteq> 0
      then dc_primary desired OR CPU_BASED_ACTIVATE_SECONDARY_CONTROLS
      else dc_primary desired)"

definition EXCEPTION_BITMAP_ALL :: u32 where
  [const_defs]: "EXCEPTION_BITMAP_ALL = - 1"

datatype VmcsError =
    VmcsAllocationFailed
  | VmFailInvalid
  | VmFailValid
  | ReadbackMismatch (rm_field: u32) (rm_written: u64) (rm_read: u64)
  | UnsupportedControlValue
  | HostStateValidation
  | LaunchReturned
  | ResumeReturned
  | NmiWindowExitingUnsupported

primrec vmcs_error_from_fail :: "VmxFail \<Rightarrow> VmcsError" where
  "vmcs_error_from_fail Invalid = VmFailInvalid"
| "vmcs_error_from_fail Valid = VmFailValid"

definition vmcs_error_from_unsupported :: "UnsupportedControl \<Rightarrow> VmcsError" where
  "vmcs_error_from_unsupported _ = UnsupportedControlValue"

section \<open>VMREAD, VMWRITE, verified writes\<close>

definition vmread :: "'m platform \<Rightarrow> u32 \<Rightarrow> ('m, VmcsError, u64) action" where
  "vmread hw field_encoding m =
     (case i_vmread hw (ucast field_encoding) m of (value, rflags, m') \<Rightarrow>
       (case check_rflags rflags of
          Ok _ \<Rightarrow> (Ok value, m')
        | Err fail \<Rightarrow> (Err (vmcs_error_from_fail fail), m')
        | Panic \<Rightarrow> (Panic, m')))"

definition vmwrite :: "'m platform \<Rightarrow> u32 \<Rightarrow> u64 \<Rightarrow> ('m, VmcsError, unit) action" where
  "vmwrite hw field_encoding value m =
     (case i_vmwrite hw (ucast field_encoding) value m of (rflags, m') \<Rightarrow>
       (map_result_err vmcs_error_from_fail (check_rflags rflags), m'))"

definition write_verified :: "'m platform \<Rightarrow> u32 \<Rightarrow> u64 \<Rightarrow> ('m, VmcsError, unit) action" where
  "write_verified hw field value =
     and_then (vmwrite hw field value) (\<lambda>_.
     and_then (vmread hw field) (\<lambda>read.
     if read \<noteq> value then throw (ReadbackMismatch field value read) else ret ()))"

text \<open>A run of \<open>write_verified(f, v)?\<close> statements, one per pair.\<close>

abbreviation write_fields :: "'m platform \<Rightarrow> (u32 \<times> u64) list \<Rightarrow> ('m, VmcsError, unit) action" where
  "write_fields hw fvs \<equiv> for_each fvs (\<lambda>(f, v). write_verified hw f v)"

section \<open>Launch and resume failures\<close>

definition fall_through_failure :: "u64 \<Rightarrow> VmcsError \<Rightarrow> VmcsError" where
  "fall_through_failure rflags clear =
     (case check_rflags rflags of Err fail \<Rightarrow> vmcs_error_from_fail fail | _ \<Rightarrow> clear)"

definition launch_failure :: "u64 \<Rightarrow> VmcsError" where
  "launch_failure rflags = fall_through_failure rflags LaunchReturned"

definition resume_failure :: "u64 \<Rightarrow> VmcsError" where
  "resume_failure rflags = fall_through_failure rflags ResumeReturned"

section \<open>Controls\<close>

record ChosenControls =
  ch_pin :: u32
  ch_primary :: u32
  ch_secondary :: "u32 option"
  ch_exit :: u32
  ch_entry :: u32

text \<open>The first half of \<open>configure_controls\<close>: every control is chosen before any field is written.\<close>

definition choose_controls :: "VmcsControlMsrs \<Rightarrow> DesiredControls \<Rightarrow> (VmcsError, ChosenControls) result" where
  "choose_controls capabilities desired =
     (case choose_control (pinbased capabilities) (dc_pin desired) of
        Ok pin \<Rightarrow>
     (case choose_control (primary capabilities) (primary_request desired) of
        Ok prim \<Rightarrow>
     (case (if dc_secondary desired \<noteq> 0
            then (case choose_control (secondary capabilities) (dc_secondary desired) of
                    Ok v \<Rightarrow> Ok (Some v) | Err e \<Rightarrow> Err e | Panic \<Rightarrow> Panic)
            else Ok None) of
        Ok second \<Rightarrow>
     (if \<not> allows (primary capabilities) CPU_BASED_NMI_WINDOW_EXITING
      then Err NmiWindowExitingUnsupported
      else
     (case choose_control (exit_cap capabilities) (dc_exit desired OR VM_EXIT_HOST_ADDRESS_SPACE_SIZE) of
        Ok ex \<Rightarrow>
     (case choose_control (entry_cap capabilities) (dc_entry desired) of
        Ok en \<Rightarrow> Ok \<lparr>ch_pin = pin, ch_primary = prim, ch_secondary = second, ch_exit = ex, ch_entry = en\<rparr>
      | Err e \<Rightarrow> Err (vmcs_error_from_unsupported e) | Panic \<Rightarrow> Panic)
      | Err e \<Rightarrow> Err (vmcs_error_from_unsupported e) | Panic \<Rightarrow> Panic))
      | Err e \<Rightarrow> Err (vmcs_error_from_unsupported e) | Panic \<Rightarrow> Panic)
      | Err e \<Rightarrow> Err (vmcs_error_from_unsupported e) | Panic \<Rightarrow> Panic)
      | Err e \<Rightarrow> Err (vmcs_error_from_unsupported e) | Panic \<Rightarrow> Panic)"

definition ZEROED_FIELDS :: "u32 list" where
  "ZEROED_FIELDS =
     [CR3_TARGET_COUNT, VM_EXIT_MSR_STORE_COUNT, VM_EXIT_MSR_LOAD_COUNT, VM_ENTRY_MSR_LOAD_COUNT,
      VM_ENTRY_INTERRUPTION_INFO, PAGE_FAULT_ERROR_CODE_MASK, PAGE_FAULT_ERROR_CODE_MATCH]"

text \<open>The writes of the second half, in the order the code makes them.\<close>

definition control_writes :: "ChosenControls \<Rightarrow> (u32 \<times> u64) list" where
  "control_writes c =
     [(PIN_BASED_VM_EXEC_CONTROL, ucast (ch_pin c)),
      (PRIMARY_VM_EXEC_CONTROL, ucast (ch_primary c)),
      (VM_EXIT_CONTROLS, ucast (ch_exit c)),
      (VM_ENTRY_CONTROLS, ucast (ch_entry c))]
     @ (case ch_secondary c of Some v \<Rightarrow> [(SECONDARY_VM_EXEC_CONTROL, ucast v)] | None \<Rightarrow> [])
     @ map (\<lambda>f. (f, 0)) ZEROED_FIELDS
     @ [(EXCEPTION_BITMAP, ucast EXCEPTION_BITMAP_ALL)]"

definition configure_controls ::
  "'m platform \<Rightarrow> VmcsControlMsrs \<Rightarrow> DesiredControls \<Rightarrow> ('m, VmcsError, unit) action" where
  "configure_controls hw capabilities desired =
     and_then (lift_result (choose_controls capabilities desired)) (\<lambda>c.
     write_fields hw (control_writes c))"

definition with_nmi_window_exiting :: "u64 \<Rightarrow> bool \<Rightarrow> u64" where
  "with_nmi_window_exiting prim on =
     (let b = ucast CPU_BASED_NMI_WINDOW_EXITING
      in if on then prim OR b else prim AND NOT b)"

definition set_nmi_window_exiting :: "'m platform \<Rightarrow> bool \<Rightarrow> ('m, VmcsError, unit) action" where
  "set_nmi_window_exiting hw on =
     and_then (vmread hw PRIMARY_VM_EXEC_CONTROL) (\<lambda>prim.
     vmwrite hw PRIMARY_VM_EXEC_CONTROL (with_nmi_window_exiting prim on))"

definition set_ept_pointer :: "'m platform \<Rightarrow> u64 \<Rightarrow> ('m, VmcsError, unit) action" where
  "set_ept_pointer hw eptp = write_verified hw EPT_POINTER eptp"

section \<open>Host state\<close>

definition host_selectors_valid :: "SegmentState \<Rightarrow> bool" where
  "host_selectors_valid segments =
     (\<not> list_ex (\<lambda>selector. selector AND SELECTOR_RPL_TI \<noteq> 0)
          [seg_es segments, seg_cs segments, seg_ss segments, seg_ds segments,
           seg_fs segments, seg_gs segments, seg_tr segments]
      \<and> \<not> (seg_cs segments = 0 \<or> seg_tr segments = 0))"

definition host_state_writes ::
  "SegmentState \<Rightarrow> u64 \<Rightarrow> u64 \<Rightarrow> u64 \<Rightarrow> u64 \<Rightarrow> u64 \<Rightarrow> u64 \<Rightarrow> (u32 \<times> u64) list" where
  "host_state_writes segments cr0 cr3 cr4 sysenter_cs sysenter_esp sysenter_eip =
     [(HOST_ES_SELECTOR, ucast (seg_es segments)),
      (HOST_CS_SELECTOR, ucast (seg_cs segments)),
      (HOST_SS_SELECTOR, ucast (seg_ss segments)),
      (HOST_DS_SELECTOR, ucast (seg_ds segments)),
      (HOST_FS_SELECTOR, ucast (seg_fs segments)),
      (HOST_GS_SELECTOR, ucast (seg_gs segments)),
      (HOST_TR_SELECTOR, ucast (seg_tr segments)),
      (HOST_CR0, cr0),
      (HOST_CR3, cr3),
      (HOST_CR4, cr4),
      (HOST_FS_BASE, seg_fs_base segments),
      (HOST_GS_BASE, seg_gs_base segments),
      (HOST_TR_BASE, seg_tr_base segments),
      (HOST_GDTR_BASE, base (seg_gdtr segments)),
      (HOST_IDTR_BASE, base (seg_idtr segments)),
      (HOST_IA32_SYSENTER_CS, sysenter_cs),
      (HOST_IA32_SYSENTER_ESP, sysenter_esp),
      (HOST_IA32_SYSENTER_EIP, sysenter_eip)]"

definition configure_host_state :: "'m platform \<Rightarrow> ('m, VmcsError, unit) action" where
  "configure_host_state hw =
     and_then (read_all hw) (\<lambda>segments.
     and_then (gets (i_read_cr0 hw)) (\<lambda>cr0.
     and_then (gets (i_read_cr3 hw)) (\<lambda>cr3.
     and_then (gets (i_read_cr4 hw)) (\<lambda>cr4.
     and_then (rdmsr hw IA32_SYSENTER_CS) (\<lambda>cs.
     and_then (rdmsr hw IA32_SYSENTER_ESP) (\<lambda>sysenter_esp.
     and_then (rdmsr hw IA32_SYSENTER_EIP) (\<lambda>sysenter_eip.
     if \<not> host_selectors_valid segments then throw HostStateValidation
     else
     and_then (vmread hw VM_EXIT_CONTROLS) (\<lambda>exit_controls.
     and_then (write_fields hw (host_state_writes segments cr0 cr3 cr4
                 (ucast (ucast cs :: u32)) sysenter_esp sysenter_eip)) (\<lambda>_.
     and_then (if exit_controls AND VM_EXIT_LOAD_IA32_PAT \<noteq> 0
               then and_then (rdmsr hw IA32_PAT) (write_verified hw HOST_IA32_PAT)
               else ret ()) (\<lambda>_.
     if exit_controls AND VM_EXIT_LOAD_IA32_EFER \<noteq> 0
     then and_then (rdmsr hw IA32_EFER) (write_verified hw HOST_IA32_EFER)
     else ret ()))))))))))"

definition configure_host_entry :: "'m platform \<Rightarrow> u64 \<Rightarrow> u64 \<Rightarrow> ('m, VmcsError, unit) action" where
  "configure_host_entry hw stack_top entry_address =
     (if stack_top = 0 \<or> stack_top AND 15 \<noteq> 0 \<or> entry_address = 0 then throw HostStateValidation
      else write_fields hw [(HOST_RSP, stack_top), (HOST_RIP, entry_address)])"

section \<open>Errors and the self-test\<close>

definition vm_instruction_error :: "'m platform \<Rightarrow> ('m, VmcsError, u32) action" where
  "vm_instruction_error hw = and_then (vmread hw VM_INSTRUCTION_ERROR) (\<lambda>v. ret (ucast v))"

definition instruction_error_for :: "'m platform \<Rightarrow> VmcsError \<Rightarrow> ('m, 'e, u32 option) action" where
  "instruction_error_for hw error =
     (if error = VmFailValid then ok_or_none (vm_instruction_error hw) else ret None)"

definition SELF_TEST_PATTERN :: u64 where
  [const_defs]: "SELF_TEST_PATTERN = 0x00007FFFDEADBEEF"

definition self_test :: "'m platform \<Rightarrow> ('m, VmcsError, unit) action" where
  "self_test hw = write_verified hw GUEST_RIP SELF_TEST_PATTERN"

section \<open>Regions and the VMCS lifecycle\<close>

definition REVISION_ID_MASK :: u64 where
  [const_defs]: "REVISION_ID_MASK = 0x7FFFFFFF"

definition vmcs_revision_id :: "'m platform \<Rightarrow> ('m, 'e, u32) action" where
  "vmcs_revision_id hw =
     and_then (rdmsr hw IA32_VMX_BASIC) (\<lambda>v. ret (ucast (v AND REVISION_ID_MASK)))"

record VmxRegion =
  phys_addr :: u64

definition allocate_region :: "'m platform \<Rightarrow> 'e \<Rightarrow> ('m, 'e, VmxRegion) action" where
  "allocate_region hw allocation_error =
     and_then (allocate_zeroed_page hw allocation_error) (\<lambda>page.
     and_then (vmcs_revision_id hw) (\<lambda>rev.
     and_then (modify (store32 hw page rev)) (\<lambda>_.
     ret \<lparr>phys_addr = page\<rparr>)))"

definition vmclear :: "'m platform \<Rightarrow> VmxRegion \<Rightarrow> ('m, VmcsError, unit) action" where
  "vmclear hw region = map_err vmcs_error_from_fail (vmx_asm (i_vmclear hw (phys_addr region)))"

definition vmptrld :: "'m platform \<Rightarrow> VmxRegion \<Rightarrow> ('m, VmcsError, unit) action" where
  "vmptrld hw region = map_err vmcs_error_from_fail (vmx_asm (i_vmptrld hw (phys_addr region)))"

definition create_current :: "'m platform \<Rightarrow> ('m, VmcsError, VmxRegion) action" where
  "create_current hw =
     and_then (allocate_region hw VmcsAllocationFailed) (\<lambda>vmcs.
     and_then (vmclear hw vmcs) (\<lambda>_.
     and_then (vmptrld hw vmcs) (\<lambda>_.
     ret vmcs)))"

section \<open>What the processor promises of the current VMCS\<close>

text \<open>
  \<open>field m f\<close> is the content of field \<open>f\<close> of the current VMCS in machine state \<open>m\<close>. VMREAD
  leaves the machine as it is and, when RFLAGS report success, returns the field. A successful
  VMWRITE stores the value cut to the field's width and changes no other field; a failed one
  changes no field.
\<close>

locale current_vmcs =
  fixes hw :: "'m platform" and field :: "'m \<Rightarrow> u32 \<Rightarrow> u64"
  assumes vmread_law:
    "i_vmread hw (ucast f) m = (value, rflags, m') \<Longrightarrow>
       m' = m \<and> (check_rflags rflags = Ok () \<longrightarrow> value = field m f)"
  and vmwrite_law:
    "i_vmwrite hw (ucast f) v m = (rflags, m') \<Longrightarrow>
       field m' = (if check_rflags rflags = Ok ()
                   then (field m)(f := take_bit (field_bits f) v) else field m)"
begin

lemma vmread_state: "vmread hw f m = (r, m') \<Longrightarrow> m' = m"
  by (auto simp: vmread_def split: prod.splits result.splits dest: vmread_law)

lemma vmread_OkD: "vmread hw f m = (Ok v, m') \<Longrightarrow> v = field m f \<and> m' = m"
  by (auto simp: vmread_def split: prod.splits result.splits dest: vmread_law)

lemma vmwrite_OkD:
  "vmwrite hw f v m = (Ok (), m') \<Longrightarrow> field m' = (field m)(f := take_bit (field_bits f) v)"
  by (auto simp: vmwrite_def split: prod.splits dest!: vmwrite_law)

lemma vmwrite_ErrD: "vmwrite hw f v m = (Err e, m') \<Longrightarrow> field m' = field m"
  by (cases "check_rflags (fst (i_vmwrite hw (ucast f) v m))")
    (auto simp: vmwrite_def split: prod.splits dest!: vmwrite_law)

text \<open>A verified write that succeeds has stored exactly the value, in exactly that field.\<close>

lemma write_verified_OkD:
  assumes "write_verified hw f v m = (Ok (), m')"
  shows "field m' = (field m)(f := v)"
proof -
  from assms obtain u m1 read m2 where w: "vmwrite hw f v m = (Ok u, m1)"
    and r: "vmread hw f m1 = (Ok read, m2)"
    and c: "(if read \<noteq> v then throw (ReadbackMismatch f v read) else ret ()) m2 = (Ok (), m')"
    unfolding write_verified_def by (elim and_then_OkE) auto
  from c have "read = v" and "m' = m2" by (auto split: if_splits)
  moreover from r have "read = field m1 f" and "m2 = m1" by (auto dest: vmread_OkD)
  ultimately show ?thesis using vmwrite_OkD [of f v m m1] w by auto
qed

lemma write_fields_OkD:
  assumes "write_fields hw fvs m = (Ok (), m')" and "distinct (map fst fvs)"
  shows "field m' f = (case map_of fvs f of Some v \<Rightarrow> v | None \<Rightarrow> field m f)"
  using assms
proof (induction fvs arbitrary: m)
  case Nil
  then show ?case by simp
next
  case (Cons fv fvs)
  obtain g v where fv: "fv = (g, v)" by (cases fv)
  from Cons.prems(1) obtain m1 where "write_verified hw g v m = (Ok (), m1)"
    and rest: "write_fields hw fvs m1 = (Ok (), m')"
    by (auto simp: fv elim!: and_then_OkE)
  then have m1: "field m1 = (field m)(g := v)" by (auto dest: write_verified_OkD)
  from Cons.prems(2) have g: "map_of fvs g = None" and "distinct (map fst fvs)"
    by (simp_all add: fv map_of_eq_None_iff)
  with Cons.IH [OF rest] m1 show ?case
    by (cases "f = g"; cases "map_of fvs f") (simp_all add: fv)
qed

lemma set_nmi_window_exiting_OkD:
  assumes "set_nmi_window_exiting hw on m = (Ok (), m')"
  shows "field m' = (field m)(PRIMARY_VM_EXEC_CONTROL :=
           take_bit 32 (with_nmi_window_exiting (field m PRIMARY_VM_EXEC_CONTROL) on))"
proof -
  have "field_bits PRIMARY_VM_EXEC_CONTROL = 32"
    by (simp add: field_bits_def field_width_of_def field_defs)
  with assms show ?thesis
    by (auto simp: set_nmi_window_exiting_def elim!: and_then_OkE dest!: vmread_OkD vmwrite_OkD)
qed

end

text \<open>
  A processor that also has the fields: VMREAD of a supported field succeeds, and so does VMWRITE
  unless the field is read-only data.
\<close>

locale supported_vmcs = current_vmcs +
  fixes supported :: "u32 \<Rightarrow> bool"
  assumes vmread_success:
    "supported f \<Longrightarrow> check_rflags (fst (snd (i_vmread hw (ucast f) m))) = Ok ()"
  and vmwrite_success:
    "supported f \<Longrightarrow> field_type_of f \<noteq> ReadOnly \<Longrightarrow>
       check_rflags (fst (i_vmwrite hw (ucast f) v m)) = Ok ()"
begin

lemma vmread_ok: "supported f \<Longrightarrow> vmread hw f m = (Ok (field m f), m)"
  using vmread_success [of f m] vmread_law [of f m]
  by (auto simp: vmread_def split: prod.splits)

lemma vmwrite_ok:
  assumes "supported f" and "field_type_of f \<noteq> ReadOnly"
  shows "\<exists>m'. vmwrite hw f v m = (Ok (), m') \<and> field m' = (field m)(f := take_bit (field_bits f) v)"
  using vmwrite_success [OF assms, of v m] vmwrite_law [of f v m]
  by (auto simp: vmwrite_def split: prod.splits)

lemma write_verified_ok:
  assumes "supported f" and "field_type_of f \<noteq> ReadOnly" and "take_bit (field_bits f) v = v"
  shows "\<exists>m'. write_verified hw f v m = (Ok (), m') \<and> field m' = (field m)(f := v)"
proof -
  from vmwrite_ok [OF assms(1,2), of v m] assms(3)
  obtain m' where "vmwrite hw f v m = (Ok (), m')" and "field m' = (field m)(f := v)" by auto
  then show ?thesis using vmread_ok [OF assms(1), of m']
    by (simp add: write_verified_def and_then_Ok)
qed

lemma write_fields_ok:
  assumes "\<And>f v. (f, v) \<in> set fvs \<Longrightarrow>
      supported f \<and> field_type_of f \<noteq> ReadOnly \<and> take_bit (field_bits f) v = v"
  shows "\<exists>m'. write_fields hw fvs m = (Ok (), m')"
  using for_each_Ok_invariant [where I = "\<lambda>_. True" and xs = fvs and s = m
      and body = "\<lambda>(f, v). write_verified hw f v"] assms write_verified_ok
  by fastforce

lemma set_nmi_window_exiting_ok:
  assumes "supported PRIMARY_VM_EXEC_CONTROL"
  shows "\<exists>m'. set_nmi_window_exiting hw on m = (Ok (), m')"
proof -
  have "field_type_of PRIMARY_VM_EXEC_CONTROL \<noteq> ReadOnly"
    by (simp add: field_type_of_def field_defs)
  then show ?thesis
    using vmwrite_ok [OF assms] vmread_ok [OF assms]
    by (fastforce simp: set_nmi_window_exiting_def and_then_Ok)
qed

end

section \<open>Controls: every write legal, nothing written on refusal\<close>

lemma choose_controls_OkD:
  assumes "choose_controls caps desired = Ok c"
  shows "choose_control (pinbased caps) (dc_pin desired) = Ok (ch_pin c)"
    and "choose_control (primary caps) (primary_request desired) = Ok (ch_primary c)"
    and "choose_control (exit_cap caps) (dc_exit desired OR VM_EXIT_HOST_ADDRESS_SPACE_SIZE) = Ok (ch_exit c)"
    and "choose_control (entry_cap caps) (dc_entry desired) = Ok (ch_entry c)"
    and "dc_secondary desired \<noteq> 0 \<Longrightarrow>
           \<exists>v. choose_control (secondary caps) (dc_secondary desired) = Ok v \<and> ch_secondary c = Some v"
    and "dc_secondary desired = 0 \<Longrightarrow> ch_secondary c = None"
    and "allows (primary caps) CPU_BASED_NMI_WINDOW_EXITING"
  using assms by (auto simp: choose_controls_def split: result.splits if_splits)

lemma control_writes_distinct: "distinct (map fst (control_writes c))"
  by (auto simp: control_writes_def ZEROED_FIELDS_def field_defs split: option.splits)

lemma exception_bitmap_all: "(ucast EXCEPTION_BITMAP_ALL :: u64) = 0xFFFFFFFF"
  by (simp add: EXCEPTION_BITMAP_ALL_def unsigned_minus_1_eq_mask mask_eq_exp_minus_1)

lemma control_writes_map:
  "map_of (control_writes c) PIN_BASED_VM_EXEC_CONTROL = Some (ucast (ch_pin c))"
  "map_of (control_writes c) PRIMARY_VM_EXEC_CONTROL = Some (ucast (ch_primary c))"
  "map_of (control_writes c) VM_EXIT_CONTROLS = Some (ucast (ch_exit c))"
  "map_of (control_writes c) VM_ENTRY_CONTROLS = Some (ucast (ch_entry c))"
  "ch_secondary c = Some v \<Longrightarrow> map_of (control_writes c) SECONDARY_VM_EXEC_CONTROL = Some (ucast v)"
  by (simp_all add: control_writes_def field_defs)

lemma control_writes_exceptions: "map_of (control_writes c) EXCEPTION_BITMAP = Some 0xFFFFFFFF"
  unfolding control_writes_def
  by (cases "ch_secondary c") (simp_all add: exception_bitmap_all field_defs ZEROED_FIELDS_def)

lemma control_writes_zeroed: "list_all (\<lambda>f. map_of (control_writes c) f = Some 0) ZEROED_FIELDS"
  unfolding control_writes_def
  by (cases "ch_secondary c") (simp_all add: field_defs ZEROED_FIELDS_def)

end
