(* ===== verification/Guest_Constants.thy ===== *)
theory Guest_Constants
  imports Prelude
begin

text \<open>
  The values the test guest and the hypervisor agree on (\<open>vmx/guest.rs\<close>), and the COM1 port base
  (\<open>serial.rs\<close>) one of them is derived from.
\<close>

definition COM1 :: u16 where
  [const_defs]: "COM1 = 0x3F8"

definition GUEST_MARKER :: u32 where
  [const_defs]: "GUEST_MARKER = 0xA1E0"

definition GUEST_NMI_MARKER :: u32 where
  [const_defs]: "GUEST_NMI_MARKER = 0x004E4D49"

definition GUEST_WAIT_ITERATIONS :: u32 where
  [const_defs]: "GUEST_WAIT_ITERATIONS = 0x20000000"

definition GUEST_DATA_SEED :: u32 where
  [const_defs]: "GUEST_DATA_SEED = 0xDA7A"

definition GUEST_EPT_VALUE :: u32 where
  [const_defs]: "GUEST_EPT_VALUE = 0x00455054"

definition GUEST_SCRATCH_PORT :: u16 where
  [const_defs]: "GUEST_SCRATCH_PORT = COM1 + 7"

definition GUEST_MSR_VALUE :: u64 where
  [const_defs]: "GUEST_MSR_VALUE = 0x00007A1E00000000"

definition GUEST_IO_VALUE :: u8 where
  [const_defs]: "GUEST_IO_VALUE = 0xA5"

definition GUEST_EMULATION_FAIL_MARKER :: u32 where
  [const_defs]: "GUEST_EMULATION_FAIL_MARKER = 0xFA11"

end
