(* ===== verification/Exit_Bitmaps.thy ===== *)
theory Exit_Bitmaps
  imports Vmcs Guest_Constants
begin

text \<open>
  The MSR bitmap and the two I/O bitmaps (\<open>vmx/exit_bitmaps.rs\<close>): which guest RDMSR, WRMSR, IN
  and OUT exit. The locale \<open>bit_index\<close> is the contract of a function that places keys in a
  bitmap page; \<open>msr_bit\<close> and \<open>io_bit\<close> are interpreted in it, and the correctness of \<open>fill\<close>
  rests on the interpretations.
\<close>

section \<open>What is intercepted\<close>

definition INTERCEPTED_MSRS :: "u32 list" where
  "INTERCEPTED_MSRS = [IA32_KERNEL_GS_BASE]"

definition INTERCEPTED_PORTS :: "u16 list" where
  "INTERCEPTED_PORTS = [GUEST_SCRATCH_PORT]"

definition VMCS_HELD_MSRS :: "u32 list" where
  "VMCS_HELD_MSRS =
     [IA32_DEBUGCTL, IA32_SYSENTER_CS, IA32_SYSENTER_ESP, IA32_SYSENTER_EIP, IA32_PAT,
      IA32_PERF_GLOBAL_CTRL, IA32_BNDCFGS, IA32_EFER, IA32_FS_BASE, IA32_GS_BASE]"

section \<open>Where a bit is\<close>

datatype MsrAccess = Read | Write

definition msr_bit :: "u32 \<Rightarrow> MsrAccess \<Rightarrow> (nat \<times> nat) option" where
  "msr_bit msr access =
     (case (if msr \<le> 0x1FFF then Some (0x000, msr)
            else if 0xC0000000 \<le> msr \<and> msr \<le> 0xC0001FFF then Some (0x400, msr - 0xC0000000)
            else None) of
        None \<Rightarrow> None
      | Some (read_offset, index) \<Rightarrow>
          let offset = (case access of Read \<Rightarrow> read_offset | Write \<Rightarrow> read_offset + 0x800)
          in Some (offset + unat index div 8, unat (index mod 8)))"

datatype IoBitmap = BitmapA | BitmapB

definition io_bit :: "u16 \<Rightarrow> IoBitmap \<times> nat \<times> nat" where
  "io_bit port =
     (let page = (if port < 0x8000 then BitmapA else BitmapB);
          index = unat (port AND 0x7FFF)
      in (page, index div 8, unat (port mod 8)))"

section \<open>Filling the pages\<close>

text \<open>\<open>page[offset] |= 1 << bit\<close>; \<open>None\<close> is the panic of an index outside the slice.\<close>

definition set_page_bit :: "u8 list \<Rightarrow> nat \<Rightarrow> nat \<Rightarrow> u8 list option" where
  "set_page_bit page offset b =
     (if offset < length page then Some (page[offset := page ! offset OR push_bit b 1]) else None)"

primrec fill_msrs :: "(u32 \<times> MsrAccess) list \<Rightarrow> u8 list \<Rightarrow> u8 list option" where
  "fill_msrs [] page = Some page"
| "fill_msrs (ma # mas) page =
     (case msr_bit (fst ma) (snd ma) of
        Some (offset, b) \<Rightarrow> Option.bind (set_page_bit page offset b) (fill_msrs mas)
      | None \<Rightarrow> fill_msrs mas page)"

primrec fill_ports :: "u16 list \<Rightarrow> u8 list \<times> u8 list \<Rightarrow> (u8 list \<times> u8 list) option" where
  "fill_ports [] pages = Some pages"
| "fill_ports (port # ports) pages =
     (case io_bit port of (page, offset, b) \<Rightarrow>
       (case page of
          BitmapA \<Rightarrow> Option.bind (set_page_bit (fst pages) offset b) (\<lambda>a. fill_ports ports (a, snd pages))
        | BitmapB \<Rightarrow> Option.bind (set_page_bit (snd pages) offset b) (\<lambda>c. fill_ports ports (fst pages, c))))"

definition fill :: "u8 list \<Rightarrow> u8 list \<Rightarrow> u8 list \<Rightarrow> (u8 list \<times> u8 list \<times> u8 list) option" where
  "fill msr io_a io_b =
     Option.bind (fill_msrs [(m, a). m \<leftarrow> INTERCEPTED_MSRS, a \<leftarrow> [Read, Write]] msr) (\<lambda>msr'.
     Option.bind (fill_ports INTERCEPTED_PORTS (io_a, io_b)) (\<lambda>(a, b).
     Some (msr', a, b)))"

datatype ExitBitmapsError = BitmapAllocationFailed

record ExitBitmaps =
  bm_msr :: u64
  bm_io_a :: u64
  bm_io_b :: u64

definition allocate_bitmaps :: "'m platform \<Rightarrow> ('m, ExitBitmapsError, ExitBitmaps) action" where
  "allocate_bitmaps hw =
     and_then (allocate_zeroed_page hw BitmapAllocationFailed) (\<lambda>msr.
     and_then (allocate_zeroed_page hw BitmapAllocationFailed) (\<lambda>io_a.
     and_then (allocate_zeroed_page hw BitmapAllocationFailed) (\<lambda>io_b.
     and_then (gets (\<lambda>m. fill (load_bytes hw msr PAGE_SIZE m)
                 (load_bytes hw io_a PAGE_SIZE m) (load_bytes hw io_b PAGE_SIZE m))) (\<lambda>filled.
     case filled of
       None \<Rightarrow> panic_with
     | Some (pm, pa, pb) \<Rightarrow>
         and_then (modify (store_bytes hw msr pm)) (\<lambda>_.
         and_then (modify (store_bytes hw io_a pa)) (\<lambda>_.
         and_then (modify (store_bytes hw io_b pb)) (\<lambda>_.
         ret \<lparr>bm_msr = msr, bm_io_a = io_a, bm_io_b = io_b\<rparr>)))))))"

definition write_to_vmcs :: "'m platform \<Rightarrow> ExitBitmaps \<Rightarrow> ('m, VmcsError, unit) action" where
  "write_to_vmcs hw bitmaps = write_fields hw
     [(MSR_BITMAP, bm_msr bitmaps), (IO_BITMAP_A, bm_io_a bitmaps), (IO_BITMAP_B, bm_io_b bitmaps)]"

section \<open>Which accesses the processor lets through\<close>

text \<open>
  The processor's side, as the bitmap layout in the module documentation gives it: four
  1 KiB areas for reads and writes of the two MSR ranges, any other MSR always exits; one bit per
  port, and an access to several ports exits if any of their bits is set. An access that wraps around
  the 16-bit port space (past port 0xFFFF) exits whatever the bitmaps hold.
\<close>

definition cpu_msr_exits :: "u8 list \<Rightarrow> MsrAccess \<Rightarrow> u32 \<Rightarrow> bool" where
  "cpu_msr_exits page access msr =
     (let area = (case access of Read \<Rightarrow> 0 | Write \<Rightarrow> 2048); n = unat msr
      in if n < 0x2000 then bit (page ! (area + n div 8)) (n mod 8)
         else if 0xC0000000 \<le> n \<and> n < 0xC0002000
         then bit (page ! (area + 1024 + (n - 0xC0000000) div 8)) ((n - 0xC0000000) mod 8)
         else True)"

definition cpu_port_bit :: "u8 list \<Rightarrow> u8 list \<Rightarrow> u16 \<Rightarrow> bool" where
  "cpu_port_bit io_a io_b port =
     (let n = unat port in if n < 0x8000 then bit (io_a ! (n div 8)) (n mod 8)
      else bit (io_b ! ((n - 0x8000) div 8)) ((n - 0x8000) mod 8))"

definition cpu_io_exits :: "u8 list \<Rightarrow> u8 list \<Rightarrow> u16 \<Rightarrow> nat \<Rightarrow> bool" where
  "cpu_io_exits io_a io_b port bytes \<longleftrightarrow>
     2 ^ 16 < unat port + bytes \<or> list_ex (\<lambda>n. cpu_port_bit io_a io_b (of_nat n)) [unat port..<unat port + bytes]"

section \<open>The contract of a bit placement\<close>

locale bit_index =
  fixes slot :: "'k \<Rightarrow> (nat \<times> nat) option" and bytes :: nat
  assumes slot_bounds: "slot k = Some (offset, b) \<Longrightarrow> offset < bytes \<and> b < 8"
    and slot_inj: "slot k = Some p \<Longrightarrow> slot k' = Some p \<Longrightarrow> k = k'"
begin

text \<open>Setting a key's bit sets that key's bit and no other key's.\<close>

lemma set_page_bit_slot:
  assumes "slot k = Some (offset, b)" and "length page = bytes"
  obtains page' where "set_page_bit page offset b = Some page'" and "length page' = bytes"
    and "\<And>k' offset' b'. slot k' = Some (offset', b') \<Longrightarrow>
           bit (page' ! offset') b' \<longleftrightarrow> k' = k \<or> bit (page ! offset') b'"
proof
  let ?page' = "page[offset := page ! offset OR push_bit b 1]"
  have o: "offset < length page" using slot_bounds [OF assms(1)] assms(2) by simp
  then show "set_page_bit page offset b = Some ?page'"
    by (simp add: set_page_bit_def)
  show "length ?page' = bytes" using assms(2) by simp
  fix k' offset' b' assume k': "slot k' = Some (offset', b')"
  have b: "b < 8" using slot_bounds [OF assms(1)] by simp
  have "k' = k \<longleftrightarrow> offset' = offset \<and> b' = b"
    using slot_inj assms(1) k' by fastforce
  moreover have "bit (push_bit b (1 :: u8)) b' \<longleftrightarrow> b' = b"
    using b by (auto simp: bit_simps)
  ultimately show "bit (?page' ! offset') b' \<longleftrightarrow> k' = k \<or> bit (page ! offset') b'"
    using o by (auto simp: nth_list_update bit_or_iff)
qed

end

lemma msr_bit_inv:
  assumes "msr_bit msr access = Some (offset, b)"
  shows "b < 8 \<and> (\<exists>area \<in> {0, 1024}. \<exists>start \<in> {0, 0xC0000000 :: nat}.
    (area = 1024 \<longleftrightarrow> start \<noteq> 0) \<and> start \<le> unat msr \<and> unat msr < start + 0x2000 \<and>
    offset = (case access of Read \<Rightarrow> 0 | Write \<Rightarrow> 2048) + area + (unat msr - start) div 8 \<and>
    b = (unat msr - start) mod 8)"
proof (cases "msr \<le> 0x1FFF")
  case True
  then have "unat msr < 0x2000" by (simp add: word_le_nat_alt)
  with True assms show ?thesis
    by (auto simp: msr_bit_def unat_mod split: MsrAccess.splits)
next
  case False
  with assms have r: "0xC0000000 \<le> msr" "msr \<le> 0xC0001FFF"
    by (auto simp: msr_bit_def split: if_splits)
  then have n: "0xC0000000 \<le> unat msr" "unat msr \<le> 0xC0001FFF"
    by (simp_all add: word_le_nat_alt)
  have "unat (msr - 0xC0000000) = unat msr - 0xC0000000"
    using r(1) by (simp add: unat_sub)
  with False r n assms show ?thesis
    by (auto simp: msr_bit_def unat_mod split: MsrAccess.splits)
qed

lemma msr_bit_position:
  assumes "msr_bit msr access = Some (offset, b)"
  shows "8 * offset + b = (case access of Read \<Rightarrow> 0 | Write \<Rightarrow> 16384) +
      (if unat msr < 0x2000 then unat msr else 0x2000 + (unat msr - 0xC0000000))"
    and "unat msr < 0x2000 \<or> 0xC0000000 \<le> unat msr \<and> unat msr < 0xC0002000"
  using msr_bit_inv [OF assms] by (cases access; auto)+

interpretation msr_slots: bit_index "\<lambda>(msr, access). msr_bit msr access" 4096
proof
  fix k offset b assume "(case k of (msr, access) \<Rightarrow> msr_bit msr access) = Some (offset, b)"
  then have "msr_bit (fst k) (snd k) = Some (offset, b)" by (cases k) simp
  then show "offset < 4096 \<and> b < 8"
    by (cases "snd k") (auto dest!: msr_bit_inv)
next
  fix k p k'
  assume "(case k of (msr, access) \<Rightarrow> msr_bit msr access) = Some p"
    and "(case k' of (msr, access) \<Rightarrow> msr_bit msr access) = Some p"
  then have "msr_bit (fst k) (snd k) = Some (fst p, snd p)"
    "msr_bit (fst k') (snd k') = Some (fst p, snd p)"
    by (simp_all add: case_prod_beta)
  note k = msr_bit_position [OF this(1)] and k' = msr_bit_position [OF this(2)]
  have "snd k = snd k'"
    using k k' by (cases "snd k"; cases "snd k'") (auto split: if_splits)
  moreover from this have "unat (fst k) = unat (fst k')"
    using k k' by (auto split: if_splits)
  ultimately show "k = k'" by (simp add: prod_eq_iff word_unat_eq_iff)
qed

lemma unat_and_7FFF: "unat (port AND 0x7FFF) = unat (port :: u16) mod 0x8000"
proof -
  have "(0x7FFF :: u16) = mask 15" by (simp add: mask_eq_exp_minus_1)
  then show ?thesis by (simp only: and_mask_unat) simp
qed

lemma io_bit_unfold:
  "io_bit port =
     (if unat port < 0x8000 then (BitmapA, unat port div 8, unat port mod 8)
      else (BitmapB, (unat port - 0x8000) div 8, (unat port - 0x8000) mod 8))"
proof -
  have "unat port < 0x10000" using unsigned_less [of port] by simp
  then have "unat port mod 0x8000 = (if unat port < 0x8000 then unat port else unat port - 0x8000)"
    by (simp add: le_mod_geq)
  moreover have "(unat port - 0x8000) mod 8 = unat port mod 8" if "0x8000 \<le> unat port"
  proof -
    have "unat port = (unat port - 0x8000) + 8 * 0x1000" using that by simp
    then show ?thesis by (metis mod_mult_self2)
  qed
  ultimately show ?thesis
    by (simp add: io_bit_def unat_and_7FFF unat_mod word_less_nat_alt)
qed

definition io_slot :: "IoBitmap \<Rightarrow> u16 \<Rightarrow> (nat \<times> nat) option" where
  "io_slot page port = (case io_bit port of (p, ob) \<Rightarrow> if p = page then Some ob else None)"

lemma io_slot_bounds: "io_slot page port = Some (offset, b) \<Longrightarrow> offset < 4096 \<and> b < 8"
  using unsigned_less [where 'a = nat, of port] by (auto simp: io_slot_def io_bit_unfold split: if_splits)

lemma io_slot_inj:
  assumes "io_slot page k = Some p" and "io_slot page k' = Some p"
  shows "k = k'"
proof -
  have "unat k = unat k'"
  proof (cases page)
    case BitmapA
    with assms have "unat k div 8 = unat k' div 8" "unat k mod 8 = unat k' mod 8"
      by (auto simp: io_slot_def io_bit_unfold split: if_splits)
    then show ?thesis by (metis div_mult_mod_eq)
  next
    case BitmapB
    with assms have "(unat k - 0x8000) div 8 = (unat k' - 0x8000) div 8"
      "(unat k - 0x8000) mod 8 = (unat k' - 0x8000) mod 8" "0x8000 \<le> unat k" "0x8000 \<le> unat k'"
      by (auto simp: io_slot_def io_bit_unfold split: if_splits)
    then show ?thesis by (metis div_mult_mod_eq eq_diff_iff)
  qed
  then show ?thesis by (rule word_unat_eq_iff [THEN iffD2])
qed

interpretation io_slots: bit_index "io_slot page" 4096
  by unfold_locales (fact io_slot_bounds, fact io_slot_inj)

section \<open>What fill leaves in the pages\<close>

lemma fill_msrs_bits:
  assumes "length page = 4096"
  shows "\<exists>page'. fill_msrs mas page = Some page' \<and> length page' = 4096 \<and>
    (\<forall>msr access offset b. msr_bit msr access = Some (offset, b) \<longrightarrow>
       (bit (page' ! offset) b \<longleftrightarrow> (msr, access) \<in> set mas \<or> bit (page ! offset) b))"
  using assms
proof (induction mas arbitrary: page)
  case Nil
  then show ?case by simp
next
  case (Cons ma mas)
  show ?case
  proof (cases "msr_bit (fst ma) (snd ma)")
    case None
    then have "msr_bit msr access = Some ob \<Longrightarrow> (msr, access) \<noteq> ma" for msr access ob by auto
    with None Cons.IH [OF Cons.prems] show ?thesis by auto
  next
    case (Some ob)
    obtain offset b where ob: "ob = (offset, b)" by (cases ob)
    from Some ob have "(case ma of (msr, access) \<Rightarrow> msr_bit msr access) = Some (offset, b)"
      by (simp add: case_prod_beta)
    then obtain page1 where 1: "set_page_bit page offset b = Some page1" "length page1 = 4096"
      "\<And>k' offset' b'. (case k' of (msr, access) \<Rightarrow> msr_bit msr access) = Some (offset', b') \<Longrightarrow>
         bit (page1 ! offset') b' \<longleftrightarrow> k' = ma \<or> bit (page ! offset') b'"
      using msr_slots.set_page_bit_slot [OF _ Cons.prems] by metis
    show ?thesis
      using Cons.IH [OF 1(2)] 1(1) 1(3) [of "(_, _)"] Some ob by auto
  qed
qed

lemma fill_ports_bits:
  assumes "length (fst pages) = 4096" and "length (snd pages) = 4096"
  shows "\<exists>pages'. fill_ports ports pages = Some pages' \<and> length (fst pages') = 4096 \<and>
    length (snd pages') = 4096 \<and>
    (\<forall>port offset b. io_slot BitmapA port = Some (offset, b) \<longrightarrow>
       (bit (fst pages' ! offset) b \<longleftrightarrow> port \<in> set ports \<or> bit (fst pages ! offset) b)) \<and>
    (\<forall>port offset b. io_slot BitmapB port = Some (offset, b) \<longrightarrow>
       (bit (snd pages' ! offset) b \<longleftrightarrow> port \<in> set ports \<or> bit (snd pages ! offset) b))"
  using assms
proof (induction ports arbitrary: pages)
  case Nil
  then show ?case by simp
next
  case (Cons port ports)
  obtain page offset b where io: "io_bit port = (page, offset, b)" by (cases "io_bit port")
  then have slot: "io_slot page port = Some (offset, b)"
    and other: "\<And>p. p \<noteq> page \<Longrightarrow> io_slot p port = None" by (simp_all add: io_slot_def)
  show ?case
  proof (cases page)
    case BitmapA
    obtain a where a: "set_page_bit (fst pages) offset b = Some a" "length a = 4096"
      "\<And>k' offset' b'. io_slot page k' = Some (offset', b') \<Longrightarrow>
         bit (a ! offset') b' \<longleftrightarrow> k' = port \<or> bit (fst pages ! offset') b'"
      using io_slots.set_page_bit_slot [OF slot Cons.prems(1)] by metis
    have "io_slot BitmapB port = None" using other BitmapA by simp
    then show ?thesis
      using Cons.IH [of "(a, snd pages)"] Cons.prems(2) a io BitmapA by auto
  next
    case BitmapB
    obtain a where a: "set_page_bit (snd pages) offset b = Some a" "length a = 4096"
      "\<And>k' offset' b'. io_slot page k' = Some (offset', b') \<Longrightarrow>
         bit (a ! offset') b' \<longleftrightarrow> k' = port \<or> bit (snd pages ! offset') b'"
      using io_slots.set_page_bit_slot [OF slot Cons.prems(2)] by metis
    have "io_slot BitmapA port = None" using other BitmapB by simp
    then show ?thesis
      using Cons.IH [of "(fst pages, a)"] Cons.prems(1) a io BitmapB by auto
  qed
qed

text \<open>The processor looks where \<open>msr_bit\<close> and \<open>io_bit\<close> point.\<close>

lemma cpu_msr_exits_slot:
  "cpu_msr_exits page access msr =
     (case msr_bit msr access of None \<Rightarrow> True | Some (offset, b) \<Rightarrow> bit (page ! offset) b)"
proof -
  have sub: "unat (msr - 0xC0000000) = unat msr - 0xC0000000" if "0xC0000000 \<le> msr"
    using that by (simp add: unat_sub)
  have mod: "unat (w mod 8) = unat w mod 8" for w :: u32 by (simp add: unat_mod)
  have "msr \<le> 0x1FFF \<longleftrightarrow> unat msr < 0x2000" "0xC0000000 \<le> msr \<longleftrightarrow> 0xC0000000 \<le> unat msr"
    "msr \<le> 0xC0001FFF \<longleftrightarrow> unat msr < 0xC0002000"
    by (auto simp: word_le_nat_alt)
  with sub show ?thesis
    by (simp add: cpu_msr_exits_def msr_bit_def Let_def mod ac_simps split: MsrAccess.splits)
qed

lemma cpu_port_bit_slot:
  "cpu_port_bit io_a io_b port =
     (case io_bit port of (page, offset, b) \<Rightarrow>
        bit ((case page of BitmapA \<Rightarrow> io_a | BitmapB \<Rightarrow> io_b) ! offset) b)"
  by (simp add: cpu_port_bit_def io_bit_unfold Let_def)

text \<open>\<open>msr_bit\<close> finds a bit for exactly the two ranges of the bitmap.\<close>

definition msr_in_bitmap :: "u32 \<Rightarrow> bool" where
  "msr_in_bitmap msr \<longleftrightarrow> msr \<le> 0x1FFF \<or> (0xC0000000 \<le> msr \<and> msr \<le> 0xC0001FFF)"

lemma msr_bit_None_iff: "msr_bit msr access = None \<longleftrightarrow> \<not> msr_in_bitmap msr"
  by (auto simp: msr_bit_def msr_in_bitmap_def)

lemma fill_zeroed:
  obtains msr io_a io_b where
    "fill (replicate PAGE_SIZE 0) (replicate PAGE_SIZE 0) (replicate PAGE_SIZE 0) = Some (msr, io_a, io_b)"
    and "\<And>m access. cpu_msr_exits msr access m \<longleftrightarrow> m \<in> set INTERCEPTED_MSRS \<or> \<not> msr_in_bitmap m"
    and "\<And>port. cpu_port_bit io_a io_b port \<longleftrightarrow> port \<in> set INTERCEPTED_PORTS"
proof -
  let ?z = "replicate PAGE_SIZE 0 :: u8 list"
  let ?mas = "[(m, a). m \<leftarrow> INTERCEPTED_MSRS, a \<leftarrow> [Read, Write]]"
  have mem: "(m, a) \<in> set ?mas \<longleftrightarrow> m \<in> set INTERCEPTED_MSRS" for m a
    by (cases a) auto
  have z: "length ?z = 4096" by (simp add: const_defs)
  obtain msr where m: "fill_msrs ?mas ?z = Some msr"
    "\<And>m access offset b. msr_bit m access = Some (offset, b) \<Longrightarrow>
       bit (msr ! offset) b \<longleftrightarrow> (m, access) \<in> set ?mas \<or> bit (?z ! offset) b"
    using fill_msrs_bits [OF z, of ?mas] by blast
  obtain io_a io_b where p: "fill_ports INTERCEPTED_PORTS (?z, ?z) = Some (io_a, io_b)"
    "\<And>port offset b. io_slot BitmapA port = Some (offset, b) \<Longrightarrow>
       bit (io_a ! offset) b \<longleftrightarrow> port \<in> set INTERCEPTED_PORTS \<or> bit (?z ! offset) b"
    "\<And>port offset b. io_slot BitmapB port = Some (offset, b) \<Longrightarrow>
       bit (io_b ! offset) b \<longleftrightarrow> port \<in> set INTERCEPTED_PORTS \<or> bit (?z ! offset) b"
    using fill_ports_bits [of "(?z, ?z)" INTERCEPTED_PORTS] z by auto
  have zero: "offset < 4096 \<Longrightarrow> \<not> bit (?z ! offset) b" for offset b by (simp add: const_defs)
  have "cpu_msr_exits msr access k \<longleftrightarrow> k \<in> set INTERCEPTED_MSRS \<or> \<not> msr_in_bitmap k" for access k
  proof (cases "msr_bit k access")
    case None
    then show ?thesis using msr_bit_None_iff [of k access] by (simp add: cpu_msr_exits_slot)
  next
    case (Some ob)
    then obtain offset b where ob: "msr_bit k access = Some (offset, b)" by (cases ob) auto
    then have "offset < 4096" using msr_slots.slot_bounds [of "(k, access)"] by simp
    moreover have "msr_in_bitmap k" using ob msr_bit_None_iff [of k access] by simp
    ultimately show ?thesis using ob m(2) [OF ob] zero mem by (simp add: cpu_msr_exits_slot)
  qed
  moreover have "cpu_port_bit io_a io_b port \<longleftrightarrow> port \<in> set INTERCEPTED_PORTS" for port
  proof -
    obtain page offset b where io: "io_bit port = (page, offset, b)" by (cases "io_bit port")
    then have "io_slot page port = Some (offset, b)" by (simp add: io_slot_def)
    moreover from this have "offset < 4096" by (simp add: io_slot_bounds)
    ultimately show ?thesis using p(2,3) zero io
      by (cases page) (auto simp: cpu_port_bit_slot)
  qed
  ultimately show thesis using m(1) p(1) by (intro that) (auto simp: fill_def)
qed

text \<open>The compile-time assertions of the module.\<close>

lemma intercepted_msrs_ok:
  "set INTERCEPTED_MSRS \<inter> set VMCS_HELD_MSRS = {}" "list_all msr_in_bitmap INTERCEPTED_MSRS"
  by (simp_all add: INTERCEPTED_MSRS_def VMCS_HELD_MSRS_def const_defs msr_in_bitmap_def)

text \<open>When each port's bit says whether the port is in a list, so does the access of several ports.\<close>

lemma cpu_io_exits_ports:
  assumes "\<And>port. cpu_port_bit io_a io_b port \<longleftrightarrow> port \<in> set ports"
  shows "cpu_io_exits io_a io_b port n \<longleftrightarrow> 2 ^ 16 < unat port + n \<or>
    (\<exists>q. q \<in> set ports \<and> unat port \<le> unat q \<and> unat q < unat port + n)"
proof (cases "2 ^ 16 < unat port + n")
  case False
  have "list_ex (\<lambda>k. (of_nat k :: u16) \<in> set ports) [unat port..<unat port + n] \<longleftrightarrow>
      (\<exists>q. q \<in> set ports \<and> unat port \<le> unat q \<and> unat q < unat port + n)"
  proof
    assume "list_ex (\<lambda>k. (of_nat k :: u16) \<in> set ports) [unat port..<unat port + n]"
    then obtain k where k: "unat port \<le> k" "k < unat port + n" "(of_nat k :: u16) \<in> set ports" by (auto simp: list_ex_iff)
    then have "unat (of_nat k :: u16) = k" using False by (simp add: unat_of_nat)
    then show "\<exists>q. q \<in> set ports \<and> unat port \<le> unat q \<and> unat q < unat port + n" using k by (intro exI [of _ "of_nat k"]) simp
  qed (force simp: list_ex_iff)
  then show ?thesis using False by (simp add: cpu_io_exits_def assms)
qed (simp add: cpu_io_exits_def)

section \<open>Correctness properties\<close>

text \<open>
  C19. On zeroed pages \<open>fill\<close> succeeds, and with the pages it leaves the processor exits on exactly the
  intended instructions: RDMSR and WRMSR of an intercepted MSR or of one outside both bitmap ranges, and a port access
  that wraps past port 0xFFFF or one of whose ports is an intercepted one.
\<close>

theorem bitmaps_exact:
  "\<exists>msr io_a io_b. fill (replicate PAGE_SIZE 0) (replicate PAGE_SIZE 0) (replicate PAGE_SIZE 0) = Some (msr, io_a, io_b) \<and>
     (\<forall>m access. cpu_msr_exits msr access m \<longleftrightarrow> m \<in> set INTERCEPTED_MSRS \<union> - {k. msr_in_bitmap k}) \<and>
     (\<forall>port n. cpu_io_exits io_a io_b port n \<longleftrightarrow> 2 ^ 16 < unat port + n \<or>
        (\<exists>q. q \<in> set INTERCEPTED_PORTS \<and> unat port \<le> unat q \<and> unat q < unat port + n))"
proof -
  obtain msr io_a io_b where f:
    "fill (replicate PAGE_SIZE 0) (replicate PAGE_SIZE 0) (replicate PAGE_SIZE 0) = Some (msr, io_a, io_b)"
    "\<And>m access. cpu_msr_exits msr access m \<longleftrightarrow> m \<in> set INTERCEPTED_MSRS \<or> \<not> msr_in_bitmap m"
    "\<And>port. cpu_port_bit io_a io_b port \<longleftrightarrow> port \<in> set INTERCEPTED_PORTS"
    by (rule fill_zeroed) blast
  from f(1,2) cpu_io_exits_ports [OF f(3)] show ?thesis by auto
qed

end
