(* ===== verification/Exit_Decision.thy ===== *)
theory Exit_Decision
  imports Exit_Bitmaps
begin

text \<open>
  The pure decisions of the VM-exit handler (\<open>vmx/exit_decision/{mod,emulation,scenario}.rs\<close>):
  what an exit is, given the state kept between exits, and what the handler does about it. The
  newtypes \<open>InterruptionInfo\<close>, \<open>EptQualification\<close> and \<open>IoQualification\<close> are their integers.
  The counters are \<open>u32\<close> and wrap as in the release profile; \<open>Exit_Run\<close> shows that a counter is the
  number of its events, so it cannot wrap in a run of fewer than \<open>2 ^ 32\<close> exits, and
  \<open>Debug_Build\<close> has the decision of the debug profile, which panics instead.
\<close>

section \<open>Exit reasons\<close>

record ExitReason =
  er_basic :: u16
  er_entry_failure :: bool

definition from_raw :: "u32 \<Rightarrow> ExitReason" where
  "from_raw raw = \<lparr>er_basic = ucast raw, er_entry_failure = raw AND push_bit 31 1 \<noteq> 0\<rparr>"

definition UNREADABLE_REASON :: u16 where
  [const_defs]: "UNREADABLE_REASON = 0xFFFF"

definition EXIT_REASON_EXCEPTION_OR_NMI :: u16 where
  [const_defs]: "EXIT_REASON_EXCEPTION_OR_NMI = 0"

definition EXIT_REASON_NMI_WINDOW :: u16 where
  [const_defs]: "EXIT_REASON_NMI_WINDOW = 8"

definition EXIT_REASON_CPUID :: u16 where
  [const_defs]: "EXIT_REASON_CPUID = 10"

definition EXIT_REASON_VMCALL :: u16 where
  [const_defs]: "EXIT_REASON_VMCALL = 18"

definition EXIT_REASON_IO_INSTRUCTION :: u16 where
  [const_defs]: "EXIT_REASON_IO_INSTRUCTION = 30"

definition EXIT_REASON_RDMSR :: u16 where
  [const_defs]: "EXIT_REASON_RDMSR = 31"

definition EXIT_REASON_WRMSR :: u16 where
  [const_defs]: "EXIT_REASON_WRMSR = 32"

definition EXIT_REASON_EPT_VIOLATION :: u16 where
  [const_defs]: "EXIT_REASON_EPT_VIOLATION = 48"

definition EXIT_REASON_EPT_MISCONFIG :: u16 where
  [const_defs]: "EXIT_REASON_EPT_MISCONFIG = 49"

definition exit_reason_name :: "u16 \<Rightarrow> string" where
  "exit_reason_name n =
     (if n = 0 then ''exception or NMI''
      else if n = 1 then ''external interrupt''
      else if n = 2 then ''triple fault''
      else if n = 3 then ''INIT signal''
      else if n = 7 then ''interrupt window''
      else if n = 8 then ''NMI window''
      else if n = 9 then ''task switch''
      else if n = 10 then ''CPUID''
      else if n = 12 then ''HLT''
      else if n = 18 then ''VMCALL''
      else if n = 28 then ''control-register access''
      else if n = 30 then ''I/O instruction''
      else if n = 31 then ''RDMSR''
      else if n = 32 then ''WRMSR''
      else if n = 33 then ''VM-entry failure: invalid guest state''
      else if n = 34 then ''VM-entry failure: MSR loading''
      else if n = 41 then ''VM-entry failure: machine-check event''
      else if n = 48 then ''EPT violation''
      else if n = 49 then ''EPT misconfiguration''
      else if n = UNREADABLE_REASON then ''VM_EXIT_REASON unreadable''
      else ''unnamed exit reason'')"

section \<open>Exit qualification of an EPT violation\<close>

type_synonym EptQualification = u64

definition EPT_ACCESS_READ :: u64 where
  [const_defs]: "EPT_ACCESS_READ = push_bit 0 1"

definition EPT_ACCESS_WRITE :: u64 where
  [const_defs]: "EPT_ACCESS_WRITE = push_bit 1 1"

definition EPT_ACCESS_FETCH :: u64 where
  [const_defs]: "EPT_ACCESS_FETCH = push_bit 2 1"

definition EPT_PAGE_READABLE :: u64 where
  [const_defs]: "EPT_PAGE_READABLE = push_bit 3 1"

definition EPT_PAGE_WRITABLE :: u64 where
  [const_defs]: "EPT_PAGE_WRITABLE = push_bit 4 1"

definition EPT_PAGE_EXECUTABLE :: u64 where
  [const_defs]: "EPT_PAGE_EXECUTABLE = push_bit 5 1"

definition EPT_LINEAR_VALID :: u64 where
  [const_defs]: "EPT_LINEAR_VALID = push_bit 7 1"

definition EPT_TRANSLATED_ACCESS :: u64 where
  [const_defs]: "EPT_TRANSLATED_ACCESS = push_bit 8 1"

definition EPT_NMI_UNBLOCKING_IRET :: u64 where
  [const_defs]: "EPT_NMI_UNBLOCKING_IRET = push_bit 12 1"

definition is_write :: "EptQualification \<Rightarrow> bool" where
  "is_write q \<longleftrightarrow> q AND EPT_ACCESS_WRITE \<noteq> 0"

definition access_name :: "EptQualification \<Rightarrow> string" where
  "access_name q =
     (if is_write q then ''write''
      else if q AND EPT_ACCESS_FETCH \<noteq> 0 then ''instruction fetch''
      else if q AND EPT_ACCESS_READ \<noteq> 0 then ''read''
      else ''no access bit set'')"

definition permissions :: "EptQualification \<Rightarrow> u8 \<times> u8 \<times> u8" where
  "permissions q =
     (of_bool (q AND EPT_PAGE_READABLE \<noteq> 0),
      of_bool (q AND EPT_PAGE_WRITABLE \<noteq> 0),
      of_bool (q AND EPT_PAGE_EXECUTABLE \<noteq> 0))"

definition linear_valid :: "EptQualification \<Rightarrow> bool" where
  "linear_valid q \<longleftrightarrow> q AND EPT_LINEAR_VALID \<noteq> 0"

definition is_protected_write :: "EptQualification \<Rightarrow> bool" where
  "is_protected_write q =
     (let required = EPT_ACCESS_WRITE OR EPT_PAGE_READABLE OR EPT_LINEAR_VALID OR EPT_TRANSLATED_ACCESS;
          refused = EPT_PAGE_WRITABLE OR EPT_NMI_UNBLOCKING_IRET
      in q AND required = required \<and> q AND refused = 0)"

section \<open>Interruption information\<close>

type_synonym InterruptionInfo = u32

definition NMI_VECTOR :: u8 where
  [const_defs]: "NMI_VECTOR = 2"

definition VALID :: u32 where
  [const_defs]: "VALID = push_bit 31 1"

definition TYPE_NMI :: u32 where
  [const_defs]: "TYPE_NMI = 2"

definition TYPE_HARDWARE_EXCEPTION :: u32 where
  [const_defs]: "TYPE_HARDWARE_EXCEPTION = 3"

definition DELIVER_ERROR_CODE :: u32 where
  [const_defs]: "DELIVER_ERROR_CODE = push_bit 11 1"

definition GP_VECTOR :: u32 where
  [const_defs]: "GP_VECTOR = 13"

definition INFO_NMI :: InterruptionInfo where
  [const_defs]: "INFO_NMI = VALID OR push_bit 8 TYPE_NMI OR ucast NMI_VECTOR"

definition INFO_GENERAL_PROTECTION :: InterruptionInfo where
  [const_defs]: "INFO_GENERAL_PROTECTION =
     VALID OR push_bit 8 TYPE_HARDWARE_EXCEPTION OR DELIVER_ERROR_CODE OR GP_VECTOR"

definition is_valid :: "InterruptionInfo \<Rightarrow> bool" where
  "is_valid info \<longleftrightarrow> info AND VALID \<noteq> 0"

definition vector :: "InterruptionInfo \<Rightarrow> u8 option" where
  "vector info = (if is_valid info then Some (ucast info) else None)"

definition is_nmi :: "InterruptionInfo \<Rightarrow> bool" where
  "is_nmi info \<longleftrightarrow> is_valid info \<and> drop_bit 8 info AND 7 = TYPE_NMI \<and> vector info = Some NMI_VECTOR"

section \<open>What an exit is\<close>

record ExitInfo =
  ei_reason :: ExitReason
  ei_interruption_info :: InterruptionInfo
  ei_guest_rax :: u64
  ei_guest_rcx :: u64
  ei_guest_rdx :: u64
  ei_interruptibility :: u32
  ei_idt_vectoring_valid :: bool
  ei_qualification :: u64
  ei_guest_physical :: u64
  ei_protected_page :: u64

record EmulationCounts =
  n_cpuid :: u32
  n_rdmsr :: u32
  n_wrmsr :: u32
  n_io_in :: u32
  n_io_out :: u32

record ExitState =
  main_vmcalls :: u32
  nmi_pending :: bool
  nmis_injected :: u32
  nmis_handled :: u32
  ept_writes_granted :: u32
  emulated :: EmulationCounts

definition default_ExitState :: ExitState where
  "default_ExitState = \<lparr>main_vmcalls = 0, nmi_pending = False, nmis_injected = 0, nmis_handled = 0,
     ept_writes_granted = 0,
     emulated = \<lparr>n_cpuid = 0, n_rdmsr = 0, n_wrmsr = 0, n_io_in = 0, n_io_out = 0\<rparr>\<rparr>"

datatype IoSize = Byte | Word | Dword

datatype Emulation =
    Cpuid u32 u32
  | Rdmsr u32
  | Wrmsr u32 u64
  | In u16 IoSize
  | Out u16 IoSize u32

datatype ExitEvent =
    MainVmcall
  | LastMainVmcall
  | GuestNmiHandler
  | NmiInjected
  | NmiDeferred
  | NmiWindowInjected
  | InterruptedDelivery
  | EptWriteGranted
  | EptWriteMissing
  | DataPageMismatch
  | Emulated Emulation
  | GuestGeneralProtection
  | EmulationMissing
  | Unexpected

record ResumePlan =
  advance_rip :: bool
  inject_nmi :: bool
  plan_nmi_window :: "bool option"
  plan_grant_write :: bool
  emulate :: "Emulation option"
  inject_gp :: bool

definition PAST_INSTRUCTION :: ResumePlan where
  "PAST_INSTRUCTION = \<lparr>advance_rip = True, inject_nmi = False, plan_nmi_window = None,
     plan_grant_write = False, emulate = None, inject_gp = False\<rparr>"

definition INJECT_NMI :: ResumePlan where
  "INJECT_NMI = \<lparr>advance_rip = False, inject_nmi = True, plan_nmi_window = Some False,
     plan_grant_write = False, emulate = None, inject_gp = False\<rparr>"

definition WAIT_FOR_NMI_WINDOW :: ResumePlan where
  "WAIT_FOR_NMI_WINDOW = \<lparr>advance_rip = False, inject_nmi = False, plan_nmi_window = Some True,
     plan_grant_write = False, emulate = None, inject_gp = False\<rparr>"

definition RETRY_AFTER_GRANT :: ResumePlan where
  "RETRY_AFTER_GRANT = \<lparr>advance_rip = False, inject_nmi = False, plan_nmi_window = None,
     plan_grant_write = True, emulate = None, inject_gp = False\<rparr>"

definition INJECT_GP :: ResumePlan where
  "INJECT_GP = \<lparr>advance_rip = False, inject_nmi = False, plan_nmi_window = None,
     plan_grant_write = False, emulate = None, inject_gp = True\<rparr>"

lemmas plan_defs = PAST_INSTRUCTION_def INJECT_NMI_def WAIT_FOR_NMI_WINDOW_def RETRY_AFTER_GRANT_def
  INJECT_GP_def

datatype ExitAction = Resume ResumePlan | Finished | UnexpectedStop

fun event_action :: "ExitEvent \<Rightarrow> ExitAction" where
  "event_action MainVmcall = Resume PAST_INSTRUCTION"
| "event_action GuestNmiHandler = Resume PAST_INSTRUCTION"
| "event_action NmiInjected = Resume INJECT_NMI"
| "event_action NmiWindowInjected = Resume INJECT_NMI"
| "event_action NmiDeferred = Resume WAIT_FOR_NMI_WINDOW"
| "event_action EptWriteGranted = Resume RETRY_AFTER_GRANT"
| "event_action (Emulated emulation) = Resume (PAST_INSTRUCTION\<lparr>emulate := Some emulation\<rparr>)"
| "event_action GuestGeneralProtection = Resume INJECT_GP"
| "event_action LastMainVmcall = Finished"
| "event_action InterruptedDelivery = UnexpectedStop"
| "event_action EptWriteMissing = UnexpectedStop"
| "event_action DataPageMismatch = UnexpectedStop"
| "event_action EmulationMissing = UnexpectedStop"
| "event_action Unexpected = UnexpectedStop"

section \<open>Emulated instructions (emulation.rs)\<close>

definition CPUID_1_ECX_VMX :: u32 where
  [const_defs]: "CPUID_1_ECX_VMX = push_bit 5 1"

definition cpuid_policy :: "u32 \<Rightarrow> cpuid_result \<Rightarrow> cpuid_result" where
  "cpuid_policy leaf raw = (if leaf = 1 then raw\<lparr>ecx := ecx raw AND NOT CPUID_1_ECX_VMX\<rparr> else raw)"

definition counted :: "ExitState \<Rightarrow> (EmulationCounts \<Rightarrow> EmulationCounts) \<Rightarrow> ExitState" where
  "counted state count = state\<lparr>emulated := count (emulated state)\<rparr>"

definition cpuid :: "ExitState \<Rightarrow> ExitInfo \<Rightarrow> ExitEvent \<times> ExitState" where
  "cpuid state exit =
     (Emulated (Cpuid (ucast (ei_guest_rax exit)) (ucast (ei_guest_rcx exit))),
      counted state (\<lambda>counts. counts\<lparr>n_cpuid := n_cpuid counts + 1\<rparr>))"

text \<open>\<open>((value as i64) << 16 >> 16) as u64 == value\<close>; the right shift of an \<open>i64\<close> is arithmetic.\<close>

definition is_canonical_48 :: "u64 \<Rightarrow> bool" where
  "is_canonical_48 value \<longleftrightarrow> signed_drop_bit 16 (push_bit 16 value) = value"

datatype MsrRoute = Intercepted | OutOfRange | NotIntercepted

definition route :: "u32 \<Rightarrow> MsrRoute" where
  "route msr =
     (if msr_bit msr Read = None then OutOfRange
      else if msr \<in> set INTERCEPTED_MSRS then Intercepted
      else NotIntercepted)"

definition rdmsr_exit :: "ExitState \<Rightarrow> ExitInfo \<Rightarrow> ExitEvent \<times> ExitState" where
  "rdmsr_exit state exit =
     (let msr = ucast (ei_guest_rcx exit)
      in case route msr of
           Intercepted \<Rightarrow> (Emulated (Rdmsr msr),
             counted state (\<lambda>counts. counts\<lparr>n_rdmsr := n_rdmsr counts + 1\<rparr>))
         | OutOfRange \<Rightarrow> (GuestGeneralProtection, state)
         | NotIntercepted \<Rightarrow> (Unexpected, state))"

definition wrmsr_exit :: "ExitState \<Rightarrow> ExitInfo \<Rightarrow> ExitEvent \<times> ExitState" where
  "wrmsr_exit state exit =
     (let msr = ucast (ei_guest_rcx exit);
          value = push_bit 32 (ei_guest_rdx exit) OR (ei_guest_rax exit AND 0xFFFFFFFF)
      in case route msr of
           Intercepted \<Rightarrow>
             if \<not> is_canonical_48 value then (GuestGeneralProtection, state)
             else (Emulated (Wrmsr msr value),
               counted state (\<lambda>counts. counts\<lparr>n_wrmsr := n_wrmsr counts + 1\<rparr>))
         | OutOfRange \<Rightarrow> (GuestGeneralProtection, state)
         | NotIntercepted \<Rightarrow> (Unexpected, state))"

fun size_bytes :: "IoSize \<Rightarrow> u8" where
  "size_bytes Byte = 1"
| "size_bytes Word = 2"
| "size_bytes Dword = 4"

fun size_mask :: "IoSize \<Rightarrow> u64" where
  "size_mask Byte = 0xFF"
| "size_mask Word = 0xFFFF"
| "size_mask Dword = 0xFFFFFFFF"

type_synonym IoQualification = u64

definition io_size :: "IoQualification \<Rightarrow> IoSize option" where
  "io_size q =
     (if q AND 7 = 0 then Some Byte
      else if q AND 7 = 1 then Some Word
      else if q AND 7 = 3 then Some Dword
      else None)"

definition is_in :: "IoQualification \<Rightarrow> bool" where
  "is_in q \<longleftrightarrow> q AND push_bit 3 1 \<noteq> 0"

definition is_string :: "IoQualification \<Rightarrow> bool" where
  "is_string q \<longleftrightarrow> q AND push_bit 4 1 \<noteq> 0"

definition is_rep :: "IoQualification \<Rightarrow> bool" where
  "is_rep q \<longleftrightarrow> q AND push_bit 5 1 \<noteq> 0"

definition io_port :: "IoQualification \<Rightarrow> u16" where
  "io_port q = ucast (drop_bit 16 q)"

definition merge_in :: "u64 \<Rightarrow> IoSize \<Rightarrow> u32 \<Rightarrow> u64" where
  "merge_in rax sz value =
     (case sz of
        Dword \<Rightarrow> ucast value
      | _ \<Rightarrow> (rax AND NOT (size_mask sz)) OR (ucast value AND size_mask sz))"

definition out_value :: "u64 \<Rightarrow> IoSize \<Rightarrow> u32" where
  "out_value rax sz = ucast (rax AND size_mask sz)"

definition io :: "ExitState \<Rightarrow> ExitInfo \<Rightarrow> ExitEvent \<times> ExitState" where
  "io state exit =
     (let q = ei_qualification exit
      in case io_size q of
           None \<Rightarrow> (Unexpected, state)
         | Some sz \<Rightarrow>
             if is_string q \<or> is_rep q then (Unexpected, state)
             else let port = io_port q
                  in if is_in q
                     then (Emulated (In port sz),
                           counted state (\<lambda>counts. counts\<lparr>n_io_in := n_io_in counts + 1\<rparr>))
                     else (Emulated (Out port sz (out_value (ei_guest_rax exit) sz)),
                           counted state (\<lambda>counts. counts\<lparr>n_io_out := n_io_out counts + 1\<rparr>)))"

section \<open>The test guest's own exits (scenario.rs)\<close>

definition EXPECTED_EMULATION :: EmulationCounts where
  "EXPECTED_EMULATION = \<lparr>n_cpuid = 1, n_rdmsr = 2, n_wrmsr = 2, n_io_in = 2, n_io_out = 2\<rparr>"

definition PLANNED_MAIN_VMCALLS :: u32 where
  [const_defs]: "PLANNED_MAIN_VMCALLS = 2"

definition BLOCKING_BY_STI :: u32 where
  [const_defs]: "BLOCKING_BY_STI = push_bit 0 1"

definition BLOCKING_BY_MOV_SS :: u32 where
  [const_defs]: "BLOCKING_BY_MOV_SS = push_bit 1 1"

definition BLOCKING_BY_NMI :: u32 where
  [const_defs]: "BLOCKING_BY_NMI = push_bit 3 1"

definition NMI_INJECTION_BLOCKED :: u32 where
  [const_defs]: "NMI_INJECTION_BLOCKED = BLOCKING_BY_STI OR BLOCKING_BY_MOV_SS OR BLOCKING_BY_NMI"

definition data_page_read_back :: "ExitInfo \<Rightarrow> bool" where
  "data_page_read_back exit \<longleftrightarrow>
     ucast (ei_guest_rcx exit) = GUEST_DATA_SEED \<and> ucast (ei_guest_rdx exit) = GUEST_EPT_VALUE"

definition expected_main_rax :: "ExitState \<Rightarrow> u64" where
  "expected_main_rax state = ucast GUEST_MARKER + ucast (main_vmcalls state)"

definition injected :: "ExitState \<Rightarrow> ExitState" where
  "injected state = state\<lparr>nmi_pending := False, nmis_injected := nmis_injected state + 1\<rparr>"

definition exception_or_nmi :: "ExitState \<Rightarrow> ExitInfo \<Rightarrow> ExitEvent \<times> ExitState" where
  "exception_or_nmi state exit =
     (if \<not> is_nmi (ei_interruption_info exit) then (Unexpected, state)
      else if ei_interruptibility exit AND NMI_INJECTION_BLOCKED = 0 then (NmiInjected, injected state)
      else (NmiDeferred, state\<lparr>nmi_pending := True\<rparr>))"

definition nmi_window :: "ExitState \<Rightarrow> ExitInfo \<Rightarrow> ExitEvent \<times> ExitState" where
  "nmi_window state exit =
     (if \<not> nmi_pending state then (Unexpected, state)
      else if ei_interruptibility exit AND NMI_INJECTION_BLOCKED \<noteq> 0 then (NmiDeferred, state)
      else (NmiWindowInjected, injected state))"

definition ept_violation :: "ExitState \<Rightarrow> ExitInfo \<Rightarrow> ExitEvent \<times> ExitState" where
  "ept_violation state exit =
     (let protected_write = ei_protected_page exit \<noteq> 0
            \<and> ei_guest_physical exit AND NOT 0xFFF = ei_protected_page exit
            \<and> is_protected_write (ei_qualification exit)
      in if protected_write \<and> ept_writes_granted state = 0
         then (EptWriteGranted, state\<lparr>ept_writes_granted := 1\<rparr>)
         else (Unexpected, state))"

definition vmcall :: "ExitState \<Rightarrow> ExitInfo \<Rightarrow> ExitEvent \<times> ExitState" where
  "vmcall state exit =
     (if ei_guest_rax exit = ucast GUEST_NMI_MARKER
      then (GuestNmiHandler, state\<lparr>nmis_handled := nmis_handled state + 1\<rparr>)
      else if ei_guest_rax exit \<noteq> expected_main_rax state then (Unexpected, state)
      else if ept_writes_granted state = 0 then (EptWriteMissing, state)
      else if main_vmcalls state = 0 \<and> \<not> data_page_read_back exit then (DataPageMismatch, state)
      else let next = state\<lparr>main_vmcalls := main_vmcalls state + 1\<rparr>
           in if main_vmcalls next < PLANNED_MAIN_VMCALLS then (MainVmcall, next)
              else if emulated state \<noteq> EXPECTED_EMULATION then (EmulationMissing, state)
              else (LastMainVmcall, next))"

section \<open>The decision\<close>

definition decide :: "ExitState \<Rightarrow> ExitInfo \<Rightarrow> ExitEvent \<times> ExitState" where
  "decide state exit =
     (let basic = er_basic (ei_reason exit)
      in if er_entry_failure (ei_reason exit) then (Unexpected, state)
         else if ei_idt_vectoring_valid exit then (InterruptedDelivery, state)
         else if basic = EXIT_REASON_CPUID then cpuid state exit
         else if basic = EXIT_REASON_RDMSR then rdmsr_exit state exit
         else if basic = EXIT_REASON_WRMSR then wrmsr_exit state exit
         else if basic = EXIT_REASON_IO_INSTRUCTION then io state exit
         else if basic = EXIT_REASON_EXCEPTION_OR_NMI then exception_or_nmi state exit
         else if basic = EXIT_REASON_NMI_WINDOW then nmi_window state exit
         else if basic = EXIT_REASON_EPT_VIOLATION then ept_violation state exit
         else if basic = EXIT_REASON_VMCALL then vmcall state exit
         else (Unexpected, state))"

end
