(* ===== verification/Ept.thy ===== *)
theory Ept
  imports Msr
begin

text \<open>
  Extended page tables (\<open>vmx/ept.rs\<close>): the capability check, table entries, the extent of the
  identity map, filling the tables, building them in memory, and the one page the exit handler
  makes writable later. A slice of entries is a list, and writing outside it is the panic of the
  source. The statics the builder publishes for the exit handler are the record \<open>EptStatics\<close>;
  the state of an action here is the machine paired with them.
\<close>

section \<open>Constants and errors\<close>

definition EPT_READ :: u64 where
  [const_defs]: "EPT_READ = push_bit 0 1"

definition EPT_WRITE :: u64 where
  [const_defs]: "EPT_WRITE = push_bit 1 1"

definition EPT_EXECUTE :: u64 where
  [const_defs]: "EPT_EXECUTE = push_bit 2 1"

definition EPT_RWX :: u64 where
  [const_defs]: "EPT_RWX = EPT_READ OR EPT_WRITE OR EPT_EXECUTE"

definition MEMORY_TYPE_WB :: u64 where
  [const_defs]: "MEMORY_TYPE_WB = 6"

definition MEMORY_TYPE_SHIFT :: nat where
  [const_defs]: "MEMORY_TYPE_SHIFT = 3"

definition LARGE_PAGE :: u64 where
  [const_defs]: "LARGE_PAGE = push_bit 7 1"

definition ADDRESS_MASK :: u64 where
  [const_defs]: "ADDRESS_MASK = 0x000FFFFFFFFFF000"

definition EPTP_WALK_LENGTH_4 :: u64 where
  [const_defs]: "EPTP_WALK_LENGTH_4 = push_bit 3 3"

definition ENTRIES :: nat where
  [const_defs]: "ENTRIES = 512"

definition SIZE_2M :: u64 where
  [const_defs]: "SIZE_2M = push_bit 21 1"

definition SIZE_1G :: u64 where
  [const_defs]: "SIZE_1G = push_bit 30 1"

definition MAX_IDENTITY_MAP :: u64 where
  [const_defs]: "MAX_IDENTITY_MAP = of_nat ENTRIES * SIZE_1G"

definition CAP_WALK_LENGTH_4 :: u64 where
  [const_defs]: "CAP_WALK_LENGTH_4 = push_bit 6 1"

definition CAP_WRITE_BACK :: u64 where
  [const_defs]: "CAP_WRITE_BACK = push_bit 14 1"

definition CAP_2M_PAGES :: u64 where
  [const_defs]: "CAP_2M_PAGES = push_bit 16 1"

definition CAP_INVEPT :: u64 where
  [const_defs]: "CAP_INVEPT = push_bit 20 1"

definition CAP_INVEPT_SINGLE_CONTEXT :: u64 where
  [const_defs]: "CAP_INVEPT_SINGLE_CONTEXT = push_bit 25 1"

definition CAP_INVEPT_ALL_CONTEXT :: u64 where
  [const_defs]: "CAP_INVEPT_ALL_CONTEXT = push_bit 26 1"

datatype InveptType = SingleContext | AllContext

fun invept_operand :: "InveptType \<Rightarrow> nat" where
  "invept_operand SingleContext = 1"
| "invept_operand AllContext = 2"

fun invept_name :: "InveptType \<Rightarrow> string" where
  "invept_name SingleContext = ''single-context''"
| "invept_name AllContext = ''all-context''"

datatype EptError =
    EptUnsupported
  | PageWalkLength4Unsupported
  | WriteBackUnsupported
  | LargePagesUnsupported
  | InveptUnsupported
  | MemoryMapUnavailable
  | EmptyMemoryMap
  | RangeTooLarge u64
  | ProtectedPageOutsideMap
  | EptAllocationFailed
  | AlreadyBuilt

definition check_support :: "ControlCapability \<Rightarrow> u64 \<Rightarrow> (EptError, InveptType) result" where
  "check_support sec ept_vpid =
     (if \<not> allows sec SECONDARY_ENABLE_EPT then Err EptUnsupported
      else if ept_vpid AND CAP_WALK_LENGTH_4 = 0 then Err PageWalkLength4Unsupported
      else if ept_vpid AND CAP_WRITE_BACK = 0 then Err WriteBackUnsupported
      else if ept_vpid AND CAP_2M_PAGES = 0 then Err LargePagesUnsupported
      else if ept_vpid AND CAP_INVEPT = 0 then Err InveptUnsupported
      else if ept_vpid AND CAP_INVEPT_SINGLE_CONTEXT \<noteq> 0 then Ok SingleContext
      else if ept_vpid AND CAP_INVEPT_ALL_CONTEXT \<noteq> 0 then Ok AllContext
      else Err InveptUnsupported)"

section \<open>Levels and entries\<close>

datatype Level = Pml4 | Pdpt | Pd | Pt

fun level_name :: "Level \<Rightarrow> string" where
  "level_name Pml4 = ''PML4''"
| "level_name Pdpt = ''PDPT''"
| "level_name Pd = ''PD''"
| "level_name Pt = ''PT''"

fun level_shift :: "Level \<Rightarrow> nat" where
  "level_shift Pml4 = 39"
| "level_shift Pdpt = 30"
| "level_shift Pd = 21"
| "level_shift Pt = 12"

definition level_index :: "Level \<Rightarrow> u64 \<Rightarrow> nat" where
  "level_index l address = unat (drop_bit (level_shift l) address AND 0x1FF)"

type_synonym EptEntry = u64

definition EMPTY :: EptEntry where
  "EMPTY = 0"

definition entry_table :: "u64 \<Rightarrow> EptEntry" where
  "entry_table address = (address AND ADDRESS_MASK) OR EPT_RWX"

definition entry_large_page :: "u64 \<Rightarrow> EptEntry" where
  "entry_large_page address =
     (address AND ADDRESS_MASK) OR EPT_RWX OR push_bit MEMORY_TYPE_SHIFT MEMORY_TYPE_WB OR LARGE_PAGE"

definition with_access :: "EptEntry \<Rightarrow> u64 \<Rightarrow> EptEntry" where
  "with_access entry access = (entry AND NOT EPT_RWX) OR (access AND EPT_RWX)"

definition entry_page :: "u64 \<Rightarrow> u64 \<Rightarrow> EptEntry" where
  "entry_page address access =
     with_access ((address AND ADDRESS_MASK) OR push_bit MEMORY_TYPE_SHIFT MEMORY_TYPE_WB) access"

type_synonym Eptp = u64

definition eptp_new :: "u64 \<Rightarrow> Eptp" where
  "eptp_new pml4 = (pml4 AND ADDRESS_MASK) OR MEMORY_TYPE_WB OR EPTP_WALK_LENGTH_4"

section \<open>The extent of the identity map\<close>

primrec highest_end :: "(u64 \<times> u64) list \<Rightarrow> u64 \<Rightarrow> (EptError, u64) result" where
  "highest_end [] highest = Ok highest"
| "highest_end (region # regions) highest =
     (case Option.bind (checked_mul (snd region) (of_nat PAGE_SIZE)) (\<lambda>sz. checked_add (fst region) sz) of
        None \<Rightarrow> Err (RangeTooLarge U64_MAX)
      | Some end' \<Rightarrow> highest_end regions (max highest end'))"

definition identity_map_end :: "(u64 \<times> u64) list \<Rightarrow> (EptError, u64) result" where
  "identity_map_end regions =
     (case highest_end regions 0 of
        Ok highest \<Rightarrow>
          if highest = 0 then Err EmptyMemoryMap
          else (case checked_add highest (SIZE_1G - 1) of
                  None \<Rightarrow> Err (RangeTooLarge highest)
                | Some end' \<Rightarrow>
                    let rounded = end' AND NOT (SIZE_1G - 1)
                    in if rounded > MAX_IDENTITY_MAP then Err (RangeTooLarge highest) else Ok rounded)
      | Err e \<Rightarrow> Err e
      | Panic \<Rightarrow> Panic)"

section \<open>Filling the tables\<close>

record Tables =
  t_pml4 :: "EptEntry list"
  t_pdpt :: "EptEntry list"
  t_pds :: "EptEntry list"
  t_pt :: "EptEntry list"
  t_pdpt_address :: u64
  t_pds_address :: u64
  t_pt_address :: u64

text \<open>\<open>slice[i] = v\<close>; \<open>None\<close> is the panic of an index outside the slice.\<close>

definition set_at :: "'a list \<Rightarrow> nat \<Rightarrow> 'a \<Rightarrow> 'a list option" where
  "set_at xs i v = (if i < length xs then Some (xs[i := v]) else None)"

fun fill_pdpt :: "nat list \<Rightarrow> u64 \<Rightarrow> EptEntry list \<Rightarrow> EptEntry list option" where
  "fill_pdpt [] pds_address pdpt = Some pdpt"
| "fill_pdpt (gib # gibs) pds_address pdpt =
     Option.bind (set_at pdpt gib (entry_table (pds_address + of_nat gib * of_nat PAGE_SIZE)))
       (fill_pdpt gibs pds_address)"

text \<open>
  The first test is the \<open>debug_assert!\<close> on the length of the page directories, a panic of the debug profile only;
  \<open>build\<close> always passes directories of that length.
\<close>

definition fill_identity_map :: "Tables \<Rightarrow> nat \<Rightarrow> u64 \<Rightarrow> (Tables \<times> nat) option" where
  "fill_identity_map tables gibs protected_page =
     (if length (t_pds tables) \<noteq> gibs * ENTRIES then None
      else
        Option.bind (set_at (t_pml4 tables) 0 (entry_table (t_pdpt_address tables))) (\<lambda>pml4.
        Option.bind (fill_pdpt [0..<gibs] (t_pds_address tables) (t_pdpt tables)) (\<lambda>pdpt.
        let pds = map (\<lambda>i. entry_large_page (of_nat i * SIZE_2M)) [0..<length (t_pds tables)];
            split = level_index Pdpt protected_page * ENTRIES + level_index Pd protected_page
        in Option.bind (set_at pds split (entry_table (t_pt_address tables))) (\<lambda>pds'.
        let region = protected_page AND NOT (SIZE_2M - 1);
            pt = map (\<lambda>i. entry_page (region + of_nat (i * PAGE_SIZE)) EPT_RWX) [0..<length (t_pt tables)];
            protect = level_index Pt protected_page
        in Option.bind (set_at pt protect (entry_page protected_page EPT_READ)) (\<lambda>pt'.
        Some (tables\<lparr>t_pml4 := pml4, t_pdpt := pdpt, t_pds := pds', t_pt := pt'\<rparr>, protect))))))"

section \<open>Building the tables and publishing the protected page\<close>

record ProtectedPage =
  pp_gpa :: u64
  pp_entry :: u64
  pp_eptp :: Eptp
  pp_invept :: InveptType

record EptStatics =
  PROTECTED_GPA :: u64
  PROTECTED_ENTRY :: u64
  PUBLISHED_EPTP :: u64
  INVEPT_TYPE :: u8

definition initial_EptStatics :: EptStatics where
  "initial_EptStatics = \<lparr>PROTECTED_GPA = 0, PROTECTED_ENTRY = 0, PUBLISHED_EPTP = 0, INVEPT_TYPE = 0\<rparr>"

definition decode_invept :: "u8 \<Rightarrow> InveptType option" where
  "decode_invept v = (if v = 1 then Some SingleContext else if v = 2 then Some AllContext else None)"

definition publish :: "ProtectedPage \<Rightarrow> (EptStatics, EptError, unit) action" where
  "publish page s =
     (if decode_invept (INVEPT_TYPE s) \<noteq> None then (Err AlreadyBuilt, s)
      else (Ok (), s\<lparr>PROTECTED_GPA := pp_gpa page, PROTECTED_ENTRY := pp_entry page,
              PUBLISHED_EPTP := pp_eptp page, INVEPT_TYPE := of_nat (invept_operand (pp_invept page))\<rparr>))"

definition protected_page :: "EptStatics \<Rightarrow> ProtectedPage option" where
  "protected_page s =
     (case decode_invept (INVEPT_TYPE s) of
        None \<Rightarrow> None
      | Some invept \<Rightarrow> Some \<lparr>pp_gpa = PROTECTED_GPA s, pp_entry = PROTECTED_ENTRY s,
          pp_eptp = PUBLISHED_EPTP s, pp_invept = invept\<rparr>)"

text \<open>A slice of table entries in memory: 8 bytes per entry, back to back.\<close>

definition load_words :: "'m platform \<Rightarrow> u64 \<Rightarrow> nat \<Rightarrow> 'm \<Rightarrow> u64 list" where
  "load_words hw a n m = map (\<lambda>i. load64 hw (a + 8 * of_nat i) m) [0..<n]"

primrec store_words :: "'m platform \<Rightarrow> u64 \<Rightarrow> u64 list \<Rightarrow> 'm \<Rightarrow> 'm" where
  "store_words hw a [] m = m"
| "store_words hw a (w # ws) m = store_words hw (a + 8) ws (store64 hw a w m)"

record Ept =
  ept_eptp :: Eptp
  ept_end :: u64
  ept_table_pages :: nat

definition on_machine :: "('m, 'e, 'a) action \<Rightarrow> ('m \<times> 's, 'e, 'a) action" where
  "on_machine act s = (case act (fst s) of (r, m) \<Rightarrow> (r, (m, snd s)))"

definition on_statics :: "('s, 'e, 'a) action \<Rightarrow> ('m \<times> 's, 'e, 'a) action" where
  "on_statics act s = (case act (snd s) of (r, t) \<Rightarrow> (r, (fst s, t)))"

definition ept_memory_map :: "'m platform \<Rightarrow> ('m, EptError, (u64 \<times> u64) list) action" where
  "ept_memory_map hw m =
     (case f_memory_map hw m of
        (None, m1) \<Rightarrow> (Err MemoryMapUnavailable, m1)
      | (Some regions, m1) \<Rightarrow> (Ok regions, m1))"

text \<open>Filling the four slices in place: what is in memory is read, filled, and written back.\<close>

definition fill_tables_in_memory ::
  "'m platform \<Rightarrow> u64 \<Rightarrow> u64 \<Rightarrow> u64 \<Rightarrow> u64 \<Rightarrow> nat \<Rightarrow> u64 \<Rightarrow> ('m, EptError, nat) action" where
  "fill_tables_in_memory hw pml4 pdpt pds pt gibs protected_gpa m =
     (case fill_identity_map
             \<lparr>t_pml4 = load_words hw pml4 ENTRIES m, t_pdpt = load_words hw pdpt ENTRIES m,
              t_pds = load_words hw pds (gibs * ENTRIES) m, t_pt = load_words hw pt ENTRIES m,
              t_pdpt_address = pdpt, t_pds_address = pds, t_pt_address = pt\<rparr> gibs protected_gpa of
        None \<Rightarrow> (Panic, m)
      | Some (t, protect) \<Rightarrow>
          (Ok protect,
           store_words hw pt (t_pt t) (store_words hw pds (t_pds t)
             (store_words hw pdpt (t_pdpt t) (store_words hw pml4 (t_pml4 t) m)))))"

definition build :: "'m platform \<Rightarrow> u64 \<Rightarrow> InveptType \<Rightarrow> ('m \<times> EptStatics, EptError, Ept) action" where
  "build hw protected_gpa invept =
     and_then (on_machine (ept_memory_map hw)) (\<lambda>regions.
     and_then (lift_result (identity_map_end regions)) (\<lambda>end'.
     if protected_gpa \<ge> end' \<or> unat protected_gpa mod PAGE_SIZE \<noteq> 0 then throw ProtectedPageOutsideMap
     else
       let gibs = unat (end' div SIZE_1G)
       in and_then (on_machine (allocate_zeroed_pages hw 1 EptAllocationFailed)) (\<lambda>pml4.
          and_then (on_machine (allocate_zeroed_pages hw 1 EptAllocationFailed)) (\<lambda>pdpt.
          and_then (on_machine (allocate_zeroed_pages hw gibs EptAllocationFailed)) (\<lambda>pds.
          and_then (on_machine (allocate_zeroed_pages hw 1 EptAllocationFailed)) (\<lambda>pt.
          and_then (on_machine (fill_tables_in_memory hw pml4 pdpt pds pt gibs protected_gpa)) (\<lambda>protect.
          let eptp = eptp_new pml4
          in and_then (on_statics (publish
                \<lparr>pp_gpa = protected_gpa, pp_entry = pt + 8 * of_nat protect, pp_eptp = eptp,
                 pp_invept = invept\<rparr>)) (\<lambda>_.
             ret \<lparr>ept_eptp = eptp, ept_end = end', ept_table_pages = gibs + 3\<rparr>))))))))"

definition invalidate :: "'m platform \<Rightarrow> InveptType \<Rightarrow> Eptp \<Rightarrow> ('m, VmxFail, unit) action" where
  "invalidate hw kind eptp = vmx_asm (i_invept hw (of_nat (invept_operand kind)) eptp 0)"

definition grant_write :: "'m platform \<Rightarrow> ProtectedPage \<Rightarrow> ('m, VmxFail, InveptType) action" where
  "grant_write hw page =
     and_then (modify (\<lambda>m. store64 hw (pp_entry page)
        (with_access (load64 hw (pp_entry page) m) (EPT_READ OR EPT_WRITE)) m)) (\<lambda>_.
     and_then (invalidate hw (pp_invept page) (pp_eptp page)) (\<lambda>_.
     ret (pp_invept page)))"

end
