(* ===== verification/World.thy ===== *)
theory World
  imports Exit_Decision Ept
begin

text \<open>
  What the VM-exit handler runs in: the machine, the statics of \<open>vmx/ept.rs\<close> and
  \<open>vmx/vmexit/handler.rs\<close>, the output phase (\<open>output.rs\<close>) and the lines written to the serial
  port. A serial line is a value of \<open>serial_line\<close>: one constructor of \<open>read_line\<close>, \<open>event_line\<close> or
  \<open>stop_line\<close> per format string of the source
  with the values it formats; turning it into text and into UART accesses is not modelled. Also the
  port instructions (\<open>port.rs\<close>).
\<close>

section \<open>Output phase\<close>

datatype Phase = BootServices | Runtime | VmExit

fun phase_value :: "Phase \<Rightarrow> u8" where
  "phase_value BootServices = 0"
| "phase_value Runtime = 1"
| "phase_value VmExit = 2"

section \<open>Ports\<close>

definition outb :: "'m platform \<Rightarrow> u16 \<Rightarrow> u8 \<Rightarrow> ('m, 'e, unit) action" where
  "outb hw port v = modify (i_out8 hw port v)"

definition outw :: "'m platform \<Rightarrow> u16 \<Rightarrow> u16 \<Rightarrow> ('m, 'e, unit) action" where
  "outw hw port v = modify (i_out16 hw port v)"

definition outl :: "'m platform \<Rightarrow> u16 \<Rightarrow> u32 \<Rightarrow> ('m, 'e, unit) action" where
  "outl hw port v = modify (i_out32 hw port v)"

definition inb :: "'m platform \<Rightarrow> u16 \<Rightarrow> ('m, 'e, u8) action" where
  "inb hw port m = (case i_in8 hw port m of (v, m') \<Rightarrow> (Ok v, m'))"

definition inw :: "'m platform \<Rightarrow> u16 \<Rightarrow> ('m, 'e, u16) action" where
  "inw hw port m = (case i_in16 hw port m of (v, m') \<Rightarrow> (Ok v, m'))"

definition inl :: "'m platform \<Rightarrow> u16 \<Rightarrow> ('m, 'e, u32) action" where
  "inl hw port m = (case i_in32 hw port m of (v, m') \<Rightarrow> (Ok v, m'))"

section \<open>What an emulated instruction did\<close>

datatype EmulationOutcome =
    DidCpuid u32 u32 cpuid_result cpuid_result
  | DidRdmsr u32 u64
  | DidWrmsr u32 u64
  | DidIn u16 IoSize u32
  | DidOut u16 IoSize u32

record Resumed =
  rs_rip :: u64
  rs_invept :: "InveptType option"
  rs_emulated :: "EmulationOutcome option"

section \<open>Serial lines\<close>

datatype read_line =
    L_unreadable string VmcsError
  | L_exit u64 u16 string bool
  | L_qualification u64 u64
  | L_guest_rip u64 u64 u64
  | L_guest_registers u64 u64 u64 u64 u64
  | L_ept_misconfiguration u64 u64
  | L_ept_violation u64 u64 "u64 option" string "u8 \<times> u8 \<times> u8"
  | L_exception u64 u8 u64
  | L_interruption_invalid u64 u64

datatype event_line =
    L_ept_write_granted u64 string u64
  | L_data_page_mismatch u64 u64 u64
  | L_ept_write_missing u64 u64
  | L_main_vmcall u64 u64 u64
  | L_guest_nmi_handler u64 u64 u64
  | L_nmi_injected u64 u32 u64
  | L_nmi_deferred u64 u32
  | L_nmi_window_injected u64 u64
  | L_last_vmcall_no_nmi u64 u64
  | L_last_vmcall u64 u64 u32 u32 bool
  | L_general_protection u64 u32 u64
  | L_emulation_missing u64 u64 EmulationCounts
  | L_interrupted_delivery u64
  | L_unexpected u64 u64
  | L_ept_summary u64 u32
  | L_emulated_summary u64 EmulationCounts
  | L_emulation u64 EmulationOutcome u64
  | L_not_executed u64

datatype stop_line =
    L_stopping u64
  | L_rip_unreadable u64
  | L_length_unreadable u64
  | L_advance_failed u64 VmcsError
  | L_nmi_queue_failed u64 VmcsError
  | L_gp_queue_failed u64 VmcsError
  | L_nmi_window_failed u64 bool VmcsError
  | L_no_protected_page u64
  | L_grant_failed u64 VmxFail
  | L_resume_failed_code u32 string
  | L_resume_failed_unreadable VmcsError
  | L_resume_failed VmcsError
  | L_resume_stopping

datatype serial_line = ReadLine read_line | EventLine event_line | StopLine stop_line

section \<open>The state\<close>

record ExitStatics =
  EXIT_COUNT :: u64
  MAIN_VMCALLS :: u32
  NMI_PENDING :: bool
  NMIS_INJECTED :: u32
  NMIS_HANDLED :: u32
  EPT_WRITES_GRANTED :: u32
  EMULATED_CPUID :: u32
  EMULATED_RDMSR :: u32
  EMULATED_WRMSR :: u32
  EMULATED_IN :: u32
  EMULATED_OUT :: u32

definition initial_ExitStatics :: ExitStatics where
  "initial_ExitStatics = \<lparr>EXIT_COUNT = 0, MAIN_VMCALLS = 0, NMI_PENDING = False, NMIS_INJECTED = 0,
     NMIS_HANDLED = 0, EPT_WRITES_GRANTED = 0, EMULATED_CPUID = 0, EMULATED_RDMSR = 0, EMULATED_WRMSR = 0,
     EMULATED_IN = 0, EMULATED_OUT = 0\<rparr>"

record 'm world =
  w_machine :: 'm
  w_ept :: EptStatics
  w_exits :: ExitStatics
  PHASE :: u8
  w_serial :: "serial_line list"

text \<open>The handler has no error to return: what it cannot do, it prints.\<close>

type_synonym ('m, 'a) exit_action = "('m world, unit, 'a) action"

definition set_phase :: "Phase \<Rightarrow> ('m world, 'e, unit) action" where
  "set_phase phase = modify (\<lambda>w. w\<lparr>PHASE := phase_value phase\<rparr>)"

definition console_allowed :: "'m world \<Rightarrow> bool" where
  "console_allowed w \<longleftrightarrow> PHASE w = phase_value BootServices"

definition serial_println :: "serial_line \<Rightarrow> ('m world, 'e, unit) action" where
  "serial_println line = modify (\<lambda>w. w\<lparr>w_serial := w_serial w @ [line]\<rparr>)"

text \<open>An action of the machine, run in the world.\<close>

definition on_hw :: "('m, 'e, 'a) action \<Rightarrow> ('m world, 'e, 'a) action" where
  "on_hw act w = (case act (w_machine w) of (r, m) \<Rightarrow> (r, w\<lparr>w_machine := m\<rparr>))"

lemma run_on_hw [act_simps]: "act (w_machine w) = (r, m) \<Longrightarrow> on_hw act w = (r, w\<lparr>w_machine := m\<rparr>)"
  by (simp add: on_hw_def)

lemma run_serial_println [simp]: "serial_println line w = (Ok (), w\<lparr>w_serial := w_serial w @ [line]\<rparr>)"
  by (simp add: serial_println_def)

lemma run_set_phase [simp]: "set_phase phase w = (Ok (), w\<lparr>PHASE := phase_value phase\<rparr>)"
  by (simp add: set_phase_def)

end
