(* ===== verification/Report.thy ===== *)
theory Report
  imports World
begin

text \<open>
  The report lines of the VM-exit handler (\<open>vmx/vmexit/report.rs\<close>), with the VMREADs they make.
\<close>

definition report_unreadable :: "string \<Rightarrow> VmcsError \<Rightarrow> ('m, unit) exit_action" where
  "report_unreadable name error = serial_println (ReadLine (L_unreadable name error))"

definition read_or_report :: "'m platform \<Rightarrow> string \<Rightarrow> u32 \<Rightarrow> ('m, u64 option) exit_action" where
  "read_or_report hw name field w =
     (case on_hw (vmread hw field) w of
        (Ok v, w1) \<Rightarrow> (Ok (Some v), w1)
      | (Err error, w1) \<Rightarrow> and_then (report_unreadable name error) (\<lambda>_. ret None) w1
      | (Panic, w1) \<Rightarrow> (Panic, w1))"

definition report_ept_exit ::
  "'m platform \<Rightarrow> u64 \<Rightarrow> u16 \<Rightarrow> EptQualification \<Rightarrow> ('m, u64 option) exit_action" where
  "report_ept_exit hw number basic_reason q =
     and_then (read_or_report hw ''GUEST_PHYSICAL_ADDRESS'' GUEST_PHYSICAL_ADDRESS) (\<lambda>guest_physical.
     case guest_physical of
       None \<Rightarrow> ret None
     | Some guest_physical \<Rightarrow>
         if basic_reason = EXIT_REASON_EPT_MISCONFIG
         then and_then (serial_println (ReadLine (L_ept_misconfiguration number guest_physical))) (\<lambda>_.
              ret (Some guest_physical))
         else
           and_then (if linear_valid q then read_or_report hw ''GUEST_LINEAR_ADDRESS'' GUEST_LINEAR_ADDRESS
                     else ret None) (\<lambda>linear.
           and_then (serial_println (ReadLine (L_ept_violation number guest_physical linear (access_name q) (permissions q)))) (\<lambda>_.
           ret (Some guest_physical))))"

definition report_exception :: "'m platform \<Rightarrow> u64 \<Rightarrow> ('m, unit) exit_action" where
  "report_exception hw number =
     and_then (read_or_report hw ''VM_EXIT_INTERRUPTION_INFO'' VM_EXIT_INTERRUPTION_INFO) (\<lambda>info.
     case info of
       None \<Rightarrow> ret ()
     | Some info \<Rightarrow>
         let interruption = ucast info
         in if is_nmi interruption then ret ()
            else (case vector interruption of
                    Some v \<Rightarrow> serial_println (ReadLine (L_exception number v info))
                  | None \<Rightarrow> serial_println (ReadLine (L_interruption_invalid number info))))"

definition report_emulation :: "u64 \<Rightarrow> EmulationOutcome option \<Rightarrow> u64 \<Rightarrow> event_line" where
  "report_emulation number outcome rip =
     (case outcome of Some did \<Rightarrow> L_emulation number did rip | None \<Rightarrow> L_not_executed number)"

definition event_report ::
  "u64 \<Rightarrow> ExitEvent \<Rightarrow> ExitInfo option \<Rightarrow> ExitState \<Rightarrow> Resumed option \<Rightarrow> event_line" where
  "event_report number event exit state resumed =
     (let rax = (case exit of Some x \<Rightarrow> ei_guest_rax x | None \<Rightarrow> 0);
          rip = (case resumed of Some r \<Rightarrow> rs_rip r | None \<Rightarrow> 0)
      in case event of
           EptWriteGranted \<Rightarrow> L_ept_write_granted number
             (case Option.bind resumed rs_invept of Some k \<Rightarrow> invept_name k | None \<Rightarrow> ''not run'') rip
         | DataPageMismatch \<Rightarrow> L_data_page_mismatch number
             (case exit of Some x \<Rightarrow> ei_guest_rcx x | None \<Rightarrow> 0) (case exit of Some x \<Rightarrow> ei_guest_rdx x | None \<Rightarrow> 0)
         | EptWriteMissing \<Rightarrow> L_ept_write_missing number rax
         | MainVmcall \<Rightarrow> L_main_vmcall number rax rip
         | GuestNmiHandler \<Rightarrow> L_guest_nmi_handler number rax rip
         | NmiInjected \<Rightarrow> L_nmi_injected number
             (case exit of Some x \<Rightarrow> ei_interruption_info x | None \<Rightarrow> 0) rip
         | NmiDeferred \<Rightarrow> L_nmi_deferred number (case exit of Some x \<Rightarrow> ei_interruptibility x | None \<Rightarrow> 0)
         | NmiWindowInjected \<Rightarrow> L_nmi_window_injected number rip
         | LastMainVmcall \<Rightarrow>
             if nmis_injected state = 0 \<and> nmis_handled state = 0 \<and> \<not> nmi_pending state
             then L_last_vmcall_no_nmi number rax
             else L_last_vmcall number rax (nmis_injected state) (nmis_handled state) (nmi_pending state)
         | Emulated _ \<Rightarrow> report_emulation number (Option.bind resumed rs_emulated) rip
         | GuestGeneralProtection \<Rightarrow> L_general_protection number
             (case exit of Some x \<Rightarrow> ucast (ei_guest_rcx x) | None \<Rightarrow> 0) rip
         | EmulationMissing \<Rightarrow> L_emulation_missing number rax (emulated state)
         | InterruptedDelivery \<Rightarrow> L_interrupted_delivery number
         | Unexpected \<Rightarrow> L_unexpected number (expected_main_rax state))"

definition report_event ::
  "u64 \<Rightarrow> ExitEvent \<Rightarrow> ExitInfo option \<Rightarrow> ExitState \<Rightarrow> Resumed option \<Rightarrow> ('m, unit) exit_action" where
  "report_event number event exit state resumed =
     and_then (serial_println (EventLine (event_report number event exit state resumed))) (\<lambda>_.
     if event = LastMainVmcall
     then and_then (serial_println (EventLine (L_ept_summary number (ept_writes_granted state)))) (\<lambda>_.
          serial_println (EventLine (L_emulated_summary number (emulated state))))
     else ret ())"

end
