(* ===== verification/Launch.thy ===== *)
theory Launch
  imports Exit_Decision
begin

text \<open>
  Coming back from the guest (\<open>vmx/vmcs/launch.rs\<close>): the 64-bit stop values the VM-exit stub hands
  to \<open>vmcs::launch\<close>, their decoding, and \<open>launch\<close> itself. The assembly stub \<open>vmx_launch\<close>
  (VMLAUNCH, then the guest and its exits until a stop) is a parameter of \<open>launch\<close>: it returns a
  stop value and the machine state after the guest.
\<close>

datatype GuestStop =
    GuestFinished u64
  | GuestUnexpected u64 ExitReason
  | LaunchFailed VmcsError "u32 option"
  | ResumeFailed VmcsError "u32 option"

definition KIND_SHIFT :: nat where
  [const_defs]: "KIND_SHIFT = 62"

definition PAYLOAD_MASK :: u64 where
  [const_defs]: "PAYLOAD_MASK = push_bit KIND_SHIFT 1 - 1"

definition KIND_LAUNCH_FAILED :: u64 where
  [const_defs]: "KIND_LAUNCH_FAILED = 0"

definition KIND_FINISHED :: u64 where
  [const_defs]: "KIND_FINISHED = 1"

definition KIND_UNEXPECTED :: u64 where
  [const_defs]: "KIND_UNEXPECTED = 2"

definition KIND_RESUME_FAILED :: u64 where
  [const_defs]: "KIND_RESUME_FAILED = 3"

definition EXIT_NUMBER_BITS :: nat where
  [const_defs]: "EXIT_NUMBER_BITS = 30"

definition EXIT_NUMBER_MASK :: u64 where
  [const_defs]: "EXIT_NUMBER_MASK = push_bit EXIT_NUMBER_BITS 1 - 1"

definition encode_finished :: "u64 \<Rightarrow> u64" where
  "encode_finished exits = push_bit KIND_SHIFT KIND_FINISHED OR (exits AND PAYLOAD_MASK)"

definition encode_unexpected :: "u64 \<Rightarrow> u32 \<Rightarrow> u64" where
  "encode_unexpected number raw_reason =
     push_bit KIND_SHIFT KIND_UNEXPECTED OR push_bit 32 (number AND EXIT_NUMBER_MASK) OR ucast raw_reason"

definition encode_resume_failed :: "u64 \<Rightarrow> u64" where
  "encode_resume_failed rflags = push_bit KIND_SHIFT KIND_RESUME_FAILED OR (rflags AND PAYLOAD_MASK)"

definition decode :: "u64 \<Rightarrow> GuestStop" where
  "decode v =
     (let payload = v AND PAYLOAD_MASK; kind = drop_bit KIND_SHIFT v
      in if kind = KIND_LAUNCH_FAILED then LaunchFailed (launch_failure payload) None
         else if kind = KIND_FINISHED then GuestFinished payload
         else if kind = KIND_UNEXPECTED
           then GuestUnexpected (drop_bit 32 payload) (from_raw (ucast payload))
         else ResumeFailed (resume_failure payload) None)"

definition launch :: "'m platform \<Rightarrow> ('m \<Rightarrow> u64 \<times> 'm) \<Rightarrow> 'm \<Rightarrow> GuestStop \<times> 'm" where
  "launch hw vmx_launch m =
     (case vmx_launch m of (v, m1) \<Rightarrow>
       (case decode v of
          LaunchFailed e _ \<Rightarrow>
            (case (instruction_error_for hw e :: ('m, unit, u32 option) action) m1 of
               (Ok ie, m2) \<Rightarrow> (LaunchFailed e ie, m2)
             | (_, m2) \<Rightarrow> (LaunchFailed e None, m2))
        | ResumeFailed e _ \<Rightarrow>
            (case (instruction_error_for hw e :: ('m, unit, u32 option) action) m1 of
               (Ok ie, m2) \<Rightarrow> (ResumeFailed e ie, m2)
             | (_, m2) \<Rightarrow> (ResumeFailed e None, m2))
        | stop \<Rightarrow> (stop, m1)))"

section \<open>Kinds and payloads\<close>

lemma payload_mask: "PAYLOAD_MASK = mask 62"
  by (simp add: const_defs mask_eq_exp_minus_1)

lemma exit_number_mask: "EXIT_NUMBER_MASK = mask 30"
  by (simp add: const_defs mask_eq_exp_minus_1)

text \<open>A kind above bit 62 and a payload below it are read back unchanged.\<close>

lemma kind_payload:
  fixes kind payload :: u64
  assumes "drop_bit 62 payload = 0"
  shows "drop_bit KIND_SHIFT (push_bit KIND_SHIFT kind OR payload) = kind AND mask 2"
    and "(push_bit KIND_SHIFT kind OR payload) AND PAYLOAD_MASK = payload"
proof -
  have p: "\<not> bit payload n" if "62 \<le> n" for n
  proof -
    have "bit (drop_bit 62 payload) (n - 62) = bit payload n" using that by (simp add: bit_drop_bit_eq)
    then show ?thesis unfolding assms by simp
  qed
  show "drop_bit KIND_SHIFT (push_bit KIND_SHIFT kind OR payload) = kind AND mask 2"
    by (rule bit_word_eqI) (auto simp: KIND_SHIFT_def bit_simps p)
  show "(push_bit KIND_SHIFT kind OR payload) AND PAYLOAD_MASK = payload"
  proof (rule bit_word_eqI)
    fix n
    show "bit ((push_bit KIND_SHIFT kind OR payload) AND PAYLOAD_MASK) n = bit payload n"
      using p [of n] by (cases "n < 62") (auto simp: KIND_SHIFT_def payload_mask bit_simps)
  qed
qed

lemma drop_payload_mask [simp]: "drop_bit 62 (v AND PAYLOAD_MASK) = 0"
  by (rule bit_word_eqI) (auto simp: payload_mask bit_simps)

lemma kinds_mask [simp]:
  "KIND_FINISHED AND mask 2 = KIND_FINISHED" "KIND_UNEXPECTED AND mask 2 = KIND_UNEXPECTED"
  "KIND_RESUME_FAILED AND mask 2 = KIND_RESUME_FAILED"
  by (simp_all add: const_defs mask_eq_exp_minus_1)

lemma kinds_distinct [simp]:
  "KIND_FINISHED \<noteq> KIND_LAUNCH_FAILED" "KIND_UNEXPECTED \<noteq> KIND_LAUNCH_FAILED"
  "KIND_UNEXPECTED \<noteq> KIND_FINISHED" "KIND_RESUME_FAILED \<noteq> KIND_LAUNCH_FAILED"
  "KIND_RESUME_FAILED \<noteq> KIND_FINISHED" "KIND_RESUME_FAILED \<noteq> KIND_UNEXPECTED"
  by (simp_all add: const_defs)

lemma unexpected_payload:
  fixes number :: u64 and raw :: u32
  defines "payload \<equiv> push_bit 32 (number AND EXIT_NUMBER_MASK) OR ucast raw"
  shows "drop_bit 62 payload = 0" and "drop_bit 32 payload = number AND EXIT_NUMBER_MASK"
    and "ucast payload = raw"
  unfolding payload_def exit_number_mask
  by (rule bit_word_eqI; auto simp: bit_simps dest: bit_imp_le_length)+

lemma decode_kind_payload:
  assumes "drop_bit 62 payload = 0"
  shows "decode (push_bit KIND_SHIFT kind OR payload) =
    (if kind AND mask 2 = KIND_LAUNCH_FAILED then LaunchFailed (launch_failure payload) None
     else if kind AND mask 2 = KIND_FINISHED then GuestFinished payload
     else if kind AND mask 2 = KIND_UNEXPECTED
       then GuestUnexpected (drop_bit 32 payload) (from_raw (ucast payload))
     else ResumeFailed (resume_failure payload) None)"
  unfolding decode_def Let_def kind_payload [OF assms] ..

lemma decode_encode_finished: "decode (encode_finished exits) = GuestFinished (exits AND PAYLOAD_MASK)"
  unfolding encode_finished_def decode_kind_payload [OF drop_payload_mask] by simp

lemma decode_encode_unexpected:
  "decode (encode_unexpected number raw) = GuestUnexpected (number AND EXIT_NUMBER_MASK) (from_raw raw)"
  unfolding encode_unexpected_def or.assoc decode_kind_payload [OF unexpected_payload(1)]
    unexpected_payload(2,3)
  by simp

lemma decode_encode_resume_failed:
  "decode (encode_resume_failed rflags) = ResumeFailed (resume_failure (rflags AND PAYLOAD_MASK)) None"
  unfolding encode_resume_failed_def decode_kind_payload [OF drop_payload_mask] by simp

lemma decode_launch_failed:
  assumes "unat rflags < 2 ^ 62"
  shows "decode rflags = LaunchFailed (launch_failure rflags) None"
proof -
  have d: "drop_bit 62 rflags = 0"
    using assms by (simp add: word_unat_eq_iff drop_bit_unat)
  then show ?thesis
    using kind_payload [OF d, of 0] by (simp add: decode_def Let_def KIND_LAUNCH_FAILED_def)
qed

text \<open>No stop value is 0, the value that tells the stub to resume.\<close>

lemma encode_nonzero:
  "encode_finished exits \<noteq> 0" "encode_unexpected number raw \<noteq> 0" "encode_resume_failed rflags \<noteq> 0"
proof -
  have z: "push_bit KIND_SHIFT kind OR payload \<noteq> 0"
    if "drop_bit 62 payload = 0" and "kind AND mask 2 \<noteq> 0" for kind payload :: u64
  proof
    assume "push_bit KIND_SHIFT kind OR payload = 0"
    with kind_payload(1) [OF that(1), of kind] have "kind AND mask 2 = 0" by (simp only: drop_bit_of_0)
    with that(2) show False ..
  qed
  show "encode_finished exits \<noteq> 0"
    unfolding encode_finished_def
    by (rule z [OF drop_payload_mask]) (simp only: kinds_mask, simp add: const_defs)
  show "encode_unexpected number raw \<noteq> 0"
    unfolding encode_unexpected_def or.assoc
    by (rule z [OF unexpected_payload(1)]) (simp only: kinds_mask, simp add: const_defs)
  show "encode_resume_failed rflags \<noteq> 0"
    unfolding encode_resume_failed_def
    by (rule z [OF drop_payload_mask]) (simp only: kinds_mask, simp add: const_defs)
qed

section \<open>Correctness properties\<close>

text \<open>
  C27. What the VM-exit stub returns reaches the caller of the launch: a finished guest with its exit
  count (62 bits), an unexpected exit with its number (30 bits) and its raw reason, a failed VMRESUME with its
  RFLAGS; an RFLAGS value, which has no bit above 61, is a failed launch; and no stop is the value 0 that means
  resume.
\<close>

theorem stop_values_round_trip:
  "decode (encode_finished n) = GuestFinished (n AND mask 62) \<and>
   decode (encode_unexpected n raw) = GuestUnexpected (n AND mask 30) (from_raw raw) \<and>
   decode (encode_resume_failed rflags) = ResumeFailed (resume_failure (rflags AND mask 62)) None \<and>
   decode (rflags AND mask 62) = LaunchFailed (launch_failure (rflags AND mask 62)) None \<and>
   0 \<notin> {encode_finished n, encode_unexpected n raw, encode_resume_failed rflags}"
proof -
  have "unat (rflags AND mask 62) < 2 ^ 62" by (simp add: and_mask_unat)
  then show ?thesis
    using encode_nonzero [of n] encode_nonzero(2) [of n raw] encode_nonzero(3) [of rflags]
    by (simp add: decode_encode_finished decode_encode_unexpected decode_encode_resume_failed decode_launch_failed
        flip: payload_mask exit_number_mask)
qed

end
