(* ===== verification/Handler.thy ===== *)
theory Handler
  imports Report Launch
begin

text \<open>
  The VM-exit handler (\<open>vmx/vmexit/handler.rs\<close>) and the entry stub and exit stack around it
  (\<open>vmx/vmexit/mod.rs\<close>): read the exit, judge it with the state kept in the statics, prepare the
  guest to resume or stop. The guest's registers are the record \<open>RegisterFrame\<close>; the handler takes
  it and returns it as the stub will restore it. \<open>rip + length\<close> and the exit count wrap, as in the
  release profile; \<open>Debug_Build\<close> has the handler of the debug profile.
\<close>

section \<open>Exit stack and register frame\<close>

definition VM_EXIT_STACK_PAGES :: nat where
  [const_defs]: "VM_EXIT_STACK_PAGES = 4"

definition VM_EXIT_STACK_SIZE :: nat where
  [const_defs]: "VM_EXIT_STACK_SIZE = VM_EXIT_STACK_PAGES * PAGE_SIZE"

datatype VmExitStackError = StackAllocationFailed

record VmExitStack =
  stack_base :: u64

definition allocate_exit_stack :: "'m platform \<Rightarrow> ('m, VmExitStackError, VmExitStack) action" where
  "allocate_exit_stack hw =
     and_then (allocate_zeroed_pages hw VM_EXIT_STACK_PAGES StackAllocationFailed) (\<lambda>base'.
     ret \<lparr>stack_base = base'\<rparr>)"

text \<open>\<open>None\<close> is the panic of the failed alignment assertion.\<close>

definition stack_top :: "VmExitStack \<Rightarrow> u64 option" where
  "stack_top s =
     (let top' = stack_base s + of_nat VM_EXIT_STACK_SIZE
      in if unat top' mod 16 \<noteq> 0 then None else Some top')"

record RegisterFrame =
  reg_rax :: u64
  reg_rbx :: u64
  reg_rcx :: u64
  reg_rdx :: u64
  reg_rsi :: u64
  reg_rdi :: u64
  reg_rbp :: u64
  reg_r8 :: u64
  reg_r9 :: u64
  reg_r10 :: u64
  reg_r11 :: u64
  reg_r12 :: u64
  reg_r13 :: u64
  reg_r14 :: u64
  reg_r15 :: u64

section \<open>The state kept between exits\<close>

definition load_state :: "ExitStatics \<Rightarrow> ExitState" where
  "load_state s =
     \<lparr>main_vmcalls = MAIN_VMCALLS s, nmi_pending = NMI_PENDING s, nmis_injected = NMIS_INJECTED s,
      nmis_handled = NMIS_HANDLED s, ept_writes_granted = EPT_WRITES_GRANTED s,
      emulated = \<lparr>n_cpuid = EMULATED_CPUID s, n_rdmsr = EMULATED_RDMSR s, n_wrmsr = EMULATED_WRMSR s,
        n_io_in = EMULATED_IN s, n_io_out = EMULATED_OUT s\<rparr>\<rparr>"

definition store_state :: "ExitState \<Rightarrow> ExitStatics \<Rightarrow> ExitStatics" where
  "store_state st s =
     s\<lparr>MAIN_VMCALLS := main_vmcalls st, NMI_PENDING := nmi_pending st, NMIS_INJECTED := nmis_injected st,
       NMIS_HANDLED := nmis_handled st, EPT_WRITES_GRANTED := ept_writes_granted st,
       EMULATED_CPUID := n_cpuid (emulated st), EMULATED_RDMSR := n_rdmsr (emulated st),
       EMULATED_WRMSR := n_wrmsr (emulated st), EMULATED_IN := n_io_in (emulated st),
       EMULATED_OUT := n_io_out (emulated st)\<rparr>"

definition RESUME_GUEST :: u64 where
  [const_defs]: "RESUME_GUEST = 0"

fun stub_return :: "ExitAction \<Rightarrow> u64 \<Rightarrow> u32 \<Rightarrow> u64" where
  "stub_return (Resume _) number raw_reason = RESUME_GUEST"
| "stub_return Finished number raw_reason = encode_finished number"
| "stub_return UnexpectedStop number raw_reason = encode_unexpected number raw_reason"

section \<open>Reading the exit\<close>

record ExitRead =
  xr_raw_reason :: "u32 option"
  xr_exit :: "ExitInfo option"
  xr_rip :: "u64 option"
  xr_length :: "u64 option"
  xr_protected :: "ProtectedPage option"

definition announce_exit :: "'m platform \<Rightarrow> u64 \<Rightarrow> ExitReason option \<Rightarrow> ('m, unit) exit_action" where
  "announce_exit hw number reason =
     (case reason of
        None \<Rightarrow> ret ()
      | Some reason \<Rightarrow>
          and_then (serial_println (ReadLine (L_exit number (er_basic reason)
              (exit_reason_name (er_basic reason)) (er_entry_failure reason)))) (\<lambda>_.
          if er_basic reason = EXIT_REASON_EXCEPTION_OR_NMI \<and> \<not> er_entry_failure reason
          then report_exception hw number else ret ()))"

definition is_ept_exit :: "ExitReason \<Rightarrow> bool" where
  "is_ept_exit reason \<longleftrightarrow> \<not> er_entry_failure reason \<and>
     (er_basic reason = EXIT_REASON_EPT_VIOLATION \<or> er_basic reason = EXIT_REASON_EPT_MISCONFIG)"

definition ept_exit_of :: "ExitReason option \<Rightarrow> ExitReason option" where
  "ept_exit_of reason = (case reason of None \<Rightarrow> None | Some r \<Rightarrow> if is_ept_exit r then Some r else None)"

definition read_guest_physical ::
  "'m platform \<Rightarrow> u64 \<Rightarrow> ExitReason option \<Rightarrow> u64 option \<Rightarrow> ('m, u64 option) exit_action" where
  "read_guest_physical hw number ept_exit qualification =
     (case ept_exit of
        Some reason \<Rightarrow> report_ept_exit hw number (er_basic reason) (case qualification of Some q \<Rightarrow> q | None \<Rightarrow> 0)
      | None \<Rightarrow> ret (Some 0))"

definition read_exit :: "'m platform \<Rightarrow> u64 \<Rightarrow> RegisterFrame \<Rightarrow> ('m, ExitRead) exit_action" where
  "read_exit hw number frame =
     and_then (read_or_report hw ''VM_EXIT_REASON'' VM_EXIT_REASON) (\<lambda>raw.
     let raw_reason = map_option ucast raw; reason = map_option from_raw raw_reason
     in and_then (announce_exit hw number reason) (\<lambda>_.
     and_then (read_or_report hw ''EXIT_QUALIFICATION'' EXIT_QUALIFICATION) (\<lambda>qualification.
     and_then (case qualification of
          None \<Rightarrow> ret ()
        | Some q \<Rightarrow> serial_println (ReadLine (L_qualification number q))) (\<lambda>_.
     let ept_exit = ept_exit_of reason
     in and_then (read_guest_physical hw number ept_exit qualification) (\<lambda>guest_physical.
     let judged_by_qualification = ept_exit \<noteq> None \<or>
           (case reason of None \<Rightarrow> False
            | Some reason \<Rightarrow> \<not> er_entry_failure reason \<and> er_basic reason = EXIT_REASON_IO_INSTRUCTION);
         qualification = (if judged_by_qualification then qualification
           else Some (case qualification of Some q \<Rightarrow> q | None \<Rightarrow> 0))
     in and_then (read_or_report hw ''GUEST_RIP'' GUEST_RIP) (\<lambda>rip.
     and_then (read_or_report hw ''VM_EXIT_INSTRUCTION_LEN'' VM_EXIT_INSTRUCTION_LEN) (\<lambda>len.
     and_then (case (rip, len) of
          (Some rip, Some len) \<Rightarrow> serial_println (ReadLine (L_guest_rip number rip len))
        | _ \<Rightarrow> ret ()) (\<lambda>_.
     and_then (serial_println (ReadLine (L_guest_registers number (reg_rax frame) (reg_rbx frame)
          (reg_rcx frame) (reg_rdx frame)))) (\<lambda>_.
     and_then (gets (\<lambda>w. protected_page (w_ept w))) (\<lambda>prot.
     and_then (read_or_report hw ''VM_EXIT_INTERRUPTION_INFO'' VM_EXIT_INTERRUPTION_INFO) (\<lambda>interruption_info.
     and_then (read_or_report hw ''GUEST_INTERRUPTIBILITY_STATE'' GUEST_INTERRUPTIBILITY_STATE) (\<lambda>interruptibility.
     and_then (read_or_report hw ''IDT_VECTORING_INFO'' IDT_VECTORING_INFO) (\<lambda>idt_vectoring.
     ret \<lparr>xr_raw_reason = raw_reason,
          xr_exit = (case (reason, interruption_info, interruptibility, idt_vectoring, qualification, guest_physical) of
              (Some reason, Some info, Some blocking, Some vectoring, Some q, Some gpa) \<Rightarrow>
                Some \<lparr>ei_reason = reason, ei_interruption_info = ucast info, ei_guest_rax = reg_rax frame,
                  ei_guest_rcx = reg_rcx frame, ei_guest_rdx = reg_rdx frame, ei_interruptibility = ucast blocking,
                  ei_idt_vectoring_valid = is_valid (ucast vectoring), ei_qualification = q,
                  ei_guest_physical = gpa,
                  ei_protected_page = (case prot of Some page \<Rightarrow> pp_gpa page | None \<Rightarrow> 0)\<rparr>
            | _ \<Rightarrow> None),
          xr_rip = rip, xr_length = len, xr_protected = prot\<rparr>)))))))))))))"

section \<open>Judging it\<close>

definition judge :: "ExitInfo option \<Rightarrow> ('m, ExitEvent \<times> ExitState) exit_action" where
  "judge exit w =
     (let state = load_state (w_exits w);
          (event, next) = (case exit of Some x \<Rightarrow> decide state x | None \<Rightarrow> (Unexpected, state))
      in (Ok (event, next), w\<lparr>w_exits := store_state next (w_exits w)\<rparr>))"

section \<open>Executing an instruction for the guest\<close>

definition execute ::
  "'m platform \<Rightarrow> Emulation \<Rightarrow> RegisterFrame \<Rightarrow> ('m, stop_line, EmulationOutcome \<times> RegisterFrame) action" where
  "execute hw emulation frame =
     (case emulation of
        Cpuid leaf subleaf \<Rightarrow>
          and_then (gets (i_cpuid hw leaf subleaf)) (\<lambda>raw.
          let guest = cpuid_policy leaf raw
          in ret (DidCpuid leaf subleaf raw guest,
                  frame\<lparr>reg_rax := ucast (eax guest), reg_rbx := ucast (ebx guest),
                        reg_rcx := ucast (ecx guest), reg_rdx := ucast (edx guest)\<rparr>))
      | Rdmsr msr \<Rightarrow>
          and_then (rdmsr hw msr) (\<lambda>v.
          ret (DidRdmsr msr v, frame\<lparr>reg_rax := v AND 0xFFFFFFFF, reg_rdx := drop_bit 32 v\<rparr>))
      | Wrmsr msr v \<Rightarrow>
          and_then (wrmsr hw msr v) (\<lambda>_. ret (DidWrmsr msr v, frame))
      | In port sz \<Rightarrow>
          and_then (case sz of
              Byte \<Rightarrow> and_then (inb hw port) (\<lambda>b. ret (ucast b))
            | Word \<Rightarrow> and_then (inw hw port) (\<lambda>b. ret (ucast b))
            | Dword \<Rightarrow> inl hw port) (\<lambda>v.
          ret (DidIn port sz v, frame\<lparr>reg_rax := merge_in (reg_rax frame) sz v\<rparr>))
      | Out port sz v \<Rightarrow>
          and_then (case sz of
              Byte \<Rightarrow> outb hw port (ucast v)
            | Word \<Rightarrow> outw hw port (ucast v)
            | Dword \<Rightarrow> outl hw port v) (\<lambda>_.
          ret (DidOut port sz v, frame)))"

section \<open>Preparing the guest to resume\<close>

definition queue_general_protection :: "'m platform \<Rightarrow> ('m, VmcsError, unit) action" where
  "queue_general_protection hw =
     and_then (vmwrite hw VM_ENTRY_EXCEPTION_ERROR_CODE 0) (\<lambda>_.
     vmwrite hw VM_ENTRY_INTERRUPTION_INFO (ucast INFO_GENERAL_PROTECTION))"

text \<open>
  \<open>if let Err(error) = act { print; return None }\<close>: the error of the inner actions is the line that
  says why the guest cannot go on.
\<close>

definition or_stop :: "('m, 'e, 'a) action \<Rightarrow> ('e \<Rightarrow> stop_line) \<Rightarrow> ('m world, stop_line, 'a) action" where
  "or_stop act line = map_err line (on_hw act)"

text \<open>\<open>execute\<close> on the frame that is part of the state.\<close>

definition execute_step ::
  "'m platform \<Rightarrow> Emulation \<Rightarrow> ('m world \<times> RegisterFrame, stop_line, EmulationOutcome option) action" where
  "execute_step hw emulation s =
     (case on_hw (execute hw emulation (snd s)) (fst s) of
        (Ok (outcome, frame'), w') \<Rightarrow> (Ok (Some outcome), (w', frame'))
      | (Err e, w') \<Rightarrow> (Err e, (w', snd s))
      | (Panic, w') \<Rightarrow> (Panic, (w', snd s)))"

type_synonym ('m, 'a) resume_action = "('m world \<times> RegisterFrame, stop_line, 'a) action"

definition emulate_instruction :: "'m platform \<Rightarrow> ResumePlan \<Rightarrow> ('m, EmulationOutcome option) resume_action" where
  "emulate_instruction hw plan =
     (case emulate plan of None \<Rightarrow> ret None | Some emulation \<Rightarrow> execute_step hw emulation)"

definition advance_guest_rip :: "'m platform \<Rightarrow> u64 \<Rightarrow> u64 \<Rightarrow> u64 option \<Rightarrow> ('m, u64) resume_action" where
  "advance_guest_rip hw number rip advance_by =
     (case advance_by of
        Some n \<Rightarrow> and_then (on_machine (or_stop (vmwrite hw GUEST_RIP (rip + n)) (L_advance_failed number)))
          (\<lambda>_. ret (rip + n))
      | None \<Rightarrow> ret rip)"

definition queue_nmi :: "'m platform \<Rightarrow> u64 \<Rightarrow> ResumePlan \<Rightarrow> ('m, unit) resume_action" where
  "queue_nmi hw number plan =
     (if inject_nmi plan
      then on_machine (or_stop (vmwrite hw VM_ENTRY_INTERRUPTION_INFO (ucast INFO_NMI)) (L_nmi_queue_failed number))
      else ret ())"

definition queue_gp :: "'m platform \<Rightarrow> u64 \<Rightarrow> ResumePlan \<Rightarrow> ('m, unit) resume_action" where
  "queue_gp hw number plan =
     (if inject_gp plan
      then on_machine (or_stop (queue_general_protection hw) (L_gp_queue_failed number))
      else ret ())"

definition switch_nmi_window :: "'m platform \<Rightarrow> u64 \<Rightarrow> ResumePlan \<Rightarrow> ('m, unit) resume_action" where
  "switch_nmi_window hw number plan =
     (case plan_nmi_window plan of
        Some on \<Rightarrow> on_machine (or_stop (set_nmi_window_exiting hw on) (L_nmi_window_failed number on))
      | None \<Rightarrow> ret ())"

definition grant_protected_page ::
  "'m platform \<Rightarrow> u64 \<Rightarrow> ResumePlan \<Rightarrow> ProtectedPage option \<Rightarrow> ('m, InveptType option) resume_action" where
  "grant_protected_page hw number plan prot =
     (if plan_grant_write plan
      then (case prot of
              None \<Rightarrow> throw (L_no_protected_page number)
            | Some page \<Rightarrow> and_then (on_machine (or_stop (grant_write hw page) (L_grant_failed number)))
                (\<lambda>invept. ret (Some invept)))
      else ret None)"

definition resume_steps ::
  "'m platform \<Rightarrow> u64 \<Rightarrow> u64 option \<Rightarrow> u64 option \<Rightarrow> ResumePlan \<Rightarrow> ProtectedPage option \<Rightarrow>
   ('m, Resumed) resume_action" where
  "resume_steps hw number rip len plan prot =
     (case rip of
        None \<Rightarrow> throw (L_rip_unreadable number)
      | Some rip \<Rightarrow>
     (case (if advance_rip plan then (case len of None \<Rightarrow> None | Some n \<Rightarrow> Some (Some n)) else Some None) of
        None \<Rightarrow> throw (L_length_unreadable number)
      | Some advance_by \<Rightarrow>
     and_then (emulate_instruction hw plan) (\<lambda>emulated'.
     and_then (advance_guest_rip hw number rip advance_by) (\<lambda>resume_rip.
     and_then (queue_nmi hw number plan) (\<lambda>_.
     and_then (queue_gp hw number plan) (\<lambda>_.
     and_then (switch_nmi_window hw number plan) (\<lambda>_.
     and_then (grant_protected_page hw number plan prot) (\<lambda>invept.
     ret \<lparr>rs_rip = resume_rip, rs_invept = invept, rs_emulated = emulated'\<rparr>))))))))"

text \<open>The steps, with the reason printed when one of them stops.\<close>

definition prepare_resume ::
  "'m platform \<Rightarrow> u64 \<Rightarrow> u64 option \<Rightarrow> u64 option \<Rightarrow> ResumePlan \<Rightarrow> ProtectedPage option \<Rightarrow> RegisterFrame \<Rightarrow>
   ('m, Resumed option \<times> RegisterFrame) exit_action" where
  "prepare_resume hw number rip len plan prot frame w =
     (case resume_steps hw number rip len plan prot (w, frame) of
        (Ok resumed, (w', frame')) \<Rightarrow> (Ok (Some resumed, frame'), w')
      | (Err line, (w', frame')) \<Rightarrow> and_then (serial_println (StopLine line)) (\<lambda>_. ret (None, frame')) w'
      | (Panic, (w', frame')) \<Rightarrow> (Panic, w'))"

section \<open>The handler\<close>

definition apply_event ::
  "'m platform \<Rightarrow> u64 \<Rightarrow> ExitEvent \<Rightarrow> ExitRead \<Rightarrow> ExitState \<Rightarrow> RegisterFrame \<Rightarrow>
   ('m, ExitAction \<times> RegisterFrame) exit_action" where
  "apply_event hw number event read next frame =
     and_then (case event_action event of
          Resume plan \<Rightarrow>
            and_then (prepare_resume hw number (xr_rip read) (xr_length read) plan (xr_protected read) frame) (\<lambda>(resumed, frame').
            case resumed of
              Some resumed \<Rightarrow>
                and_then (report_event number event (xr_exit read) next (Some resumed)) (\<lambda>_. ret (Resume plan, frame'))
            | None \<Rightarrow> ret (UnexpectedStop, frame'))
        | stop \<Rightarrow>
            and_then (report_event number event (xr_exit read) next None) (\<lambda>_. ret (stop, frame))) (\<lambda>(act, frame').
     and_then (case act of
          Resume _ \<Rightarrow> ret ()
        | _ \<Rightarrow> serial_println (StopLine (L_stopping number))) (\<lambda>_.
     ret (act, frame')))"

definition vmexit_handler :: "'m platform \<Rightarrow> RegisterFrame \<Rightarrow> ('m, u64 \<times> RegisterFrame) exit_action" where
  "vmexit_handler hw frame =
     and_then (set_phase VmExit) (\<lambda>_.
     and_then (modify (\<lambda>w. w\<lparr>w_exits := (w_exits w)\<lparr>EXIT_COUNT := EXIT_COUNT (w_exits w) + 1\<rparr>\<rparr>)) (\<lambda>_.
     and_then (gets (\<lambda>w. EXIT_COUNT (w_exits w))) (\<lambda>number.
     and_then (read_exit hw number frame) (\<lambda>read.
     and_then (judge (xr_exit read)) (\<lambda>(event, next).
     and_then (apply_event hw number event read next frame) (\<lambda>(act, frame').
     ret (stub_return act number (case xr_raw_reason read of Some raw \<Rightarrow> raw | None \<Rightarrow> ucast UNREADABLE_REASON),
          frame')))))))"

definition vm_instruction_error_name :: "u32 \<Rightarrow> string" where
  "vm_instruction_error_name n =
     (if n = 2 then ''VMCLEAR with invalid physical address''
      else if n = 3 then ''VMCLEAR with VMXON pointer''
      else if n = 4 then ''VMLAUNCH with non-clear VMCS''
      else if n = 5 then ''VMRESUME with non-launched VMCS''
      else if n = 7 then ''VM entry with invalid control field(s)''
      else if n = 8 then ''VM entry with invalid host-state field(s)''
      else if n = 9 then ''VMPTRLD with invalid physical address''
      else if n = 10 then ''VMPTRLD with VMXON pointer''
      else if n = 11 then ''VMPTRLD with incorrect VMCS revision identifier''
      else if n = 12 then ''VMREAD/VMWRITE from/to unsupported VMCS component''
      else if n = 13 then ''VMWRITE to read-only VMCS component''
      else if n = 15 then ''VMXON executed in VMX root operation''
      else ''unknown VM-instruction error'')"

definition vmresume_failed :: "'m platform \<Rightarrow> u64 \<Rightarrow> ('m, u64) exit_action" where
  "vmresume_failed hw rflags =
     and_then (case resume_failure rflags of
          VmFailValid \<Rightarrow> (\<lambda>w.
            (case on_hw (vm_instruction_error hw) w of
               (Ok code, w') \<Rightarrow> serial_println (StopLine (L_resume_failed_code code (vm_instruction_error_name code))) w'
             | (Err e, w') \<Rightarrow> serial_println (StopLine (L_resume_failed_unreadable e)) w'
             | (Panic, w') \<Rightarrow> (Panic, w')))
        | e \<Rightarrow> serial_println (StopLine (L_resume_failed e))) (\<lambda>_.
     and_then (serial_println (StopLine L_resume_stopping)) (\<lambda>_.
     ret (encode_resume_failed rflags)))"

text \<open>
  The entry stub around the handler: 0 resumes the guest with the frame's registers, any other value
  goes back to \<open>launch\<close>. \<open>vmresume\<close> is the instruction: \<open>None\<close> when it entered the guest, the RFLAGS it
  left when it fell through.
\<close>

datatype stub_outcome = EnteredGuest RegisterFrame | ReturnedToLauncher u64

definition vmexit_entry ::
  "'m platform \<Rightarrow> (RegisterFrame \<Rightarrow> 'm \<Rightarrow> u64 option \<times> 'm) \<Rightarrow> RegisterFrame \<Rightarrow> ('m, stub_outcome) exit_action" where
  "vmexit_entry hw vmresume frame =
     and_then (vmexit_handler hw frame) (\<lambda>(v, frame').
     if v \<noteq> 0 then ret (ReturnedToLauncher v)
     else (\<lambda>w. (case vmresume frame' (w_machine w) of
            (None, m) \<Rightarrow> (Ok (EnteredGuest frame'), w\<lparr>w_machine := m\<rparr>)
          | (Some rflags, m) \<Rightarrow>
              and_then (vmresume_failed hw rflags) (\<lambda>v. ret (ReturnedToLauncher v)) (w\<lparr>w_machine := m\<rparr>))))"

end
