(* ===== verification/Exit_Spec.thy ===== *)
theory Exit_Spec
  imports Exit_Decision
begin

text \<open>
  An abstract specification of the exit decision: \<open>handles\<close> lists, as an inductive relation, the
  exits the hypervisor goes on after, with their conditions in terms of single bits and address
  ranges and their effect on the state. \<open>decide\<close> implements it: it reports exactly the events the
  relation allows, and on every other exit it stops and leaves the state as it was.
\<close>

section \<open>Bits and ranges behind the masks\<close>

lemma from_raw_simps [simp]:
  "er_basic (from_raw raw) = ucast raw" "er_entry_failure (from_raw raw) \<longleftrightarrow> bit raw 31"
  unfolding from_raw_def bit_test by simp_all

lemma is_write_bit: "is_write q \<longleftrightarrow> bit q 1"
  unfolding is_write_def EPT_ACCESS_WRITE_def bit_test by simp

lemma is_in_bit: "is_in q \<longleftrightarrow> bit q 3"
  unfolding is_in_def bit_test by simp

lemma is_string_bit: "is_string q \<longleftrightarrow> bit q 4"
  unfolding is_string_def bit_test by simp

lemma is_rep_bit: "is_rep q \<longleftrightarrow> bit q 5"
  unfolding is_rep_def bit_test by simp

lemma is_valid_bit: "is_valid info \<longleftrightarrow> bit info 31"
  unfolding is_valid_def VALID_def bit_test by simp

lemma is_protected_write_bits:
  "is_protected_write q \<longleftrightarrow>
     bit q 1 \<and> bit q 3 \<and> bit q 7 \<and> bit q 8 \<and> \<not> bit q 4 \<and> \<not> bit q 12"
  unfolding is_protected_write_def const_defs Let_def and_eq_self_iff_bits and_eq_0_iff_bits
    bit_or_iff bit_push_bit_1
  by auto

definition nmi_blocked :: "u32 \<Rightarrow> bool" where
  "nmi_blocked blocking \<longleftrightarrow> bit blocking 0 \<or> bit blocking 1 \<or> bit blocking 3"

lemma nmi_blocked_mask: "blocking AND NMI_INJECTION_BLOCKED = 0 \<longleftrightarrow> \<not> nmi_blocked blocking"
  unfolding nmi_blocked_def NMI_INJECTION_BLOCKED_def BLOCKING_BY_STI_def BLOCKING_BY_MOV_SS_def
    BLOCKING_BY_NMI_def and_eq_0_iff_bits bit_or_iff bit_push_bit_1
  by auto

lemma info_values: "INFO_NMI = 0x80000202" "INFO_GENERAL_PROTECTION = 0x80000B0D"
  by (simp_all add: const_defs)

text \<open>A canonical address is below \<open>2 ^ 47\<close> or in the topmost \<open>2 ^ 47\<close> addresses.\<close>

lemma is_canonical_48_bits: "is_canonical_48 value \<longleftrightarrow> (\<forall>n \<in> {48..<64}. bit value n = bit value 47)"
proof -
  have b: "bit (signed_drop_bit 16 (push_bit 16 value)) n \<longleftrightarrow> bit value (if n < 48 then n else 47)"
    if "n < 64" for n
    using that by (auto simp: bit_simps not_less)
  show ?thesis (is "_ \<longleftrightarrow> ?R")
  proof
    assume "is_canonical_48 value"
    then have e: "signed_drop_bit 16 (push_bit 16 value) = value" by (simp only: is_canonical_48_def)
    show ?R
    proof
      fix n :: nat assume "n \<in> {48..<64}"
      then show "bit value n = bit value 47" using b [of n] unfolding e by simp
    qed
  next
    assume ?R
    then have "bit value (if n < 48 then n else 47) = bit value n" if "n < 64" for n
      using that by auto
    then show "is_canonical_48 value"
      unfolding is_canonical_48_def by (intro bit_word_eqI) (simp add: b)
  qed
qed

lemma is_canonical_48_iff: "is_canonical_48 value \<longleftrightarrow> drop_bit 47 value = 0 \<or> drop_bit 47 value = mask 17"
proof
  assume "is_canonical_48 value"
  then have eq: "bit value (47 + n) = bit value 47" if "n < 17" for n
    using that by (cases n) (auto simp: is_canonical_48_bits)
  have b: "bit (drop_bit 47 value) n \<longleftrightarrow> n < 17 \<and> bit value 47" for n
  proof (cases "n < 17")
    case True
    then show ?thesis using eq by (simp add: bit_drop_bit_eq)
  next
    case False
    then have "\<not> bit value (47 + n)" using bit_imp_le_length [of "value" "47 + n"] by auto
    then show ?thesis using False by (simp add: bit_drop_bit_eq)
  qed
  show "drop_bit 47 value = 0 \<or> drop_bit 47 value = mask 17"
  proof (cases "bit value 47")
    case True
    then have "drop_bit 47 value = mask 17" by (intro bit_word_eqI) (simp only: b bit_mask_word)
    then show ?thesis ..
  next
    case False
    then have "drop_bit 47 value = 0" by (intro bit_word_eqI) (simp only: b, simp)
    then show ?thesis ..
  qed
next
  assume a: "drop_bit 47 value = 0 \<or> drop_bit 47 value = mask 17"
  have "bit value n = bit value 47" if "n \<in> {48..<64}" for n
  proof -
    have "bit (drop_bit 47 value) (n - 47) = bit (drop_bit 47 value) 0"
      using a that by auto
    then show ?thesis using that by (simp add: bit_drop_bit_eq)
  qed
  then show "is_canonical_48 value" by (simp add: is_canonical_48_bits)
qed

lemma is_canonical_48_range:
  "is_canonical_48 value \<longleftrightarrow> unat value < 2 ^ 47 \<or> 2 ^ 64 - 2 ^ 47 \<le> unat value"
proof -
  have "drop_bit 47 value = 0 \<longleftrightarrow> unat (drop_bit 47 value) = 0"
    "drop_bit 47 value = mask 17 \<longleftrightarrow> unat (drop_bit 47 value) = unat (mask 17 :: u64)"
    by (simp_all only: word_unat_eq_iff unsigned_0)
  moreover have "unat (mask 17 :: u64) = 2 ^ 17 - 1" by (simp add: mask_eq_exp_minus_1)
  moreover have "unat value < 2 ^ 64" using unsigned_less [where 'a = nat, of "value"] by simp
  ultimately show ?thesis
    unfolding is_canonical_48_iff drop_bit_unat by (simp, linarith)
qed

text \<open>WRMSR's value is EDX:EAX.\<close>

lemma unat_edx_eax:
  "unat (push_bit 32 rdx OR (rax AND 0xFFFFFFFF) :: u64) = (unat rdx mod 2 ^ 32) * 2 ^ 32 + unat rax mod 2 ^ 32"
proof -
  have m: "(0xFFFFFFFF :: u64) = mask 32" by (simp add: mask_eq_exp_minus_1)
  have "push_bit 32 rdx AND (rax AND mask 32) = 0"
    by (rule bit_word_eqI) (auto simp: bit_simps)
  then have "push_bit 32 rdx OR (rax AND mask 32) = push_bit 32 rdx + (rax AND mask 32)"
    by (simp add: disjunctive_add_eq_or)
  moreover have "unat (push_bit 32 rdx) = (unat rdx mod 2 ^ 32) * 2 ^ 32"
  proof -
    have "unat rdx * 2 ^ 32 mod (2 ^ 32 * 2 ^ 32) = (unat rdx mod 2 ^ 32) * 2 ^ 32"
      by (rule mod_mult_mult2)
    then show ?thesis
      by (simp only: unsigned_push_bit_eq) (simp add: push_bit_eq_mult take_bit_eq_mod)
  qed
  ultimately show ?thesis
    unfolding m by (simp add: unat_word_ariths and_mask_unat)
qed

section \<open>The exits the hypervisor goes on after\<close>

definition plain_exit :: "ExitInfo \<Rightarrow> u16 \<Rightarrow> bool" where
  "plain_exit x r \<longleftrightarrow>
     \<not> er_entry_failure (ei_reason x) \<and> \<not> ei_idt_vectoring_valid x \<and> er_basic (ei_reason x) = r"

inductive handles :: "ExitState \<Rightarrow> ExitInfo \<Rightarrow> ExitEvent \<Rightarrow> bool" for st :: ExitState and x :: ExitInfo
where
  Cpuid: "plain_exit x 10 \<Longrightarrow> handles st x (Emulated (Cpuid (ucast (ei_guest_rax x)) (ucast (ei_guest_rcx x))))"
| Rdmsr: "plain_exit x 31 \<Longrightarrow> msr = ucast (ei_guest_rcx x) \<Longrightarrow> msr \<in> set INTERCEPTED_MSRS \<Longrightarrow>
    handles st x (Emulated (Rdmsr msr))"
| Wrmsr: "plain_exit x 32 \<Longrightarrow> msr = ucast (ei_guest_rcx x) \<Longrightarrow> msr \<in> set INTERCEPTED_MSRS \<Longrightarrow>
    unat v = (unat (ei_guest_rdx x) mod 2 ^ 32) * 2 ^ 32 + unat (ei_guest_rax x) mod 2 ^ 32 \<Longrightarrow>
    unat v < 2 ^ 47 \<or> 2 ^ 64 - 2 ^ 47 \<le> unat v \<Longrightarrow>
    handles st x (Emulated (Wrmsr msr v))"
| Wrmsr_GP: "plain_exit x 32 \<Longrightarrow> ucast (ei_guest_rcx x) \<in> set INTERCEPTED_MSRS \<Longrightarrow>
    v = (unat (ei_guest_rdx x) mod 2 ^ 32) * 2 ^ 32 + unat (ei_guest_rax x) mod 2 ^ 32 \<Longrightarrow>
    2 ^ 47 \<le> v \<Longrightarrow> v < 2 ^ 64 - 2 ^ 47 \<Longrightarrow>
    handles st x GuestGeneralProtection"
| Msr_GP: "plain_exit x 31 \<or> plain_exit x 32 \<Longrightarrow> \<not> msr_in_bitmap (ucast (ei_guest_rcx x)) \<Longrightarrow>
    handles st x GuestGeneralProtection"
| In: "plain_exit x 30 \<Longrightarrow> io_size (ei_qualification x) = Some sz \<Longrightarrow> \<not> bit (ei_qualification x) 4 \<Longrightarrow>
    \<not> bit (ei_qualification x) 5 \<Longrightarrow> bit (ei_qualification x) 3 \<Longrightarrow>
    handles st x (Emulated (In (ucast (drop_bit 16 (ei_qualification x))) sz))"
| Out: "plain_exit x 30 \<Longrightarrow> io_size (ei_qualification x) = Some sz \<Longrightarrow> \<not> bit (ei_qualification x) 4 \<Longrightarrow>
    \<not> bit (ei_qualification x) 5 \<Longrightarrow> \<not> bit (ei_qualification x) 3 \<Longrightarrow>
    handles st x (Emulated (Out (ucast (drop_bit 16 (ei_qualification x))) sz (out_value (ei_guest_rax x) sz)))"
| Nmi: "plain_exit x 0 \<Longrightarrow> is_nmi (ei_interruption_info x) \<Longrightarrow> \<not> nmi_blocked (ei_interruptibility x) \<Longrightarrow>
    handles st x NmiInjected"
| Nmi_blocked: "plain_exit x 0 \<Longrightarrow> is_nmi (ei_interruption_info x) \<Longrightarrow> nmi_blocked (ei_interruptibility x) \<Longrightarrow>
    handles st x NmiDeferred"
| Window: "plain_exit x 8 \<Longrightarrow> nmi_pending st \<Longrightarrow> \<not> nmi_blocked (ei_interruptibility x) \<Longrightarrow>
    handles st x NmiWindowInjected"
| Window_blocked: "plain_exit x 8 \<Longrightarrow> nmi_pending st \<Longrightarrow> nmi_blocked (ei_interruptibility x) \<Longrightarrow>
    handles st x NmiDeferred"
| Ept: "plain_exit x 48 \<Longrightarrow> ept_writes_granted st = 0 \<Longrightarrow> ei_protected_page x \<noteq> 0 \<Longrightarrow>
    ei_guest_physical x AND NOT 0xFFF = ei_protected_page x \<Longrightarrow> q = ei_qualification x \<Longrightarrow>
    bit q 1 \<and> bit q 3 \<and> bit q 7 \<and> bit q 8 \<and> \<not> bit q 4 \<and> \<not> bit q 12 \<Longrightarrow>
    handles st x EptWriteGranted"
| Vmcall_nmi: "plain_exit x 18 \<Longrightarrow> ei_guest_rax x = 0x4E4D49 \<Longrightarrow> handles st x GuestNmiHandler"
| Vmcall_main: "plain_exit x 18 \<Longrightarrow> ei_guest_rax x \<noteq> 0x4E4D49 \<Longrightarrow>
    unat (ei_guest_rax x) = 0xA1E0 + unat (main_vmcalls st) \<Longrightarrow> ept_writes_granted st \<noteq> 0 \<Longrightarrow>
    main_vmcalls st = 0 \<longrightarrow> data_page_read_back x \<Longrightarrow> main_vmcalls st + 1 < PLANNED_MAIN_VMCALLS \<Longrightarrow>
    handles st x MainVmcall"
| Vmcall_last: "plain_exit x 18 \<Longrightarrow> ei_guest_rax x \<noteq> 0x4E4D49 \<Longrightarrow>
    unat (ei_guest_rax x) = 0xA1E0 + unat (main_vmcalls st) \<Longrightarrow> ept_writes_granted st \<noteq> 0 \<Longrightarrow>
    main_vmcalls st = 0 \<longrightarrow> data_page_read_back x \<Longrightarrow> PLANNED_MAIN_VMCALLS \<le> main_vmcalls st + 1 \<Longrightarrow>
    emulated st = EXPECTED_EMULATION \<Longrightarrow>
    handles st x LastMainVmcall"

text \<open>The state after an exit depends on the event alone.\<close>

fun emulation_effect :: "Emulation \<Rightarrow> EmulationCounts \<Rightarrow> EmulationCounts" where
  "emulation_effect (Cpuid _ _) c = c\<lparr>n_cpuid := n_cpuid c + 1\<rparr>"
| "emulation_effect (Rdmsr _) c = c\<lparr>n_rdmsr := n_rdmsr c + 1\<rparr>"
| "emulation_effect (Wrmsr _ _) c = c\<lparr>n_wrmsr := n_wrmsr c + 1\<rparr>"
| "emulation_effect (In _ _) c = c\<lparr>n_io_in := n_io_in c + 1\<rparr>"
| "emulation_effect (Out _ _ _) c = c\<lparr>n_io_out := n_io_out c + 1\<rparr>"

fun event_effect :: "ExitEvent \<Rightarrow> ExitState \<Rightarrow> ExitState" where
  "event_effect MainVmcall st = st\<lparr>main_vmcalls := main_vmcalls st + 1\<rparr>"
| "event_effect LastMainVmcall st = st\<lparr>main_vmcalls := main_vmcalls st + 1\<rparr>"
| "event_effect GuestNmiHandler st = st\<lparr>nmis_handled := nmis_handled st + 1\<rparr>"
| "event_effect NmiInjected st = st\<lparr>nmi_pending := False, nmis_injected := nmis_injected st + 1\<rparr>"
| "event_effect NmiWindowInjected st = st\<lparr>nmi_pending := False, nmis_injected := nmis_injected st + 1\<rparr>"
| "event_effect NmiDeferred st = st\<lparr>nmi_pending := True\<rparr>"
| "event_effect EptWriteGranted st = st\<lparr>ept_writes_granted := 1\<rparr>"
| "event_effect (Emulated e) st = st\<lparr>emulated := emulation_effect e (emulated st)\<rparr>"
| "event_effect _ st = st"

section \<open>decide implements the specification\<close>

lemma decide_dispatch:
  "plain_exit x 10 \<Longrightarrow> decide st x = cpuid st x"
  "plain_exit x 31 \<Longrightarrow> decide st x = rdmsr_exit st x"
  "plain_exit x 32 \<Longrightarrow> decide st x = wrmsr_exit st x"
  "plain_exit x 30 \<Longrightarrow> decide st x = io st x"
  "plain_exit x 0 \<Longrightarrow> decide st x = exception_or_nmi st x"
  "plain_exit x 8 \<Longrightarrow> decide st x = nmi_window st x"
  "plain_exit x 48 \<Longrightarrow> decide st x = ept_violation st x"
  "plain_exit x 18 \<Longrightarrow> decide st x = vmcall st x"
  by (simp_all add: plain_exit_def decide_def const_defs)

lemma decide_cases:
  obtains (reason) r where "plain_exit x r" and "r \<in> {10, 31, 32, 30, 0, 8, 48, 18}"
  | (stop) "event_action (fst (decide st x)) = UnexpectedStop" and "snd (decide st x) = st"
proof (cases "\<exists>r \<in> {10, 31, 32, 30, 0, 8, 48, 18}. plain_exit x r")
  case True
  then show ?thesis using reason by blast
next
  case False
  have "event_action (fst (decide st x)) = UnexpectedStop \<and> snd (decide st x) = st"
  proof (cases "er_entry_failure (ei_reason x) \<or> ei_idt_vectoring_valid x")
    case True
    then show ?thesis by (auto simp: decide_def Let_def)
  next
    case ok: False
    with False have "er_basic (ei_reason x) \<notin> {10, 31, 32, 30, 0, 8, 48, 18}"
      by (auto simp: plain_exit_def)
    with ok show ?thesis by (simp add: decide_def Let_def const_defs)
  qed
  then show ?thesis using stop by blast
qed

lemma route_unfold:
  "route msr = (if \<not> msr_in_bitmap msr then OutOfRange
     else if msr \<in> set INTERCEPTED_MSRS then Intercepted else NotIntercepted)"
  by (simp add: route_def msr_bit_None_iff)

lemma intercepted_in_bitmap: "msr \<in> set INTERCEPTED_MSRS \<Longrightarrow> msr_in_bitmap msr"
  using intercepted_msrs_ok(2) by (simp add: list_all_iff)

lemma wrmsr_value_canonical:
  assumes "unat v = (unat rdx mod 2 ^ 32) * 2 ^ 32 + unat rax mod 2 ^ 32"
  shows "(push_bit 32 rdx OR (rax AND 0xFFFFFFFF) :: u64) = v"
  using assms by (simp only: word_unat_eq_iff unat_edx_eax)

lemma expected_main_rax_iff:
  "rax = expected_main_rax st \<longleftrightarrow> unat rax = 0xA1E0 + unat (main_vmcalls st)"
proof -
  have "unat (expected_main_rax st) = 0xA1E0 + unat (main_vmcalls st)"
    using unat_u32_less [of "main_vmcalls st"]
    by (simp add: expected_main_rax_def const_defs unat_word_ariths)
  then show ?thesis by (metis word_unat_eq_iff)
qed

lemma emulation_handlers_sound:
  "handles st x (fst (cpuid st x))" if "plain_exit x 10" for st x
  using that by (simp add: cpuid_def handles.Cpuid)

lemma io_sound:
  assumes "plain_exit x 30" and "io st x = (ev, st')" and "event_action ev \<noteq> UnexpectedStop"
  shows "handles st x ev \<and> st' = event_effect ev st"
  using assms
  by (auto simp: io_def Let_def io_port_def counted_def is_in_bit is_string_bit is_rep_bit
      split: option.splits if_splits intro: handles.In handles.Out)

lemma rdmsr_sound:
  assumes "plain_exit x 31" and "rdmsr_exit st x = (ev, st')" and "event_action ev \<noteq> UnexpectedStop"
  shows "handles st x ev \<and> st' = event_effect ev st"
  using assms
  by (auto simp: rdmsr_exit_def Let_def route_unfold counted_def
      split: if_splits intro: handles.Rdmsr handles.Msr_GP)

lemma wrmsr_sound:
  assumes "plain_exit x 32" and "wrmsr_exit st x = (ev, st')" and "event_action ev \<noteq> UnexpectedStop"
  shows "handles st x ev \<and> st' = event_effect ev st"
proof -
  let ?v = "push_bit 32 (ei_guest_rdx x) OR (ei_guest_rax x AND 0xFFFFFFFF)"
  let ?msr = "ucast (ei_guest_rcx x) :: u32"
  consider (gp) "ev = GuestGeneralProtection" "st' = st" "\<not> msr_in_bitmap ?msr"
    | (gp_value) "ev = GuestGeneralProtection" "st' = st" "?msr \<in> set INTERCEPTED_MSRS" "\<not> is_canonical_48 ?v"
    | (ok) "ev = Emulated (Wrmsr ?msr ?v)" "?msr \<in> set INTERCEPTED_MSRS" "is_canonical_48 ?v"
        "st' = event_effect ev st"
    using assms(2,3)
    by (auto simp: wrmsr_exit_def Let_def route_unfold counted_def split: if_splits)
  then show ?thesis
  proof cases
    case gp
    then show ?thesis using assms(1) by (simp add: handles.Msr_GP)
  next
    case gp_value
    then have "2 ^ 47 \<le> unat ?v" "unat ?v < 2 ^ 64 - 2 ^ 47"
      by (simp_all only: is_canonical_48_range not_less not_le de_Morgan_disj)
    then show ?thesis using gp_value handles.Wrmsr_GP [OF assms(1) gp_value(3) unat_edx_eax]
      by simp
  next
    case ok
    then show ?thesis
      using handles.Wrmsr [OF assms(1) refl ok(2) unat_edx_eax] by (simp only: is_canonical_48_range)
  qed
qed

lemma scenario_sound:
  assumes "event_action ev \<noteq> UnexpectedStop"
  shows "plain_exit x 0 \<Longrightarrow> exception_or_nmi st x = (ev, st') \<Longrightarrow> handles st x ev \<and> st' = event_effect ev st"
    and "plain_exit x 8 \<Longrightarrow> nmi_window st x = (ev, st') \<Longrightarrow> handles st x ev \<and> st' = event_effect ev st"
    and "plain_exit x 48 \<Longrightarrow> ept_violation st x = (ev, st') \<Longrightarrow> handles st x ev \<and> st' = event_effect ev st"
  using assms
  by (auto simp: exception_or_nmi_def nmi_window_def ept_violation_def injected_def nmi_blocked_mask
      is_protected_write_bits Let_def split: if_splits intro: handles.intros)

lemma vmcall_sound:
  assumes "plain_exit x 18" and "vmcall st x = (ev, st')" and "event_action ev \<noteq> UnexpectedStop"
  shows "handles st x ev \<and> st' = event_effect ev st"
proof -
  have m: "(ucast GUEST_NMI_MARKER :: u64) = 0x4E4D49" by (simp add: const_defs)
  show ?thesis
    using assms
    by (auto simp: vmcall_def Let_def m expected_main_rax_iff not_less split: if_splits
        intro: handles.Vmcall_nmi handles.Vmcall_main handles.Vmcall_last)
qed

lemma decide_sound:
  assumes "decide st x = (ev, st')" and "event_action ev \<noteq> UnexpectedStop"
  shows "handles st x ev \<and> st' = event_effect ev st"
proof (cases rule: decide_cases [where x = x and st = st])
  case (reason r)
  then consider "plain_exit x 10" | "plain_exit x 31" | "plain_exit x 32" | "plain_exit x 30"
    | "plain_exit x 0" | "plain_exit x 8" | "plain_exit x 48" | "plain_exit x 18"
    by auto
  then show ?thesis
  proof cases
    case 1
    then show ?thesis using assms emulation_handlers_sound [OF 1, of st]
      by (auto simp: decide_dispatch cpuid_def counted_def)
  qed (use assms io_sound rdmsr_sound wrmsr_sound scenario_sound vmcall_sound
      in \<open>simp_all add: decide_dispatch\<close>)
next
  case stop
  then show ?thesis using assms by simp
qed

lemma decide_complete:
  assumes "handles st x ev"
  shows "decide st x = (ev, event_effect ev st)"
  using assms
proof cases
  case (Wrmsr msr v)
  from wrmsr_value_canonical [OF Wrmsr(5)] Wrmsr is_canonical_48_range show ?thesis
    by (simp add: decide_dispatch wrmsr_exit_def Let_def route_unfold intercepted_in_bitmap counted_def)
next
  case (Wrmsr_GP v)
  have "\<not> is_canonical_48 (push_bit 32 (ei_guest_rdx x) OR (ei_guest_rax x AND 0xFFFFFFFF))"
    using Wrmsr_GP(4-6) unfolding is_canonical_48_range unat_edx_eax by linarith
  with Wrmsr_GP show ?thesis
    by (simp add: decide_dispatch wrmsr_exit_def Let_def route_unfold intercepted_in_bitmap)
next
  case Msr_GP
  then show ?thesis
    by (auto simp: decide_dispatch rdmsr_exit_def wrmsr_exit_def Let_def route_unfold)
next
  case (Window_blocked)
  then show ?thesis by (simp add: decide_dispatch nmi_window_def nmi_blocked_mask)
qed (simp_all add: decide_dispatch cpuid_def counted_def rdmsr_exit_def io_def io_port_def Let_def
    is_in_bit is_string_bit is_rep_bit route_unfold intercepted_in_bitmap exception_or_nmi_def
    nmi_window_def ept_violation_def injected_def nmi_blocked_mask is_protected_write_bits
    vmcall_def expected_main_rax_iff GUEST_NMI_MARKER_def)

text \<open>An exit the specification does not list stops the guest, and changes no state.\<close>

lemma decide_stop: "event_action (fst (decide st x)) = UnexpectedStop \<Longrightarrow> snd (decide st x) = st"
  by (cases rule: decide_cases [where x = x and st = st])
    (auto simp: decide_dispatch cpuid_def rdmsr_exit_def wrmsr_exit_def io_def exception_or_nmi_def
      nmi_window_def ept_violation_def vmcall_def Let_def split: if_splits option.splits MsrRoute.splits)

lemma handles_not_stop: "handles st x ev \<Longrightarrow> event_action ev \<noteq> UnexpectedStop"
  by (cases rule: handles.cases) auto

section \<open>Correctness properties\<close>

text \<open>
  C6. The exit decision implements its specification: \<open>decide\<close> reports an event the hypervisor
  goes on after (or finishes with) exactly when the relation \<open>handles\<close> allows that event for this exit in
  this state, and then the new state is the event's effect on the old one.
\<close>

theorem decide_implements_spec:
  "(decide st x = (ev, st') \<and> event_action ev \<noteq> UnexpectedStop) \<longleftrightarrow> (handles st x ev \<and> st' = event_effect ev st)"
  using decide_sound decide_complete handles_not_stop by (metis prod.inject)

text \<open>
  C29. An exit that the specification allows no event for stops the guest and changes no state, and
  only such an exit does: in particular a failed VM entry and an exit during the delivery of an event.
\<close>

theorem unlisted_exit_stops:
  "(event_action (fst (decide st x)) = UnexpectedStop \<and> snd (decide st x) = st) \<longleftrightarrow> (\<forall>ev. \<not> handles st x ev)"
  using decide_sound [of st x] decide_complete [of st x] decide_stop [of st x] handles_not_stop
  by (metis fst_conv prod.collapse)

text \<open>
  C39. The value of an emulated WRMSR is EDX:EAX, and the sign-extension test of \<open>is_canonical_48\<close>
  accepts it exactly when it is below \<open>2 ^ 47\<close> or in the topmost \<open>2 ^ 47\<close> addresses.
\<close>

theorem wrmsr_value_check:
  "is_canonical_48 (push_bit 32 rdx OR (rax AND 0xFFFFFFFF)) \<longleftrightarrow>
     (let v = (unat rdx mod 2 ^ 32) * 2 ^ 32 + unat rax mod 2 ^ 32 in v < 2 ^ 47 \<or> 2 ^ 64 - 2 ^ 47 \<le> v)"
  by (simp only: is_canonical_48_range unat_edx_eax Let_def)

text \<open>
  C40. The guest's CPUID differs from the processor's in one bit: ECX bit 5 of leaf 1, the VMX
  feature, which is always clear.
\<close>

theorem cpuid_policy_hides_vmx:
  "(bit (ecx (cpuid_policy leaf raw)) n = (bit (ecx raw) n \<and> (leaf, n) \<noteq> (1, 5))) \<and>
   eax (cpuid_policy leaf raw) = eax raw \<and> ebx (cpuid_policy leaf raw) = ebx raw \<and> edx (cpuid_policy leaf raw) = edx raw"
proof -
  have "bit (ecx raw AND NOT CPUID_1_ECX_VMX) n = (bit (ecx raw) n \<and> n \<noteq> 5)"
    unfolding CPUID_1_ECX_VMX_def bit_and_iff bit_not_iff bit_push_bit_1 by (auto dest: bit_imp_le_length)
  then show ?thesis by (simp add: cpuid_policy_def)
qed

text \<open>
  An IN of 1 or 2 bytes replaces only those bytes of RAX, an IN of 4 bytes clears the upper half;
  an OUT takes the low 1, 2 or 4 bytes of RAX.
\<close>

lemma io_register_bits:
  "(bit (merge_in rax sz v) n = (if n < 8 * unat (size_bytes sz) then bit v n else sz \<noteq> Dword \<and> bit rax n)) \<and>
   unat (out_value rax sz) = unat rax mod 2 ^ (8 * unat (size_bytes sz))"
proof
  have m: "size_mask sz = mask (8 * unat (size_bytes sz))" for sz
    by (cases sz) (simp_all add: mask_eq_exp_minus_1)
  have "n < 64" if "bit rax n" using that bit_imp_le_length [of rax n] by simp
  moreover have "n < 32" if "bit v n" using that bit_imp_le_length [of v n] by simp
  ultimately show "bit (merge_in rax sz v) n = (if n < 8 * unat (size_bytes sz) then bit v n else sz \<noteq> Dword \<and> bit rax n)"
    unfolding merge_in_def m by (cases sz) (auto simp: bit_simps)
  have "unat rax mod 2 ^ (8 * unat (size_bytes sz)) < 2 ^ 32"
    by (rule order_less_le_trans [of _ "2 ^ (8 * unat (size_bytes sz))"]) (cases sz; simp)+
  then show "unat (out_value rax sz) = unat rax mod 2 ^ (8 * unat (size_bytes sz))"
    unfolding out_value_def m by (simp add: unsigned_ucast_eq and_mask_unat take_bit_eq_mod)
qed

end
