(* ===== verification/Exit_Run.thy ===== *)
theory Exit_Run
  imports Exit_Spec "HOL-Library.Sublist"
begin

text \<open>
  A run of the guest as the exit decision sees it: a state machine whose steps are exits. The
  guest goes on while the action is to resume and takes no step after a stop. The lemmas are the
  invariants of every reachable run: the state is determined by the events so far, each counter
  counts its events (locale \<open>event_counter\<close>), the three milestones of the scenario come in
  order, and a pending NMI is one whose latest event is a deferral.
\<close>

section \<open>Runs\<close>

record run =
  r_state :: ExitState
  r_events :: "ExitEvent list"
  r_stopped :: "ExitAction option"

definition start_run :: run where
  "start_run = \<lparr>r_state = default_ExitState, r_events = [], r_stopped = None\<rparr>"

inductive exit_step :: "run \<Rightarrow> ExitInfo \<Rightarrow> run \<Rightarrow> bool" where
  Go: "r_stopped r = None \<Longrightarrow> decide (r_state r) x = (ev, st) \<Longrightarrow> event_action ev = Resume plan \<Longrightarrow>
    exit_step r x \<lparr>r_state = st, r_events = r_events r @ [ev], r_stopped = None\<rparr>"
| Stop: "r_stopped r = None \<Longrightarrow> decide (r_state r) x = (ev, st) \<Longrightarrow> event_action ev \<in> {Finished, UnexpectedStop} \<Longrightarrow>
    exit_step r x \<lparr>r_state = st, r_events = r_events r @ [ev], r_stopped = Some (event_action ev)\<rparr>"

inductive_cases exit_stepE: "exit_step r x r'"

inductive exit_run :: "ExitInfo list \<Rightarrow> run \<Rightarrow> bool" where
  Start: "exit_run [] start_run"
| Exit: "exit_run xs r \<Longrightarrow> exit_step r x r' \<Longrightarrow> exit_run (xs @ [x]) r'"

text \<open>The machine as a function, for evaluation: exits after a stop never happen.\<close>

fun run_exits :: "run \<Rightarrow> ExitInfo list \<Rightarrow> run" where
  "run_exits r [] = r"
| "run_exits r (x # xs) =
     (case r_stopped r of
        Some _ \<Rightarrow> r
      | None \<Rightarrow>
          (case decide (r_state r) x of (ev, st) \<Rightarrow>
             run_exits \<lparr>r_state = st, r_events = r_events r @ [ev],
               r_stopped = (case event_action ev of Resume _ \<Rightarrow> None | a \<Rightarrow> Some a)\<rparr> xs))"

section \<open>One step\<close>

lemma decide_effect: "snd (decide st x) = event_effect (fst (decide st x)) st"
proof (cases "event_action (fst (decide st x)) = UnexpectedStop")
  case True
  then have "event_effect (fst (decide st x)) st = st"
    by (cases "fst (decide st x)") auto
  with True show ?thesis by (simp add: decide_stop)
next
  case False
  then show ?thesis using decide_sound [of st x] by (metis prod.collapse)
qed

lemma exit_step_unfold:
  assumes "exit_step r x r'"
  obtains ev where "r_stopped r = None" and "decide (r_state r) x = (ev, event_effect ev (r_state r))"
    and "r_state r' = event_effect ev (r_state r)" and "r_events r' = r_events r @ [ev]"
    and "r_stopped r' = None \<longleftrightarrow> (\<exists>plan. event_action ev = Resume plan)"
    and "r_stopped r' = None \<or> r_stopped r' = Some (event_action ev)"
    and "event_action ev = UnexpectedStop \<or> handles (r_state r) x ev"
proof -
  obtain ev st where d: "decide (r_state r) x = (ev, st)" by (cases "decide (r_state r) x")
  then have st: "st = event_effect ev (r_state r)" using decide_effect [of "r_state r" x] by simp
  have h: "event_action ev = UnexpectedStop \<or> handles (r_state r) x ev"
    using decide_sound [OF d] by blast
  show thesis
    using assms
  proof cases
    case (Go ev' st' plan)
    then show thesis using that [of ev] d st h by auto
  next
    case (Stop ev' st')
    then show thesis using that [of ev] d st h by auto
  qed
qed

text \<open>Exactly one step is possible before a stop, and none after it.\<close>

lemma exit_step_deterministic: "exit_step r x r' \<Longrightarrow> exit_step r x r'' \<Longrightarrow> r' = r''"
  by (auto elim!: exit_stepE)

lemma exit_step_exists: "(\<exists>r'. exit_step r x r') \<longleftrightarrow> r_stopped r = None"
proof
  assume "r_stopped r = None"
  moreover obtain ev st where "decide (r_state r) x = (ev, st)" by (cases "decide (r_state r) x")
  ultimately show "\<exists>r'. exit_step r x r'"
    by (cases "event_action ev") (use exit_step.intros in blast)+
qed (auto elim: exit_stepE)

lemma run_exits_step:
  assumes "r_stopped r = None"
  obtains r' where "exit_step r x r'" and "run_exits r (x # xs) = run_exits r' xs"
proof -
  obtain ev st where d: "decide (r_state r) x = (ev, st)" by (cases "decide (r_state r) x")
  show thesis
  proof (cases "event_action ev")
    case (Resume plan)
    then show ?thesis using that [OF Go [OF assms d]] assms d by simp
  qed (use that [OF Stop [OF assms d]] assms d in simp_all)
qed

lemma exit_run_run_exits: "exit_run xs r \<Longrightarrow> run_exits r ys = run_exits start_run (xs @ ys)"
proof (induction arbitrary: ys rule: exit_run.induct)
  case Start
  show ?case by simp
next
  case (Exit xs r x r')
  then have "r_stopped r = None" by (auto elim: exit_stepE)
  then obtain r'' where "exit_step r x r''" and "run_exits r (x # ys) = run_exits r'' ys"
    by (rule run_exits_step)
  with Exit show ?case by (metis append_Cons append_Nil append_assoc exit_step_deterministic)
qed

lemma run_exits_stopped: "r_stopped r = Some a \<Longrightarrow> run_exits r xs = r"
  by (cases xs) simp_all

text \<open>What the function computes is a run of the machine over the exits that happened.\<close>

lemma run_exits_reachable:
  assumes "exit_run xs r"
  shows "\<exists>zs. prefix zs ys \<and> exit_run (xs @ zs) (run_exits r ys)"
  using assms
proof (induction ys arbitrary: xs r)
  case Nil
  then show ?case by (intro exI [of _ "[]"]) simp
next
  case (Cons y ys)
  show ?case
  proof (cases "r_stopped r")
    case None
    then obtain r' where r': "exit_step r y r'" "run_exits r (y # ys) = run_exits r' ys"
      by (rule run_exits_step)
    from Cons.IH [OF exit_run.Exit [OF Cons.prems r'(1)]]
    obtain zs where "prefix zs ys" "exit_run ((xs @ [y]) @ zs) (run_exits r' ys)" by blast
    then show ?thesis using r'(2) by (intro exI [of _ "y # zs"]) simp
  next
    case (Some a)
    then show ?thesis using Cons.prems by (intro exI [of _ "[]"]) (simp add: run_exits_stopped)
  qed
qed

section \<open>The state is what the events made it\<close>

lemma run_state_fold:
  "exit_run xs r \<Longrightarrow> r_state r = fold event_effect (r_events r) default_ExitState \<and> length (r_events r) = length xs"
proof (induction rule: exit_run.induct)
  case Start
  show ?case by (simp add: start_run_def)
next
  case (Exit xs r x r')
  then show ?case by (auto elim!: exit_step_unfold)
qed

locale event_counter =
  fixes counter :: "ExitState \<Rightarrow> u32" and counts :: "ExitEvent \<Rightarrow> bool"
  assumes counter_start: "counter default_ExitState = 0"
    and counter_effect: "counter (event_effect ev st) = counter st + of_bool (counts ev)"
begin

lemma counter_fold:
  "counter (fold event_effect evs st) = counter st + of_nat (length (filter counts evs))"
  by (induction evs arbitrary: st) (simp_all add: counter_effect)

lemma counter_counts:
  "exit_run xs r \<Longrightarrow> counter (r_state r) = of_nat (length (filter counts (r_events r)))"
  using run_state_fold [of xs r] by (simp add: counter_fold counter_start)

text \<open>Before \<open>2 ^ 32\<close> exits the counter has not wrapped.\<close>

lemma counter_exact:
  assumes "exit_run xs r" and "length xs < 2 ^ 32"
  shows "unat (counter (r_state r)) = length (filter counts (r_events r))"
proof -
  have "length (filter counts (r_events r)) < 2 ^ 32"
    using run_state_fold [OF assms(1)] assms(2) by (metis length_filter_le order_le_less_trans)
  then show ?thesis
    using counter_counts [OF assms(1)] by (simp add: unat_of_nat)
qed

lemma counter_not_full:
  assumes "exit_run xs r" and "length xs + 1 < 2 ^ 32"
  shows "counter (r_state r) \<noteq> - 1"
proof -
  have "unat (counter (r_state r)) \<le> length xs"
    using counter_exact [OF assms(1)] run_state_fold [OF assms(1)] assms(2) by (metis add_lessD1 length_filter_le)
  then have "unat (counter (r_state r)) \<noteq> unat (- 1 :: u32)"
    using assms(2) by (simp add: unat_max)
  then show ?thesis by metis
qed

end

fun is_main_event :: "ExitEvent \<Rightarrow> bool" where
  "is_main_event MainVmcall = True" | "is_main_event LastMainVmcall = True" | "is_main_event _ = False"

fun is_injection :: "ExitEvent \<Rightarrow> bool" where
  "is_injection NmiInjected = True" | "is_injection NmiWindowInjected = True" | "is_injection _ = False"

fun is_cpuid_event :: "ExitEvent \<Rightarrow> bool" where
  "is_cpuid_event (Emulated (Cpuid _ _)) = True" | "is_cpuid_event _ = False"

fun is_rdmsr_event :: "ExitEvent \<Rightarrow> bool" where
  "is_rdmsr_event (Emulated (Rdmsr _)) = True" | "is_rdmsr_event _ = False"

fun is_wrmsr_event :: "ExitEvent \<Rightarrow> bool" where
  "is_wrmsr_event (Emulated (Wrmsr _ _)) = True" | "is_wrmsr_event _ = False"

fun is_in_event :: "ExitEvent \<Rightarrow> bool" where
  "is_in_event (Emulated (In _ _)) = True" | "is_in_event _ = False"

fun is_out_event :: "ExitEvent \<Rightarrow> bool" where
  "is_out_event (Emulated (Out _ _ _)) = True" | "is_out_event _ = False"

lemma event_effect_fields:
  "main_vmcalls (event_effect ev st) = main_vmcalls st + of_bool (is_main_event ev)"
  "nmis_injected (event_effect ev st) = nmis_injected st + of_bool (is_injection ev)"
  "nmis_handled (event_effect ev st) = nmis_handled st + of_bool (ev = GuestNmiHandler)"
  "ept_writes_granted (event_effect ev st) = (if ev = EptWriteGranted then 1 else ept_writes_granted st)"
  "nmi_pending (event_effect ev st) = (ev = NmiDeferred \<or> nmi_pending st \<and> \<not> is_injection ev)"
  "emulated (event_effect ev st) = (case ev of Emulated e \<Rightarrow> emulation_effect e (emulated st) | _ \<Rightarrow> emulated st)"
  by (cases ev; simp)+

lemma emulation_effect_fields:
  "n_cpuid (emulation_effect e c) = n_cpuid c + of_bool (is_cpuid_event (Emulated e))"
  "n_rdmsr (emulation_effect e c) = n_rdmsr c + of_bool (is_rdmsr_event (Emulated e))"
  "n_wrmsr (emulation_effect e c) = n_wrmsr c + of_bool (is_wrmsr_event (Emulated e))"
  "n_io_in (emulation_effect e c) = n_io_in c + of_bool (is_in_event (Emulated e))"
  "n_io_out (emulation_effect e c) = n_io_out c + of_bool (is_out_event (Emulated e))"
  by (cases e; simp)+

lemma emulated_effect_fields:
  "n_cpuid (emulated (event_effect ev st)) = n_cpuid (emulated st) + of_bool (is_cpuid_event ev)"
  "n_rdmsr (emulated (event_effect ev st)) = n_rdmsr (emulated st) + of_bool (is_rdmsr_event ev)"
  "n_wrmsr (emulated (event_effect ev st)) = n_wrmsr (emulated st) + of_bool (is_wrmsr_event ev)"
  "n_io_in (emulated (event_effect ev st)) = n_io_in (emulated st) + of_bool (is_in_event ev)"
  "n_io_out (emulated (event_effect ev st)) = n_io_out (emulated st) + of_bool (is_out_event ev)"
  by (cases ev; simp add: emulation_effect_fields)+


interpretation main_counter: event_counter main_vmcalls is_main_event
  by unfold_locales (simp_all add: default_ExitState_def event_effect_fields)

interpretation injected_counter: event_counter nmis_injected is_injection
  by unfold_locales (simp_all add: default_ExitState_def event_effect_fields)

interpretation handled_counter: event_counter nmis_handled "\<lambda>ev. ev = GuestNmiHandler"
  by unfold_locales (simp_all add: default_ExitState_def event_effect_fields)

interpretation cpuid_counter: event_counter "\<lambda>st. n_cpuid (emulated st)" is_cpuid_event
  by unfold_locales (simp_all add: default_ExitState_def emulated_effect_fields)

interpretation rdmsr_counter: event_counter "\<lambda>st. n_rdmsr (emulated st)" is_rdmsr_event
  by unfold_locales (simp_all add: default_ExitState_def emulated_effect_fields)

interpretation wrmsr_counter: event_counter "\<lambda>st. n_wrmsr (emulated st)" is_wrmsr_event
  by unfold_locales (simp_all add: default_ExitState_def emulated_effect_fields)

interpretation in_counter: event_counter "\<lambda>st. n_io_in (emulated st)" is_in_event
  by unfold_locales (simp_all add: default_ExitState_def emulated_effect_fields)

interpretation out_counter: event_counter "\<lambda>st. n_io_out (emulated st)" is_out_event
  by unfold_locales (simp_all add: default_ExitState_def emulated_effect_fields)

section \<open>The milestones come in order\<close>

fun is_milestone :: "ExitEvent \<Rightarrow> bool" where
  "is_milestone EptWriteGranted = True"
| "is_milestone MainVmcall = True"
| "is_milestone LastMainVmcall = True"
| "is_milestone _ = False"

definition milestones_ok :: "run \<Rightarrow> bool" where
  "milestones_ok r \<longleftrightarrow>
     (filter is_milestone (r_events r), ept_writes_granted (r_state r), main_vmcalls (r_state r))
       \<in> {([], 0, 0), ([EptWriteGranted], 1, 0), ([EptWriteGranted, MainVmcall], 1, 1),
           ([EptWriteGranted, MainVmcall, LastMainVmcall], 1, 2)}
     \<and> (LastMainVmcall \<in> set (r_events r) \<longleftrightarrow> r_stopped r = Some Finished)"

inductive_cases handles_eptE: "handles st x EptWriteGranted"
inductive_cases handles_mainE: "handles st x MainVmcall"
inductive_cases handles_lastE: "handles st x LastMainVmcall"

lemma handles_milestones:
  "handles st x EptWriteGranted \<Longrightarrow> ept_writes_granted st = 0"
  "handles st x MainVmcall \<Longrightarrow> ept_writes_granted st \<noteq> 0 \<and> main_vmcalls st + 1 < 2"
  "handles st x LastMainVmcall \<Longrightarrow> ept_writes_granted st \<noteq> 0 \<and> \<not> main_vmcalls st + 1 < 2 \<and> emulated st = EXPECTED_EMULATION"
  by (auto elim: handles_eptE handles_mainE handles_lastE simp: PLANNED_MAIN_VMCALLS_def not_less)

lemma milestones_ok_step:
  assumes "milestones_ok r" and "exit_step r x r'"
  shows "milestones_ok r'"
proof -
  from assms(2) obtain ev where ev: "r_stopped r = None" "r_state r' = event_effect ev (r_state r)"
    "r_events r' = r_events r @ [ev]" "r_stopped r' = None \<longleftrightarrow> (\<exists>plan. event_action ev = Resume plan)"
    "r_stopped r' = None \<or> r_stopped r' = Some (event_action ev)"
    "event_action ev = UnexpectedStop \<or> handles (r_state r) x ev"
    by (rule exit_step_unfold)
  have last: "LastMainVmcall \<notin> set (r_events r)"
    using assms(1) ev(1) by (simp add: milestones_ok_def)
  have fin: "LastMainVmcall \<in> set (r_events r') \<longleftrightarrow> r_stopped r' = Some Finished"
    using last ev(3-5) by (cases ev) auto
  show ?thesis
  proof (cases "is_milestone ev")
    case True
    then have h: "handles (r_state r) x ev" using ev(6) by (cases ev) auto
    have "filter is_milestone (r_events r) \<noteq> [EptWriteGranted, MainVmcall, LastMainVmcall]"
    proof
      assume "filter is_milestone (r_events r) = [EptWriteGranted, MainVmcall, LastMainVmcall]"
      then have "LastMainVmcall \<in> set (filter is_milestone (r_events r))" by simp
      with last show False by simp
    qed
    then show ?thesis
      using True assms(1) handles_milestones [of "r_state r" x] h fin ev(2,3)
      by (cases ev) (auto simp: milestones_ok_def)
  next
    case False
    then have "ev \<noteq> EptWriteGranted" "\<not> is_main_event ev" by (cases ev; simp)+
    then show ?thesis using False assms(1) fin ev(2,3)
      by (simp add: milestones_ok_def event_effect_fields)
  qed
qed

lemma milestones_ok_run: "exit_run xs r \<Longrightarrow> milestones_ok r"
proof (induction rule: exit_run.induct)
  case Start
  show ?case by (simp add: milestones_ok_def start_run_def default_ExitState_def)
next
  case (Exit xs r x r')
  then show ?case by (simp add: milestones_ok_step)
qed

text \<open>A finished run had exactly the emulated exits the plan asks for.\<close>

lemma finished_emulation:
  assumes "exit_run xs r" and "r_stopped r = Some Finished"
  shows "emulated (r_state r) = EXPECTED_EMULATION"
  using assms
proof cases
  case (Exit xs' r0 x)
  then obtain ev where "r_state r = event_effect ev (r_state r0)"
    "r_stopped r = None \<or> r_stopped r = Some (event_action ev)"
    "event_action ev = UnexpectedStop \<or> handles (r_state r0) x ev"
    by (auto elim: exit_step_unfold)
  moreover from this assms(2) have "ev = LastMainVmcall" by (cases ev) auto
  ultimately show ?thesis using handles_milestones(3) by auto
qed (simp add: start_run_def)

section \<open>Pending NMIs\<close>

fun is_nmi_event :: "ExitEvent \<Rightarrow> bool" where
  "is_nmi_event NmiInjected = True"
| "is_nmi_event NmiWindowInjected = True"
| "is_nmi_event NmiDeferred = True"
| "is_nmi_event _ = False"

definition last_nmi_event :: "ExitEvent list \<Rightarrow> ExitEvent option" where
  "last_nmi_event evs = (case rev (filter is_nmi_event evs) of [] \<Rightarrow> None | ev # _ \<Rightarrow> Some ev)"

lemma last_nmi_event_snoc [simp]:
  "last_nmi_event (evs @ [ev]) = (if is_nmi_event ev then Some ev else last_nmi_event evs)"
  by (simp add: last_nmi_event_def)

lemma nmi_pending_run:
  "exit_run xs r \<Longrightarrow> nmi_pending (r_state r) \<longleftrightarrow> last_nmi_event (r_events r) = Some NmiDeferred"
proof (induction rule: exit_run.induct)
  case Start
  show ?case by (simp add: start_run_def default_ExitState_def last_nmi_event_def)
next
  case (Exit xs r x r')
  from Exit.hyps(2) obtain ev where "r_state r' = event_effect ev (r_state r)" "r_events r' = r_events r @ [ev]"
    by (rule exit_step_unfold)
  then show ?case using Exit.IH by (cases ev) (auto simp: event_effect_fields)
qed

section \<open>A guest that keeps to the plan is run to its end\<close>

text \<open>
  A side exit is one whose event does not depend on the state: an emulated instruction, an NMI, the
  VMCALL of the guest's NMI handler, or an MSR access answered with \<open>#GP\<close>.
\<close>

fun is_side_event :: "ExitEvent \<Rightarrow> bool" where
  "is_side_event (Emulated _) = True"
| "is_side_event NmiInjected = True"
| "is_side_event NmiDeferred = True"
| "is_side_event GuestNmiHandler = True"
| "is_side_event GuestGeneralProtection = True"
| "is_side_event _ = False"

definition side_event :: "ExitInfo \<Rightarrow> ExitEvent" where
  "side_event x = fst (decide default_ExitState x)"

definition side_exit :: "ExitInfo \<Rightarrow> bool" where
  "side_exit x \<longleftrightarrow> is_side_event (side_event x)"

lemma side_exit_handles:
  assumes "side_exit x"
  shows "handles st x (side_event x)"
proof -
  have "event_action (side_event x) \<noteq> UnexpectedStop"
    using assms by (cases "side_event x") (auto simp: side_exit_def)
  then have "handles default_ExitState x (side_event x)"
    using decide_sound [of default_ExitState x] by (metis prod.collapse side_event_def)
  then show ?thesis
  proof cases
    case Msr_GP
    then show ?thesis by (simp add: handles.Msr_GP)
  qed (use assms in \<open>auto simp: side_exit_def default_ExitState_def dest: handles.intros\<close>)
qed

text \<open>Counting the emulated exits of a list of exits, from given counts.\<close>

fun count_emulations :: "ExitInfo list \<Rightarrow> EmulationCounts \<Rightarrow> EmulationCounts" where
  "count_emulations [] c = c"
| "count_emulations (x # xs) c =
     count_emulations xs (case side_event x of Emulated e \<Rightarrow> emulation_effect e c | _ \<Rightarrow> c)"

lemma count_emulations_append:
  "count_emulations (xs @ ys) c = count_emulations ys (count_emulations xs c)"
  by (induction xs arbitrary: c) simp_all

lemma run_exits_append: "run_exits r (xs @ ys) = run_exits (run_exits r xs) ys"
proof (induction xs arbitrary: r)
  case (Cons x xs)
  then show ?case
    by (auto split: option.splits prod.splits simp: run_exits_stopped)
qed simp

lemma run_exits_handles:
  assumes "r_stopped r = None" and "handles (r_state r) x ev"
  shows "run_exits r [x] = \<lparr>r_state = event_effect ev (r_state r), r_events = r_events r @ [ev],
    r_stopped = (case event_action ev of Resume _ \<Rightarrow> None | a \<Rightarrow> Some a)\<rparr>"
  using assms decide_complete [OF assms(2)] by simp

lemma run_side_exits:
  assumes "list_all side_exit xs" and "r_stopped r = None"
  shows "r_stopped (run_exits r xs) = None \<and>
    main_vmcalls (r_state (run_exits r xs)) = main_vmcalls (r_state r) \<and>
    ept_writes_granted (r_state (run_exits r xs)) = ept_writes_granted (r_state r) \<and>
    emulated (r_state (run_exits r xs)) = count_emulations xs (emulated (r_state r))"
  using assms
proof (induction xs arbitrary: r)
  case (Cons x xs)
  from Cons.prems have s: "is_side_event (side_event x)" by (simp add: side_exit_def)
  let ?r = "run_exits r [x]"
  have r: "?r = \<lparr>r_state = event_effect (side_event x) (r_state r), r_events = r_events r @ [side_event x],
    r_stopped = (case event_action (side_event x) of Resume _ \<Rightarrow> None | a \<Rightarrow> Some a)\<rparr>"
    using Cons.prems by (intro run_exits_handles side_exit_handles) auto
  have "r_stopped ?r = None" using s unfolding r by (cases "side_event x") auto
  moreover have "run_exits r (x # xs) = run_exits ?r xs" using run_exits_append [of r "[x]" xs] by simp
  moreover have "main_vmcalls (r_state ?r) = main_vmcalls (r_state r)"
    "ept_writes_granted (r_state ?r) = ept_writes_granted (r_state r)"
    "emulated (r_state ?r) = (case side_event x of Emulated e \<Rightarrow> emulation_effect e (emulated (r_state r))
       | _ \<Rightarrow> emulated (r_state r))"
    using s unfolding r by (cases "side_event x"; simp)+
  ultimately show ?case using Cons.IH [of ?r] Cons.prems(1) by simp
qed simp

definition protected_write_exit :: "ExitInfo \<Rightarrow> bool" where
  "protected_write_exit x \<longleftrightarrow> plain_exit x EXIT_REASON_EPT_VIOLATION \<and> ei_protected_page x \<noteq> 0 \<and>
     ei_guest_physical x AND NOT 0xFFF = ei_protected_page x \<and> is_protected_write (ei_qualification x)"

definition main_vmcall_exit :: "nat \<Rightarrow> ExitInfo \<Rightarrow> bool" where
  "main_vmcall_exit n x \<longleftrightarrow> plain_exit x EXIT_REASON_VMCALL \<and> unat (ei_guest_rax x) = 0xA1E0 + n"

text \<open>
  The guest's plan: side exits around the write to the protected page, the first main VMCALL with
  what it read back, and the second one.
\<close>

lemma planned_run_finishes:
  assumes side: "list_all side_exit as" "list_all side_exit bs" "list_all side_exit cs"
    and e: "protected_write_exit e"
    and m: "main_vmcall_exit 0 m" "data_page_read_back m" and l: "main_vmcall_exit 1 l"
    and counts: "count_emulations (as @ bs @ cs) (emulated default_ExitState) = EXPECTED_EMULATION"
  shows "r_stopped (run_exits start_run (as @ e # bs @ m # cs @ [l])) = Some Finished"
    and "r_stopped (run_exits start_run (as @ e # bs @ m # cs)) = None"
proof -
  have ne: "unat rax = 0xA1E0 + n \<Longrightarrow> n \<le> 1 \<Longrightarrow> rax \<noteq> 0x4E4D49" for rax :: u64 and n by auto
  define r1 where "r1 = run_exits start_run as"
  have 1: "r_stopped r1 = None" "main_vmcalls (r_state r1) = 0" "ept_writes_granted (r_state r1) = 0"
    "emulated (r_state r1) = count_emulations as (emulated default_ExitState)"
    using run_side_exits [OF side(1), of start_run]
    by (simp_all add: r1_def start_run_def) (simp_all add: default_ExitState_def)
  have "handles (r_state r1) e EptWriteGranted"
    using e 1(3) by (auto simp: protected_write_exit_def EXIT_REASON_EPT_VIOLATION_def
        is_protected_write_bits intro: handles.Ept)
  note re = run_exits_handles [OF 1(1) this]
  define r2 where "r2 = run_exits (run_exits r1 [e]) bs"
  have 2: "r_stopped r2 = None" "main_vmcalls (r_state r2) = 0" "ept_writes_granted (r_state r2) = 1"
    "emulated (r_state r2) = count_emulations (as @ bs) (emulated default_ExitState)"
    using run_side_exits [OF side(2), of "run_exits r1 [e]"] 1
    by (simp_all add: r2_def re count_emulations_append del: run_exits.simps)
  have "handles (r_state r2) m MainVmcall"
    using m 2(2,3) ne [of "ei_guest_rax m" 0]
    by (auto simp: main_vmcall_exit_def const_defs intro!: handles.Vmcall_main)
  note rm = run_exits_handles [OF 2(1) this]
  define r3 where "r3 = run_exits (run_exits r2 [m]) cs"
  have 3: "r_stopped r3 = None" "main_vmcalls (r_state r3) = 1" "ept_writes_granted (r_state r3) = 1"
    "emulated (r_state r3) = EXPECTED_EMULATION"
    using run_side_exits [OF side(3), of "run_exits r2 [m]"] 2 counts
    by (simp_all add: r3_def rm count_emulations_append del: run_exits.simps)
  have "handles (r_state r3) l LastMainVmcall"
    using l 3(2-4) ne [of "ei_guest_rax l" 1]
    by (auto simp: main_vmcall_exit_def const_defs intro!: handles.Vmcall_last)
  note rl = run_exits_handles [OF 3(1) this]
  have "run_exits start_run (as @ [e] @ bs @ [m] @ cs @ [l]) = run_exits r3 [l]"
    by (simp only: run_exits_append r1_def r2_def r3_def)
  then show "r_stopped (run_exits start_run (as @ e # bs @ m # cs @ [l])) = Some Finished"
    by (simp add: rl del: run_exits.simps)
  have "run_exits start_run (as @ [e] @ bs @ [m] @ cs) = r3"
    by (simp only: run_exits_append r1_def r2_def r3_def)
  then show "r_stopped (run_exits start_run (as @ e # bs @ m # cs)) = None" using 3(1) by simp
qed

section \<open>Correctness properties\<close>

lemma finished_milestones:
  assumes "milestones_ok r" and "r_stopped r = Some Finished"
  shows "filter is_milestone (r_events r) = [EptWriteGranted, MainVmcall, LastMainVmcall]"
proof -
  define f where "f = filter is_milestone (r_events r)"
  have "LastMainVmcall \<in> set f" using assms by (simp add: milestones_ok_def f_def)
  moreover have "f \<in> {[], [EptWriteGranted], [EptWriteGranted, MainVmcall], [EptWriteGranted, MainVmcall, LastMainVmcall]}"
    using assms by (auto simp: milestones_ok_def f_def)
  ultimately show ?thesis unfolding f_def [symmetric] by auto
qed

lemma run_exits_exit_run:
  assumes "exit_run xs r" and "length (r_events (run_exits r ys)) = length (r_events r) + length ys"
  shows "exit_run (xs @ ys) (run_exits r ys)"
proof -
  from run_exits_reachable [OF assms(1)] obtain zs where z: "prefix zs ys" "exit_run (xs @ zs) (run_exits r ys)" by blast
  then have "length zs = length ys"
    using run_state_fold [OF z(2)] run_state_fold [OF assms(1)] assms(2) by simp
  with z(1) have "zs = ys" by (metis append_Nil2 length_0_conv length_append prefix_def add_left_cancel add_0_right)
  with z(2) show ?thesis by simp
qed

text \<open>A concrete run of the guest's plan, for the witnesses: the nine emulated instructions, the write, both VMCALLs.\<close>

definition sample_exit :: "u16 \<Rightarrow> u64 \<Rightarrow> u64 \<Rightarrow> u64 \<Rightarrow> u64 \<Rightarrow> ExitInfo" where
  "sample_exit reason rax rcx rdx qualification =
     \<lparr>ei_reason = \<lparr>er_basic = reason, er_entry_failure = False\<rparr>, ei_interruption_info = 0, ei_guest_rax = rax,
      ei_guest_rcx = rcx, ei_guest_rdx = rdx, ei_interruptibility = 0, ei_idt_vectoring_valid = False,
      ei_qualification = qualification, ei_guest_physical = (if reason = 48 then 0x107010 else 0), ei_protected_page = 0x107000\<rparr>"

definition sample_emulated :: "ExitInfo list" where
  "sample_emulated =
     [sample_exit 10 1 0 0 0, sample_exit 31 0 0xC0000102 0 0, sample_exit 31 0 0xC0000102 0 0,
      sample_exit 32 0x1000 0xC0000102 0 0, sample_exit 32 0x2000 0xC0000102 0 0,
      sample_exit 30 0 0 0 0x3FF0008, sample_exit 30 0 0 0 0x3FF0009,
      sample_exit 30 0x5A 0 0 0x3FF0000, sample_exit 30 0xA55A 0 0 0x3FF0001]"

definition sample_main :: "ExitInfo list" where
  "sample_main =
     [sample_exit 48 0 0 0 0x18A, sample_exit 18 0xA1E0 (ucast GUEST_DATA_SEED) (ucast GUEST_EPT_VALUE) 0,
      sample_exit 18 0xA1E1 0 0 0]"

abbreviation sample_run :: run where
  "sample_run \<equiv> run_exits start_run (sample_emulated @ sample_main)"

lemmas decide_eval = decide_def cpuid_def rdmsr_exit_def wrmsr_exit_def io_def exception_or_nmi_def nmi_window_def
  ept_violation_def vmcall_def counted_def injected_def route_def is_canonical_48_def is_in_def is_string_def is_rep_def
  io_port_def io_size_def is_protected_write_def data_page_read_back_def expected_main_rax_def msr_bit_def
  INTERCEPTED_MSRS_def EXPECTED_EMULATION_def out_value_def const_defs

lemma sample_events:
  "r_events sample_run = [Emulated (Cpuid 1 0), Emulated (Rdmsr 0xC0000102), Emulated (Rdmsr 0xC0000102),
     Emulated (Wrmsr 0xC0000102 0x1000), Emulated (Wrmsr 0xC0000102 0x2000), Emulated (In 0x3FF Byte),
     Emulated (In 0x3FF Word), Emulated (Out 0x3FF Byte 0x5A), Emulated (Out 0x3FF Word 0xA55A),
     EptWriteGranted, MainVmcall, LastMainVmcall]" (is ?events)
  and sample_stopped: "r_stopped sample_run = Some Finished" (is ?stopped)
proof -
  have "?events \<and> ?stopped"
    by (simp add: sample_emulated_def sample_main_def sample_exit_def start_run_def default_ExitState_def decide_eval plan_defs)
  then show ?events ?stopped by simp_all
qed

lemma sample_exit_run: "exit_run (sample_emulated @ sample_main) sample_run"
  using run_exits_exit_run [OF exit_run.Start, of "sample_emulated @ sample_main"]
  by (simp add: sample_events) (simp add: start_run_def sample_emulated_def sample_main_def)

text \<open>
  C15. In every run the milestones of the plan come in order and at most once each: the protected page is
  written, the first main VMCALL, the last one; and the run is finished exactly when all three have happened.
\<close>

theorem run_milestones:
  assumes "exit_run xs r"
  shows "prefix (filter is_milestone (r_events r)) [EptWriteGranted, MainVmcall, LastMainVmcall] \<and>
    (r_stopped r = Some Finished \<longleftrightarrow> filter is_milestone (r_events r) = [EptWriteGranted, MainVmcall, LastMainVmcall])"
proof -
  define f where "f = filter is_milestone (r_events r)"
  have m: "milestones_ok r" using assms by (rule milestones_ok_run)
  then have "f \<in> {[], [EptWriteGranted], [EptWriteGranted, MainVmcall], [EptWriteGranted, MainVmcall, LastMainVmcall]}"
    by (auto simp: milestones_ok_def f_def)
  moreover have "r_stopped r = Some Finished \<longleftrightarrow> LastMainVmcall \<in> set f" using m by (auto simp: milestones_ok_def f_def)
  ultimately show ?thesis unfolding f_def [symmetric] by auto
qed

theorem run_milestones_witness:
  "prefix (filter is_milestone (r_events sample_run)) [EptWriteGranted, MainVmcall, LastMainVmcall] \<and>
   (r_stopped sample_run = Some Finished \<longleftrightarrow>
      filter is_milestone (r_events sample_run) = [EptWriteGranted, MainVmcall, LastMainVmcall])"
  by (rule run_milestones [OF sample_exit_run])

text \<open>
  C17. A run that finishes after fewer than \<open>2 ^ 32\<close> exits has emulated exactly one CPUID, two RDMSR, two
  WRMSR, two IN and two OUT for the guest: what it reports is what happened.
\<close>

theorem finished_run_emulation:
  assumes "exit_run xs r" and "r_stopped r = Some Finished" and "length xs < 2 ^ 32"
  shows "length (filter is_cpuid_event (r_events r)) = 1 \<and> length (filter is_rdmsr_event (r_events r)) = 2 \<and>
    length (filter is_wrmsr_event (r_events r)) = 2 \<and> length (filter is_in_event (r_events r)) = 2 \<and>
    length (filter is_out_event (r_events r)) = 2"
  using cpuid_counter.counter_exact [OF assms(1,3)] rdmsr_counter.counter_exact [OF assms(1,3)]
    wrmsr_counter.counter_exact [OF assms(1,3)] in_counter.counter_exact [OF assms(1,3)]
    out_counter.counter_exact [OF assms(1,3)] finished_emulation [OF assms(1,2)]
  by (simp add: EXPECTED_EMULATION_def)

theorem finished_run_emulation_witness:
  "length (filter is_cpuid_event (r_events sample_run)) = 1 \<and> length (filter is_rdmsr_event (r_events sample_run)) = 2 \<and>
   length (filter is_wrmsr_event (r_events sample_run)) = 2 \<and> length (filter is_in_event (r_events sample_run)) = 2 \<and>
   length (filter is_out_event (r_events sample_run)) = 2"
  by (rule finished_run_emulation [OF sample_exit_run sample_stopped]) (simp add: sample_emulated_def sample_main_def)

text \<open>
  C35. In a run of fewer than \<open>2 ^ 32\<close> exits the counters the summary prints are exact: main VMCALLs, injected NMIs
  and VMCALLs of the guest's NMI handler are the numbers of those events.
\<close>

theorem run_counters_exact:
  assumes "exit_run xs r" and "length xs < 2 ^ 32"
  shows "unat (main_vmcalls (r_state r)) = length (filter is_main_event (r_events r)) \<and>
    unat (nmis_injected (r_state r)) = length (filter is_injection (r_events r)) \<and>
    unat (nmis_handled (r_state r)) = length (filter (\<lambda>ev. ev = GuestNmiHandler) (r_events r))"
  using main_counter.counter_exact [OF assms] injected_counter.counter_exact [OF assms]
    handled_counter.counter_exact [OF assms] by simp

theorem run_counters_exact_witness:
  "unat (main_vmcalls (r_state sample_run)) = length (filter is_main_event (r_events sample_run)) \<and>
   unat (nmis_injected (r_state sample_run)) = length (filter is_injection (r_events sample_run)) \<and>
   unat (nmis_handled (r_state sample_run)) = length (filter (\<lambda>ev. ev = GuestNmiHandler) (r_events sample_run))"
  by (rule run_counters_exact [OF sample_exit_run]) (simp add: sample_emulated_def sample_main_def)

text \<open>
  C34. An NMI is pending exactly when the latest NMI event of the run deferred one: no deferred NMI is
  forgotten, and none stays pending after it was injected.
\<close>

theorem run_nmi_pending:
  assumes "exit_run xs r"
  shows "nmi_pending (r_state r) \<longleftrightarrow> last_nmi_event (r_events r) = Some NmiDeferred"
  using assms by (rule nmi_pending_run)

definition sample_deferred :: ExitInfo where
  "sample_deferred = (sample_exit 0 0 0 0 0)\<lparr>ei_interruption_info := 0x80000202, ei_interruptibility := 8\<rparr>"

theorem run_nmi_pending_witness:
  "nmi_pending (r_state (run_exits start_run [sample_deferred])) \<and>
   last_nmi_event (r_events (run_exits start_run [sample_deferred])) = Some NmiDeferred"
proof -
  have e: "r_events (run_exits start_run [sample_deferred]) = [NmiDeferred]"
    by (simp add: sample_deferred_def sample_exit_def start_run_def default_ExitState_def decide_eval is_nmi_def is_valid_def
        vector_def plan_defs)
  then have "exit_run [sample_deferred] (run_exits start_run [sample_deferred])"
    using run_exits_exit_run [OF exit_run.Start, of "[sample_deferred]"] by (simp add: start_run_def)
  from run_nmi_pending [OF this] show ?thesis unfolding e by (simp add: last_nmi_event_def)
qed

end
