(* ===== verification/Ept_Walk.thy ===== *)
theory Ept_Walk
  imports Ept
begin

text \<open>
  The processor's EPT walk, written down independently in natural-number arithmetic from the entry
  layout in the module documentation of \<open>vmx/ept.rs\<close>, and the proof that the tables
  \<open>fill_identity_map\<close> makes translate every guest-physical address of the map to itself, with the
  permissions the hypervisor means to give.
\<close>

section \<open>The processor's walk\<close>

definition entry_address :: "u64 \<Rightarrow> nat" where
  "entry_address e = (unat e div 4096 mod 2 ^ 40) * 4096"

definition entry_present :: "u64 \<Rightarrow> bool" where
  "entry_present e \<longleftrightarrow> bit e 0 \<or> bit e 1 \<or> bit e 2"

text \<open>
  The number in bits 5:3: a page's memory type in the entry that maps it (6 is write-back), the walk length less one in the
  EPT pointer.
\<close>

definition bits_5_3 :: "u64 \<Rightarrow> nat" where
  "bits_5_3 e = of_bool (bit e 3) + 2 * of_bool (bit e 4) + 4 * of_bool (bit e 5)"

record translation =
  hpa :: nat
  can_read :: bool
  can_write :: bool
  can_execute :: bool
  page_memory_type :: nat

definition leaf_translation :: "nat \<Rightarrow> u64 list \<Rightarrow> u64 \<Rightarrow> translation" where
  "leaf_translation address es leaf =
     \<lparr>hpa = address, can_read = list_all (\<lambda>e. bit e 0) es, can_write = list_all (\<lambda>e. bit e 1) es,
      can_execute = list_all (\<lambda>e. bit e 2) es, page_memory_type = bits_5_3 leaf\<rparr>"

text \<open>
  What the processor accepts: an EPT pointer with a write-back (6) or uncacheable (0) walk of length 4 (3 in bits 5:3) and
  clear reserved bits; a present entry that is not writable without being readable; in a table entry bits 7:3 clear; in an
  entry that maps a page one of the memory types 0, 1, 4, 5 and 6, and for a 2-MiB page clear address bits 20:12.
\<close>

definition eptp_accepted :: "Eptp \<Rightarrow> bool" where
  "eptp_accepted eptp \<longleftrightarrow> (unat eptp mod 8 = 6 \<or> unat eptp mod 8 = 0) \<and> bits_5_3 eptp = 3 \<and>
     list_all (\<lambda>n. \<not> bit eptp n) [7..<12]"

definition entry_permitted :: "u64 \<Rightarrow> bool" where
  "entry_permitted e \<longleftrightarrow> entry_present e \<and> (bit e 1 \<longrightarrow> bit e 0)"

definition table_accepted :: "u64 \<Rightarrow> bool" where
  "table_accepted e \<longleftrightarrow> entry_permitted e \<and> list_all (\<lambda>n. \<not> bit e n) [3..<8]"

definition page_accepted :: "u64 \<Rightarrow> bool" where
  "page_accepted e \<longleftrightarrow> entry_permitted e \<and> bits_5_3 e \<in> {0, 1, 4, 5, 6}"

text \<open>
  \<open>rd\<close> reads 8 bytes of physical memory. \<open>None\<close> is an access that causes a VM exit whatever it is (an entry is not
  present, is misconfigured, or sets bit 7 where this processor has no large page), or an EPT pointer VM entry refuses.
\<close>

definition ept_walk :: "(u64 \<Rightarrow> u64) \<Rightarrow> Eptp \<Rightarrow> u64 \<Rightarrow> translation option" where
  "ept_walk rd eptp gpa =
     (let g = unat gpa;
          e4 = rd (of_nat (entry_address eptp + 8 * (g div 2 ^ 39 mod 512)));
          e3 = rd (of_nat (entry_address e4 + 8 * (g div 2 ^ 30 mod 512)));
          e2 = rd (of_nat (entry_address e3 + 8 * (g div 2 ^ 21 mod 512)));
          e1 = rd (of_nat (entry_address e2 + 8 * (g div 2 ^ 12 mod 512)))
      in if \<not> eptp_accepted eptp then None
         else if \<not> table_accepted e4 then None
         else if \<not> table_accepted e3 then None
         else if bit e2 7
           then (if page_accepted e2 \<and> list_all (\<lambda>n. \<not> bit e2 n) [12..<21]
                 then Some (leaf_translation (entry_address e2 + g mod 2 ^ 21) [e4, e3, e2] e2) else None)
         else if \<not> table_accepted e2 then None
         else if \<not> page_accepted e1 then None
         else Some (leaf_translation (entry_address e1 + g mod 2 ^ 12) [e4, e3, e2, e1] e1))"

section \<open>Entries\<close>

lemma bit_ADDRESS_MASK: "bit ADDRESS_MASK n \<longleftrightarrow> 12 \<le> n \<and> n < 52"
proof -
  have m: "ADDRESS_MASK = push_bit 12 (mask 40)"
    by (simp add: const_defs mask_eq_exp_minus_1)
  show ?thesis unfolding m by (auto simp: bit_push_bit_iff)
qed

lemma bit_EPT_RWX: "bit EPT_RWX n \<longleftrightarrow> n < 3"
proof -
  have m: "EPT_RWX = mask 3" by (simp add: const_defs mask_eq_exp_minus_1)
  show ?thesis unfolding m by auto
qed

lemma bit_MEMORY_TYPE_WB: "bit MEMORY_TYPE_WB n \<longleftrightarrow> n = 1 \<or> n = 2"
proof -
  have m: "MEMORY_TYPE_WB = push_bit 1 1 OR push_bit 2 1" by (simp add: const_defs)
  show ?thesis unfolding m bit_or_iff bit_push_bit_1 by auto
qed

lemma bit_EPTP_WALK_LENGTH_4: "bit EPTP_WALK_LENGTH_4 n \<longleftrightarrow> n = 3 \<or> n = 4"
proof -
  have m: "EPTP_WALK_LENGTH_4 = push_bit 3 1 OR push_bit 4 1" by (simp add: const_defs)
  show ?thesis unfolding m bit_or_iff bit_push_bit_1 by auto
qed

lemma bit_LARGE_PAGE: "bit LARGE_PAGE n \<longleftrightarrow> n = 7"
  unfolding LARGE_PAGE_def bit_push_bit_1 by auto

lemmas entry_bits = bit_ADDRESS_MASK bit_EPT_RWX bit_MEMORY_TYPE_WB bit_LARGE_PAGE
  bit_EPTP_WALK_LENGTH_4 MEMORY_TYPE_SHIFT_def

lemma entry_address_mask: "unat (e AND ADDRESS_MASK) = entry_address e"
proof -
  have "e AND ADDRESS_MASK = push_bit 12 (take_bit 40 (drop_bit 12 e))"
    by (rule bit_word_eqI) (auto simp: bit_ADDRESS_MASK bit_simps)
  moreover have "unat (push_bit 12 (take_bit 40 (drop_bit 12 e))) = push_bit 12 (unat (take_bit 40 (drop_bit 12 e)))"
  proof -
    have "unat (take_bit 40 (drop_bit 12 e)) < 2 ^ 40"
      by (simp only: unsigned_take_bit_eq) (simp add: take_bit_eq_mod)
    then show ?thesis
      by (simp only: unsigned_push_bit_eq) (simp add: push_bit_eq_mult take_bit_eq_mod)
  qed
  ultimately show ?thesis
    by (simp only: unsigned_take_bit_eq drop_bit_unat)
      (simp add: entry_address_def take_bit_eq_mod push_bit_eq_mult)
qed

lemma page_aligned_address: "page_aligned a \<Longrightarrow> entry_address a = unat a"
  by (auto simp: page_aligned_def entry_address_def)

lemma entry_address_cong: "e AND ADDRESS_MASK = f AND ADDRESS_MASK \<Longrightarrow> entry_address e = entry_address f"
  by (metis entry_address_mask)

lemma entry_table_props [simp]:
  "entry_address (entry_table a) = entry_address a"
  "bit (entry_table a) 0" "bit (entry_table a) (Suc 0)" "bit (entry_table a) 2" "\<not> bit (entry_table a) 7"
  "table_accepted (entry_table a)"
proof -
  show "entry_address (entry_table a) = entry_address a"
    by (rule entry_address_cong, rule bit_word_eqI) (auto simp: entry_table_def bit_simps entry_bits)
qed (auto simp: table_accepted_def entry_permitted_def entry_present_def list_all_iff entry_table_def bit_simps entry_bits)

lemma entry_large_page_props [simp]:
  "entry_address (entry_large_page a) = entry_address a"
  "bit (entry_large_page a) 0" "bit (entry_large_page a) (Suc 0)" "bit (entry_large_page a) 2"
  "bit (entry_large_page a) 7" "page_accepted (entry_large_page a)" "bits_5_3 (entry_large_page a) = 6"
  "12 \<le> n \<Longrightarrow> n < 52 \<Longrightarrow> bit (entry_large_page a) n \<longleftrightarrow> bit a n"
proof -
  show "entry_address (entry_large_page a) = entry_address a"
    by (rule entry_address_cong, rule bit_word_eqI) (auto simp: entry_large_page_def bit_simps entry_bits)
qed (auto simp: page_accepted_def entry_permitted_def entry_present_def bits_5_3_def entry_large_page_def bit_simps entry_bits)

lemma entry_page_props [simp]:
  "entry_address (entry_page a access) = entry_address a"
  "n < 3 \<Longrightarrow> bit (entry_page a access) n \<longleftrightarrow> bit access n" "bits_5_3 (entry_page a access) = 6"
proof -
  show "entry_address (entry_page a access) = entry_address a"
    by (rule entry_address_cong, rule bit_word_eqI)
      (auto simp: entry_page_def with_access_def bit_simps entry_bits)
  show "bit (entry_page a access) n \<longleftrightarrow> bit access n" if "n < 3"
    using that by (auto simp: entry_page_def with_access_def bit_simps entry_bits)
  show "bits_5_3 (entry_page a access) = 6"
    by (auto simp: bits_5_3_def entry_page_def with_access_def bit_simps entry_bits)
qed

lemma page_accepted_entry_page [simp]: "bit access 0 \<Longrightarrow> page_accepted (entry_page a access)"
  by (simp add: page_accepted_def entry_permitted_def entry_present_def)

lemma with_access_entry_page [simp]: "with_access (entry_page a x) y = entry_page a y"
  by (rule bit_word_eqI) (auto simp: entry_page_def with_access_def bit_simps entry_bits)

lemma eptp_new_address [simp]: "entry_address (eptp_new a) = entry_address a"
  by (rule entry_address_cong, rule bit_word_eqI) (auto simp: eptp_new_def bit_simps entry_bits)

lemma eptp_new_accepted [simp]: "eptp_accepted (eptp_new a)"
proof -
  have "take_bit 3 (eptp_new a) = MEMORY_TYPE_WB"
    by (rule bit_word_eqI) (auto simp: eptp_new_def bit_simps entry_bits)
  then have "unat (take_bit 3 (eptp_new a)) = 6" by (simp add: MEMORY_TYPE_WB_def)
  then have "unat (eptp_new a) mod 8 = 6" by (simp only: unsigned_take_bit_eq) (simp add: take_bit_eq_mod)
  moreover have "bits_5_3 (eptp_new a) = 3" "list_all (\<lambda>n. \<not> bit (eptp_new a) n) [7..<12]"
    by (auto simp: bits_5_3_def list_all_iff eptp_new_def bit_simps entry_bits)
  ultimately show ?thesis by (simp add: eptp_accepted_def)
qed

section \<open>What fill_identity_map puts in the tables\<close>

lemma level_index_unat: "level_index l a = unat a div 2 ^ level_shift l mod 512"
proof -
  have m: "(0x1FF :: u64) = mask 9" by (simp add: mask_eq_exp_minus_1)
  show ?thesis unfolding level_index_def m and_mask_unat drop_bit_unat by simp
qed

lemma set_at_Some: "i < length xs \<Longrightarrow> set_at xs i v = Some (xs[i := v])"
  by (simp add: set_at_def)

lemma fill_pdpt_ok:
  assumes "list_all (\<lambda>i. i < length pdpt) gibs"
  shows "\<exists>pdpt'. fill_pdpt gibs pds pdpt = Some pdpt' \<and> length pdpt' = length pdpt \<and>
    (\<forall>i < length pdpt. pdpt' ! i = (if i \<in> set gibs then entry_table (pds + of_nat i * 4096) else pdpt ! i))"
  using assms
proof (induction gibs arbitrary: pdpt)
  case (Cons gib gibs)
  let ?p = "pdpt[gib := entry_table (pds + of_nat gib * 4096)]"
  from Cons.IH [of ?p] Cons.prems obtain pdpt' where
    "fill_pdpt gibs pds ?p = Some pdpt'" "length pdpt' = length pdpt"
    "\<forall>i < length pdpt. pdpt' ! i = (if i \<in> set gibs then entry_table (pds + of_nat i * 4096) else ?p ! i)"
    by auto
  then show ?case using Cons.prems by (auto simp: set_at_Some PAGE_SIZE_def nth_list_update)
qed simp

lemma split_index:
  fixes u :: nat
  assumes "u < 2 ^ 39"
  shows "(u div 2 ^ 30 mod 512) * 512 + u div 2 ^ 21 mod 512 = u div 2 ^ 21"
proof -
  have "u div 2 ^ 30 = u div 2 ^ 21 div 512" by (simp add: div_mult2_eq [symmetric])
  moreover have "u div 2 ^ 21 div 512 < 512" using assms by (simp add: div_mult2_eq [symmetric] less_mult_imp_div_less)
  ultimately show ?thesis by (simp add: div_mult_mod_eq)
qed

lemma unat_region: "unat (a AND NOT (SIZE_2M - 1)) = unat a div 2 ^ 21 * 2 ^ 21"
proof -
  have m: "SIZE_2M - 1 = mask 21" by (simp add: const_defs mask_eq_exp_minus_1)
  show ?thesis unfolding m by (rule and_not_mask_unat)
qed

text \<open>
  The contents of the tables of an identity map of \<open>gibs\<close> GiB in which the page at \<open>prot\<close> has the
  permissions \<open>access\<close>.
\<close>

definition pml4_entry :: "u64 \<Rightarrow> nat \<Rightarrow> EptEntry" where
  "pml4_entry pdpt i = (if i = 0 then entry_table pdpt else 0)"

definition pdpt_entry :: "u64 \<Rightarrow> nat \<Rightarrow> nat \<Rightarrow> EptEntry" where
  "pdpt_entry pds gibs i = (if i < gibs then entry_table (pds + of_nat i * 4096) else 0)"

definition pd_entry :: "u64 \<Rightarrow> u64 \<Rightarrow> nat \<Rightarrow> EptEntry" where
  "pd_entry pt prot i = (if i = unat prot div 2 ^ 21 then entry_table pt else entry_large_page (of_nat i * 2 ^ 21))"

definition pt_entry :: "u64 \<Rightarrow> u64 \<Rightarrow> nat \<Rightarrow> EptEntry" where
  "pt_entry prot access i =
     (if i = unat prot div 4096 mod 512 then entry_page prot access
      else entry_page (of_nat (unat prot div 2 ^ 21 * 2 ^ 21 + i * 4096)) EPT_RWX)"

lemma fill_identity_map_ok:
  assumes "t_pml4 t = replicate 512 0" "t_pdpt t = replicate 512 0" "length (t_pds t) = gibs * 512"
    "length (t_pt t) = 512" "gibs \<le> 512" "unat prot < gibs * 2 ^ 30"
  shows "\<exists>t'. fill_identity_map t gibs prot = Some (t', unat prot div 4096 mod 512) \<and>
    t_pml4 t' = map (pml4_entry (t_pdpt_address t)) [0..<512] \<and>
    t_pdpt t' = map (pdpt_entry (t_pds_address t) gibs) [0..<512] \<and>
    t_pds t' = map (pd_entry (t_pt_address t) prot) [0..<gibs * 512] \<and>
    t_pt t' = map (pt_entry prot EPT_READ) [0..<512]"
proof -
  have p39: "unat prot < 2 ^ 39"
    using assms(5,6) by (simp add: order_less_le_trans [of "unat prot" "gibs * 2 ^ 30"])
  have split: "level_index Pdpt prot * 512 + level_index Pd prot = unat prot div 2 ^ 21"
    unfolding level_index_unat level_shift.simps by (rule split_index [OF p39])
  have split_less: "unat prot div 2 ^ 21 < gibs * 512"
    using assms(6) by (simp add: less_mult_imp_div_less)
  obtain pdpt' where pdpt: "fill_pdpt [0..<gibs] (t_pds_address t) (t_pdpt t) = Some pdpt'"
    "length pdpt' = 512" "\<And>i. i < 512 \<Longrightarrow> pdpt' ! i = pdpt_entry (t_pds_address t) gibs i"
    using fill_pdpt_ok [of "t_pdpt t" "[0..<gibs]" "t_pds_address t"] assms(2,5)
    by (auto simp: list_all_iff pdpt_entry_def)
  let ?pml4 = "(replicate 512 0)[0 := entry_table (t_pdpt_address t)]"
  let ?pds = "(map (\<lambda>i. entry_large_page (of_nat i * SIZE_2M)) [0..<gibs * 512])[unat prot div 2 ^ 21 := entry_table (t_pt_address t)]"
  let ?pt = "(map (\<lambda>i. entry_page ((prot AND NOT (SIZE_2M - 1)) + of_nat (i * PAGE_SIZE)) EPT_RWX) [0..<512])
     [unat prot div 4096 mod 512 := entry_page prot EPT_READ]"
  have "fill_identity_map t gibs prot =
      Some (t\<lparr>t_pml4 := ?pml4, t_pdpt := pdpt', t_pds := ?pds, t_pt := ?pt\<rparr>, unat prot div 4096 mod 512)"
    using assms split split_less pdpt(1)
    by (simp add: fill_identity_map_def ENTRIES_def set_at_Some Let_def) (simp add: level_index_unat set_at_Some)
  moreover have "?pml4 = map (pml4_entry (t_pdpt_address t)) [0..<512]"
    by (rule nth_equalityI) (auto simp: pml4_entry_def nth_list_update)
  moreover have "pdpt' = map (pdpt_entry (t_pds_address t) gibs) [0..<512]"
    using pdpt(2,3) by (auto intro: nth_equalityI)
  moreover have "?pds = map (pd_entry (t_pt_address t) prot) [0..<gibs * 512]"
    by (rule nth_equalityI) (auto simp: pd_entry_def nth_list_update SIZE_2M_def)
  moreover have "?pt = map (pt_entry prot EPT_READ) [0..<512]"
  proof (rule nth_equalityI)
    have r: "(prot AND NOT (SIZE_2M - 1)) = of_nat (unat prot div 2 ^ 21 * 2 ^ 21)"
      using arg_cong [OF unat_region [of prot], of "of_nat :: nat \<Rightarrow> u64"] by simp
    fix i assume "i < length ?pt"
    then show "?pt ! i = map (pt_entry prot EPT_READ) [0..<512] ! i"
      unfolding r by (auto simp: pt_entry_def nth_list_update PAGE_SIZE_def)
  qed simp
  ultimately show ?thesis by simp
qed

section \<open>The walk over the tables\<close>

definition identity_tables ::
  "(u64 \<Rightarrow> u64) \<Rightarrow> u64 \<Rightarrow> u64 \<Rightarrow> u64 \<Rightarrow> u64 \<Rightarrow> nat \<Rightarrow> u64 \<Rightarrow> u64 \<Rightarrow> bool" where
  "identity_tables rd pml4 pdpt pds pt gibs prot access \<longleftrightarrow>
     (\<forall>i < 512. rd (pml4 + 8 * of_nat i) = pml4_entry pdpt i) \<and>
     (\<forall>i < 512. rd (pdpt + 8 * of_nat i) = pdpt_entry pds gibs i) \<and>
     (\<forall>i < gibs * 512. rd (pds + 8 * of_nat i) = pd_entry pt prot i) \<and>
     (\<forall>i < 512. rd (pt + 8 * of_nat i) = pt_entry prot access i)"

text \<open>
  What the guest may do with the address \<open>gpa\<close>: everything, except on the protected page; the memory is write-back (6).
\<close>

definition identity_translation :: "u64 \<Rightarrow> u64 \<Rightarrow> u64 \<Rightarrow> translation" where
  "identity_translation prot access gpa =
     (if unat gpa div 4096 = unat prot div 4096
      then \<lparr>hpa = unat gpa, can_read = bit access 0, can_write = bit access 1, can_execute = bit access 2,
        page_memory_type = 6\<rparr>
      else \<lparr>hpa = unat gpa, can_read = True, can_write = True, can_execute = True, page_memory_type = 6\<rparr>)"

text \<open>Where the tables are: each page aligned, the PDs back to back without leaving the address space.\<close>

definition tables_placed :: "u64 \<Rightarrow> u64 \<Rightarrow> u64 \<Rightarrow> u64 \<Rightarrow> nat \<Rightarrow> bool" where
  "tables_placed pml4 pdpt pds pt gibs \<longleftrightarrow>
     page_aligned pml4 \<and> page_aligned pdpt \<and> page_aligned pds \<and> page_aligned pt \<and>
     unat pds + gibs * 4096 \<le> 2 ^ 52"

lemma pd_slot:
  assumes "unat pds + gibs * 4096 \<le> 2 ^ 52" and "page_aligned pds" and "i < gibs"
  shows "page_aligned (pds + of_nat i * 4096)" and "unat (pds + of_nat i * 4096) = unat pds + i * 4096"
proof -
  have i: "i * 4096 + 4096 \<le> gibs * 4096" using assms(3) by simp
  then have "unat (of_nat i * 4096 :: u64) = i * 4096"
    using assms(1) unat_of_nat [where 'a = 64, of "i * 4096"] by simp
  with i assms(1) show u: "unat (pds + of_nat i * 4096) = unat pds + i * 4096"
    by (simp add: unat_word_ariths)
  show "page_aligned (pds + of_nat i * 4096)"
    using assms(2) i assms(1) u by (simp add: page_aligned_def)
qed

lemma read_table:
  assumes "page_aligned table"
  shows "rd (of_nat (entry_address table + 8 * i)) = rd (table + 8 * of_nat i)"
  by (simp add: page_aligned_address [OF assms])

text \<open>The entries the walk of a mapped address reads down to its page directory.\<close>

lemma identity_reads:
  assumes rd: "identity_tables rd pml4 pdpt pds pt gibs prot access"
    and placed: "tables_placed pml4 pdpt pds pt gibs" and gibs: "gibs \<le> 512" and g: "g < gibs * 2 ^ 30"
  shows "rd (of_nat (entry_address (eptp_new pml4) + 8 * (g div 2 ^ 39 mod 512))) = entry_table pdpt"
    and "rd (of_nat (entry_address (entry_table pdpt) + 8 * (g div 2 ^ 30 mod 512))) = entry_table (pds + of_nat (g div 2 ^ 30) * 4096)"
    and "rd (of_nat (entry_address (entry_table (pds + of_nat (g div 2 ^ 30) * 4096)) + 8 * (g div 2 ^ 21 mod 512)))
      = pd_entry pt prot (g div 2 ^ 21)"
proof -
  have g39: "g < 2 ^ 39" using g gibs by simp
  have i4: "g div 2 ^ 39 mod 512 = 0" using g39 by simp
  have i3: "g div 2 ^ 30 mod 512 = g div 2 ^ 30" "g div 2 ^ 30 < gibs" and i2_less: "g div 2 ^ 21 < gibs * 512"
    using g39 g by (simp_all add: less_mult_imp_div_less mult.commute)
  have i2: "g div 2 ^ 30 * 512 + g div 2 ^ 21 mod 512 = g div 2 ^ 21"
    using split_index [OF g39] unfolding i3(1) .
  have al: "page_aligned pml4" "page_aligned pdpt" using placed by (simp_all add: tables_placed_def)
  have r4: "rd (pml4 + 8 * of_nat i) = pml4_entry pdpt i" if "i < 512" for i
    using rd that by (simp add: identity_tables_def)
  show "rd (of_nat (entry_address (eptp_new pml4) + 8 * (g div 2 ^ 39 mod 512))) = entry_table pdpt"
    unfolding i4 eptp_new_address read_table [OF al(1)] using r4 [of 0] by (simp add: pml4_entry_def)
  let ?pd = "pds + of_nat (g div 2 ^ 30) * 4096"
  have pd: "page_aligned ?pd"
    using placed i3(2) by (intro pd_slot) (auto simp: tables_placed_def)
  show "rd (of_nat (entry_address (entry_table pdpt) + 8 * (g div 2 ^ 30 mod 512))) = entry_table ?pd"
    unfolding i3(1) entry_table_props read_table [OF al(2)]
    using rd i3(2) gibs by (simp add: identity_tables_def pdpt_entry_def)
  have "?pd + 8 * of_nat (g div 2 ^ 21 mod 512) = pds + 8 * of_nat (g div 2 ^ 30 * 512 + g div 2 ^ 21 mod 512)"
    by (simp add: algebra_simps)
  then have pd_read: "?pd + 8 * of_nat (g div 2 ^ 21 mod 512) = pds + 8 * of_nat (g div 2 ^ 21)" unfolding i2 .
  have r2: "rd (pds + 8 * of_nat i) = pd_entry pt prot i" if "i < gibs * 512" for i
    using rd that by (simp add: identity_tables_def)
  show "rd (of_nat (entry_address (entry_table ?pd) + 8 * (g div 2 ^ 21 mod 512))) = pd_entry pt prot (g div 2 ^ 21)"
    unfolding entry_table_props read_table [OF pd] pd_read using r2 [OF i2_less] .
qed

lemma large_page_address: "g < 2 ^ 39 \<Longrightarrow> entry_address (of_nat (g div 2 ^ 21) * 2 ^ 21) = g div 2 ^ 21 * 2 ^ 21"
proof -
  assume g39: "g < 2 ^ 39"
  have "unat (of_nat (g div 2 ^ 21) * 2 ^ 21 :: u64) = g div 2 ^ 21 * 2 ^ 21"
    using g39 unat_of_nat [where 'a = 64, of "g div 2 ^ 21 * 2 ^ 21"] by simp
  then show ?thesis using g39 by (intro page_aligned_address [THEN trans]) (auto simp: page_aligned_def)
qed

text \<open>A page-table entry of the protected 2-MiB block names the page of the address itself.\<close>

lemma pt_entry_page:
  assumes g39: "g < 2 ^ 39" and p39: "unat prot < 2 ^ 39" and al: "unat prot mod 4096 = 0" and block: "g div 2 ^ 21 = unat prot div 2 ^ 21"
  obtains a where "entry_address a = g div 4096 * 4096"
    and "pt_entry prot access (g div 4096 mod 512) = entry_page a (if g div 4096 = unat prot div 4096 then access else EPT_RWX)"
proof -
  define p where "p = unat prot"
  let ?i = "g div 4096 mod 512"
  have d: "u div 4096 = u div 2 ^ 21 * 512 + u div 4096 mod 512" for u :: nat
    using div_mult_mod_eq [of "u div 4096" 512] by (simp add: div_mult2_eq [symmetric])
  have same: "?i = p div 4096 mod 512 \<longleftrightarrow> g div 4096 = p div 4096"
    using block d [of g] d [of p] by (auto simp: p_def)
  show thesis
  proof (cases "g div 4096 = p div 4096")
    case True
    have "entry_address prot = g div 4096 * 4096"
      using al p39 True by (subst page_aligned_address) (auto simp: page_aligned_def p_def)
    then show thesis using that [of prot] True same by (simp add: pt_entry_def p_def)
  next
    case False
    let ?a = "p div 2 ^ 21 * 2 ^ 21 + ?i * 4096"
    have a: "?a = g div 4096 * 4096" using block d [of g] by (simp add: p_def)
    then have "unat (of_nat ?a :: u64) = g div 4096 * 4096"
      using g39 unat_of_nat [where 'a = 64, of ?a] by simp
    then have "entry_address (of_nat ?a) = g div 4096 * 4096"
      using g39 by (subst page_aligned_address) (auto simp: page_aligned_def)
    then show thesis using that [of "of_nat ?a"] False same by (simp add: pt_entry_def p_def)
  qed
qed

lemma identity_walk:
  assumes rd: "identity_tables rd pml4 pdpt pds pt gibs prot access"
    and placed: "tables_placed pml4 pdpt pds pt gibs" and gibs: "gibs \<le> 512"
    and prot: "unat prot < gibs * 2 ^ 30" "unat prot mod 4096 = 0"
    and access: "bit access 0"
    and gpa: "unat gpa < gibs * 2 ^ 30"
  shows "ept_walk rd (eptp_new pml4) gpa = Some (identity_translation prot access gpa)"
proof -
  define g where "g = unat gpa"
  define p where "p = unat prot"
  have g39: "g < 2 ^ 39" and p39: "p < 2 ^ 39" using gpa prot gibs by (simp_all add: g_def p_def)
  note reads = identity_reads [OF rd placed gibs gpa, folded g_def]
  show ?thesis
  proof (cases "g div 2 ^ 21 = p div 2 ^ 21")
    case False
    then have "unat gpa div 4096 \<noteq> unat prot div 4096"
      using div_mult2_eq [of g 4096 512] div_mult2_eq [of p 4096 512] by (auto simp: g_def p_def)
    moreover have "list_all (\<lambda>n. \<not> bit (entry_large_page (of_nat (g div 2 ^ 21) * 2 ^ 21)) n) [12..<21]"
    proof -
      have "(of_nat (g div 2 ^ 21) * 2 ^ 21 :: u64) = push_bit 21 (of_nat (g div 2 ^ 21))" by (simp add: push_bit_eq_mult)
      then show ?thesis by (simp only: list_all_iff) (auto simp: bit_simps)
    qed
    ultimately show ?thesis using False large_page_address [OF g39]
      unfolding ept_walk_def g_def [symmetric] Let_def reads
      by (simp add: pd_entry_def p_def leaf_translation_def identity_translation_def g_def [symmetric])
  next
    case True
    have pt: "page_aligned pt" using placed by (simp add: tables_placed_def)
    have e1: "rd (of_nat (entry_address (entry_table pt) + 8 * (g div 2 ^ 12 mod 512))) = pt_entry prot access (g div 4096 mod 512)"
      unfolding entry_table_props read_table [OF pt] using rd by (simp add: identity_tables_def)
    obtain a where a: "entry_address a = g div 4096 * 4096"
      "pt_entry prot access (g div 4096 mod 512) = entry_page a (if g div 4096 = p div 4096 then access else EPT_RWX)"
      by (rule pt_entry_page [OF g39 p39 [unfolded p_def] prot(2) True [unfolded p_def], of access]) (simp add: p_def)
    have "pd_entry pt prot (g div 2 ^ 21) = entry_table pt" using True by (simp add: pd_entry_def p_def)
    then show ?thesis
      unfolding ept_walk_def g_def [symmetric] Let_def reads using e1 a access
      by (simp add: leaf_translation_def identity_translation_def g_def [symmetric] p_def [symmetric]
          bit_EPT_RWX)
  qed
qed

text \<open>Outside the map nothing is present.\<close>

lemma identity_walk_outside:
  assumes rd: "identity_tables rd pml4 pdpt pds pt gibs prot access"
    and placed: "tables_placed pml4 pdpt pds pt gibs"
    and gpa: "gibs * 2 ^ 30 \<le> unat gpa" "unat gpa < 2 ^ 48"
  shows "ept_walk rd (eptp_new pml4) gpa = None"
proof -
  define g where "g = unat gpa"
  have al: "page_aligned pml4" "page_aligned pdpt"
    using placed by (simp_all add: tables_placed_def)
  have r4: "rd (pml4 + 8 * of_nat i) = pml4_entry pdpt i" and r3: "rd (pdpt + 8 * of_nat i) = pdpt_entry pds gibs i"
    if "i < 512" for i
    using rd that by (simp_all add: identity_tables_def)
  have e4: "rd (of_nat (entry_address (eptp_new pml4) + 8 * (g div 2 ^ 39 mod 512))) = pml4_entry pdpt (g div 2 ^ 39 mod 512)"
    unfolding eptp_new_address read_table [OF al(1)] by (rule r4) simp
  show ?thesis
  proof (cases "g < 2 ^ 39")
    case False
    then have "g div 2 ^ 39 mod 512 \<noteq> 0" using gpa(2) by (simp add: g_def div_greater_zero_iff)
    then show ?thesis
      unfolding ept_walk_def g_def [symmetric] Let_def e4
      by (simp add: pml4_entry_def table_accepted_def entry_permitted_def entry_present_def)
  next
    case True
    then have i4: "g div 2 ^ 39 mod 512 = 0" by simp
    have i3: "\<not> g div 2 ^ 30 mod 512 < gibs"
      using True gpa(1) by (simp add: g_def not_less less_eq_div_iff_mult_less_eq)
    have e3: "rd (of_nat (entry_address (entry_table pdpt) + 8 * (g div 2 ^ 30 mod 512)))
        = pdpt_entry pds gibs (g div 2 ^ 30 mod 512)"
      unfolding entry_table_props read_table [OF al(2)] by (rule r3) simp
    have e4': "pml4_entry pdpt 0 = entry_table pdpt" by (simp add: pml4_entry_def)
    show ?thesis
      using i3 unfolding ept_walk_def g_def [symmetric] Let_def e4 unfolding i4 e4' e3
      by (simp add: pdpt_entry_def table_accepted_def entry_permitted_def entry_present_def)
  qed
qed

end
