(* ===== verification/Ept_Build.thy ===== *)
theory Ept_Build
  imports Ept_Walk
begin

text \<open>
  From \<open>Ept::build\<close> to the tables in memory: what the identity map covers, that the entries written
  through the slices are the entries the processor reads, and what \<open>grant_write\<close> changes. The locale
  \<open>page_allocator\<close> of \<open>Platform\<close> is the contract of the UEFI page allocator the builder relies on: pages it hands
  out are inside the physical address space and overlap nothing handed out before.
\<close>

section \<open>The extent of the map\<close>

definition region_end :: "u64 \<times> u64 \<Rightarrow> nat" where
  "region_end r = unat (fst r) + unat (snd r) * 4096"

definition memory_end :: "(u64 \<times> u64) list \<Rightarrow> nat" where
  "memory_end regions = foldr (\<lambda>r h. max (region_end r) h) regions 0"

lemma region_end_le: "r \<in> set regions \<Longrightarrow> region_end r \<le> memory_end regions"
  by (induction regions) (auto simp: memory_end_def)

lemma checked_region_end:
  "Option.bind (checked_mul pages (of_nat PAGE_SIZE)) (checked_add start) =
     (if region_end (start, pages) < 2 ^ 64 then Some (start + pages * 4096) else None)"
  by (auto simp: region_end_def checked_mul_def checked_add_def PAGE_SIZE_def unat_word_ariths bind_eq_None_conv)

lemma unat_region_end:
  "region_end (start, pages) < 2 ^ 64 \<Longrightarrow> unat (start + pages * 4096) = region_end (start, pages)"
  by (simp add: region_end_def unat_word_ariths)

lemma highest_end_iff:
  "highest_end regions h = Ok h' \<longleftrightarrow>
     list_all (\<lambda>r. region_end r < 2 ^ 64) regions \<and>
     unat h' = max (unat h) (memory_end regions)"
proof (induction regions arbitrary: h)
  case Nil
  show ?case by (auto simp: memory_end_def word_unat_eq_iff)
next
  case (Cons r regions)
  obtain start pages where r: "r = (start, pages)" by (cases r)
  have "unat (max h (start + pages * 4096)) = max (unat h) (region_end r)" if "region_end r < 2 ^ 64"
    using unat_region_end [of start pages] that r by (simp add: max_def word_le_nat_alt)
  then show ?case
    using Cons.IH [of "max h (start + pages * 4096)"]
    by (auto simp: r checked_region_end [of pages start] memory_end_def max.assoc)
qed

lemma highest_end_not_Panic: "highest_end regions h \<noteq> Panic"
  by (induction regions arbitrary: h) (auto split: option.splits)

lemma highest_end_Err:
  "highest_end regions h = Err e \<Longrightarrow> e = RangeTooLarge U64_MAX"
  by (induction regions arbitrary: h) (auto split: option.splits)

definition round_up_gib :: "nat \<Rightarrow> nat" where
  "round_up_gib n = (n + (2 ^ 30 - 1)) div 2 ^ 30 * 2 ^ 30"

lemma unat_round_gib: "unat (a AND NOT (SIZE_1G - 1)) = unat a div 2 ^ 30 * 2 ^ 30"
proof -
  have m: "SIZE_1G - 1 = mask 30" by (simp add: const_defs mask_eq_exp_minus_1)
  show ?thesis unfolding m by (rule and_not_mask_unat)
qed

lemma identity_map_end_iff:
  "identity_map_end regions = Ok e \<longleftrightarrow>
     0 < memory_end regions \<and> round_up_gib (memory_end regions) \<le> 2 ^ 39 \<and>
     unat e = round_up_gib (memory_end regions)"
proof (cases "highest_end regions 0")
  case (Ok h)
  then have h: "list_all (\<lambda>r. region_end r < 2 ^ 64) regions" "unat h = memory_end regions"
    by (simp_all add: highest_end_iff)
  have g: "SIZE_1G - 1 = 0x3FFFFFFF" by (simp add: const_defs)
  have u: "unat (h + 0x3FFFFFFF) = memory_end regions + (2 ^ 30 - 1)" if "memory_end regions + (2 ^ 30 - 1) < 2 ^ 64"
    using that h(2) by (simp add: unat_word_ariths)
  have m: "MAX_IDENTITY_MAP = 0x8000000000" by (simp add: const_defs)
  have big: "2 ^ 39 < round_up_gib (memory_end regions)" if "2 ^ 64 \<le> memory_end regions + (2 ^ 30 - 1)"
  proof -
    have "2 ^ 34 \<le> (memory_end regions + (2 ^ 30 - 1)) div 2 ^ 30"
      using div_le_mono [OF that, of "2 ^ 30"] by simp
    then show ?thesis by (simp add: round_up_gib_def)
  qed
  have r: "unat ((h + 0x3FFFFFFF) AND NOT 0x3FFFFFFF) = round_up_gib (memory_end regions)"
    if "memory_end regions + (2 ^ 30 - 1) < 2 ^ 64"
    using unat_round_gib [of "h + 0x3FFFFFFF"] unfolding g by (simp add: u [OF that] round_up_gib_def)
  have z: "h = 0 \<longleftrightarrow> memory_end regions = 0" using h(2) by (simp add: word_unat_eq_iff)
  have "identity_map_end regions = (if memory_end regions = 0 then Err EmptyMemoryMap
      else if 2 ^ 64 \<le> memory_end regions + (2 ^ 30 - 1) then Err (RangeTooLarge h)
      else if 2 ^ 39 < round_up_gib (memory_end regions) then Err (RangeTooLarge h)
      else Ok ((h + 0x3FFFFFFF) AND NOT 0x3FFFFFFF))"
    using Ok z h(2) r unfolding identity_map_end_def g m
    by (auto simp: checked_add_def Let_def word_less_nat_alt)
  then show ?thesis using big r by (auto simp: word_unat_eq_iff)
next
  case (Err e')
  have "2 ^ 64 \<le> memory_end regions"
  proof (rule ccontr)
    assume "\<not> ?thesis"
    then have "list_all (\<lambda>r. region_end r < 2 ^ 64) regions" "memory_end regions < 2 ^ 64"
      using region_end_le by (auto simp: list_all_iff) (meson le_less_trans not_le)
    then have "highest_end regions 0 = Ok (of_nat (memory_end regions))"
      by (simp add: highest_end_iff unat_of_nat)
    then show False using Err by simp
  qed
  then have "2 ^ 34 \<le> (memory_end regions + (2 ^ 30 - 1)) div 2 ^ 30"
    using div_le_mono [of "2 ^ 64" "memory_end regions + (2 ^ 30 - 1)" "2 ^ 30"] by simp
  then have "2 ^ 39 < round_up_gib (memory_end regions)" by (simp add: round_up_gib_def)
  then show ?thesis using Err by (simp add: identity_map_end_def)
next
  case Panic
  then show ?thesis by (simp add: highest_end_not_Panic)
qed

lemma identity_map_end_gibs:
  assumes "identity_map_end regions = Ok e"
  shows "unat e = unat (e div SIZE_1G) * 2 ^ 30" "unat (e div SIZE_1G) \<le> 512" "0 < unat (e div SIZE_1G)"
proof -
  have e: "0 < memory_end regions" "unat e \<le> 2 ^ 39" "unat e = round_up_gib (memory_end regions)"
    using assms by (simp_all add: identity_map_end_iff)
  have g: "unat (e div SIZE_1G) = unat e div 2 ^ 30" by (simp add: unat_div const_defs)
  show u: "unat e = unat (e div SIZE_1G) * 2 ^ 30" unfolding g e(3) by (simp add: round_up_gib_def)
  show "unat (e div SIZE_1G) \<le> 512" using u e(2) by simp
  have "2 ^ 30 \<le> memory_end regions + (2 ^ 30 - 1)" using e(1) by simp
  then have "0 < (memory_end regions + (2 ^ 30 - 1)) div 2 ^ 30" by (simp add: div_greater_zero_iff)
  then show "0 < unat (e div SIZE_1G)" unfolding g e(3) by (simp add: round_up_gib_def)
qed

section \<open>Publishing\<close>

lemma decode_invept_operand [simp]: "decode_invept (of_nat (invept_operand k)) = Some k"
  by (cases k) (simp_all add: decode_invept_def)

lemma publish_OkD:
  assumes "publish page s = (Ok (), s')"
  shows "protected_page s' = Some page" and "decode_invept (INVEPT_TYPE s) = None"
  using assms by (auto simp: publish_def protected_page_def split: if_splits)

section \<open>Table words in memory\<close>

lemma apart_words:
  fixes a b :: u64
  assumes "unat a + 8 \<le> unat b"
  shows "8 \<le> unat (b - a)" and "unat b + 8 \<le> 2 ^ 64 \<Longrightarrow> 8 \<le> unat (a - b)"
proof -
  have u: "unat (b - a) = unat b - unat a" using assms by (simp add: unat_sub word_le_nat_alt)
  then show "8 \<le> unat (b - a)" using assms by simp
  have "a \<noteq> b" using assms by auto
  then have "unat (a - b) = 2 ^ 64 - (unat b - unat a)" using unat_diff_swap [of b a] u by simp
  then show "8 \<le> unat (a - b)" if "unat b + 8 \<le> 2 ^ 64" using that assms by simp
qed

lemma unat_word_slot:
  assumes "unat (a :: u64) + 8 * n \<le> 2 ^ 64" and "i < n"
  shows "unat (a + 8 * of_nat i) = unat a + 8 * i"
proof -
  have "8 * i < 2 ^ 64" using assms by simp
  then have "unat (8 * of_nat i :: u64) = 8 * i"
    using unat_of_nat [where 'a = 64, of "8 * i"] by simp
  then show ?thesis using assms by (simp add: unat_word_ariths)
qed

definition apart :: "nat \<Rightarrow> nat \<Rightarrow> nat \<Rightarrow> nat \<Rightarrow> bool" where
  "apart x n y k \<longleftrightarrow> x + n \<le> y \<or> y + k \<le> x"

lemma apart_intervals:
  assumes "{x..<x + n} \<inter> {y..<y + k} = {}" and "0 < n" and "0 < k"
  shows "apart x n y k"
proof (rule ccontr)
  assume "\<not> ?thesis"
  then have "max x y \<in> {x..<x + n} \<inter> {y..<y + k}" using assms(2,3) by (auto simp: apart_def max_def)
  with assms(1) show False by simp
qed

definition tables_apart :: "u64 \<Rightarrow> u64 \<Rightarrow> u64 \<Rightarrow> u64 \<Rightarrow> nat \<Rightarrow> bool" where
  "tables_apart pml4 pdpt pds pt gibs \<longleftrightarrow>
     apart (unat pml4) 4096 (unat pdpt) 4096 \<and> apart (unat pml4) 4096 (unat pds) (4096 * gibs) \<and>
     apart (unat pml4) 4096 (unat pt) 4096 \<and> apart (unat pdpt) 4096 (unat pds) (4096 * gibs) \<and>
     apart (unat pdpt) 4096 (unat pt) 4096 \<and> apart (unat pds) (4096 * gibs) (unat pt) 4096"

context memory_laws
begin

lemma load64_store64_disjoint:
  assumes "unat a + 8 \<le> unat b \<or> unat b + 8 \<le> unat a" and "unat a + 8 \<le> 2 ^ 64" and "unat b + 8 \<le> 2 ^ 64"
  shows "load64 hw a (store64 hw b v m) = load64 hw a m"
  using assms by (intro load64_store64_apart) (auto dest: apart_words)

lemma load64_store_words_outside:
  assumes "unat b + 8 \<le> unat a \<or> unat a + 8 * length ws \<le> unat b"
    and "unat a + 8 * length ws \<le> 2 ^ 64" and "unat b + 8 \<le> 2 ^ 64"
  shows "load64 hw b (store_words hw a ws m) = load64 hw b m"
  using assms
proof (induction ws arbitrary: a m)
  case (Cons w ws)
  show ?case
  proof (cases "ws = []")
    case True
    then show ?thesis using Cons.prems by (simp add: load64_store64_disjoint)
  next
    case False
    then have "0 < length ws" by simp
    then have u: "unat (a + 8) = unat a + 8" using unat_word_slot [of a "Suc (length ws)" 1] Cons.prems(2) by simp
    have "load64 hw b (store_words hw (a + 8) ws (store64 hw a w m)) = load64 hw b (store64 hw a w m)"
      using Cons.prems u by (intro Cons.IH) auto
    also have "\<dots> = load64 hw b m" using Cons.prems by (intro load64_store64_disjoint) auto
    finally show ?thesis by simp
  qed
qed simp

lemma load64_store_words_inside:
  assumes "i < length ws" and "unat a + 8 * length ws \<le> 2 ^ 64"
  shows "load64 hw (a + 8 * of_nat i) (store_words hw a ws m) = ws ! i"
  using assms
proof (induction ws arbitrary: a m i)
  case (Cons w ws)
  have u: "unat (a + 8) = unat a + 8" if "0 < length ws"
    using unat_word_slot [of a "Suc (length ws)" 1] Cons.prems(2) that by simp
  show ?case
  proof (cases i)
    case 0
    show ?thesis
    proof (cases "ws = []")
      case False
      then have "load64 hw a (store_words hw (a + 8) ws (store64 hw a w m)) = load64 hw a (store64 hw a w m)"
        using Cons.prems(2) u by (intro load64_store_words_outside) auto
      then show ?thesis using 0 by simp
    qed (use 0 in simp)
  next
    case (Suc j)
    then have "0 < length ws" using Cons.prems(1) by auto
    moreover have "a + 8 * of_nat i = (a + 8) + 8 * of_nat j" by (simp add: Suc)
    ultimately show ?thesis using Cons.IH [of j "a + 8"] Cons.prems Suc u by (simp add: add.assoc)
  qed
qed simp

lemma load64_store_table:
  assumes "i < n" and "unat a + 8 * n \<le> 2 ^ 64"
  shows "load64 hw (a + 8 * of_nat i) (store_words hw a (map f [0..<n]) m) = f i"
  using load64_store_words_inside [of i "map f [0..<n]"] assms by simp

lemma table_survives:
  assumes "apart (unat x) (8 * n) (unat y) (8 * length ws)" and "unat x + 8 * n \<le> 2 ^ 64"
    and "unat y + 8 * length ws \<le> 2 ^ 64" and "i < n"
  shows "load64 hw (x + 8 * of_nat i) (store_words hw y ws m) = load64 hw (x + 8 * of_nat i) m"
  using assms unat_word_slot [OF assms(2,4)]
  by (intro load64_store_words_outside) (auto simp: apart_def)

lemma fill_tables_in_memory_ok:
  assumes placed: "tables_placed pml4 pdpt pds pt gibs" and apart: "tables_apart pml4 pdpt pds pt gibs"
    and gibs: "gibs \<le> 512" and prot: "unat prot < gibs * 2 ^ 30"
    and zero: "load_words hw pml4 512 m = replicate 512 0" "load_words hw pdpt 512 m = replicate 512 0"
  shows "\<exists>m'. fill_tables_in_memory hw pml4 pdpt pds pt gibs prot m = (Ok (unat prot div 4096 mod 512), m') \<and>
    identity_tables (\<lambda>a. load64 hw a m') pml4 pdpt pds pt gibs prot EPT_READ"
proof -
  let ?t = "\<lparr>t_pml4 = load_words hw pml4 ENTRIES m, t_pdpt = load_words hw pdpt ENTRIES m,
    t_pds = load_words hw pds (gibs * ENTRIES) m, t_pt = load_words hw pt ENTRIES m,
    t_pdpt_address = pdpt, t_pds_address = pds, t_pt_address = pt\<rparr>"
  have len: "length (load_words hw a n m) = n" for a n by (simp add: load_words_def)
  obtain t' where t': "fill_identity_map ?t gibs prot = Some (t', unat prot div 4096 mod 512)"
    "t_pml4 t' = map (pml4_entry pdpt) [0..<512]" "t_pdpt t' = map (pdpt_entry pds gibs) [0..<512]"
    "t_pds t' = map (pd_entry pt prot) [0..<gibs * 512]" "t_pt t' = map (pt_entry prot EPT_READ) [0..<512]"
    using fill_identity_map_ok [of ?t gibs prot] zero gibs prot by (auto simp: ENTRIES_def len)
  have b: "unat pml4 + 8 * 512 \<le> 2 ^ 64" "unat pdpt + 8 * 512 \<le> 2 ^ 64" "unat pt + 8 * 512 \<le> 2 ^ 64"
    "unat pds + 8 * (gibs * 512) \<le> 2 ^ 64"
    using placed by (simp_all add: tables_placed_def page_aligned_def)
  note a = apart [unfolded tables_apart_def]
  let ?m1 = "store_words hw pml4 (t_pml4 t') m"
  let ?m2 = "store_words hw pdpt (t_pdpt t') ?m1"
  let ?m3 = "store_words hw pds (t_pds t') ?m2"
  let ?m4 = "store_words hw pt (t_pt t') ?m3"
  have "load64 hw (pml4 + 8 * of_nat i) ?m4 = pml4_entry pdpt i" if "i < 512" for i
    using that b a by (simp add: table_survives [where n = 512] t' load64_store_table)
  moreover have "load64 hw (pdpt + 8 * of_nat i) ?m4 = pdpt_entry pds gibs i" if "i < 512" for i
    using that b a by (simp add: table_survives [where n = 512] t' load64_store_table)
  moreover have "load64 hw (pds + 8 * of_nat i) ?m4 = pd_entry pt prot i" if "i < gibs * 512" for i
    using that b a by (simp add: table_survives [where n = "gibs * 512"] t' load64_store_table)
  moreover have "load64 hw (pt + 8 * of_nat i) ?m4 = pt_entry prot EPT_READ i" if "i < 512" for i
    using that b by (simp add: t' load64_store_table)
  ultimately have "identity_tables (\<lambda>a. load64 hw a ?m4) pml4 pdpt pds pt gibs prot EPT_READ"
    by (simp add: identity_tables_def)
  moreover have "fill_tables_in_memory hw pml4 pdpt pds pt gibs prot m = (Ok (unat prot div 4096 mod 512), ?m4)"
    by (simp add: fill_tables_in_memory_def t'(1))
  ultimately show ?thesis by blast
qed

text \<open>A word made of zero bytes is 0, and a word none of whose bytes changed is unchanged.\<close>

lemma load64_bytes:
  assumes "unat a + 8 \<le> 2 ^ 64" and "\<And>x. unat a \<le> x \<Longrightarrow> x < unat a + 8 \<Longrightarrow> i_load8 hw (of_nat x) m = i_load8 hw (of_nat x) m'"
  shows "load64 hw a m = load64 hw a m'"
proof -
  have "load_bytes hw a 8 m = load_bytes hw a 8 m'"
    using assms(2) [of "unat a + i" for i] by (simp add: load_bytes_def)
  then show ?thesis by (simp add: load64_def)
qed

lemma load64_zero_bytes:
  assumes "\<And>x. unat a \<le> x \<Longrightarrow> x < unat a + 8 \<Longrightarrow> i_load8 hw (of_nat x) m = 0"
  shows "load64 hw a m = 0"
proof -
  have "load_bytes hw a 8 m = replicate 8 0"
    using assms [of "unat a + i" for i] by (intro nth_equalityI) (simp_all add: load_bytes_def)
  then show ?thesis by (simp add: load64_def numeral_eq_Suc)
qed

end

section \<open>Building\<close>

context page_allocator
begin

lemma zeroed_words:
  assumes "\<And>x. x \<in> {unat a..<unat a + 4096} \<Longrightarrow> i_load8 hw (of_nat x) m = 0" and "unat a + 4096 \<le> 2 ^ 64"
  shows "load_words hw a 512 m = replicate 512 0"
proof (rule nth_equalityI)
  fix i assume "i < length (load_words hw a 512 m)"
  then have i: "i < 512" by (simp add: load_words_def)
  have "unat (a + 8 * of_nat i) = unat a + 8 * i" using assms(2) i by (intro unat_word_slot) auto
  then have "load64 hw (a + 8 * of_nat i) m = 0" using i by (intro load64_zero_bytes assms(1)) auto
  then show "load_words hw a 512 m ! i = replicate 512 0 ! i" using i by (simp add: load_words_def)
qed (simp add: load_words_def)

lemma four_allocations:
  assumes a1: "allocate_zeroed_pages hw 1 e m0 = (Ok pml4, m1)" and a2: "allocate_zeroed_pages hw 1 e m1 = (Ok pdpt, m2)"
    and a3: "allocate_zeroed_pages hw gibs e m2 = (Ok pds, m3)" and a4: "allocate_zeroed_pages hw 1 e m3 = (Ok pt, m4)"
    and "0 < gibs"
  shows "tables_placed pml4 pdpt pds pt gibs" "tables_apart pml4 pdpt pds pt gibs"
    "load_words hw pml4 512 m4 = replicate 512 0" "load_words hw pdpt 512 m4 = replicate 512 0"
proof -
  note d1 = allocate_zeroed_pages_OkD [OF a1] and d2 = allocate_zeroed_pages_OkD [OF a2]
    and d3 = allocate_zeroed_pages_OkD [OF a3] and d4 = allocate_zeroed_pages_OkD [OF a4]
  show "tables_placed pml4 pdpt pds pt gibs"
    using d1(1) d2(1) d3(1,2) d4(1) assms(5) by (simp add: tables_placed_def)
  let ?I = "\<lambda>a n. {unat a..<unat a + n * 4096}"
  have "?I pml4 1 \<inter> ?I pdpt 1 = {}" "?I pml4 1 \<inter> ?I pds gibs = {}" "?I pml4 1 \<inter> ?I pt 1 = {}"
    "?I pdpt 1 \<inter> ?I pds gibs = {}" "?I pdpt 1 \<inter> ?I pt 1 = {}" "?I pds gibs \<inter> ?I pt 1 = {}"
    using d1(4) d2(3,4) d3(3,4) d4(3) by blast+
  note this [THEN apart_intervals]
  then show "tables_apart pml4 pdpt pds pt gibs"
    using assms(5) by (simp add: tables_apart_def mult.commute)
  show "load_words hw pml4 512 m4 = replicate 512 0"
    using d1 d2(4,5) d3(4,5) d4(5) by (intro zeroed_words) auto
  show "load_words hw pdpt 512 m4 = replicate 512 0"
    using d2 d3(4,5) d4(5) by (intro zeroed_words) auto
qed

text \<open>
  When \<open>build\<close> succeeds, memory holds the tables of an identity map up to \<open>ept_end\<close> with the protected
  page read-only, and the statics name that page and its entry.
\<close>

lemma build_OkD:
  assumes "build hw prot invept (m, s) = (Ok ept, (m', s'))"
  obtains pml4 pdpt pds pt gibs where "ept_eptp ept = eptp_new pml4" "unat (ept_end ept) = gibs * 2 ^ 30"
    "gibs \<le> 512" "unat prot < gibs * 2 ^ 30" "unat prot mod 4096 = 0" "ept_table_pages ept = gibs + 3"
    "tables_placed pml4 pdpt pds pt gibs" "tables_apart pml4 pdpt pds pt gibs"
    "identity_tables (\<lambda>a. load64 hw a m') pml4 pdpt pds pt gibs prot EPT_READ"
    "decode_invept (INVEPT_TYPE s) = None"
    "protected_page s' = Some \<lparr>pp_gpa = prot, pp_entry = pt + 8 * of_nat (unat prot div 4096 mod 512),
       pp_eptp = eptp_new pml4, pp_invept = invept\<rparr>"
proof -
  let ?alloc = "\<lambda>n. allocate_zeroed_pages hw n EptAllocationFailed"
  obtain regions m0 end' pml4 m1 pdpt m2 pds m3 pt m4 protect where
    end': "identity_map_end regions = Ok end'" and prot: "\<not> (prot \<ge> end' \<or> unat prot mod 4096 \<noteq> 0)"
    and a1: "?alloc 1 m0 = (Ok pml4, m1)" and a2: "?alloc 1 m1 = (Ok pdpt, m2)"
    and a3: "?alloc (unat (end' div SIZE_1G)) m2 = (Ok pds, m3)" and a4: "?alloc 1 m3 = (Ok pt, m4)"
    and fill: "fill_tables_in_memory hw pml4 pdpt pds pt (unat (end' div SIZE_1G)) prot m4 = (Ok protect, m')"
    and pub: "publish \<lparr>pp_gpa = prot, pp_entry = pt + 8 * of_nat protect, pp_eptp = eptp_new pml4,
        pp_invept = invept\<rparr> s = (Ok (), s')"
    and ept: "ept = \<lparr>ept_eptp = eptp_new pml4, ept_end = end', ept_table_pages = unat (end' div SIZE_1G) + 3\<rparr>"
    using assms unfolding build_def
    by (auto elim!: and_then_OkE simp: on_machine_def on_statics_def PAGE_SIZE_def Let_def
        split: prod.splits if_splits)
  define gibs where "gibs = unat (end' div SIZE_1G)"
  note u = identity_map_end_gibs [OF end', folded gibs_def]
  have p: "unat prot < gibs * 2 ^ 30" "unat prot mod 4096 = 0"
    using prot u by (simp_all add: not_le word_less_nat_alt)
  note al = four_allocations [OF a1 a2 a3 [folded gibs_def] a4 u(3)]
  from fill_tables_in_memory_ok [OF al(1,2) u(2) p(1) al(3,4)] fill [folded gibs_def]
  have "protect = unat prot div 4096 mod 512"
    "identity_tables (\<lambda>a. load64 hw a m') pml4 pdpt pds pt gibs prot EPT_READ" by auto
  moreover note publish_OkD [OF pub]
  ultimately show thesis using that [of pml4 gibs pdpt pds pt] u p al ept by (simp add: gibs_def)
qed

end

section \<open>Making the protected page writable\<close>

text \<open>INVEPT drops cached translations; it does not change memory.\<close>

locale invept_memory = memory_laws +
  assumes invept_keeps: "i_invept hw k lo hi m = (rflags, m') \<Longrightarrow> i_load8 hw a m' = i_load8 hw a m"
begin

lemma invalidate_memory: "invalidate hw k eptp m = (r, m') \<Longrightarrow> load64 hw a m' = load64 hw a m"
  by (auto simp: invalidate_def vmx_asm_def load64_def load_bytes_def invept_keeps split: prod.splits)

lemma grant_write_state:
  assumes "grant_write hw page m = (r, m')"
  shows "load64 hw a m' = load64 hw a
    (store64 hw (pp_entry page) (with_access (load64 hw (pp_entry page) m) (EPT_READ OR EPT_WRITE)) m)"
  using assms invalidate_memory
  by (auto simp: grant_write_def and_then_def split: prod.splits result.splits)

lemma grant_write_tables:
  assumes g: "grant_write hw page m = (r, m')"
    and entry: "pp_entry page = pt + 8 * of_nat (unat prot div 4096 mod 512)"
    and tables: "identity_tables (\<lambda>a. load64 hw a m) pml4 pdpt pds pt gibs prot access"
    and placed: "tables_placed pml4 pdpt pds pt gibs" and apart: "tables_apart pml4 pdpt pds pt gibs"
  shows "identity_tables (\<lambda>a. load64 hw a m') pml4 pdpt pds pt gibs prot (EPT_READ OR EPT_WRITE)"
proof -
  let ?k = "unat prot div 4096 mod 512"
  have b: "unat pml4 + 8 * 512 \<le> 2 ^ 64" "unat pdpt + 8 * 512 \<le> 2 ^ 64" "unat pt + 8 * 512 \<le> 2 ^ 64"
    "unat pds + 8 * (gibs * 512) \<le> 2 ^ 64"
    using placed by (simp_all add: tables_placed_def page_aligned_def)
  have e: "unat (pp_entry page) = unat pt + 8 * ?k"
    unfolding entry using b(3) by (intro unat_word_slot) auto
  have k: "8 * ?k + 8 \<le> 4096" by (simp add: Suc_leI)
  have other: "load64 hw (x + 8 * of_nat i) m' = load64 hw (x + 8 * of_nat i) m"
    if "apart (unat x) (8 * n) (unat pt) 4096" "unat x + 8 * n \<le> 2 ^ 64" "i < n" for x n i
  proof -
    have "unat (x + 8 * of_nat i) = unat x + 8 * i" using that(2,3) by (rule unat_word_slot)
    then show ?thesis
      using that b(3) k unfolding grant_write_state [OF g]
      by (intro load64_store64_disjoint) (auto simp: apart_def e)
  qed
  have "load64 hw (pt + 8 * of_nat i) m' = pt_entry prot (EPT_READ OR EPT_WRITE) i" if i: "i < 512" for i
  proof (cases "i = ?k")
    case True
    have "load64 hw (pp_entry page) m = entry_page prot access"
      unfolding entry using tables by (simp add: identity_tables_def pt_entry_def)
    then show ?thesis
      unfolding grant_write_state [OF g] by (simp add: True entry [symmetric] pt_entry_def)
  next
    case False
    have "unat (pt + 8 * of_nat i) = unat pt + 8 * i" using b(3) i by (rule unat_word_slot)
    then have "load64 hw (pt + 8 * of_nat i) m' = load64 hw (pt + 8 * of_nat i) m"
      using b(3) False i k unfolding grant_write_state [OF g] by (intro load64_store64_disjoint) (auto simp: e)
    then show ?thesis using tables i False by (simp add: identity_tables_def pt_entry_def)
  qed
  moreover note a = apart [unfolded tables_apart_def]
  ultimately show ?thesis
    using tables b other [of pml4 512] other [of pdpt 512] other [of pds "gibs * 512"]
    by (simp add: identity_tables_def)
qed

end

section \<open>Correctness properties\<close>

text \<open>
  C37. The end of the identity map: it is defined exactly when the memory map is not empty and its
  highest byte is at most 512 GiB after rounding up to a whole GiB, and it is that rounded end. A region whose end
  does not fit 64 bits is refused.
\<close>

theorem identity_map_end_exact:
  "identity_map_end regions = Ok e \<longleftrightarrow>
     0 < memory_end regions \<and> round_up_gib (memory_end regions) \<le> 2 ^ 39 \<and> unat e = round_up_gib (memory_end regions)"
  by (rule identity_map_end_iff)

text \<open>
  C38. EPT is used exactly when the processor allows it with a 4-level walk, write-back tables, 2 MiB
  pages and an INVEPT type; the single-context type is preferred.
\<close>

theorem check_support_exact:
  "check_support sec cap = Ok kind \<longleftrightarrow>
     bit (allowed sec) 1 \<and> bit cap 6 \<and> bit cap 14 \<and> bit cap 16 \<and> bit cap 20 \<and>
     (if bit cap 25 then kind = SingleContext else bit cap 26 \<and> kind = AllContext)"
proof -
  have "allows sec SECONDARY_ENABLE_EPT \<longleftrightarrow> bit (allowed sec) 1"
    unfolding allows_iff SECONDARY_ENABLE_EPT_def bit_push_bit_1 by auto
  then show ?thesis
    unfolding check_support_def CAP_WALK_LENGTH_4_def CAP_WRITE_BACK_def CAP_2M_PAGES_def CAP_INVEPT_def
      CAP_INVEPT_SINGLE_CONTEXT_def CAP_INVEPT_ALL_CONTEXT_def bit_test by auto
qed

text \<open>
  The protected page is published once: from the initial statics the exit handler reads back exactly the
  page that was published, and a second build is refused and changes nothing.
\<close>

lemma publish_once:
  "\<exists>s. publish page initial_EptStatics = (Ok (), s) \<and> protected_page s = Some page \<and>
     publish page' s = (Err AlreadyBuilt, s)"
  by (cases "pp_invept page") (simp_all add: publish_def protected_page_def initial_EptStatics_def decode_invept_def)

end
