(* ===== verification/Handler_Spec.thy ===== *)
theory Handler_Spec
  imports Handler Exit_Run Ept_Build
begin

text \<open>
  What the VM-exit handler guarantees. On any hardware: it always returns (with the additions of the release profile,
  which wrap; see \<open>Debug_Build\<close> for the others); it returns 0 exactly when it prepared the guest to resume; the state in the
  statics follows \<open>decide\<close>, so a run of the handler is the run of the exit machine of \<open>Exit_Run\<close> over the exits it
  read. On hardware that keeps the laws of the locale \<open>exit_hardware\<close>: what each plan leaves in the VMCS and in the
  guest's registers, and the handler on a given list of exits.
\<close>

section \<open>The handler always returns\<close>

lemma panic_free_vmread [act_rules]: "panic_free (vmread hw f)"
  by (auto simp: panic_free_def vmread_def split: prod.splits result.splits)

lemma map_result_err_not_Panic [simp]: "map_result_err g r = Panic \<longleftrightarrow> r = Panic"
  by (cases r) auto

lemma panic_free_vmwrite [act_rules]: "panic_free (vmwrite hw f v)"
  by (auto simp: panic_free_def vmwrite_def split: prod.splits)

lemma panic_free_on_hw [act_rules]: "panic_free act \<Longrightarrow> panic_free (on_hw act)"
  by (auto simp: panic_free_def on_hw_def split: prod.splits) (metis fst_conv)

lemma panic_free_on_machine [act_rules]: "panic_free act \<Longrightarrow> panic_free (on_machine act)"
  by (auto simp: panic_free_def on_machine_def split: prod.splits) (metis fst_conv)

lemma panic_free_vmx_asm [act_rules]: "panic_free (vmx_asm i)"
  by (auto simp: panic_free_def vmx_asm_def split: prod.splits)

lemma panic_free_or_stop [act_rules]: "panic_free act \<Longrightarrow> panic_free (or_stop act line)"
  unfolding or_stop_def by (intro act_rules)

lemma panic_free_steps [act_rules]:
  "panic_free (set_nmi_window_exiting hw on)" "panic_free (queue_general_protection hw)"
  "panic_free (grant_write hw page)" "panic_free (vm_instruction_error hw)"
  unfolding set_nmi_window_exiting_def queue_general_protection_def grant_write_def invalidate_def
    vm_instruction_error_def
  by (intro act_rules)+

lemma total_serial_println [act_rules]: "total (serial_println line)" "total (set_phase phase)"
  by (simp_all add: total_def)

lemma total_read_or_report [act_rules]: "total (read_or_report hw name f)"
  unfolding total_def
proof
  fix w
  have "panic_free (on_hw (vmread hw f))" by (intro act_rules)
  then show "\<exists>x. fst (read_or_report hw name f w) = Ok x"
    by (auto simp: read_or_report_def report_unreadable_def and_then_def panic_free_def
        split: prod.splits result.splits) (metis fst_conv)
qed

lemma total_report [act_rules]:
  "total (report_exception hw number)" "total (report_ept_exit hw number r q)"
  "total (report_event number event x st resumed)"
  unfolding report_exception_def report_ept_exit_def report_event_def Let_def
  by (intro act_rules)+

lemma total_read_exit [act_rules]: "total (read_exit hw number frame)"
  unfolding read_exit_def announce_exit_def read_guest_physical_def Let_def by (intro act_rules)

lemma total_judge [act_rules]: "total (judge x)"
  by (simp add: total_def judge_def Let_def split: prod.split)

lemma total_ports [act_rules]: "total (inb hw p)" "total (inw hw p)" "total (inl hw p)"
  "total (outb hw p a)" "total (outw hw p b)" "total (outl hw p c)" "total (rdmsr hw r)" "total (wrmsr hw r v)"
  by (auto simp: total_def inb_def inw_def inl_def outb_def outw_def outl_def rdmsr_def wrmsr_def split: prod.splits)

lemma total_execute [act_rules]: "total (execute hw e frame)"
proof (cases e)
  case (In port sz)
  then show ?thesis unfolding execute_def by (cases sz) (simp_all, (intro act_rules)+)
next
  case (Out port sz v)
  then show ?thesis unfolding execute_def by (cases sz) (simp_all, (intro act_rules)+)
qed (simp_all add: execute_def Let_def, (intro act_rules)+)

lemma total_on_hw [act_rules]: "total act \<Longrightarrow> total (on_hw act)"
  by (auto simp: total_def on_hw_def split: prod.splits) (metis fst_conv)

lemmas resume_step_defs = emulate_instruction_def advance_guest_rip_def queue_nmi_def queue_gp_def
  switch_nmi_window_def grant_protected_page_def

lemma total_execute_step [act_rules]: "total (execute_step hw e)"
  unfolding total_def
proof
  fix s :: "'a world \<times> RegisterFrame"
  have "total (on_hw (execute hw e (snd s)))" by (intro act_rules)
  then obtain outcome frame' w' where "on_hw (execute hw e (snd s)) (fst s) = (Ok (outcome, frame'), w')"
    by (metis totalE prod.collapse)
  then show "\<exists>x. fst (execute_step hw e s) = Ok x" by (simp add: execute_step_def)
qed

lemma panic_free_resume_steps [act_rules]: "panic_free (resume_steps hw number rip len plan prot)"
  unfolding resume_steps_def resume_step_defs by (intro act_rules total_panic_free [OF total_execute_step])

lemma total_prepare_resume [act_rules]: "total (prepare_resume hw number rip len plan prot frame)"
  using panic_free_resume_steps [of hw number rip len plan prot]
  by (auto simp: total_def prepare_resume_def panic_free_def and_then_def split: prod.splits result.splits)
    (metis fst_conv)

lemma total_case_action [act_rules]:
  "(\<And>p. total (f p)) \<Longrightarrow> total a \<Longrightarrow> total b \<Longrightarrow>
   total (case act of Resume p \<Rightarrow> f p | Finished \<Rightarrow> a | UnexpectedStop \<Rightarrow> b)"
  by (cases act) auto

lemma total_apply_event [act_rules]: "total (apply_event hw number event read next frame)"
  unfolding apply_event_def by (intro act_rules)

lemma total_vmexit_handler: "total (vmexit_handler hw frame)"
  unfolding vmexit_handler_def by (intro act_rules)

section \<open>What the handler changes in the statics\<close>

abbreviation statics :: "'m world \<Rightarrow> ExitStatics \<times> EptStatics \<times> u8" where
  "statics w \<equiv> (w_exits w, w_ept w, PHASE w)"

lemma keeps_on_hw [act_rules]: "keeps statics (on_hw act)"
  by (simp add: keeps_def on_hw_def split: prod.split)

lemma keeps_serial_println [act_rules]: "keeps statics (serial_println line)"
  by (simp add: keeps_def)

lemma keeps_on_machine [act_rules]: "keeps f act \<Longrightarrow> keeps (\<lambda>s. f (fst s)) (on_machine act)"
  by (auto simp: keeps_def on_machine_def split: prod.split) (metis snd_conv)

lemma keeps_or_stop [act_rules]: "keeps statics (or_stop act line)"
  unfolding or_stop_def by (intro act_rules)

lemma keeps_read_or_report [act_rules]: "keeps statics (read_or_report hw name f)"
  unfolding keeps_def
proof
  fix w
  have "keeps statics (on_hw (vmread hw f))" by (intro act_rules)
  then show "statics (snd (read_or_report hw name f w)) = statics w"
    by (auto simp: keeps_def read_or_report_def report_unreadable_def and_then_def on_hw_def
        split: prod.splits result.splits)
qed

lemma keeps_report [act_rules]:
  "keeps statics (report_exception hw number)" "keeps statics (report_ept_exit hw number r q)"
  "keeps statics (report_event number event x st resumed)"
  unfolding report_exception_def report_ept_exit_def report_event_def Let_def
  by (intro act_rules)+

lemma keeps_read_exit [act_rules]: "keeps statics (read_exit hw number frame)"
  unfolding read_exit_def announce_exit_def read_guest_physical_def Let_def by (intro act_rules)

lemma keeps_execute_step [act_rules]: "keeps (\<lambda>s. statics (fst s)) (execute_step hw e)"
  by (auto simp: keeps_def execute_step_def on_hw_def split: prod.splits result.splits)

lemma keeps_resume_steps [act_rules]: "keeps (\<lambda>s. statics (fst s)) (resume_steps hw number rip len plan prot)"
  unfolding resume_steps_def resume_step_defs by (intro act_rules)

lemma keeps_prepare_resume [act_rules]: "keeps statics (prepare_resume hw number rip len plan prot frame)"
  unfolding keeps_def
proof
  fix w
  obtain r w' frame' where r: "resume_steps hw number rip len plan prot (w, frame) = (r, (w', frame'))"
    by (metis prod.collapse)
  then have "statics w' = statics w"
    using keepsD [OF keeps_resume_steps r] by simp
  with r show "statics (snd (prepare_resume hw number rip len plan prot frame w)) = statics w"
    by (cases r) (simp_all add: prepare_resume_def and_then_def)
qed

lemma keeps_case_action [act_rules]:
  "(\<And>p. keeps f (g p)) \<Longrightarrow> keeps f a \<Longrightarrow> keeps f b \<Longrightarrow>
   keeps f (case act of Resume p \<Rightarrow> g p | Finished \<Rightarrow> a | UnexpectedStop \<Rightarrow> b)"
  by (cases act) auto

lemma keeps_apply_event [act_rules]: "keeps statics (apply_event hw number event read next frame)"
  unfolding apply_event_def by (intro act_rules)

lemma load_store_state [simp]: "load_state (store_state st s) = st"
  by (simp add: load_state_def store_state_def)

lemma store_state_count [simp]: "EXIT_COUNT (store_state st s) = EXIT_COUNT s"
  by (simp add: store_state_def)

lemma store_load_state [simp]: "store_state (load_state s) s = s"
  by (simp add: load_state_def store_state_def)

section \<open>What the handler returns\<close>

lemma stub_return_zero: "stub_return act number raw = 0 \<longleftrightarrow> (\<exists>plan. act = Resume plan)"
  by (cases act) (simp_all add: encode_nonzero RESUME_GUEST_def)

lemma apply_event_action:
  assumes "apply_event hw number event read next frame w = (Ok (act, frame'), w')"
  shows "act = event_action event \<or> (\<exists>plan. event_action event = Resume plan) \<and> act = UnexpectedStop"
  using assms unfolding apply_event_def
  by (auto elim!: and_then_OkE split: ExitAction.splits option.splits prod.splits)

text \<open>The judgement of an exit, readable or not.\<close>

definition judged :: "ExitState \<Rightarrow> ExitInfo option \<Rightarrow> ExitEvent \<times> ExitState" where
  "judged st x = (case x of Some exit \<Rightarrow> decide st exit | None \<Rightarrow> (Unexpected, st))"

lemma vmexit_handler_OkD:
  assumes "vmexit_handler hw frame w = (Ok (v, frame'), w')"
  obtains number and read :: ExitRead and ev st act where "number = EXIT_COUNT (w_exits w) + 1"
    "fst (read_exit hw number frame (w\<lparr>PHASE := 2, w_exits := (w_exits w)\<lparr>EXIT_COUNT := number\<rparr>\<rparr>)) = Ok read"
    "judged (load_state (w_exits w)) (xr_exit read) = (ev, st)"
    "act = event_action ev \<or> (\<exists>plan. event_action ev = Resume plan) \<and> act = UnexpectedStop"
    "v = stub_return act number (case xr_raw_reason read of Some raw \<Rightarrow> raw | None \<Rightarrow> ucast UNREADABLE_REASON)"
    "load_state (w_exits w') = st" "EXIT_COUNT (w_exits w') = number" "w_ept w' = w_ept w" "PHASE w' = 2"
proof -
  let ?n = "EXIT_COUNT (w_exits w) + 1"
  let ?w1 = "w\<lparr>PHASE := 2, w_exits := (w_exits w)\<lparr>EXIT_COUNT := ?n\<rparr>\<rparr>"
  from assms obtain read w2 ev st w3 act where
    read: "read_exit hw ?n frame ?w1 = (Ok read, w2)"
    and judge: "judge (xr_exit read) w2 = (Ok (ev, st), w3)"
    and app: "apply_event hw ?n ev read st frame w3 = (Ok (act, frame'), w')"
    and v: "v = stub_return act ?n (case xr_raw_reason read of Some raw \<Rightarrow> raw | None \<Rightarrow> ucast UNREADABLE_REASON)"
    unfolding vmexit_handler_def by (auto elim!: and_then_OkE split: prod.splits)
  have 2: "statics w2 = statics ?w1" using keepsD [OF keeps_read_exit read] by simp
  have "load_state (w_exits w2) = load_state (w_exits w)" using 2 by (simp add: load_state_def)
  with judge have j: "judged (load_state (w_exits w)) (xr_exit read) = (ev, st)"
    "w3 = w2\<lparr>w_exits := store_state st (w_exits w2)\<rparr>"
    by (auto simp: judge_def judged_def Let_def split: prod.splits)
  have "statics w' = statics w3" using keepsD [OF keeps_apply_event app] by simp
  with j 2 v read apply_event_action [OF app] show thesis
    by (intro that [of ?n read ev st act]) simp_all
qed

section \<open>Runs of the handler are runs of the exit machine\<close>

text \<open>
  The handler is entered at each exit with whatever the guest left of the machine and any register
  frame; only the hypervisor's own statics are as it left them. A non-zero value ends the run.
\<close>

inductive handler_run :: "'m platform \<Rightarrow> 'm world \<Rightarrow> u64 option \<Rightarrow> bool" for hw :: "'m platform" where
  Start: "w_exits w = initial_ExitStatics \<Longrightarrow> handler_run hw w None"
| Exit: "handler_run hw w None \<Longrightarrow> w_exits w1 = w_exits w \<Longrightarrow>
    vmexit_handler hw frame w1 = (Ok (v, frame'), w2) \<Longrightarrow>
    handler_run hw w2 (if v = 0 then None else Some v)"

text \<open>The same runs with what the handler read at each exit: \<open>None\<close> when a field could not be read.\<close>

inductive handler_trace :: "'m platform \<Rightarrow> ExitInfo option list \<Rightarrow> 'm world \<Rightarrow> u64 option \<Rightarrow> bool" for hw :: "'m platform" where
  Start: "w_exits w = initial_ExitStatics \<Longrightarrow> handler_trace hw [] w None"
| Exit: "handler_trace hw xs w None \<Longrightarrow> w_exits w1 = w_exits w \<Longrightarrow> number = EXIT_COUNT (w_exits w1) + 1 \<Longrightarrow>
    fst (read_exit hw number frame (w1\<lparr>PHASE := 2, w_exits := (w_exits w1)\<lparr>EXIT_COUNT := number\<rparr>\<rparr>)) = Ok read \<Longrightarrow>
    vmexit_handler hw frame w1 = (Ok (v, frame'), w2) \<Longrightarrow>
    handler_trace hw (xs @ [xr_exit read]) w2 (if v = 0 then None else Some v)"

lemma handler_run_trace: "handler_run hw w stop \<longleftrightarrow> (\<exists>xs. handler_trace hw xs w stop)"
proof
  show "handler_run hw w stop \<Longrightarrow> \<exists>xs. handler_trace hw xs w stop"
  proof (induction rule: handler_run.induct)
    case (Exit w w1 frame v frame' w2)
    let ?n = "EXIT_COUNT (w_exits w1) + 1"
    obtain read where "fst (read_exit hw ?n frame (w1\<lparr>PHASE := 2, w_exits := (w_exits w1)\<lparr>EXIT_COUNT := ?n\<rparr>\<rparr>)) = Ok read"
      using total_read_exit by (metis total_def)
    with Exit show ?case using handler_trace.Exit by blast
  qed (auto intro: handler_trace.Start)
  show "\<exists>xs. handler_trace hw xs w stop \<Longrightarrow> handler_run hw w stop"
  proof (elim exE)
    fix xs assume "handler_trace hw xs w stop"
    then show "handler_run hw w stop"
    proof (induction rule: handler_trace.induct)
      case (Exit xs w w1 number frame read v frame' w2)
      then show ?case by (intro handler_run.Exit [of hw w w1 frame v frame']) auto
    qed (rule handler_run.Start)
  qed
qed

text \<open>
  The run \<open>r\<close> of the exit machine over the exits the handler read and the run of the handler agree: on the
  state, on the number of exits, on whether the guest still runs, and on how it was stopped.
\<close>

definition simulates :: "u64 option \<Rightarrow> 'm world \<Rightarrow> ExitInfo option list \<Rightarrow> run \<Rightarrow> bool" where
  "simulates stop w xs r \<longleftrightarrow>
     exit_run (List.map_filter id xs) r \<and> r_state r = load_state (w_exits w) \<and>
     EXIT_COUNT (w_exits w) = of_nat (length xs) \<and>
     (case stop of
        None \<Rightarrow> r_stopped r = None \<and> None \<notin> set xs
      | Some v \<Rightarrow>
          if r_stopped r = Some Finished
          then None \<notin> set xs \<and> decode v = GuestFinished (of_nat (length xs) AND PAYLOAD_MASK)
          else \<exists>reason. decode v = GuestUnexpected (of_nat (length xs) AND EXIT_NUMBER_MASK) reason)"

lemma map_filter_append_Some [simp]:
  "List.map_filter id (xs @ ys) = List.map_filter id xs @ List.map_filter id ys"
  by (simp add: List.map_filter_def)

lemma simulates_step:
  assumes sim: "simulates None w xs r" and w1: "w_exits w1 = w_exits w" and n: "number = EXIT_COUNT (w_exits w1) + 1"
    and read: "fst (read_exit hw number frame (w1\<lparr>PHASE := 2, w_exits := (w_exits w1)\<lparr>EXIT_COUNT := number\<rparr>\<rparr>)) = Ok read"
    and h: "vmexit_handler hw frame w1 = (Ok (v, frame'), w2)"
  shows "\<exists>r'. simulates (if v = 0 then None else Some v) w2 (xs @ [xr_exit read]) r'"
proof -
  from h obtain ev st act where d:
    "judged (load_state (w_exits w1)) (xr_exit read) = (ev, st)" "act = event_action ev \<or> (\<exists>plan. event_action ev = Resume plan) \<and> act = UnexpectedStop"
    "v = stub_return act number (case xr_raw_reason read of Some raw \<Rightarrow> raw | None \<Rightarrow> ucast UNREADABLE_REASON)"
    "load_state (w_exits w2) = st" "EXIT_COUNT (w_exits w2) = number"
    by (rule vmexit_handler_OkD) (use n read in auto)
  from sim w1 have r: "exit_run (List.map_filter id xs) r" "r_state r = load_state (w_exits w1)" "r_stopped r = None"
    "None \<notin> set xs" "number = of_nat (length (xs @ [xr_exit read]))" using n by (simp_all add: simulates_def)
  show ?thesis
  proof (cases "xr_exit read")
    case None
    then have "ev = Unexpected" "st = load_state (w_exits w1)" using d(1) by (simp_all add: judged_def)
    moreover from this d(2) have "act = UnexpectedStop" by auto
    ultimately have "simulates (if v = 0 then None else Some v) w2 (xs @ [xr_exit read]) r"
      using r d None by (simp add: simulates_def encode_nonzero decode_encode_unexpected)
    then show ?thesis by blast
  next
    case (Some x)
    then have dec: "decide (r_state r) x = (ev, st)" using d(1) r(2) by (simp add: judged_def)
    obtain r' where r': "exit_step r x r'" using r(3) exit_step_exists by blast
    then have "exit_run (List.map_filter id (xs @ [xr_exit read])) r'" using exit_run.Exit [OF r(1) r'] Some by simp
    moreover from r' dec have "r_state r' = st" "r_stopped r' = (case event_action ev of Resume _ \<Rightarrow> None | a \<Rightarrow> Some a)"
      by (auto elim!: exit_stepE)
    ultimately have "simulates (if v = 0 then None else Some v) w2 (xs @ [xr_exit read]) r'"
      using d(2-5) r(4,5) Some
      by (cases "event_action ev") (auto simp: simulates_def RESUME_GUEST_def encode_nonzero decode_encode_finished decode_encode_unexpected)
    then show ?thesis by blast
  qed
qed

lemma handler_trace_simulates: "handler_trace hw xs w stop \<Longrightarrow> \<exists>r. simulates stop w xs r"
proof (induction rule: handler_trace.induct)
  case (Start w)
  have "r_state start_run = default_ExitState" "r_stopped start_run = None" by (simp_all add: start_run_def)
  with Start have "simulates None w [] start_run"
    by (simp add: simulates_def exit_run.Start) (simp add: default_ExitState_def load_state_def
        initial_ExitStatics_def)
  then show ?case by blast
next
  case (Exit xs w w1 number frame read v frame' w2)
  then show ?case using simulates_step by blast
qed

lemma handler_finished_run:
  assumes "handler_run hw w (Some v)" and "decode v = GuestFinished n"
  obtains xs r where "exit_run xs r" "r_state r = load_state (w_exits w)" "r_stopped r = Some Finished"
    "n = of_nat (length xs) AND PAYLOAD_MASK"
proof -
  from assms(1) obtain xs r where s: "simulates (Some v) w xs r" using handler_run_trace handler_trace_simulates by blast
  then have f: "r_stopped r = Some Finished" "None \<notin> set xs" using assms(2) by (auto simp: simulates_def split: if_splits)
  from f(2) have "length (List.map_filter id xs) = length xs" by (induction xs) (auto split: option.split, metis option.exhaust)
  then show thesis using that [of "List.map_filter id xs" r] s f(1) assms(2) by (simp add: simulates_def)
qed

section \<open>What the handler does on lawful hardware\<close>

text \<open>
  Every field the handler uses exists, and the instructions it executes besides VMWRITE change no field
  of the VMCS; INVEPT succeeds.
\<close>

definition handler_fields :: "u32 list" where
  "handler_fields =
     [VM_EXIT_REASON, EXIT_QUALIFICATION, GUEST_PHYSICAL_ADDRESS, GUEST_LINEAR_ADDRESS, GUEST_RIP,
      VM_EXIT_INSTRUCTION_LEN, VM_EXIT_INTERRUPTION_INFO, GUEST_INTERRUPTIBILITY_STATE, IDT_VECTORING_INFO,
      VM_ENTRY_INTERRUPTION_INFO, VM_ENTRY_EXCEPTION_ERROR_CODE, PRIMARY_VM_EXEC_CONTROL]"

locale exit_hardware = supported_vmcs +
  assumes handler_fields_supported: "list_all supported handler_fields"
    and rdmsr_field: "i_rdmsr hw r m = (lo, hi, m') \<Longrightarrow> field m' = field m"
    and wrmsr_field: "field (i_wrmsr hw r lo hi m) = field m"
    and in_field: "field (snd (i_in8 hw p m)) = field m" "field (snd (i_in16 hw p m)) = field m"
      "field (snd (i_in32 hw p m)) = field m"
    and out_field: "field (i_out8 hw p b m) = field m" "field (i_out16 hw p v m) = field m"
      "field (i_out32 hw p d m) = field m"
    and store_field: "field (i_store8 hw a b m) = field m"
    and invept_field: "i_invept hw k eptp z m = (rflags, m') \<Longrightarrow> field m' = field m \<and> check_rflags rflags = Ok ()"

text \<open>The exit as a function of the fields, the published page and the registers.\<close>

definition exit_info_of :: "(u32 \<Rightarrow> u64) \<Rightarrow> EptStatics \<Rightarrow> RegisterFrame \<Rightarrow> ExitInfo" where
  "exit_info_of fld ept frame =
     (let reason = from_raw (ucast (fld VM_EXIT_REASON))
      in \<lparr>ei_reason = reason, ei_interruption_info = ucast (fld VM_EXIT_INTERRUPTION_INFO),
          ei_guest_rax = reg_rax frame, ei_guest_rcx = reg_rcx frame, ei_guest_rdx = reg_rdx frame,
          ei_interruptibility = ucast (fld GUEST_INTERRUPTIBILITY_STATE),
          ei_idt_vectoring_valid = is_valid (ucast (fld IDT_VECTORING_INFO)),
          ei_qualification = fld EXIT_QUALIFICATION,
          ei_guest_physical = (if is_ept_exit reason then fld GUEST_PHYSICAL_ADDRESS else 0),
          ei_protected_page = (case protected_page ept of Some page \<Rightarrow> pp_gpa page | None \<Rightarrow> 0)\<rparr>)"

definition exit_read_of :: "(u32 \<Rightarrow> u64) \<Rightarrow> EptStatics \<Rightarrow> RegisterFrame \<Rightarrow> ExitRead" where
  "exit_read_of fld ept frame =
     \<lparr>xr_raw_reason = Some (ucast (fld VM_EXIT_REASON)), xr_exit = Some (exit_info_of fld ept frame),
      xr_rip = Some (fld GUEST_RIP), xr_length = Some (fld VM_EXIT_INSTRUCTION_LEN),
      xr_protected = protected_page ept\<rparr>"

text \<open>The VMCS fields a plan leaves.\<close>

definition plan_fields :: "ResumePlan \<Rightarrow> (u32 \<Rightarrow> u64) \<Rightarrow> u32 \<Rightarrow> u64" where
  "plan_fields plan fld =
     (let f1 = (if advance_rip plan then fld(GUEST_RIP := fld GUEST_RIP + fld VM_EXIT_INSTRUCTION_LEN) else fld);
          f2 = (if inject_nmi plan then f1(VM_ENTRY_INTERRUPTION_INFO := ucast INFO_NMI) else f1);
          f3 = (if inject_gp plan then f2(VM_ENTRY_EXCEPTION_ERROR_CODE := 0,
                  VM_ENTRY_INTERRUPTION_INFO := ucast INFO_GENERAL_PROTECTION) else f2)
      in (case plan_nmi_window plan of
            Some on \<Rightarrow> f3(PRIMARY_VM_EXEC_CONTROL :=
              take_bit 32 (with_nmi_window_exiting (f3 PRIMARY_VM_EXEC_CONTROL) on))
          | None \<Rightarrow> f3))"

text \<open>A world that differs from another in its serial lines only.\<close>

definition printed :: "'m world \<Rightarrow> 'm world \<Rightarrow> bool" where
  "printed w w' \<longleftrightarrow> (\<exists>lines. w' = w\<lparr>w_serial := lines\<rparr>)"

lemma printed_simps [simp]:
  "printed w w" "printed w (w\<lparr>w_serial := lines\<rparr>)"
  by (auto simp: printed_def) (metis world.surjective world.update_convs(5))

lemma printed_trans: "printed a b \<Longrightarrow> printed b c \<Longrightarrow> printed a c"
  by (auto simp: printed_def)

lemma printed_fields: "printed w w' \<Longrightarrow> w_machine w' = w_machine w \<and> statics w' = statics w"
  by (auto simp: printed_def)

lemma world_machine_self [simp]: "w\<lparr>w_machine := w_machine w\<rparr> = w"
  by simp

lemma and_then_printed:
  assumes "\<exists>w1. a w = (Ok x, w1) \<and> printed w w1" and "\<And>w1. printed w w1 \<Longrightarrow> \<exists>w2. f x w1 = (Ok y, w2) \<and> printed w1 w2"
  shows "\<exists>w2. and_then a f w = (Ok y, w2) \<and> printed w w2"
proof -
  from assms(1) obtain w1 where 1: "a w = (Ok x, w1)" "printed w w1" by blast
  from assms(2) [OF 1(2)] obtain w2 where "f x w1 = (Ok y, w2)" "printed w1 w2" by blast
  with 1 show ?thesis by (auto simp: and_then_Ok intro: printed_trans)
qed

lemma serial_println_printed: "\<exists>w1. serial_println l w = (Ok (), w1) \<and> printed w w1"
  by simp

lemma ret_printed: "\<exists>w1. ret x w = (Ok x, w1) \<and> printed w w1"
  by simp

context exit_hardware
begin

lemma handler_field: "f \<in> set handler_fields \<Longrightarrow> supported f"
  using handler_fields_supported by (simp add: list_all_iff)

lemma read_or_report_ok:
  assumes "f \<in> set handler_fields" and "w_machine w = m"
  shows "\<exists>w1. read_or_report hw name f w = (Ok (Some (field m f)), w1) \<and> printed w w1"
  using vmread_ok [OF handler_field [OF assms(1)]] by (simp add: read_or_report_def on_hw_def flip: assms(2))

lemma report_exception_ok: "\<exists>w1. report_exception hw number w = (Ok (), w1) \<and> printed w w1"
  unfolding report_exception_def
  by (rule and_then_printed, rule read_or_report_ok)
    (auto simp: handler_fields_def Let_def split: option.splits)

lemma report_ept_exit_ok:
  assumes m: "w_machine w = m"
  shows "\<exists>w1. report_ept_exit hw number r q w = (Ok (Some (field m GUEST_PHYSICAL_ADDRESS)), w1) \<and> printed w w1"
proof -
  have g: "GUEST_PHYSICAL_ADDRESS \<in> set handler_fields" "GUEST_LINEAR_ADDRESS \<in> set handler_fields"
    by (simp_all add: handler_fields_def)
  show ?thesis
    unfolding report_ept_exit_def
  proof (rule and_then_printed, rule read_or_report_ok [OF g(1) m])
    fix w1 assume "printed w w1"
    then have m1: "w_machine w1 = m" using m by (auto simp: printed_def)
    show "\<exists>w2. (case Some (field m GUEST_PHYSICAL_ADDRESS) of None \<Rightarrow> ret None
      | Some guest_physical \<Rightarrow>
         if r = EXIT_REASON_EPT_MISCONFIG
         then and_then (serial_println (ReadLine (L_ept_misconfiguration number guest_physical))) (\<lambda>_.
              ret (Some guest_physical))
         else
           and_then (if linear_valid q then read_or_report hw ''GUEST_LINEAR_ADDRESS'' GUEST_LINEAR_ADDRESS
                     else ret None) (\<lambda>linear.
           and_then (serial_println (ReadLine (L_ept_violation number guest_physical linear (access_name q) (permissions q)))) (\<lambda>_.
           ret (Some guest_physical)))) w1 = (Ok (Some (field m GUEST_PHYSICAL_ADDRESS)), w2) \<and> printed w1 w2"
      using read_or_report_ok [OF g(2) m1, of "''GUEST_LINEAR_ADDRESS''"]
      by (auto simp: and_then_Ok printed_def)
  qed
qed

lemma run_read:
  assumes "f \<in> set handler_fields"
  shows "and_then (read_or_report hw name f) g w = g (Some (field (w_machine w) f)) w"
  using vmread_ok [OF handler_field [OF assms]] by (simp add: read_or_report_def on_hw_def and_then_def)

lemma run_println: "and_then (serial_println l) g w = g () (w\<lparr>w_serial := w_serial w @ [l]\<rparr>)"
  by (simp add: and_then_def)

lemma run_gets_then: "and_then (gets h) g w = g (h w) w"
  by (simp add: and_then_def)

lemma announce_exit_ok: "\<exists>w1. announce_exit hw number (Some r) w = (Ok (), w1) \<and> printed w w1"
  unfolding announce_exit_def option.case
  by (rule and_then_printed, rule serial_println_printed) (simp add: report_exception_ok)

lemma read_guest_physical_ok:
  "w_machine w = m \<Longrightarrow> \<exists>w1. read_guest_physical hw number (ept_exit_of (Some r)) (Some q) w =
     (Ok (Some (if is_ept_exit r then field m GUEST_PHYSICAL_ADDRESS else 0)), w1) \<and> printed w w1"
  by (simp add: read_guest_physical_def ept_exit_of_def report_ept_exit_ok)

lemma read_exit_ok:
  "\<exists>w'. read_exit hw number frame w = (Ok (exit_read_of (field (w_machine w)) (w_ept w) frame), w') \<and> printed w w'"
proof -
  define m where "m = w_machine w"
  define r where "r = from_raw (ucast (field m VM_EXIT_REASON))"
  define q where "q = field m EXIT_QUALIFICATION"
  obtain w1 where w1: "announce_exit hw number (Some r) w = (Ok (), w1)" "printed w w1"
    using announce_exit_ok by blast
  define w3 where "w3 = w1\<lparr>w_serial := w_serial w1 @ [ReadLine (L_qualification number q)]\<rparr>"
  have p3: "printed w w3" using w1(2) by (auto simp: w3_def printed_def)
  have m3: "w_machine w1 = m" "w_machine w3 = m" "w_ept w3 = w_ept w"
    using printed_fields [OF w1(2)] printed_fields [OF p3] by (simp_all add: m_def)
  obtain w4 where w4: "read_guest_physical hw number (ept_exit_of (Some r)) (Some q) w3 =
      (Ok (Some (if is_ept_exit r then field m GUEST_PHYSICAL_ADDRESS else 0)), w4)" "printed w3 w4"
    using read_guest_physical_ok [OF m3(2)] by blast
  have p4: "printed w w4" using p3 w4(2) by (rule printed_trans)
  have m4: "w_machine w4 = m" "w_ept w4 = w_ept w" using printed_fields [OF p4] by (simp_all add: m_def)
  have c1: "and_then (announce_exit hw number (Some r)) g w = g () w1" for g :: "unit \<Rightarrow> ('a, ExitRead) exit_action"
    by (simp add: and_then_def w1(1))
  have c4: "and_then (read_guest_physical hw number (ept_exit_of (Some r)) (Some q)) g w3 =
      g (Some (if is_ept_exit r then field m GUEST_PHYSICAL_ADDRESS else 0)) w4"
    for g :: "u64 option \<Rightarrow> ('a, ExitRead) exit_action"
    by (simp add: and_then_def w4(1))
  have fs: "VM_EXIT_REASON \<in> set handler_fields" "EXIT_QUALIFICATION \<in> set handler_fields"
    "GUEST_RIP \<in> set handler_fields" "VM_EXIT_INSTRUCTION_LEN \<in> set handler_fields"
    "VM_EXIT_INTERRUPTION_INFO \<in> set handler_fields" "GUEST_INTERRUPTIBILITY_STATE \<in> set handler_fields"
    "IDT_VECTORING_INFO \<in> set handler_fields"
    by (simp_all add: handler_fields_def)
  define w5 where "w5 = w4\<lparr>w_serial := w_serial w4 @
    [ReadLine (L_guest_rip number (field m GUEST_RIP) (field m VM_EXIT_INSTRUCTION_LEN)),
     ReadLine (L_guest_registers number (reg_rax frame) (reg_rbx frame) (reg_rcx frame) (reg_rdx frame))]\<rparr>"
  have "read_exit hw number frame w = (Ok (exit_read_of (field m) (w_ept w) frame), w5)"
    unfolding read_exit_def Let_def
    by (simp add: run_read fs run_println run_gets_then m_def [symmetric] r_def [symmetric] c1
        m3 q_def [symmetric] w3_def [symmetric] c4 m4 w5_def exit_read_of_def exit_info_of_def Let_def)
  moreover have "printed w w5" using p4 by (auto simp: w5_def printed_def)
  ultimately show ?thesis by (auto simp: m_def)
qed

end

lemma machine_step_ok:
  "act (w_machine w) = (Ok x, m') \<Longrightarrow> on_machine (or_stop act l) (w, f) = (Ok x, (w\<lparr>w_machine := m'\<rparr>, f))"
  by (simp add: on_machine_def or_stop_def on_hw_def map_err_def)

lemma handler_field_types:
  "field_type_of GUEST_RIP \<noteq> ReadOnly" "field_type_of VM_ENTRY_INTERRUPTION_INFO \<noteq> ReadOnly"
  "field_type_of VM_ENTRY_EXCEPTION_ERROR_CODE \<noteq> ReadOnly"
  "field_bits GUEST_RIP = 64" "field_bits VM_ENTRY_INTERRUPTION_INFO = 32" "field_bits VM_ENTRY_EXCEPTION_ERROR_CODE = 32"
  by (simp_all add: field_type_of_def field_bits_def field_width_of_def field_defs)

context exit_hardware
begin

lemma execute_ok: "\<exists>o' frame' m'. execute hw e frame m = (Ok (o', frame'), m') \<and> field m' = field m"
proof (cases e)
  case (In port sz)
  then show ?thesis using in_field [of port m]
    by (cases sz) (auto simp: execute_def and_then_def inb_def inw_def inl_def split: prod.splits)
next
  case (Out port sz v)
  then show ?thesis using out_field
    by (cases sz) (auto simp: execute_def and_then_def outb_def outw_def outl_def)
next
  case (Rdmsr msr)
  then show ?thesis by (auto simp: execute_def and_then_def rdmsr_def dest: rdmsr_field split: prod.splits)
qed (auto simp: execute_def and_then_def wrmsr_def wrmsr_field Let_def)

lemma execute_step_ok:
  "\<exists>o' w' frame'. execute_step hw e (w, frame) = (Ok (Some o'), (w', frame')) \<and>
     field (w_machine w') = field (w_machine w) \<and> statics w' = statics w"
  using execute_ok [of e frame "w_machine w"] by (auto simp: execute_step_def on_hw_def)

lemma store64_field: "field (store64 hw a v m) = field m"
proof -
  have "field (store_bytes hw a bs m) = field m" for bs a m
    by (induction bs arbitrary: a m) (simp_all add: store_field)
  then show ?thesis by (simp add: store64_def)
qed

lemma grant_write_ok: "\<exists>m'. grant_write hw page m = (Ok (pp_invept page), m') \<and> field m' = field m"
proof -
  let ?m1 = "store64 hw (pp_entry page) (with_access (load64 hw (pp_entry page) m) (EPT_READ OR EPT_WRITE)) m"
  obtain rflags m2 where i: "i_invept hw (of_nat (invept_operand (pp_invept page))) (pp_eptp page) 0 ?m1 = (rflags, m2)"
    by (metis prod.collapse)
  then show ?thesis using invept_field [OF i]
    by (simp add: grant_write_def and_then_def invalidate_def vmx_asm_def store64_field)
qed

lemma vmwrite_step:
  assumes "f \<in> set handler_fields" and "field_type_of f \<noteq> ReadOnly"
  shows "\<exists>w'. on_machine (or_stop (vmwrite hw f v) l) (w, frame) = (Ok (), (w', frame)) \<and>
    field (w_machine w') = (field (w_machine w))(f := take_bit (field_bits f) v)"
  using vmwrite_ok [OF handler_field [OF assms(1)] assms(2), of v "w_machine w"]
  by (auto dest!: machine_step_ok)

lemma advance_guest_rip_ok:
  "\<exists>w'. advance_guest_rip hw number rip (if adv then Some len else None) (w, frame)
     = (Ok (if adv then rip + len else rip), (w', frame)) \<and>
     field (w_machine w') = (if adv then (field (w_machine w))(GUEST_RIP := rip + len) else field (w_machine w))"
proof (cases adv)
  case True
  have "GUEST_RIP \<in> set handler_fields" by (simp add: handler_fields_def)
  from vmwrite_step [OF this handler_field_types(1), of "rip + len" "L_advance_failed number" w frame] True
  show ?thesis by (auto simp: advance_guest_rip_def and_then_Ok handler_field_types)
qed (simp add: advance_guest_rip_def)

lemma queue_nmi_ok:
  "\<exists>w'. queue_nmi hw number plan (w, frame) = (Ok (), (w', frame)) \<and>
     field (w_machine w') = (if inject_nmi plan
       then (field (w_machine w))(VM_ENTRY_INTERRUPTION_INFO := ucast INFO_NMI) else field (w_machine w))"
proof (cases "inject_nmi plan")
  case True
  have "VM_ENTRY_INTERRUPTION_INFO \<in> set handler_fields" by (simp add: handler_fields_def)
  from vmwrite_step [OF this handler_field_types(2), of "ucast INFO_NMI" "L_nmi_queue_failed number" w frame] True
  show ?thesis by (auto simp: queue_nmi_def handler_field_types)
qed (simp add: queue_nmi_def)

lemma queue_general_protection_ok:
  "\<exists>m'. queue_general_protection hw m = (Ok (), m') \<and> field m' = (field m)(VM_ENTRY_EXCEPTION_ERROR_CODE := 0,
     VM_ENTRY_INTERRUPTION_INFO := ucast INFO_GENERAL_PROTECTION)"
proof -
  have s: "supported VM_ENTRY_EXCEPTION_ERROR_CODE" "supported VM_ENTRY_INTERRUPTION_INFO"
    by (simp_all add: handler_field handler_fields_def)
  obtain m1 where m1: "vmwrite hw VM_ENTRY_EXCEPTION_ERROR_CODE 0 m = (Ok (), m1)"
    "field m1 = (field m)(VM_ENTRY_EXCEPTION_ERROR_CODE := 0)"
    using vmwrite_ok [OF s(1) handler_field_types(3), of 0 m] by auto
  obtain m2 where m2: "vmwrite hw VM_ENTRY_INTERRUPTION_INFO (ucast INFO_GENERAL_PROTECTION) m1 = (Ok (), m2)"
    "field m2 = (field m1)(VM_ENTRY_INTERRUPTION_INFO := ucast INFO_GENERAL_PROTECTION)"
    using vmwrite_ok [OF s(2) handler_field_types(2), of "ucast INFO_GENERAL_PROTECTION" m1]
    by (auto simp: handler_field_types)
  show ?thesis using m1 m2 by (simp add: queue_general_protection_def and_then_Ok)
qed

lemma queue_gp_ok:
  "\<exists>w'. queue_gp hw number plan (w, frame) = (Ok (), (w', frame)) \<and>
     field (w_machine w') = (if inject_gp plan then (field (w_machine w))(VM_ENTRY_EXCEPTION_ERROR_CODE := 0,
       VM_ENTRY_INTERRUPTION_INFO := ucast INFO_GENERAL_PROTECTION) else field (w_machine w))"
  using queue_general_protection_ok [of "w_machine w"]
  by (auto simp: queue_gp_def
      dest!: machine_step_ok [where act = "queue_general_protection hw" and l = "L_gp_queue_failed number" and f = frame])

lemma switch_nmi_window_ok:
  "\<exists>w'. switch_nmi_window hw number plan (w, frame) = (Ok (), (w', frame)) \<and>
     field (w_machine w') = (case plan_nmi_window plan of
       Some on \<Rightarrow> (field (w_machine w))(PRIMARY_VM_EXEC_CONTROL :=
         take_bit 32 (with_nmi_window_exiting (field (w_machine w) PRIMARY_VM_EXEC_CONTROL) on))
     | None \<Rightarrow> field (w_machine w))"
proof (cases "plan_nmi_window plan")
  case (Some on)
  have "supported PRIMARY_VM_EXEC_CONTROL" by (simp add: handler_field handler_fields_def)
  then obtain m' where m': "set_nmi_window_exiting hw on (w_machine w) = (Ok (), m')"
    using set_nmi_window_exiting_ok by blast
  show ?thesis
    using machine_step_ok [where act = "set_nmi_window_exiting hw on" and l = "L_nmi_window_failed number on"
        and f = frame, OF m'] set_nmi_window_exiting_OkD [OF m'] Some
    by (auto simp: switch_nmi_window_def)
qed (simp add: switch_nmi_window_def)

lemma grant_protected_page_ok:
  assumes "plan_grant_write plan \<Longrightarrow> prot \<noteq> None"
  shows "\<exists>k w'. grant_protected_page hw number plan prot (w, frame) = (Ok k, (w', frame)) \<and>
    field (w_machine w') = field (w_machine w)"
proof (cases "plan_grant_write plan")
  case True
  then obtain page where "prot = Some page" using assms by auto
  with True show ?thesis
    using grant_write_ok [of page "w_machine w"]
    by (auto simp: grant_protected_page_def and_then_Ok
        dest!: machine_step_ok [where act = "grant_write hw page" and l = "L_grant_failed number" and f = frame])
qed (simp add: grant_protected_page_def)

lemma emulate_instruction_ok:
  "\<exists>o' w' frame'. emulate_instruction hw plan (w, frame) = (Ok o', (w', frame')) \<and>
     field (w_machine w') = field (w_machine w) \<and>
     (case emulate plan of None \<Rightarrow> frame' = frame
      | Some e \<Rightarrow> \<exists>did m'. execute hw e frame (w_machine w) = (Ok (did, frame'), m'))"
proof (cases "emulate plan")
  case (Some e)
  then show ?thesis using execute_ok [of e frame "w_machine w"]
    by (auto simp: emulate_instruction_def execute_step_def on_hw_def)
qed (simp add: emulate_instruction_def)

lemma resume_steps_ok:
  assumes "plan_grant_write plan \<Longrightarrow> prot \<noteq> None"
  shows "\<exists>rs w' frame'. resume_steps hw number (Some (field (w_machine w) GUEST_RIP))
      (Some (field (w_machine w) VM_EXIT_INSTRUCTION_LEN)) plan prot (w, frame) = (Ok rs, (w', frame')) \<and>
    field (w_machine w') = plan_fields plan (field (w_machine w)) \<and>
    (case emulate plan of None \<Rightarrow> frame' = frame
     | Some e \<Rightarrow> \<exists>did m'. execute hw e frame (w_machine w) = (Ok (did, frame'), m'))"
proof -
  let ?fld = "field (w_machine w)"
  let ?rip = "?fld GUEST_RIP" and ?len = "?fld VM_EXIT_INSTRUCTION_LEN"
  have adv: "(if advance_rip plan then Some (Some ?len) else Some None) = Some (if advance_rip plan then Some ?len else None)"
    by simp
  obtain o1 w1 f1 where e1: "emulate_instruction hw plan (w, frame) = (Ok o1, (w1, f1))" "field (w_machine w1) = ?fld"
    "case emulate plan of None \<Rightarrow> f1 = frame | Some e \<Rightarrow> \<exists>did m'. execute hw e frame (w_machine w) = (Ok (did, f1), m')"
    using emulate_instruction_ok by blast
  from advance_guest_rip_ok [of number ?rip "advance_rip plan" ?len w1 f1]
  obtain w2 where e2: "advance_guest_rip hw number ?rip (if advance_rip plan then Some ?len else None) (w1, f1)
      = (Ok (if advance_rip plan then ?rip + ?len else ?rip), (w2, f1))"
    "field (w_machine w2) = (if advance_rip plan then ?fld(GUEST_RIP := ?rip + ?len) else ?fld)"
    unfolding e1(2) by blast
  obtain w3 where e3: "queue_nmi hw number plan (w2, f1) = (Ok (), (w3, f1))"
    "field (w_machine w3) = (if inject_nmi plan
      then (field (w_machine w2))(VM_ENTRY_INTERRUPTION_INFO := ucast INFO_NMI) else field (w_machine w2))"
    using queue_nmi_ok by blast
  obtain w4 where e4: "queue_gp hw number plan (w3, f1) = (Ok (), (w4, f1))"
    "field (w_machine w4) = (if inject_gp plan then (field (w_machine w3))(VM_ENTRY_EXCEPTION_ERROR_CODE := 0,
      VM_ENTRY_INTERRUPTION_INFO := ucast INFO_GENERAL_PROTECTION) else field (w_machine w3))"
    using queue_gp_ok by blast
  obtain w5 where e5: "switch_nmi_window hw number plan (w4, f1) = (Ok (), (w5, f1))"
    "field (w_machine w5) = (case plan_nmi_window plan of
      Some on \<Rightarrow> (field (w_machine w4))(PRIMARY_VM_EXEC_CONTROL :=
        take_bit 32 (with_nmi_window_exiting (field (w_machine w4) PRIMARY_VM_EXEC_CONTROL) on))
      | None \<Rightarrow> field (w_machine w4))"
    using switch_nmi_window_ok by blast
  obtain k w6 where e6: "grant_protected_page hw number plan prot (w5, f1) = (Ok k, (w6, f1))"
    "field (w_machine w6) = field (w_machine w5)"
    using grant_protected_page_ok [OF assms] by blast
  have "resume_steps hw number (Some ?rip) (Some ?len) plan prot (w, frame) =
      (Ok \<lparr>rs_rip = if advance_rip plan then ?rip + ?len else ?rip, rs_invept = k, rs_emulated = o1\<rparr>, (w6, f1))"
    unfolding resume_steps_def option.case adv
    by (simp add: and_then_Ok e1(1) e2(1) e3(1) e4(1) e5(1) e6(1))
  moreover have "field (w_machine w6) = plan_fields plan ?fld"
    unfolding e6(2) e5(2) e4(2) e3(2) e2(2) by (simp add: plan_fields_def Let_def)
  ultimately show ?thesis using e1(3) by blast
qed

end

lemma grant_has_page:
  assumes "decide st (exit_info_of fld ept frame) = (ev, st')" and "event_action ev = Resume plan" and "plan_grant_write plan"
  shows "protected_page ept \<noteq> None"
proof
  assume n: "protected_page ept = None"
  from assms(2,3) have "ev = EptWriteGranted" by (cases ev) (auto simp: plan_defs)
  with decide_sound [OF assms(1)] assms(2) have "handles st (exit_info_of fld ept frame) EptWriteGranted" by simp
  then show False by (rule handles_eptE) (simp add: exit_info_of_def Let_def n)
qed

context exit_hardware
begin

lemma apply_event_ok:
  fixes w :: "'a world" and ept frame
  defines "fld \<equiv> field (w_machine w)"
  assumes "decide st0 (exit_info_of fld ept frame) = (ev, st)"
  shows "\<exists>frame' w'. apply_event hw number ev (exit_read_of fld ept frame) st frame w = (Ok (event_action ev, frame'), w') \<and>
    (case event_action ev of
       Resume plan \<Rightarrow> field (w_machine w') = plan_fields plan fld \<and>
         (case emulate plan of None \<Rightarrow> frame' = frame
          | Some e \<Rightarrow> \<exists>did m'. execute hw e frame (w_machine w) = (Ok (did, frame'), m'))
     | _ \<Rightarrow> w_machine w' = w_machine w \<and> frame' = frame)"
proof (cases "event_action ev")
  case (Resume plan)
  obtain rs w1 frame' where r: "resume_steps hw number (Some (fld GUEST_RIP)) (Some (fld VM_EXIT_INSTRUCTION_LEN)) plan
      (protected_page ept) (w, frame) = (Ok rs, (w1, frame'))"
    "field (w_machine w1) = plan_fields plan fld"
    "case emulate plan of None \<Rightarrow> frame' = frame | Some e \<Rightarrow> \<exists>did m'. execute hw e frame (w_machine w) = (Ok (did, frame'), m')"
    using resume_steps_ok [of plan "protected_page ept" number w frame] grant_has_page [OF assms(2) Resume]
    unfolding fld_def by blast
  have "prepare_resume hw number (Some (fld GUEST_RIP)) (Some (fld VM_EXIT_INSTRUCTION_LEN)) plan (protected_page ept) frame w
      = (Ok (Some rs, frame'), w1)"
    by (simp add: prepare_resume_def r(1))
  then show ?thesis using r(2,3) Resume
    by (simp add: apply_event_def exit_read_of_def and_then_def report_event_def)
qed (auto simp: apply_event_def and_then_def report_event_def)

theorem vmexit_handler_ok:
  fixes w :: "'a world" and frame
  defines "fld \<equiv> field (w_machine w)" and "number \<equiv> EXIT_COUNT (w_exits w) + 1"
  assumes "decide (load_state (w_exits w)) (exit_info_of fld (w_ept w) frame) = (ev, st)"
  shows "\<exists>frame' w'. vmexit_handler hw frame w =
      (Ok (stub_return (event_action ev) number (ucast (fld VM_EXIT_REASON)), frame'), w') \<and>
    load_state (w_exits w') = st \<and> EXIT_COUNT (w_exits w') = number \<and>
    (case event_action ev of
       Resume plan \<Rightarrow> field (w_machine w') = plan_fields plan fld \<and>
         (case emulate plan of None \<Rightarrow> frame' = frame
          | Some e \<Rightarrow> \<exists>did m'. execute hw e frame (w_machine w) = (Ok (did, frame'), m'))
     | _ \<Rightarrow> w_machine w' = w_machine w \<and> frame' = frame)"
proof -
  let ?w1 = "w\<lparr>PHASE := 2, w_exits := (w_exits w)\<lparr>EXIT_COUNT := number\<rparr>\<rparr>"
  obtain w2 where r: "read_exit hw number frame ?w1 = (Ok (exit_read_of fld (w_ept w) frame), w2)" "printed ?w1 w2"
    using read_exit_ok [of number frame ?w1] by (auto simp: fld_def)
  from printed_fields [OF r(2)] have 2: "w_machine w2 = w_machine w" "w_exits w2 = (w_exits w)\<lparr>EXIT_COUNT := number\<rparr>" by simp_all
  then have ld: "load_state (w_exits w2) = load_state (w_exits w)" by (simp add: load_state_def)
  let ?w3 = "w2\<lparr>w_exits := store_state st (w_exits w2)\<rparr>"
  have j: "judge (xr_exit (exit_read_of fld (w_ept w) frame)) w2 = (Ok (ev, st), ?w3)"
    using assms(3) ld by (simp add: judge_def exit_read_of_def)
  have m3: "w_machine ?w3 = w_machine w" using 2 by simp
  from apply_event_ok [of "load_state (w_exits w)" ?w3 "w_ept w" frame ev st number] assms(3)
  obtain frame' w' where a: "apply_event hw number ev (exit_read_of fld (w_ept w) frame) st frame ?w3
      = (Ok (event_action ev, frame'), w')"
    "case event_action ev of
       Resume plan \<Rightarrow> field (w_machine w') = plan_fields plan fld \<and>
         (case emulate plan of None \<Rightarrow> frame' = frame
          | Some e \<Rightarrow> \<exists>did m'. execute hw e frame (w_machine w) = (Ok (did, frame'), m'))
     | _ \<Rightarrow> w_machine w' = w_machine w \<and> frame' = frame"
    unfolding m3 fld_def by blast
  have "statics w' = statics ?w3" using keepsD [OF keeps_apply_event a(1)] by simp
  then have "load_state (w_exits w') = st" "EXIT_COUNT (w_exits w') = number" using 2 by simp_all
  moreover have "vmexit_handler hw frame w =
      (Ok (stub_return (event_action ev) number (ucast (fld VM_EXIT_REASON)), frame'), w')"
    using r(1) j a(1) by (simp add: vmexit_handler_def and_then_Ok number_def exit_read_of_def)
  ultimately show ?thesis using a(2) by blast
qed

end

section \<open>The handler follows the exit machine\<close>

text \<open>
  The handler on a given list of exits, each with the machine the guest left and its registers: the world after
  the last of them with the value that stopped the guest there, if any; \<open>None\<close> when the handler panics or the
  guest is stopped before its last exit.
\<close>

primrec handle_exits :: "'m platform \<Rightarrow> ('m \<times> RegisterFrame) list \<Rightarrow> 'm world \<Rightarrow> (u64 option \<times> 'm world) option" where
  "handle_exits hw [] w = Some (None, w)"
| "handle_exits hw (x # xs) w =
     (case vmexit_handler hw (snd x) (w\<lparr>w_machine := fst x\<rparr>) of
        (Ok (v, _), w') \<Rightarrow> if v = 0 then handle_exits hw xs w' else if xs = [] then Some (Some v, w') else None
      | _ \<Rightarrow> None)"

lemma handle_exits_append:
  "handle_exits hw xs w = Some (None, w') \<Longrightarrow> handle_exits hw (xs @ ys) w = handle_exits hw ys w'"
  by (induction xs arbitrary: w) (auto split: prod.splits result.splits if_splits)

context exit_hardware
begin

lemma handle_exits_running:
  assumes "r_state r = load_state (w_exits w)" and "r_stopped r = None"
    and "r_stopped (run_exits r (map (\<lambda>(m, frame). exit_info_of (field m) (w_ept w) frame) ms)) = None"
  shows "\<exists>w'. handle_exits hw ms w = Some (None, w') \<and> w_ept w' = w_ept w \<and>
    load_state (w_exits w') = r_state (run_exits r (map (\<lambda>(m, frame). exit_info_of (field m) (w_ept w) frame) ms)) \<and>
    EXIT_COUNT (w_exits w') = EXIT_COUNT (w_exits w) + of_nat (length ms)"
  using assms
proof (induction ms arbitrary: w r)
  case (Cons mf ms)
  obtain m frame where mf: "mf = (m, frame)" by (cases mf)
  let ?x = "exit_info_of (field m) (w_ept w) frame" and ?w = "w\<lparr>w_machine := m\<rparr>"
  obtain ev st where d: "decide (load_state (w_exits w)) ?x = (ev, st)" by fastforce
  obtain frame' w' where h: "vmexit_handler hw frame ?w
      = (Ok (stub_return (event_action ev) (EXIT_COUNT (w_exits w) + 1) (ucast (field m VM_EXIT_REASON)), frame'), w')"
    "load_state (w_exits w') = st" "EXIT_COUNT (w_exits w') = EXIT_COUNT (w_exits w) + 1"
    using vmexit_handler_ok [of ?w frame ev st] d by auto
  have ept: "w_ept w' = w_ept w" using h(1) by (auto elim: vmexit_handler_OkD)
  from Cons.prems(3) d Cons.prems(1,2) mf obtain plan where plan: "event_action ev = Resume plan"
    by (cases "event_action ev") (auto simp: run_exits_stopped)
  let ?r = "\<lparr>r_state = st, r_events = r_events r @ [ev], r_stopped = None\<rparr>"
  have "run_exits r (map (\<lambda>(m, frame). exit_info_of (field m) (w_ept w) frame) (mf # ms))
      = run_exits ?r (map (\<lambda>(m, frame). exit_info_of (field m) (w_ept w') frame) ms)"
    using Cons.prems(1,2) d mf plan ept by simp
  then show ?case using Cons.IH [of ?r w'] Cons.prems(3) h ept plan mf by (auto simp: RESUME_GUEST_def)
qed simp

lemma handle_exits_finished:
  assumes "r_state r = load_state (w_exits w)" and "r_stopped r = None"
    and "r_stopped (run_exits r (map (\<lambda>(m, frame). exit_info_of (field m) (w_ept w) frame) ms)) = None"
    and "r_stopped (run_exits r (map (\<lambda>(m, frame). exit_info_of (field m) (w_ept w) frame) (ms @ [l]))) = Some Finished"
  shows "\<exists>w'. handle_exits hw (ms @ [l]) w =
    Some (Some (encode_finished (EXIT_COUNT (w_exits w) + of_nat (length (ms @ [l])))), w')"
proof -
  let ?exits = "map (\<lambda>(m, frame). exit_info_of (field m) (w_ept w) frame)"
  obtain m frame where mf: "l = (m, frame)" by (cases l)
  obtain w1 where w1: "handle_exits hw ms w = Some (None, w1)" "w_ept w1 = w_ept w"
    "load_state (w_exits w1) = r_state (run_exits r (?exits ms))"
    "EXIT_COUNT (w_exits w1) = EXIT_COUNT (w_exits w) + of_nat (length ms)"
    using handle_exits_running [OF assms(1-3)] by blast
  obtain ev st where d: "decide (load_state (w_exits w1)) (exit_info_of (field m) (w_ept w) frame) = (ev, st)" by fastforce
  then have "event_action ev = Finished"
    using assms(3,4) mf by (simp add: run_exits_append flip: w1(3)) (cases "event_action ev"; simp)
  then show ?thesis
    using vmexit_handler_ok [of "w1\<lparr>w_machine := m\<rparr>" frame ev st] d w1(2,4) mf
    by (auto simp: handle_exits_append [OF w1(1)] encode_nonzero add.commute add.left_commute)
qed

lemma handle_exits_trace:
  assumes "handler_trace hw xs w None" and "handle_exits hw ms w = Some (stop, w')"
  shows "handler_trace hw (xs @ map (\<lambda>(m, frame). Some (exit_info_of (field m) (w_ept w) frame)) ms) w' stop"
  using assms
proof (induction ms arbitrary: xs w)
  case (Cons mf ms)
  obtain m frame where mf: "mf = (m, frame)" by (cases mf)
  let ?w1 = "w\<lparr>w_machine := m\<rparr>" and ?n = "EXIT_COUNT (w_exits w) + 1"
  from Cons.prems(2) mf obtain v frame' w2 where h: "vmexit_handler hw frame ?w1 = (Ok (v, frame'), w2)"
    "v = 0 \<Longrightarrow> handle_exits hw ms w2 = Some (stop, w')" "v \<noteq> 0 \<Longrightarrow> ms = [] \<and> stop = Some v \<and> w' = w2"
    by (auto split: prod.splits result.splits if_splits)
  have ept: "w_ept w2 = w_ept w" using h(1) by (auto elim: vmexit_handler_OkD)
  have "fst (read_exit hw ?n frame (?w1\<lparr>PHASE := 2, w_exits := (w_exits ?w1)\<lparr>EXIT_COUNT := ?n\<rparr>\<rparr>))
      = Ok (exit_read_of (field m) (w_ept w) frame)"
    using read_exit_ok [of ?n frame "?w1\<lparr>PHASE := 2, w_exits := (w_exits ?w1)\<lparr>EXIT_COUNT := ?n\<rparr>\<rparr>"] by fastforce
  from handler_trace.Exit [OF Cons.prems(1) _ _ this h(1)]
  have t: "handler_trace hw (xs @ [Some (exit_info_of (field m) (w_ept w) frame)]) w2 (if v = 0 then None else Some v)"
    by (simp add: exit_read_of_def)
  show ?case
  proof (cases "v = 0")
    case True
    then show ?thesis using Cons.IH [OF _ h(2), of "xs @ [Some (exit_info_of (field m) (w_ept w) frame)]"] t ept mf by simp
  qed (use h(3) t mf in simp)
qed simp

end

lemma nmi_window_bit: "bit (take_bit 32 (with_nmi_window_exiting prim on)) 22 \<longleftrightarrow> on"
proof -
  have "bit (ucast CPU_BASED_NMI_WINDOW_EXITING :: u64) 22"
    unfolding CPU_BASED_NMI_WINDOW_EXITING_def by (simp add: bit_simps)
  then show ?thesis by (auto simp: with_nmi_window_exiting_def Let_def bit_take_bit_iff bit_or_iff bit_and_iff bit_not_iff)
qed

end
