(* ===== verification/Vmxon.thy ===== *)
theory Vmxon
  imports Vmcs
begin

text \<open>
  Entering and leaving VMX root operation (\<open>vmx/vmxon.rs\<close>): the region-size check, the VMXON region, CR0 and
  CR4, VMXON and VMXOFF. The locale \<open>control_registers\<close> states what the program relies on: a control register
  keeps what was written to it, and no other instruction used here changes one.
\<close>

section \<open>Entering and leaving\<close>

datatype VmxOnError = VmxOnAllocationFailed | UnsupportedRegionSize | VmxOnFailInvalid | VmxOnFailValid

primrec vmxon_error_from_fail :: "VmxFail \<Rightarrow> VmxOnError" where
  "vmxon_error_from_fail Invalid = VmxOnFailInvalid"
| "vmxon_error_from_fail Valid = VmxOnFailValid"

record VmxOperation =
  op_region :: VmxRegion
  original_cr0 :: u64
  original_cr4 :: u64

definition vmxoff :: "'m platform \<Rightarrow> ('m, VmxFail, unit) action" where
  "vmxoff hw = vmx_asm (i_vmxoff hw)"

definition leave :: "'m platform \<Rightarrow> VmxOperation \<Rightarrow> ('m, VmxFail, unit) action" where
  "leave hw operation =
     and_then (vmxoff hw) (\<lambda>_.
     and_then (modify (i_write_cr0 hw (original_cr0 operation))) (\<lambda>_.
     modify (i_write_cr4 hw (original_cr4 operation))))"

definition apply_fixed_bits :: "'m platform \<Rightarrow> ('m, 'e, unit) action" where
  "apply_fixed_bits hw =
     and_then (gets (i_read_cr0 hw)) (\<lambda>cr0.
     and_then (rdmsr hw IA32_VMX_CR0_FIXED0) (\<lambda>cr0_fixed0.
     and_then (rdmsr hw IA32_VMX_CR0_FIXED1) (\<lambda>cr0_fixed1.
     and_then (gets (i_read_cr4 hw)) (\<lambda>cr4.
     and_then (rdmsr hw IA32_VMX_CR4_FIXED0) (\<lambda>cr4_fixed0.
     and_then (rdmsr hw IA32_VMX_CR4_FIXED1) (\<lambda>cr4_fixed1.
     and_then (modify (i_write_cr0 hw ((cr0 OR cr0_fixed0) AND cr0_fixed1))) (\<lambda>_.
     modify (i_write_cr4 hw ((cr4 OR cr4_fixed0) AND cr4_fixed1)))))))))"

definition vmxon :: "'m platform \<Rightarrow> VmxRegion \<Rightarrow> ('m, VmxOnError, unit) action" where
  "vmxon hw region = map_err vmxon_error_from_fail (vmx_asm (i_vmxon hw (phys_addr region)))"

text \<open>The part that runs with CR0 and CR4 changed: VMXON, and the registers put back when it fails.\<close>

definition vmxon_or_restore :: "'m platform \<Rightarrow> VmxRegion \<Rightarrow> u64 \<Rightarrow> u64 \<Rightarrow> ('m, VmxOnError, VmxOperation) action" where
  "vmxon_or_restore hw region cr0 cr4 m =
     (case vmxon hw region m of
        (Err error, m1) \<Rightarrow> (Err error, i_write_cr4 hw cr4 (i_write_cr0 hw cr0 m1))
      | (Ok _, m1) \<Rightarrow> (Ok \<lparr>op_region = region, original_cr0 = cr0, original_cr4 = cr4\<rparr>, m1)
      | (Panic, m1) \<Rightarrow> (Panic, m1))"

definition enter_vmx_root_operation :: "'m platform \<Rightarrow> ('m, VmxOnError, VmxOperation) action" where
  "enter_vmx_root_operation hw =
     and_then (rdmsr hw IA32_VMX_BASIC) (\<lambda>basic.
     let region_size = drop_bit 32 basic AND 0x1FFF
     in if region_size = 0 \<or> region_size > of_nat PAGE_SIZE then throw UnsupportedRegionSize
        else
          and_then (allocate_region hw VmxOnAllocationFailed) (\<lambda>vmxon_region.
          and_then (gets (\<lambda>m. (i_read_cr0 hw m, i_read_cr4 hw m))) (\<lambda>(cr0, cr4).
          and_then (modify (enable_vmxe hw)) (\<lambda>_.
          and_then (apply_fixed_bits hw) (\<lambda>_.
          vmxon_or_restore hw vmxon_region cr0 cr4)))))"

section \<open>What it does to the control registers\<close>

text \<open>
  The VMX capability MSRs are constants of the processor; a control register keeps what was written to it, and
  neither memory accesses, page allocation nor VMXON change one.
\<close>

locale control_registers =
  fixes hw :: "'m platform" and vmx_msr :: "u32 \<Rightarrow> u64"
  assumes capability_msr: "0x480 \<le> r \<Longrightarrow> r \<le> 0x491 \<Longrightarrow>
      i_rdmsr hw r m = (ucast (vmx_msr r), ucast (drop_bit 32 (vmx_msr r)), m)"
    and write_cr0: "i_read_cr0 hw (i_write_cr0 hw v m) = v" "i_read_cr4 hw (i_write_cr0 hw v m) = i_read_cr4 hw m"
    and write_cr4: "i_read_cr4 hw (i_write_cr4 hw v m) = v" "i_read_cr0 hw (i_write_cr4 hw v m) = i_read_cr0 hw m"
    and store_cr: "i_read_cr0 hw (i_store8 hw a b m) = i_read_cr0 hw m" "i_read_cr4 hw (i_store8 hw a b m) = i_read_cr4 hw m"
    and alloc_cr: "i_read_cr0 hw (snd (f_allocate_pages hw ty n m)) = i_read_cr0 hw m"
      "i_read_cr4 hw (snd (f_allocate_pages hw ty n m)) = i_read_cr4 hw m"
    and vmxon_cr: "i_read_cr0 hw (snd (i_vmxon hw p m)) = i_read_cr0 hw m" "i_read_cr4 hw (snd (i_vmxon hw p m)) = i_read_cr4 hw m"
begin

lemma rdmsr_capability: "0x480 \<le> r \<Longrightarrow> r \<le> 0x491 \<Longrightarrow> rdmsr hw r m = (Ok (vmx_msr r), m)"
  by (simp add: rdmsr_def capability_msr msr_halves)

lemmas capability_reads = rdmsr_capability [of IA32_VMX_BASIC, unfolded IA32_VMX_BASIC_def, simplified]
  rdmsr_capability [of IA32_VMX_CR0_FIXED0, unfolded IA32_VMX_CR0_FIXED0_def, simplified]
  rdmsr_capability [of IA32_VMX_CR0_FIXED1, unfolded IA32_VMX_CR0_FIXED1_def, simplified]
  rdmsr_capability [of IA32_VMX_CR4_FIXED0, unfolded IA32_VMX_CR4_FIXED0_def, simplified]
  rdmsr_capability [of IA32_VMX_CR4_FIXED1, unfolded IA32_VMX_CR4_FIXED1_def, simplified]

lemma store_bytes_cr:
  "i_read_cr0 hw (store_bytes hw a bs m) = i_read_cr0 hw m" "i_read_cr4 hw (store_bytes hw a bs m) = i_read_cr4 hw m"
  by (induction bs arbitrary: a m) (simp_all add: store_cr)

lemma allocate_page_cr:
  assumes "allocate_zeroed_page hw e m = (r, m')"
  shows "i_read_cr0 hw m' = i_read_cr0 hw m" and "i_read_cr4 hw m' = i_read_cr4 hw m"
  using assms alloc_cr [of LOADER_DATA 1 m]
  by (auto simp: allocate_zeroed_page_def allocate_zeroed_pages_def allocate_zeroed_pages_of_type_def store_bytes_cr
      split: prod.splits option.splits if_splits)

lemma allocate_region_cr:
  assumes "allocate_region hw e m = (r, m')"
  shows "i_read_cr0 hw m' = i_read_cr0 hw m" and "i_read_cr4 hw m' = i_read_cr4 hw m"
  using assms allocate_page_cr [where e = e and m = m]
  by (auto simp: allocate_region_def vmcs_revision_id_def and_then_def IA32_VMX_BASIC_def capability_reads store32_def
      store_bytes_cr split: prod.splits result.splits)

text \<open>The registers VMXON runs with.\<close>

definition fixed_cr0 :: "u64 \<Rightarrow> u64" where
  "fixed_cr0 v = (v OR vmx_msr IA32_VMX_CR0_FIXED0) AND vmx_msr IA32_VMX_CR0_FIXED1"

definition fixed_cr4 :: "u64 \<Rightarrow> u64" where
  "fixed_cr4 v = (v OR vmx_msr IA32_VMX_CR4_FIXED0) AND vmx_msr IA32_VMX_CR4_FIXED1"

lemma apply_fixed_bits_runs:
  "apply_fixed_bits hw m = (Ok (), i_write_cr4 hw (fixed_cr4 (i_read_cr4 hw m)) (i_write_cr0 hw (fixed_cr0 (i_read_cr0 hw m)) m))"
  by (simp add: apply_fixed_bits_def and_then_def const_defs capability_reads fixed_cr0_def fixed_cr4_def)

lemma vmxon_or_restore_cr:
  assumes "vmxon_or_restore hw region cr0 cr4 m = (r, m')"
  shows "case r of
      Ok operation \<Rightarrow> operation = \<lparr>op_region = region, original_cr0 = cr0, original_cr4 = cr4\<rparr> \<and>
        i_read_cr0 hw m' = i_read_cr0 hw m \<and> i_read_cr4 hw m' = i_read_cr4 hw m
    | Err e \<Rightarrow> i_read_cr0 hw m' = cr0 \<and> i_read_cr4 hw m' = cr4
    | Panic \<Rightarrow> False"
  using assms vmxon_cr [of "phys_addr region" m]
  by (auto simp: vmxon_or_restore_def vmxon_def vmx_asm_def map_err_def write_cr0 write_cr4
      split: prod.splits result.splits)

lemma enter_cr:
  assumes "enter_vmx_root_operation hw m = (r, m')"
  shows "case r of
      Ok operation \<Rightarrow> original_cr0 operation = i_read_cr0 hw m \<and> original_cr4 operation = i_read_cr4 hw m \<and>
        i_read_cr0 hw m' = fixed_cr0 (i_read_cr0 hw m) \<and> i_read_cr4 hw m' = fixed_cr4 (i_read_cr4 hw m OR CR4_VMXE)
    | _ \<Rightarrow> i_read_cr0 hw m' = i_read_cr0 hw m \<and> i_read_cr4 hw m' = i_read_cr4 hw m"
proof (cases "drop_bit 32 (vmx_msr 0x480) AND 0x1FFF = 0 \<or> drop_bit 32 (vmx_msr 0x480) AND 0x1FFF > of_nat PAGE_SIZE")
  case True
  then show ?thesis using assms
    by (auto simp: enter_vmx_root_operation_def and_then_def IA32_VMX_BASIC_def capability_reads Let_def)
next
  case False
  obtain rr m1 where a: "allocate_region hw VmxOnAllocationFailed m = (rr, m1)" by fastforce
  note cr = allocate_region_cr [OF a]
  show ?thesis
  proof (cases rr)
    case (Ok region)
    let ?m2 = "i_write_cr4 hw (fixed_cr4 (i_read_cr4 hw m OR CR4_VMXE)) (i_write_cr0 hw (fixed_cr0 (i_read_cr0 hw m)) (enable_vmxe hw m1))"
    have "vmxon_or_restore hw region (i_read_cr0 hw m) (i_read_cr4 hw m) ?m2 = (r, m')"
      using assms False a Ok cr
      by (simp add: enter_vmx_root_operation_def and_then_def IA32_VMX_BASIC_def capability_reads Let_def
          apply_fixed_bits_runs enable_vmxe_def write_cr4 write_cr0)
    from vmxon_or_restore_cr [OF this] show ?thesis
      by (cases r) (simp_all add: write_cr0 write_cr4)
  qed (use assms False a cr in \<open>auto simp: enter_vmx_root_operation_def and_then_def IA32_VMX_BASIC_def
      capability_reads Let_def\<close>)
qed

lemma leave_cr:
  assumes "leave hw operation m = (Ok (), m')"
  shows "i_read_cr0 hw m' = original_cr0 operation" and "i_read_cr4 hw m' = original_cr4 operation"
  using assms by (auto simp: leave_def write_cr0 write_cr4 elim!: and_then_OkE)

end

end
