(* ===== verification/Host_Tables.thy ===== *)
theory Host_Tables
  imports Segment
begin

text \<open>
  The host's own GDT and TSS (\<open>vmx/host_tables.rs\<close>): the TSS page, the copy of the firmware's GDT with a
  64-bit TSS descriptor appended, the checks before it is loaded, and the load itself. The locale
  \<open>descriptor_registers\<close> states what LGDT, LTR, SGDT and STR do.
\<close>

section \<open>The task-state segment\<close>

definition TSS_SIZE :: nat where
  [const_defs]: "TSS_SIZE = 0x68"

definition IOMAP_BASE_OFFSET :: u64 where
  [const_defs]: "IOMAP_BASE_OFFSET = 0x66"

datatype TssError = TssAllocationFailed

record TssRegion =
  tss_page :: u64

definition tss_allocate :: "'m platform \<Rightarrow> ('m, TssError, TssRegion) action" where
  "tss_allocate hw =
     and_then (allocate_zeroed_page hw TssAllocationFailed) (\<lambda>page.
     and_then (modify (store_bytes hw (page + IOMAP_BASE_OFFSET) (to_le_bytes (of_nat TSS_SIZE :: u16)))) (\<lambda>_.
     ret \<lparr>tss_page = page\<rparr>))"

definition tss_base :: "TssRegion \<Rightarrow> u64" where
  "tss_base region = tss_page region"

section \<open>The descriptor table\<close>

datatype GdtError = GdtAllocationFailed | TooLarge | InvalidSource | AlreadyInstalled | TssVerificationFailed
  | GdtrPreparationFailed | InvalidIdt | IdtRequiresIst | ActivationVerificationFailed

definition TSS_AVAILABLE_PRESENT :: u8 where
  [const_defs]: "TSS_AVAILABLE_PRESENT = 0x89"

definition SYSTEM_DESCRIPTOR_SIZE :: nat where
  [const_defs]: "SYSTEM_DESCRIPTOR_SIZE = 16"

definition GATE_PRESENT :: u8 where
  [const_defs]: "GATE_PRESENT = 0x80"

definition GATE_IST_MASK :: u8 where
  [const_defs]: "GATE_IST_MASK = 0x07"

definition tss_descriptor :: "u64 \<Rightarrow> u32 \<Rightarrow> u8 list" where
  "tss_descriptor b l =
     to_le_bytes (ucast l :: u16) @ to_le_bytes (ucast b :: u16) @
     [ucast (drop_bit 16 b), TSS_AVAILABLE_PRESENT, ucast (drop_bit 16 l AND 0x0F), ucast (drop_bit 24 b)] @
     to_le_bytes (ucast (drop_bit 32 b) :: u32) @ replicate 4 0"

record GdtRegion =
  gdt_page :: u64
  original_length :: nat
  tss_selector :: "u16 option"

text \<open>\<open>boot::free_pages(page, 1).expect(..)\<close>.\<close>

definition free_page_or_panic :: "'m platform \<Rightarrow> u64 \<Rightarrow> ('m, 'e, unit) action" where
  "free_page_or_panic hw page m = (case f_free_pages hw page 1 m of (freed, m1) \<Rightarrow> (if freed then Ok () else Panic, m1))"

definition copy_active :: "'m platform \<Rightarrow> ('m, GdtError, GdtRegion) action" where
  "copy_active hw =
     and_then (allocate_zeroed_page hw GdtAllocationFailed) (\<lambda>page.
     and_then (gets (read_gdtr hw)) (\<lambda>descriptor_table.
     let length' = unat (limit descriptor_table) + 1;
         offset = unat ((of_nat length' + 7 :: u64) AND NOT 7)
     in if offset + SYSTEM_DESCRIPTOR_SIZE > PAGE_SIZE
        then and_then (free_page_or_panic hw page) (\<lambda>_. throw TooLarge)
        else if base descriptor_table = 0
        then and_then (free_page_or_panic hw page) (\<lambda>_. throw InvalidSource)
        else and_then (modify (\<lambda>m. store_bytes hw page (load_bytes hw (base descriptor_table) length' m) m)) (\<lambda>_.
             ret \<lparr>gdt_page = page, original_length = length', tss_selector = None\<rparr>)))"

definition gdt_base :: "GdtRegion \<Rightarrow> u64" where
  "gdt_base region = gdt_page region"

definition prepared_gdtr :: "GdtRegion \<Rightarrow> DescriptorTable option" where
  "prepared_gdtr region =
     (case tss_selector region of
        None \<Rightarrow> None
      | Some selector \<Rightarrow> Some \<lparr>base = gdt_base region, limit = selector + of_nat SYSTEM_DESCRIPTOR_SIZE - 1\<rparr>)"

definition next_multiple_of :: "nat \<Rightarrow> nat \<Rightarrow> nat" where
  "next_multiple_of n k = (if n mod k = 0 then n else n + (k - n mod k))"

text \<open>\<open>&mut self\<close>: the region after the call is returned beside the selector.\<close>

definition append_tss_descriptor ::
  "'m platform \<Rightarrow> GdtRegion \<Rightarrow> TssRegion \<Rightarrow> ('m, GdtError, u16 \<times> GdtRegion) action" where
  "append_tss_descriptor hw region tss_region =
     (if tss_selector region \<noteq> None then throw AlreadyInstalled
      else
        let offset = next_multiple_of (original_length region) 8
        in if offset + SYSTEM_DESCRIPTOR_SIZE > PAGE_SIZE then throw TooLarge
           else
             let descriptor = tss_descriptor (tss_base tss_region) (of_nat (TSS_SIZE - 1));
                 selector = of_nat offset
             in and_then (modify (store_bytes hw (gdt_page region + of_nat offset) descriptor)) (\<lambda>_.
                ret (selector, region\<lparr>tss_selector := Some selector\<rparr>)))"

definition verify_tss_descriptor :: "'m platform \<Rightarrow> GdtRegion \<Rightarrow> TssRegion \<Rightarrow> 'm \<Rightarrow> bool" where
  "verify_tss_descriptor hw region tss_region m =
     (case tss_selector region of
        None \<Rightarrow> False
      | Some selector \<Rightarrow>
          let offset = unat selector
          in if selector = 0 \<or> selector AND SELECTOR_RPL_TI \<noteq> 0 \<or> offset + SYSTEM_DESCRIPTOR_SIZE > PAGE_SIZE then False
             else
               let descriptor = load_bytes hw (gdt_page region + of_nat offset) SYSTEM_DESCRIPTOR_SIZE m;
                   low = from_le_bytes (take 8 descriptor)
               in descriptor_limit low = of_nat (TSS_SIZE - 1) \<and>
                  system_descriptor_base descriptor = tss_base tss_region \<and>
                  descriptor ! 5 = TSS_AVAILABLE_PRESENT \<and>
                  descriptor ! 6 AND 0xF0 = 0 \<and>
                  take 4 (drop 12 descriptor) = replicate 4 0)"

section \<open>Activation\<close>

text \<open>\<open>(0..idt_length).step_by(SYSTEM_DESCRIPTOR_SIZE)\<close>, and the check of one gate.\<close>

definition gate_offsets :: "nat \<Rightarrow> nat list" where
  "gate_offsets idt_length = map ((*) SYSTEM_DESCRIPTOR_SIZE) [0..<(idt_length + SYSTEM_DESCRIPTOR_SIZE - 1) div SYSTEM_DESCRIPTOR_SIZE]"

definition check_gate :: "'m platform \<Rightarrow> u64 \<Rightarrow> nat \<Rightarrow> ('m, GdtError, unit) action" where
  "check_gate hw idt offset =
     and_then (gets (\<lambda>m. (i_load8 hw (idt + of_nat (offset + 4)) m, i_load8 hw (idt + of_nat (offset + 5)) m))) (\<lambda>(ist, attributes).
     if attributes AND GATE_PRESENT \<noteq> 0 \<and> ist AND GATE_IST_MASK \<noteq> 0 then throw IdtRequiresIst else ret ())"

definition check_idt :: "'m platform \<Rightarrow> ('m, GdtError, unit) action" where
  "check_idt hw =
     and_then (gets (read_idtr hw)) (\<lambda>idtr.
     let idt_length = unat (limit idtr) + 1
     in if base idtr = 0 \<or> idt_length mod SYSTEM_DESCRIPTOR_SIZE \<noteq> 0 then throw InvalidIdt
        else for_each (gate_offsets idt_length) (check_gate hw (base idtr)))"

definition selectors_in_copy :: "GdtRegion \<Rightarrow> u16 \<Rightarrow> u16 \<Rightarrow> bool" where
  "selectors_in_copy region cs ss =
     (let copied = \<lparr>base = gdt_base region, limit = of_nat (original_length region - 1)\<rparr>;
          ss_is_null = (ss AND NOT SELECTOR_RPL = 0)
      in \<not> (descriptor_offset copied cs 8 = None \<or> \<not> (ss_is_null \<or> descriptor_offset copied ss 8 \<noteq> None)))"

definition verify_loaded :: "'m platform \<Rightarrow> DescriptorTable \<Rightarrow> u16 \<Rightarrow> TssRegion \<Rightarrow> ('m, GdtError, unit) action" where
  "verify_loaded hw gdtr selector tss_region =
     and_then (gets (read_gdtr hw)) (\<lambda>loaded_gdtr.
     and_then (gets (i_str hw)) (\<lambda>loaded_tr.
     if loaded_gdtr \<noteq> gdtr \<or> loaded_tr \<noteq> selector then throw ActivationVerificationFailed
     else
       and_then (gets (segment_base_from_gdt hw loaded_gdtr loaded_tr)) (\<lambda>loaded_base.
       if loaded_base \<noteq> tss_base tss_region then throw ActivationVerificationFailed else ret ())))"

definition activate :: "'m platform \<Rightarrow> GdtRegion \<Rightarrow> TssRegion \<Rightarrow> ('m, GdtError, unit) action" where
  "activate hw region tss_region =
     and_then (gets (verify_tss_descriptor hw region tss_region)) (\<lambda>verified.
     if \<not> verified then throw TssVerificationFailed
     else case prepared_gdtr region of None \<Rightarrow> throw GdtrPreparationFailed | Some gdtr \<Rightarrow>
     and_then (gets (\<lambda>m. (i_cs hw m, i_ss hw m))) (\<lambda>(cs, ss).
     if \<not> selectors_in_copy region cs ss then throw GdtrPreparationFailed
     else
       and_then (check_idt hw) (\<lambda>_.
       case tss_selector region of None \<Rightarrow> throw GdtrPreparationFailed | Some selector \<Rightarrow>
       and_then (modify (load_gdtr hw gdtr)) (\<lambda>_.
       and_then (modify (i_ltr hw selector)) (\<lambda>_.
       verify_loaded hw gdtr selector tss_region)))))"

section \<open>The TSS descriptor\<close>

lemma length_tss_descriptor [simp]: "length (tss_descriptor b l) = 16"
  by (simp add: tss_descriptor_def)

lemma tss_descriptor_bytes:
  "tss_descriptor b l =
     [ucast l, ucast (drop_bit 8 l), ucast b, ucast (drop_bit 8 b), ucast (drop_bit 16 b), 0x89,
      ucast (drop_bit 16 l AND 0x0F), ucast (drop_bit 24 b),
      ucast (drop_bit 32 b), ucast (drop_bit 40 b), ucast (drop_bit 48 b), ucast (drop_bit 56 b), 0, 0, 0, 0]"
proof -
  have bytes: "[0..<2] = [0, 1 :: nat]" "[0..<4] = [0, 1, 2, 3 :: nat]" "replicate 4 x = [x, x, x, x]" for x :: u8
    by (simp_all add: upt_rec numeral_eq_Suc)
  have 16: "ucast (ucast w :: u16) = (ucast w :: u8)" "ucast (drop_bit 8 (ucast w :: u16)) = (ucast (drop_bit 8 w) :: u8)"
    for w :: "'b::len word"
    by (rule bit_word_eqI; simp add: bit_simps)+
  have 32: "ucast (ucast w :: u32) = (ucast w :: u8)" "ucast (drop_bit 8 (ucast w :: u32)) = (ucast (drop_bit 8 w) :: u8)"
    "ucast (drop_bit 16 (ucast w :: u32)) = (ucast (drop_bit 16 w) :: u8)"
    "ucast (drop_bit 24 (ucast w :: u32)) = (ucast (drop_bit 24 w) :: u8)" for w :: u64
    by (rule bit_word_eqI; simp add: bit_simps)+
  show ?thesis
    by (simp add: tss_descriptor_def to_le_bytes_def bytes 16 32 TSS_AVAILABLE_PRESENT_def)
qed

text \<open>Where the base of a system descriptor has its bytes.\<close>

definition base_byte :: "nat \<Rightarrow> nat" where
  "base_byte j = (if j < 3 then j + 2 else j + 4)"

lemma bit_system_descriptor_base:
  assumes "length bytes = 16" and "n < 64"
  shows "bit (system_descriptor_base bytes) n \<longleftrightarrow> bit (bytes ! base_byte (n div 8)) (n mod 8)"
proof -
  have masks: "(0xFFFFFF :: u64) = mask 24" "(0xFF000000 :: u64) = push_bit 24 (mask 8)"
    by (simp_all add: mask_eq_exp_minus_1)
  consider "n < 24" | "24 \<le> n" "n < 32" | "32 \<le> n" by linarith
  then show ?thesis
  proof cases
    case 1
    moreover have "(16 + n) div 8 = n div 8 + 2" "(16 + n) mod 8 = n mod 8" by presburger+
    moreover have "n div 8 < 3" using 1 by simp
    ultimately show ?thesis using assms(1)
      by (auto simp: system_descriptor_base_def descriptor_base_def Let_def masks bit_simps bit_from_le_bytes base_byte_def)
  next
    case 2
    moreover have "(32 + n) div 8 = n div 8 + 4" "(32 + n) mod 8 = n mod 8" by presburger+
    moreover have "n div 8 = 3" using 2 by simp
    ultimately show ?thesis using assms(1)
      by (auto simp: system_descriptor_base_def descriptor_base_def Let_def masks bit_simps bit_from_le_bytes base_byte_def)
  next
    case 3
    then obtain k where k: "n = 32 + k" by (auto simp: le_iff_add)
    then have "k < 32" using assms(2) by simp
    moreover have "(32 + k) div 8 = k div 8 + 4" "(32 + k) mod 8 = k mod 8" by presburger+
    moreover have "k div 8 < 4" using \<open>k < 32\<close> by simp
    ultimately show ?thesis using assms(1) unfolding k
      by (auto simp: system_descriptor_base_def descriptor_base_def Let_def masks bit_simps bit_from_le_bytes base_byte_def
          add.commute)
  qed
qed

lemma tss_descriptor_base: "system_descriptor_base (tss_descriptor b l) = b"
proof (rule bit_word_eqI)
  fix n assume n: "n < LENGTH(64)"
  have byte: "tss_descriptor b l ! base_byte j = ucast (drop_bit (8 * j) b)" if "j < 8" for j
  proof -
    have "j \<in> {0, 1, 2, 3, 4, 5, 6, 7}" using that by auto
    then show ?thesis by (elim insertE; simp add: tss_descriptor_bytes base_byte_def numeral_eq_Suc)
  qed
  from n have "n div 8 < 8" by simp
  then show "bit (system_descriptor_base (tss_descriptor b l)) n = bit b n"
    using n by (simp add: bit_system_descriptor_base byte bit_simps)
qed

lemma tss_descriptor_limit:
  "descriptor_limit (from_le_bytes (take 8 (tss_descriptor b l))) = l AND 0xFFFFF" (is "descriptor_limit ?d = _")
proof -
  have "\<not> bit ?d 55" by (simp add: bit_from_le_bytes tss_descriptor_bytes bit_simps)
  then have raw: "descriptor_limit ?d = ucast (?d AND 0xFFFF) OR (ucast (drop_bit 32 ?d) AND 0xF0000)"
    unfolding descriptor_limit_def DESCRIPTOR_GRANULARITY_def bit_test Let_def by simp
  have masks: "(0xFFFF :: u64) = mask 16" "(0xF0000 :: u32) = push_bit 16 (mask 4)" "(0xFFFFF :: u32) = mask 20"
     "(0x0F :: u32) = mask 4"
    by (simp_all add: mask_eq_exp_minus_1)
  have upt_20: "[0..<20] = [0, 1, 2, 3, 4, 5, 6, 7, 8, 9, 10, 11, 12, 13, 14, 15, 16, 17, 18, 19 :: nat]"
    by (simp add: upt_rec numeral_eq_Suc)
  show ?thesis unfolding raw
  proof (rule bit_word_eqI)
    fix n assume "n < LENGTH(32)"
    show "bit (ucast (?d AND 0xFFFF) OR (ucast (drop_bit 32 ?d) AND 0xF0000) :: u32) n = bit (l AND 0xFFFFF) n"
    proof (cases "n < 20")
      case True
      then have "n \<in> set [0..<20]" by simp
      then show ?thesis unfolding upt_20
        by (simp only: list.set) (elim insertE; simp add: masks bit_simps bit_from_le_bytes tss_descriptor_bytes)
    qed (auto simp: masks bit_simps)
  qed
qed

lemma tss_descriptor_fixed:
  "tss_descriptor b l ! 5 = TSS_AVAILABLE_PRESENT" "tss_descriptor b l ! 6 AND 0xF0 = 0"
  "take 4 (drop 12 (tss_descriptor b l)) = replicate 4 0"
proof -
  have masks: "(0x0F :: u32) = mask 4" "(0xF0 :: u8) = push_bit 4 (mask 4)" by (simp_all add: mask_eq_exp_minus_1)
  have "ucast (drop_bit 16 l AND 0x0F) AND (0xF0 :: u8) = 0"
    by (rule bit_word_eqI) (auto simp: masks bit_simps)
  then show "tss_descriptor b l ! 6 AND 0xF0 = 0" by (simp add: tss_descriptor_bytes)
qed (simp_all add: tss_descriptor_bytes const_defs numeral_eq_Suc)

section \<open>Appending and verifying\<close>

text \<open>The two ways the source rounds the table length up to a descriptor boundary agree.\<close>

lemma next_multiple_of_8: "next_multiple_of n 8 = (n + 7) div 8 * 8"
proof (cases "n mod 8 = 0")
  case False
  then have "(n + 7) div 8 = n div 8 + 1" by presburger
  moreover have "n + (8 - n mod 8) = n div 8 * 8 + 8"
    using div_mult_mod_eq [of n 8] mod_less_divisor [of 8 n] by linarith
  ultimately show ?thesis using False by (simp only: next_multiple_of_def if_False) simp
qed (auto simp: next_multiple_of_def)

lemma round_up_8:
  assumes "n < 2 ^ 63"
  shows "unat ((of_nat n + 7 :: u64) AND NOT 7) = next_multiple_of n 8"
proof -
  have m: "(7 :: u64) = mask 3" by (simp add: mask_eq_exp_minus_1)
  have "unat (of_nat n + 7 :: u64) = n + 7" using assms by (simp add: unat_word_ariths unat_of_nat)
  then show ?thesis
    by (subst (2) m) (simp add: and_not_mask_unat next_multiple_of_8)
qed

text \<open>A table descriptor slot within the page: a usable selector.\<close>

lemma slot_selector:
  assumes "8 dvd offset" and "offset + 16 \<le> 4096"
  shows "unat (of_nat offset :: u16) = offset" and "(of_nat offset :: u16) AND SELECTOR_RPL_TI = 0"
    and "(of_nat offset :: u16) AND NOT SELECTOR_RPL_TI = of_nat offset" and "(of_nat offset :: u16) AND SELECTOR_TI = 0"
proof -
  show u: "unat (of_nat offset :: u16) = offset" using assms(2) by (simp add: unat_of_nat)
  have m: "SELECTOR_RPL_TI = mask 3" by (simp add: const_defs mask_eq_exp_minus_1)
  have "unat ((of_nat offset :: u16) AND mask 3) = 0" using assms(1) by (simp add: and_mask_unat u)
  then show z: "(of_nat offset :: u16) AND SELECTOR_RPL_TI = 0"
    by (simp only: m unsigned_eq_0_iff)
  have "unat ((of_nat offset :: u16) AND NOT (mask 3)) = unat (of_nat offset :: u16)"
    using assms(1) by (simp add: and_not_mask_unat u)
  then show "(of_nat offset :: u16) AND NOT SELECTOR_RPL_TI = of_nat offset" by (simp add: m word_unat_eq_iff)
  have "(of_nat offset :: u16) AND SELECTOR_TI = ((of_nat offset) AND SELECTOR_RPL_TI) AND SELECTOR_TI"
    by (simp add: const_defs and.assoc)
  then show "(of_nat offset :: u16) AND SELECTOR_TI = 0" using z by simp
qed

context memory_laws
begin

lemma verify_appended:
  assumes "tss_selector region = Some (of_nat offset)" and "8 dvd offset" and "0 < offset" and "offset + 16 \<le> 4096"
    and "load_bytes hw (gdt_page region + of_nat offset) 16 m = tss_descriptor (tss_base tss) 0x67"
  shows "verify_tss_descriptor hw region tss m"
proof -
  note s = slot_selector [OF assms(2,4)]
  have "(of_nat offset :: u16) \<noteq> 0" using s(1) assms(3) by (metis unat_0 less_numeral_extra(3))
  then show ?thesis
    using assms s tss_descriptor_fixed [of "tss_base tss" "0x67"]
    by (simp add: verify_tss_descriptor_def SYSTEM_DESCRIPTOR_SIZE_def PAGE_SIZE_def TSS_SIZE_def Let_def
        tss_descriptor_base tss_descriptor_limit)
qed

lemma append_tss_descriptor_cases:
  "append_tss_descriptor hw region tss m =
     (if tss_selector region \<noteq> None then (Err AlreadyInstalled, m)
      else if 4096 < next_multiple_of (original_length region) 8 + 16 then (Err TooLarge, m)
      else let offset = next_multiple_of (original_length region) 8
        in (Ok (of_nat offset, region\<lparr>tss_selector := Some (of_nat offset)\<rparr>),
            store_bytes hw (gdt_page region + of_nat offset) (tss_descriptor (tss_base tss) 0x67) m))"
  by (simp add: append_tss_descriptor_def and_then_def SYSTEM_DESCRIPTOR_SIZE_def PAGE_SIZE_def TSS_SIZE_def Let_def)

lemma append_then_verify:
  assumes "append_tss_descriptor hw region tss m = (Ok (selector, region'), m')" and "0 < original_length region"
  shows "verify_tss_descriptor hw region' tss m'"
    and "prepared_gdtr region' = Some \<lparr>base = gdt_base region, limit = selector + 15\<rparr>"
    and "unat (selector + 15) = next_multiple_of (original_length region) 8 + 15"
proof -
  let ?o = "next_multiple_of (original_length region) 8"
  from assms(1) have o: "?o + 16 \<le> 4096" and sel: "selector = of_nat ?o" "region' = region\<lparr>tss_selector := Some (of_nat ?o)\<rparr>"
    and m': "m' = store_bytes hw (gdt_page region + of_nat ?o) (tss_descriptor (tss_base tss) 0x67) m"
    by (auto simp: append_tss_descriptor_cases Let_def split: if_splits)
  have "load_bytes hw (gdt_page region + of_nat ?o) 16 m' = tss_descriptor (tss_base tss) 0x67"
    unfolding m' using load_bytes_store_bytes [of "tss_descriptor (tss_base tss) 0x67"] by simp
  then show "verify_tss_descriptor hw region' tss m'"
    using sel o assms(2) by (intro verify_appended [of _ ?o]) (auto simp: next_multiple_of_8)
  show "prepared_gdtr region' = Some \<lparr>base = gdt_base region, limit = selector + 15\<rparr>"
    using sel by (simp add: prepared_gdtr_def gdt_base_def SYSTEM_DESCRIPTOR_SIZE_def)
  show "unat (selector + 15) = ?o + 15" using o sel(1) by (simp add: unat_word_ariths unat_of_nat)
qed

end

section \<open>Activation\<close>

text \<open>A gate that would switch to a stack of the TSS.\<close>

definition needs_ist :: "u8 \<Rightarrow> u8 \<Rightarrow> bool" where
  "needs_ist ist attributes \<longleftrightarrow> bit attributes 7 \<and> (bit ist 0 \<or> bit ist 1 \<or> bit ist 2)"

lemma check_gate_run:
  "check_gate hw idt offset m =
     (if needs_ist (i_load8 hw (idt + of_nat (offset + 4)) m) (i_load8 hw (idt + of_nat (offset + 5)) m)
      then (Err IdtRequiresIst, m) else (Ok (), m))"
proof -
  have p: "GATE_PRESENT = push_bit 7 1" by (simp add: const_defs)
  have present: "a AND GATE_PRESENT = 0 \<longleftrightarrow> \<not> bit a 7" for a unfolding p bit_test by simp
  have i: "GATE_IST_MASK = mask 3" by (simp add: const_defs mask_eq_exp_minus_1)
  have ist: "a AND GATE_IST_MASK = 0 \<longleftrightarrow> \<not> (bit a 0 \<or> bit a 1 \<or> bit a 2)" for a
    unfolding i and_eq_0_iff_bits by (auto simp: less_Suc_eq numeral_eq_Suc)
  show ?thesis
    unfolding check_gate_def needs_ist_def by (simp add: and_then_def present ist del: of_nat_add)
qed

lemma for_each_check:
  assumes "\<And>x. x \<in> set xs \<Longrightarrow> body x m = (if P x then (Err e, m) else (Ok (), m))"
  shows "for_each xs body m = (if \<exists>x\<in>set xs. P x then (Err e, m) else (Ok (), m))"
  using assms by (induction xs) (auto simp: and_then_def)

lemma check_idt_run:
  "check_idt hw m =
     (let idtr = read_idtr hw m; n = unat (limit idtr) + 1
      in if base idtr = 0 \<or> n mod 16 \<noteq> 0 then (Err InvalidIdt, m)
         else if \<exists>v < n div 16. needs_ist (i_load8 hw (base idtr + of_nat (16 * v + 4)) m) (i_load8 hw (base idtr + of_nat (16 * v + 5)) m)
         then (Err IdtRequiresIst, m) else (Ok (), m))"
proof -
  have gates: "set (gate_offsets n) = (\<lambda>v. 16 * v) ` {..<n div 16}" if "n mod 16 = 0" for n
  proof -
    from that obtain k where "n = 16 * k" by blast
    then have "(15 + n) div 16 = n div 16" by simp
    then show ?thesis by (simp add: gate_offsets_def SYSTEM_DESCRIPTOR_SIZE_def lessThan_atLeast0)
  qed
  have ex: "(\<exists>x\<in>set (gate_offsets n). P x) \<longleftrightarrow> (\<exists>v < n div 16. P (16 * v))" if "n mod 16 = 0" for n P
    unfolding gates [OF that] by auto
  let ?idtr = "read_idtr hw m" and ?n = "unat (limit (read_idtr hw m)) + 1"
  let ?P = "\<lambda>offset. needs_ist (i_load8 hw (base ?idtr + of_nat (offset + 4)) m) (i_load8 hw (base ?idtr + of_nat (offset + 5)) m)"
  have loop: "for_each (gate_offsets ?n) (check_gate hw (base ?idtr)) m =
      (if \<exists>v < ?n div 16. ?P (16 * v) then (Err IdtRequiresIst, m) else (Ok (), m))" if "?n mod 16 = 0"
    using for_each_check [of "gate_offsets ?n" "check_gate hw (base ?idtr)" m ?P, OF check_gate_run]
    unfolding ex [OF that] .
  show ?thesis
    by (cases "base ?idtr = 0 \<or> ?n mod 16 \<noteq> 0")
      (simp_all only: check_idt_def and_then_def run_gets prod.case result.case Let_def SYSTEM_DESCRIPTOR_SIZE_def
        loop if_True if_False run_throw de_Morgan_disj not_not simp_thms)
qed

text \<open>What is wrong with the tables before they are loaded, in the order the code looks.\<close>

definition activation_refusal :: "'m platform \<Rightarrow> GdtRegion \<Rightarrow> TssRegion \<Rightarrow> 'm \<Rightarrow> GdtError option" where
  "activation_refusal hw region tss m =
     (if \<not> verify_tss_descriptor hw region tss m then Some TssVerificationFailed
      else if \<not> selectors_in_copy region (i_cs hw m) (i_ss hw m) then Some GdtrPreparationFailed
      else case fst (check_idt hw m) of Err e \<Rightarrow> Some e | _ \<Rightarrow> None)"

lemma verified_selector: "verify_tss_descriptor hw region tss m \<Longrightarrow> \<exists>s. tss_selector region = Some s"
  by (cases "tss_selector region") (simp_all add: verify_tss_descriptor_def)

lemma check_idt_state: "check_idt hw m = (r, m') \<Longrightarrow> m' = m \<and> r \<noteq> Panic"
  by (auto simp: check_idt_run Let_def split: if_splits)

lemma activate_refused:
  assumes "activation_refusal hw region tss m = Some e"
  shows "activate hw region tss m = (Err e, m)"
proof (cases "verify_tss_descriptor hw region tss m")
  case True
  from verified_selector [OF True] obtain s where s: "tss_selector region = Some s" ..
  obtain r m' where c: "check_idt hw m = (r, m')" by fastforce
  from assms True s c check_idt_state [OF c] show ?thesis
    by (auto simp: activation_refusal_def activate_def and_then_def prepared_gdtr_def split: if_splits result.splits)
qed (use assms in \<open>simp add: activation_refusal_def activate_def and_then_def\<close>)

text \<open>
  LGDT and LIDT load their operand, SGDT and SIDT give it back, and no access to memory changes it; LTR loads TR and
  writes memory only to mark the descriptor busy. Page allocation leaves the registers alone.
\<close>

locale descriptor_registers = page_allocator +
  assumes sgdt_lgdt: "length bs = 10 \<Longrightarrow> i_sgdt hw (i_lgdt hw bs m) = bs"
    and lgdt_memory: "i_load8 hw a (i_lgdt hw bs m) = i_load8 hw a m"
    and sgdt_ltr: "i_sgdt hw (i_ltr hw s m) = i_sgdt hw m"
    and str_ltr: "i_str hw (i_ltr hw s m) = s"
    and ltr_memory: "a \<noteq> base (read_gdtr hw m) + of_nat (unat (s AND NOT SELECTOR_RPL_TI)) + 5 \<Longrightarrow>
      i_load8 hw a (i_ltr hw s m) = i_load8 hw a m"
    and sgdt_store: "i_sgdt hw (i_store8 hw a v m) = i_sgdt hw m"
    and sgdt_alloc: "f_allocate_pages hw ty n m = (p, m') \<Longrightarrow> i_sgdt hw m' = i_sgdt hw m"
begin

lemma read_gdtr_load [simp]: "read_gdtr hw (load_gdtr hw t m) = t"
  by (simp add: read_gdtr_def load_gdtr_def sgdt_lgdt)

lemma read_gdtr_store_bytes [simp]: "read_gdtr hw (store_bytes hw a bs m) = read_gdtr hw m"
proof -
  have "i_sgdt hw (store_bytes hw a bs m) = i_sgdt hw m"
    by (induction bs arbitrary: a m) (simp_all add: sgdt_store)
  then show ?thesis by (simp add: read_gdtr_def)
qed

lemma read_gdtr_allocate:
  assumes "allocate_zeroed_page hw e m = (r, m')"
  shows "read_gdtr hw m' = read_gdtr hw m"
proof -
  obtain p m1 where a: "f_allocate_pages hw LOADER_DATA 1 m = (p, m1)" by fastforce
  then have "read_gdtr hw m1 = read_gdtr hw m" by (simp add: read_gdtr_def sgdt_alloc)
  then show ?thesis
    using assms a by (auto simp: allocate_zeroed_page_def allocate_zeroed_pages_def allocate_zeroed_pages_of_type_def
        split: option.splits if_splits)
qed

text \<open>After the checks, loading succeeds: the CPU then uses the copy, and TR names the TSS.\<close>

lemma activate_loads:
  assumes "activation_refusal hw region tss m = None" and "prepared_gdtr region = Some gdtr" 
    and "tss_selector region = Some selector"
  shows "activate hw region tss m = (Ok (), i_ltr hw selector (load_gdtr hw gdtr m))"
proof -
  let ?m' = "i_ltr hw selector (load_gdtr hw gdtr m)" and ?a = "gdt_page region + of_nat (unat selector)"
  have v: "verify_tss_descriptor hw region tss m" and c: "selectors_in_copy region (i_cs hw m) (i_ss hw m)"
    and i: "check_idt hw m = (Ok (), m)"
    using assms(1) check_idt_state [of hw m "fst (check_idt hw m)" "snd (check_idt hw m)"]
    by (auto simp: activation_refusal_def prod_eq_iff split: if_splits result.splits)
  have sel: "selector \<noteq> 0" "selector AND SELECTOR_RPL_TI = 0" "unat selector + 16 \<le> 4096"
    and b: "system_descriptor_base (load_bytes hw ?a 16 m) = tss_base tss"
    using v assms(3) by (auto simp: verify_tss_descriptor_def Let_def SYSTEM_DESCRIPTOR_SIZE_def PAGE_SIZE_def split: if_splits)
  have g: "gdtr = \<lparr>base = gdt_page region, limit = selector + 15\<rparr>"
    using assms(2,3) by (auto simp: prepared_gdtr_def gdt_base_def SYSTEM_DESCRIPTOR_SIZE_def add.commute)
  have "unat (selector AND mask 3) = 0" using sel(2) by (simp add: const_defs mask_eq_exp_minus_1)
  then have "8 dvd unat selector" by (simp add: and_mask_unat dvd_eq_mod_eq_0)
  note s = slot_selector [OF this sel(3), simplified]
  have "unat (selector + 15) = unat selector + 15" using sel(3) by (simp add: unat_word_ariths)
  moreover have "unat selector \<noteq> 0" using sel(1) by (simp only: unsigned_eq_0_iff not_False_eq_True)
  ultimately have off: "descriptor_offset gdtr selector 16 = Some (unat selector)"
    using s g by (simp add: descriptor_offset_def)
  have other: "i_load8 hw (?a + of_nat k) ?m' = i_load8 hw (?a + of_nat k) m" if "k < 16" "k \<noteq> 5" for k
  proof -
    have "unat (of_nat k :: u64) \<noteq> unat (5 :: u64)" using that by (simp add: unat_of_nat)
    then have "of_nat k \<noteq> (5 :: u64)" by metis
    then have "i_load8 hw (?a + of_nat k) ?m' = i_load8 hw (?a + of_nat k) (load_gdtr hw gdtr m)"
      using s g by (intro ltr_memory) simp
    then show ?thesis by (simp add: load_gdtr_def lgdt_memory)
  qed
  have "bit (system_descriptor_base (load_bytes hw ?a 16 ?m')) n = bit (system_descriptor_base (load_bytes hw ?a 16 m)) n"
    if "n < 64" for n
  proof -
    have "base_byte (n div 8) < 16" "base_byte (n div 8) \<noteq> 5" using that by (auto simp: base_byte_def)
    from this other [OF this] that show ?thesis by (simp add: bit_system_descriptor_base load_bytes_def)
  qed
  then have "system_descriptor_base (load_bytes hw ?a 16 ?m') = system_descriptor_base (load_bytes hw ?a 16 m)"
    by (intro bit_word_eqI) simp
  then have "segment_base_from_gdt hw gdtr selector ?m' = tss_base tss"
    using b g off by (simp add: segment_base_from_gdt_def)
  moreover have "read_gdtr hw ?m' = gdtr" using read_gdtr_load [of gdtr m] by (simp add: read_gdtr_def sgdt_ltr)
  ultimately show ?thesis
    using v c i assms(2,3) by (simp add: activate_def and_then_def verify_loaded_def str_ltr)
qed

end

section \<open>The switch as a whole\<close>

text \<open>The bytes of a table lie in the memory \<open>owned\<close>.\<close>

definition table_within :: "nat set \<Rightarrow> DescriptorTable \<Rightarrow> bool" where
  "table_within owned t \<longleftrightarrow> unat (base t) + unat (limit t) + 1 \<le> 2 ^ 63 \<and>
     {unat (base t)..<unat (base t) + unat (limit t) + 1} \<subseteq> owned"

lemma activate_OkD:
  "activate hw region tss m = (Ok (), m') \<Longrightarrow> segment_base_from_gdt hw (read_gdtr hw m') (i_str hw m') m' = tss_base tss"
  by (auto simp: activate_def verify_loaded_def elim!: and_then_OkE split: if_splits option.splits)

context descriptor_registers
begin

lemma tss_allocate_OkD:
  assumes "tss_allocate hw m = (Ok tss, m')"
  shows "taken m \<subseteq> taken m'" and "read_gdtr hw m' = read_gdtr hw m"
    and "x \<in> taken m \<Longrightarrow> x < 2 ^ 64 \<Longrightarrow> i_load8 hw (of_nat x) m' = i_load8 hw (of_nat x) m"
proof -
  obtain page m1 where a: "allocate_zeroed_page hw TssAllocationFailed m = (Ok page, m1)"
    and m': "m' = store_bytes hw (page + 0x66) (to_le_bytes (0x68 :: u16)) m1"
    using assms unfolding tss_allocate_def by (auto elim!: and_then_OkE simp: const_defs)
  note d = allocate_zeroed_pages_OkD [OF a [unfolded allocate_zeroed_page_def]]
  show "taken m \<subseteq> taken m'" using d(4) m' by auto
  show "read_gdtr hw m' = read_gdtr hw m" using read_gdtr_allocate [OF a] m' by simp
  show "i_load8 hw (of_nat x) m' = i_load8 hw (of_nat x) m" if "x \<in> taken m" "x < 2 ^ 64"
  proof -
    have u: "unat (page + 0x66) = unat page + 0x66" using d(2) by (simp add: unat_word_ariths)
    have "x \<notin> {unat page..<unat page + 1 * 4096}" using d(3) that(1) by blast
    then have "\<not> (unat (page + 0x66) \<le> x \<and> x < unat (page + 0x66) + 2)" using u by auto
    then show ?thesis using d(2) u d(5) [OF that] that(2)
      unfolding m' by (subst load_after_store) auto
  qed
qed

lemma copy_active_OkD:
  assumes "copy_active hw m = (Ok region, m')" and "table_within (taken m) (read_gdtr hw m)"
  defines "n \<equiv> unat (limit (read_gdtr hw m)) + 1"
  shows "original_length region = n" and "tss_selector region = None" and "next_multiple_of n 8 + 16 \<le> 4096"
    and "unat (gdt_page region) + 4096 \<le> 2 ^ 52"
    and "i < n \<Longrightarrow> i_load8 hw (of_nat (unat (gdt_page region) + i)) m' = i_load8 hw (of_nat (unat (base (read_gdtr hw m)) + i)) m"
proof -
  let ?t = "read_gdtr hw m"
  obtain page m1 where a: "allocate_zeroed_page hw GdtAllocationFailed m = (Ok page, m1)"
    using assms(1) unfolding copy_active_def by (auto elim!: and_then_OkE)
  note d = allocate_zeroed_pages_OkD [OF a [unfolded allocate_zeroed_page_def]]
  have t: "read_gdtr hw m1 = ?t" by (rule read_gdtr_allocate [OF a])
  have "unat (limit ?t) < 2 ^ 16" using unsigned_less [of "limit ?t"] by simp
  then have n: "n < 2 ^ 63" by (simp add: n_def)
  have fits: "next_multiple_of n 8 + 16 \<le> 4096" and reg: "region = \<lparr>gdt_page = page, original_length = n, tss_selector = None\<rparr>"
    and m': "m' = store_bytes hw page (load_bytes hw (base ?t) n m1) m1"
    using assms(1) a t round_up_8 [OF n]
    by (auto simp: copy_active_def and_then_run free_page_or_panic_def Let_def n_def SYSTEM_DESCRIPTOR_SIZE_def PAGE_SIZE_def
        split: if_splits result.splits prod.splits)
  show "original_length region = n" "tss_selector region = None" using reg by simp_all
  show "next_multiple_of n 8 + 16 \<le> 4096" by (rule fits)
  show "unat (gdt_page region) + 4096 \<le> 2 ^ 52" using d(2) reg by simp
  show "i_load8 hw (of_nat (unat (gdt_page region) + i)) m' = i_load8 hw (of_nat (unat (base ?t) + i)) m" if "i < n"
  proof -
    have "n \<le> 4096" using fits by (simp add: next_multiple_of_8)
    then have "i_load8 hw (of_nat (unat page + i)) m' = i_load8 hw (base ?t + of_nat i) m1"
      using that d(2) unfolding m' by (subst load_after_store) (auto simp: load_bytes_def)
    moreover have "unat (base ?t) + i \<in> taken m" "unat (base ?t) + i < 2 ^ 64"
      using assms(2) that by (auto simp: table_within_def n_def)
    ultimately show ?thesis using d(5) [of "unat (base ?t) + i"] reg by simp
  qed
qed

text \<open>Writing a descriptor behind the copy, loading GDTR and loading TR leave the copied bytes alone.\<close>

lemma switched_byte:
  assumes "length bs = 16" and "i < k" and "8 dvd k" and "k + 16 \<le> 4096" and "unat G + 4096 \<le> 2 ^ 52"
  shows "i_load8 hw (of_nat (unat G + i)) (i_ltr hw (of_nat k) (load_gdtr hw \<lparr>base = G, limit = l\<rparr> (store_bytes hw (G + of_nat k) bs m)))
    = i_load8 hw (of_nat (unat G + i)) m"
proof -
  have uk: "unat (G + of_nat k) = unat G + k" using assms(4,5) by (simp add: unat_word_ariths unat_of_nat)
  then have "unat (of_nat (unat G + i) :: u64) \<noteq> unat (G + of_nat k + 5)"
    using assms(2,4,5) by (simp add: unat_of_nat unat_word_ariths)
  then have "of_nat (unat G + i) \<noteq> G + of_nat k + 5" by metis
  moreover have "unat (of_nat k AND NOT SELECTOR_RPL_TI) = k" using slot_selector [of k] assms(3,4) by simp
  ultimately have "i_load8 hw (of_nat (unat G + i)) (i_ltr hw (of_nat k) (load_gdtr hw \<lparr>base = G, limit = l\<rparr> (store_bytes hw (G + of_nat k) bs m)))
      = i_load8 hw (of_nat (unat G + i)) (load_gdtr hw \<lparr>base = G, limit = l\<rparr> (store_bytes hw (G + of_nat k) bs m))"
    by (intro ltr_memory) (simp add: del: of_nat_add)
  also have "\<dots> = i_load8 hw (of_nat (unat G + i)) m"
    unfolding load_gdtr_def lgdt_memory using assms uk by (subst load_after_store) auto
  finally show ?thesis .
qed

text \<open>
  The steps of the switch together: afterwards the CPU uses the copy, TR names the TSS, and every descriptor of the
  firmware's table reads the same through the new one.
\<close>

lemma switched_tables:
  assumes tss: "tss_allocate hw m0 = (Ok tss, m1)" and copy: "copy_active hw m1 = (Ok region, m2)"
    and app: "append_tss_descriptor hw region tss m2 = (Ok (selector, region'), m3)"
    and act: "activate hw region' tss m3 = (Ok (), m4)" and owned: "table_within (taken m0) (read_gdtr hw m0)"
  shows "prepared_gdtr region' = Some \<lparr>base = gdt_base region, limit = selector + 15\<rparr>"
    and "read_gdtr hw m4 = \<lparr>base = gdt_base region, limit = selector + 15\<rparr>" and "i_str hw m4 = selector"
    and "segment_base_from_gdt hw (read_gdtr hw m4) selector m4 = tss_base tss"
    and "descriptor_offset (read_gdtr hw m0) s 8 = Some k \<Longrightarrow>
      read_descriptor hw (read_gdtr hw m4) s m4 = read_descriptor hw (read_gdtr hw m0) s m0"
proof -
  let ?t = "read_gdtr hw m0"
  define n where "n = unat (limit ?t) + 1"
  note t = tss_allocate_OkD [OF tss]
  have owned1: "table_within (taken m1) (read_gdtr hw m1)" using owned t(1,2) by (auto simp: table_within_def)
  note c = copy_active_OkD [OF copy owned1, unfolded t(2), folded n_def]
  let ?G = "gdt_page region" and ?o = "next_multiple_of n 8"
  have n0: "0 < original_length region" using c(1) n_def by simp
  note v = append_then_verify [OF app n0]
  have sel: "selector = of_nat ?o" "tss_selector region' = Some selector"
    and m3: "m3 = store_bytes hw (?G + of_nat ?o) (tss_descriptor (tss_base tss) 0x67) m2"
    using app c(1,2,3) by (auto simp: append_tss_descriptor_cases Let_def)
  show prep: "prepared_gdtr region' = Some \<lparr>base = gdt_base region, limit = selector + 15\<rparr>" by (rule v)
  have "activation_refusal hw region' tss m3 = None" using act activate_refused by (cases "activation_refusal hw region' tss m3") fastforce+
  from activate_loads [OF this prep sel(2)] act
  have m4: "m4 = i_ltr hw selector (load_gdtr hw \<lparr>base = gdt_base region, limit = selector + 15\<rparr> m3)" by simp
  show g4: "read_gdtr hw m4 = \<lparr>base = gdt_base region, limit = selector + 15\<rparr>"
    using read_gdtr_load by (simp add: m4 read_gdtr_def sgdt_ltr)
  show "i_str hw m4 = selector" by (simp add: m4 str_ltr)
  show "segment_base_from_gdt hw (read_gdtr hw m4) selector m4 = tss_base tss"
    using activate_OkD [OF act] by (simp add: m4 str_ltr)
  have o: "?o + 16 \<le> 4096" "n \<le> ?o" "8 dvd ?o" using c(3) by (simp_all add: next_multiple_of_8)
  have byte: "i_load8 hw (of_nat (unat ?G + i)) m4 = i_load8 hw (of_nat (unat (base ?t) + i)) m0" if "i < n" for i
  proof -
    have "i_load8 hw (of_nat (unat ?G + i)) m4 = i_load8 hw (of_nat (unat ?G + i)) m2"
      unfolding m4 m3 sel(1) gdt_base_def by (rule switched_byte) (use that o c(4) in simp_all)
    moreover have "i_load8 hw (of_nat (unat (base ?t) + i)) m1 = i_load8 hw (of_nat (unat (base ?t) + i)) m0"
      using owned that by (intro t(3)) (auto simp: table_within_def n_def)
    ultimately show ?thesis using c(5) [OF that] by simp
  qed
  assume k: "descriptor_offset ?t s 8 = Some k"
  note kd = descriptor_offset_SomeD [OF k]
  have new: "descriptor_offset (read_gdtr hw m4) s 8 = Some k"
    using k kd(1) v(3) o c(1) by (auto simp: descriptor_offset_def Let_def g4 n_def split: if_splits)
  have "load_bytes hw (?G + of_nat k) 8 m4 = load_bytes hw (base ?t + of_nat k) 8 m0"
    using kd(1) byte [of "k + i" for i] by (auto simp: load_bytes_def n_def add.assoc)
  then show "read_descriptor hw (read_gdtr hw m4) s m4 = read_descriptor hw ?t s m0"
    using k new by (simp add: read_descriptor_def g4 gdt_base_def load64_def)
qed

end

section \<open>Correctness properties\<close>

text \<open>
  C32. The bytes of a TSS descriptor decode to what went in: the whole 64-bit base, the low 20 bits
  of the limit, an available 64-bit TSS at privilege level 0, byte granularity, and zero reserved bytes.
\<close>

theorem tss_descriptor_round_trip:
  "length (tss_descriptor b l) = 16 \<and> system_descriptor_base (tss_descriptor b l) = b \<and>
   descriptor_limit (from_le_bytes (take 8 (tss_descriptor b l))) = l AND 0xFFFFF \<and>
   tss_descriptor b l ! 5 = 0x89 \<and> tss_descriptor b l ! 6 AND 0xF0 = 0 \<and> drop 12 (tss_descriptor b l) = [0, 0, 0, 0]"
proof -
  have "drop 12 (tss_descriptor b l) = [0, 0, 0, 0]" by (simp add: tss_descriptor_bytes)
  then show ?thesis
    using tss_descriptor_fixed [of b l] by (simp add: tss_descriptor_base tss_descriptor_limit TSS_AVAILABLE_PRESENT_def)
qed

text \<open>
  C31. The IDT scan looks at every gate and nothing else: a missing or ragged table is InvalidIdt; a present gate
  of it with a nonzero IST index is IdtRequiresIst; otherwise the scan passes. It never changes the machine.
\<close>

theorem check_idt_exact:
  "check_idt hw m =
     (let idtr = read_idtr hw m; n = unat (limit idtr) + 1;
          gate_byte = (\<lambda>v k. i_load8 hw (base idtr + of_nat (16 * v + k)) m)
      in (if \<not> (base idtr \<noteq> 0 \<and> n mod 16 = 0) then Err InvalidIdt
          else if \<exists>v < n div 16. bit (gate_byte v 5) 7 \<and> (\<exists>k < 3. bit (gate_byte v 4) k) then Err IdtRequiresIst
          else Ok (), m))"
proof -
  have "(\<exists>k < 3. bit a k) \<longleftrightarrow> bit a 0 \<or> bit a 1 \<or> bit a 2" for a :: u8
    by (auto simp: numeral_eq_Suc less_Suc_eq)
  then show ?thesis by (auto simp: check_idt_run needs_ist_def Let_def simp del: of_nat_add of_nat_mult)
qed

end
