(* ===== verification/Guest_State.thy ===== *)
theory Guest_State
  imports Vmcs
begin

text \<open>
  Guest state for the first VM entry (\<open>vmx/guest_state.rs\<close>): the host's current state captured as the guest's,
  with its segment registers decoded from the GDT, the checks of CS and TR, and the verified writes of every
  guest-state field.
\<close>

section \<open>Segment registers\<close>

definition INITIAL_RFLAGS :: u64 where
  [const_defs]: "INITIAL_RFLAGS = 0x2"

definition INITIAL_DR7 :: u64 where
  [const_defs]: "INITIAL_DR7 = 0x400"

definition VMCS_LINK_POINTER_NONE :: u64 where
  [const_defs]: "VMCS_LINK_POINTER_NONE = NOT 0"

definition TYPE_ACCESSED :: u32 where
  [const_defs]: "TYPE_ACCESSED = push_bit 0 1"

definition CODE_OR_DATA :: u32 where
  [const_defs]: "CODE_OR_DATA = push_bit 4 1"

definition LONG_MODE :: u32 where
  [const_defs]: "LONG_MODE = push_bit 13 1"

definition KIND_MASK :: u32 where
  [const_defs]: "KIND_MASK = 0x1F"

definition BUSY_TSS_64 :: u32 where
  [const_defs]: "BUSY_TSS_64 = 0xB"

record GuestSegment =
  gs_selector :: u16
  gs_seg_base :: u64
  gs_limit :: u32
  gs_access_rights :: u32

definition unusable :: "u16 \<Rightarrow> u64 \<Rightarrow> GuestSegment" where
  "unusable selector b = \<lparr>gs_selector = selector, gs_seg_base = b, gs_limit = 0, gs_access_rights = ACCESS_RIGHTS_UNUSABLE\<rparr>"

definition from_descriptor :: "u16 \<Rightarrow> SegmentDescriptor \<Rightarrow> u64 \<Rightarrow> GuestSegment" where
  "from_descriptor selector descriptor b =
     (let rights = access_rights descriptor
      in \<lparr>gs_selector = selector, gs_seg_base = b, gs_limit = descriptor_limit descriptor,
          gs_access_rights = (if rights AND CODE_OR_DATA \<noteq> 0 then rights OR TYPE_ACCESSED else rights)\<rparr>)"

definition is_usable :: "GuestSegment \<Rightarrow> bool" where
  "is_usable segment \<longleftrightarrow> gs_access_rights segment AND ACCESS_RIGHTS_UNUSABLE = 0"

datatype GuestStateError = BadSelector u16 | CsNot64Bit u32 | TrNotBusyTss u32 | GuestStateVmcs u32 VmcsError

definition segment_from_gdt ::
  "'m platform \<Rightarrow> DescriptorTable \<Rightarrow> u16 \<Rightarrow> u64 option \<Rightarrow> 'm \<Rightarrow> (GuestStateError, GuestSegment) result" where
  "segment_from_gdt hw gdt selector b m =
     (if selector AND NOT SELECTOR_RPL = 0 then Ok (unusable selector (case b of Some v \<Rightarrow> v | None \<Rightarrow> 0))
      else case read_descriptor hw gdt selector m of
        None \<Rightarrow> Err (BadSelector selector)
      | Some descriptor \<Rightarrow>
          Ok (from_descriptor selector descriptor (case b of Some v \<Rightarrow> v | None \<Rightarrow> descriptor_base descriptor)))"

definition check_segments :: "GuestSegment \<Rightarrow> GuestSegment \<Rightarrow> (GuestStateError, unit) result" where
  "check_segments cs tr =
     (if \<not> is_usable cs \<or> gs_access_rights cs AND LONG_MODE = 0 then Err (CsNot64Bit (gs_access_rights cs))
      else if \<not> is_usable tr \<or> gs_access_rights tr AND KIND_MASK \<noteq> BUSY_TSS_64 then Err (TrNotBusyTss (gs_access_rights tr))
      else Ok ())"

section \<open>Capture\<close>

record GuestState =
  g_rip :: u64
  g_rsp :: u64
  g_rflags :: u64
  g_cr0 :: u64
  g_cr3 :: u64
  g_cr4 :: u64
  g_es :: GuestSegment
  g_cs :: GuestSegment
  g_ss :: GuestSegment
  g_ds :: GuestSegment
  g_fs :: GuestSegment
  g_gs :: GuestSegment
  g_ldtr :: GuestSegment
  g_tr :: GuestSegment
  g_gdtr :: DescriptorTable
  g_idtr :: DescriptorTable
  g_sysenter_cs :: u64
  g_sysenter_esp :: u64
  g_sysenter_eip :: u64
  g_pat :: "u64 option"
  g_efer :: "u64 option"

text \<open>\<open>(controls & bit != 0).then(|| rdmsr(register))\<close>.\<close>

definition rdmsr_if :: "'m platform \<Rightarrow> bool \<Rightarrow> u32 \<Rightarrow> ('m, 'e, u64 option) action" where
  "rdmsr_if hw loaded register = (if loaded then and_then (rdmsr hw register) (\<lambda>v. ret (Some v)) else ret None)"

definition from_current ::
  "'m platform \<Rightarrow> u64 \<Rightarrow> u64 \<Rightarrow> DescriptorTable \<Rightarrow> ('m, GuestStateError, GuestState) action" where
  "from_current hw rip rsp idtr =
     and_then (read_all hw) (\<lambda>host.
     let seg = (\<lambda>selector b m. (segment_from_gdt hw (seg_gdtr host) selector b m, m))
     in
     and_then (map_err (GuestStateVmcs VM_ENTRY_CONTROLS) (vmread hw VM_ENTRY_CONTROLS)) (\<lambda>entry_controls.
     and_then (gets (\<lambda>m. (i_read_cr0 hw m, i_read_cr3 hw m, i_read_cr4 hw m))) (\<lambda>(cr0, cr3, cr4).
     and_then (seg (seg_es host) None) (\<lambda>es.
     and_then (seg (seg_cs host) None) (\<lambda>cs.
     and_then (seg (seg_ss host) None) (\<lambda>ss.
     and_then (seg (seg_ds host) None) (\<lambda>ds.
     and_then (seg (seg_fs host) (Some (seg_fs_base host))) (\<lambda>fs.
     and_then (seg (seg_gs host) (Some (seg_gs_base host))) (\<lambda>gs.
     and_then (seg (seg_tr host) (Some (seg_tr_base host))) (\<lambda>tr.
     and_then (rdmsr hw IA32_SYSENTER_CS) (\<lambda>sysenter_cs.
     and_then (rdmsr hw IA32_SYSENTER_ESP) (\<lambda>sysenter_esp.
     and_then (rdmsr hw IA32_SYSENTER_EIP) (\<lambda>sysenter_eip.
     and_then (rdmsr_if hw (entry_controls AND VM_ENTRY_LOAD_IA32_PAT \<noteq> 0) IA32_PAT) (\<lambda>pat.
     and_then (rdmsr_if hw (entry_controls AND VM_ENTRY_LOAD_IA32_EFER \<noteq> 0) IA32_EFER) (\<lambda>efer.
     and_then (lift_result (check_segments cs tr)) (\<lambda>_.
     ret \<lparr>g_rip = rip, g_rsp = rsp, g_rflags = INITIAL_RFLAGS, g_cr0 = cr0, g_cr3 = cr3, g_cr4 = cr4,
          g_es = es, g_cs = cs, g_ss = ss, g_ds = ds, g_fs = fs, g_gs = gs, g_ldtr = unusable 0 0, g_tr = tr,
          g_gdtr = seg_gdtr host, g_idtr = idtr, g_sysenter_cs = ucast (ucast sysenter_cs :: u32),
          g_sysenter_esp = sysenter_esp, g_sysenter_eip = sysenter_eip, g_pat = pat, g_efer = efer\<rparr>))))))))))))))))"

section \<open>Writing\<close>

definition segment_writes :: "GuestSegment \<Rightarrow> u32 \<Rightarrow> u32 \<Rightarrow> u32 \<Rightarrow> u32 \<Rightarrow> (u32 \<times> u64) list" where
  "segment_writes segment selector b l rights =
     [(selector, ucast (gs_selector segment)), (b, gs_seg_base segment), (l, ucast (gs_limit segment)),
      (rights, ucast (gs_access_rights segment))]"

definition guest_segment_writes :: "GuestState \<Rightarrow> (u32 \<times> u64) list" where
  "guest_segment_writes s = concat
     [segment_writes (g_es s) GUEST_ES_SELECTOR GUEST_ES_BASE GUEST_ES_LIMIT GUEST_ES_ACCESS_RIGHTS,
      segment_writes (g_cs s) GUEST_CS_SELECTOR GUEST_CS_BASE GUEST_CS_LIMIT GUEST_CS_ACCESS_RIGHTS,
      segment_writes (g_ss s) GUEST_SS_SELECTOR GUEST_SS_BASE GUEST_SS_LIMIT GUEST_SS_ACCESS_RIGHTS,
      segment_writes (g_ds s) GUEST_DS_SELECTOR GUEST_DS_BASE GUEST_DS_LIMIT GUEST_DS_ACCESS_RIGHTS,
      segment_writes (g_fs s) GUEST_FS_SELECTOR GUEST_FS_BASE GUEST_FS_LIMIT GUEST_FS_ACCESS_RIGHTS,
      segment_writes (g_gs s) GUEST_GS_SELECTOR GUEST_GS_BASE GUEST_GS_LIMIT GUEST_GS_ACCESS_RIGHTS,
      segment_writes (g_ldtr s) GUEST_LDTR_SELECTOR GUEST_LDTR_BASE GUEST_LDTR_LIMIT GUEST_LDTR_ACCESS_RIGHTS,
      segment_writes (g_tr s) GUEST_TR_SELECTOR GUEST_TR_BASE GUEST_TR_LIMIT GUEST_TR_ACCESS_RIGHTS]"

definition guest_other_writes :: "GuestState \<Rightarrow> (u32 \<times> u64) list" where
  "guest_other_writes s =
     [(GUEST_RIP, g_rip s), (GUEST_RSP, g_rsp s), (GUEST_RFLAGS, g_rflags s),
      (GUEST_CR0, g_cr0 s), (GUEST_CR3, g_cr3 s), (GUEST_CR4, g_cr4 s),
      (GUEST_GDTR_BASE, base (g_gdtr s)), (GUEST_GDTR_LIMIT, ucast (limit (g_gdtr s))),
      (GUEST_IDTR_BASE, base (g_idtr s)), (GUEST_IDTR_LIMIT, ucast (limit (g_idtr s))),
      (GUEST_IA32_SYSENTER_CS, g_sysenter_cs s), (GUEST_IA32_SYSENTER_ESP, g_sysenter_esp s),
      (GUEST_IA32_SYSENTER_EIP, g_sysenter_eip s), (GUEST_DR7, INITIAL_DR7), (GUEST_IA32_DEBUGCTL, 0),
      (VMCS_LINK_POINTER, VMCS_LINK_POINTER_NONE), (GUEST_ACTIVITY_STATE, 0),
      (GUEST_INTERRUPTIBILITY_STATE, 0), (GUEST_PENDING_DEBUG_EXCEPTIONS, 0)]"

definition write_field :: "'m platform \<Rightarrow> u32 \<Rightarrow> u64 \<Rightarrow> ('m, GuestStateError, unit) action" where
  "write_field hw field v = map_err (GuestStateVmcs field) (write_verified hw field v)"

definition write_guest_state :: "'m platform \<Rightarrow> GuestState \<Rightarrow> ('m, GuestStateError, unit) action" where
  "write_guest_state hw s =
     and_then (for_each (guest_segment_writes s) (\<lambda>(field, v). write_field hw field v)) (\<lambda>_.
     and_then (for_each (guest_other_writes s) (\<lambda>(field, v). write_field hw field v)) (\<lambda>_.
     and_then (case g_pat s of Some pat \<Rightarrow> write_field hw GUEST_IA32_PAT pat | None \<Rightarrow> ret ()) (\<lambda>_.
     case g_efer s of Some efer \<Rightarrow> write_field hw GUEST_IA32_EFER efer | None \<Rightarrow> ret ())))"

section \<open>What the segments say\<close>

lemma access_rights_bit_16: "\<not> bit (access_rights d) 16"
proof -
  have "(0xF0FF :: u32) = mask 8 OR push_bit 12 (mask 4)" by (simp add: mask_eq_exp_minus_1)
  then show ?thesis unfolding access_rights_def by (simp only: bit_and_iff bit_or_iff) (simp add: bit_simps)
qed

lemma is_usable_iff: "is_usable s \<longleftrightarrow> \<not> bit (gs_access_rights s) 16"
  unfolding is_usable_def ACCESS_RIGHTS_UNUSABLE_def bit_test by simp

lemma usable_from_descriptor: "is_usable (from_descriptor selector d b)"
  using access_rights_bit_16 [of d]
  by (simp add: is_usable_iff from_descriptor_def Let_def TYPE_ACCESSED_def bit_or_iff bit_1_iff)

lemma not_usable_unusable: "\<not> is_usable (unusable selector b)"
  unfolding is_usable_iff unusable_def ACCESS_RIGHTS_UNUSABLE_def by (simp add: bit_push_bit_1)

text \<open>VM entry wants the accessed bit in every usable code or data segment.\<close>

definition accessed :: "GuestSegment \<Rightarrow> bool" where
  "accessed s \<longleftrightarrow> (is_usable s \<longrightarrow> bit (gs_access_rights s) 4 \<longrightarrow> bit (gs_access_rights s) 0)"

lemma accessed_from_descriptor: "accessed (from_descriptor selector d b)"
  unfolding accessed_def from_descriptor_def CODE_OR_DATA_def TYPE_ACCESSED_def bit_test Let_def
  by (auto simp: bit_simps)

lemma selector_null_iff: "selector AND NOT SELECTOR_RPL = 0 \<longleftrightarrow> unat selector < 4"
proof -
  have m: "SELECTOR_RPL = mask 2" by (simp add: const_defs mask_eq_exp_minus_1)
  have "unat (selector AND NOT SELECTOR_RPL) = unat selector div 4 * 4"
    by (simp only: m and_not_mask_unat) simp
  then show ?thesis
    by (metis div_eq_0_iff mult_eq_0_iff unsigned_eq_0_iff zero_neq_numeral)
qed

lemma segment_from_gdt_OkD:
  assumes "segment_from_gdt hw gdt selector b m = Ok s"
  shows "gs_selector s = selector" and "accessed s" and "is_usable s \<longleftrightarrow> 4 \<le> unat selector"
    and "is_usable s \<Longrightarrow> read_descriptor hw gdt selector m \<noteq> None"
proof -
  note null = selector_null_iff [of selector]
  show "gs_selector s = selector" "accessed s" "is_usable s \<longleftrightarrow> 4 \<le> unat selector"
    "is_usable s \<Longrightarrow> read_descriptor hw gdt selector m \<noteq> None"
    using assms usable_from_descriptor not_usable_unusable accessed_from_descriptor null
    by (auto simp: segment_from_gdt_def accessed_def split: if_splits option.splits)
      (auto simp: unusable_def from_descriptor_def Let_def)
qed

lemma check_segments_Ok_iff:
  "check_segments cs tr = Ok () \<longleftrightarrow>
     is_usable cs \<and> bit (gs_access_rights cs) 13 \<and> is_usable tr \<and> take_bit 5 (gs_access_rights tr) = 0xB"
proof -
  have k: "KIND_MASK = mask 5" by (simp add: const_defs mask_eq_exp_minus_1)
  have "a AND KIND_MASK = take_bit 5 a" for a unfolding k by (simp add: take_bit_eq_mask)
  then show ?thesis
    unfolding check_segments_def LONG_MODE_def bit_test by (auto simp: BUSY_TSS_64_def)
qed

text \<open>What a captured state satisfies.\<close>

definition entry_segments :: "GuestState \<Rightarrow> bool" where
  "entry_segments s \<longleftrightarrow>
     is_usable (g_cs s) \<and> bit (gs_access_rights (g_cs s)) 13 \<and>
     is_usable (g_tr s) \<and> take_bit 5 (gs_access_rights (g_tr s)) = 0xB \<and> \<not> is_usable (g_ldtr s) \<and>
     list_all accessed [g_es s, g_cs s, g_ss s, g_ds s, g_fs s, g_gs s]"

lemma from_current_OkD:
  assumes "from_current hw rip rsp idtr m = (Ok s, m')"
  shows "g_rip s = rip" and "g_rsp s = rsp" and "g_rflags s = 0x2" and "g_idtr s = idtr" and "entry_segments s"
  using assms
  by (auto simp: from_current_def entry_segments_def Let_def check_segments_Ok_iff not_usable_unusable INITIAL_RFLAGS_def
      elim!: and_then_OkE dest!: segment_from_gdt_OkD(2))

section \<open>What the VMCS holds afterwards\<close>

definition guest_writes :: "GuestState \<Rightarrow> (u32 \<times> u64) list" where
  "guest_writes s = guest_segment_writes s @ guest_other_writes s @
     (case g_pat s of Some pat \<Rightarrow> [(GUEST_IA32_PAT, pat)] | None \<Rightarrow> []) @
     (case g_efer s of Some efer \<Rightarrow> [(GUEST_IA32_EFER, efer)] | None \<Rightarrow> [])"

lemma write_guest_state_run:
  "write_guest_state hw s = for_each (guest_writes s) (\<lambda>(field, v). write_field hw field v)"
  by (cases "g_pat s"; cases "g_efer s")
    (auto simp: write_guest_state_def guest_writes_def for_each_append fun_eq_iff and_then_def split: prod.splits result.splits)

lemma guest_writes_distinct: "distinct (map fst (guest_writes s))"
  by (cases "g_pat s"; cases "g_efer s")
    (simp_all add: guest_writes_def guest_segment_writes_def guest_other_writes_def segment_writes_def field_defs)

lemma write_field_for_each:
  "for_each fvs (\<lambda>(field, v). write_field hw field v) m = (Ok (), m') \<longleftrightarrow> write_fields hw fvs m = (Ok (), m')"
  by (induction fvs arbitrary: m) (auto simp: write_field_def and_then_def map_err_def split: prod.splits result.splits)

text \<open>Every value fits its field, so a VMCS that has the fields takes them all.\<close>

lemma guest_writes_fit:
  assumes "take_bit 32 (g_sysenter_cs s) = g_sysenter_cs s"
  shows "list_all (\<lambda>(f, v). field_type_of f \<noteq> ReadOnly \<and> take_bit (field_bits f) v = v) (guest_writes s)"
proof -
  have seg: "list_all (\<lambda>(f, v). field_type_of f \<noteq> ReadOnly \<and> take_bit (field_bits f) v = v) (guest_segment_writes s)"
    by (simp add: guest_segment_writes_def segment_writes_def field_defs field_type_of_def field_bits_def field_width_of_def)
  have oth: "list_all (\<lambda>(f, v). field_type_of f \<noteq> ReadOnly \<and> take_bit (field_bits f) v = v) (guest_other_writes s)"
    using assms
    by (simp add: guest_other_writes_def field_defs field_type_of_def field_bits_def field_width_of_def)
  show ?thesis
    using seg oth
    by (cases "g_pat s"; cases "g_efer s")
      (simp_all add: guest_writes_def field_defs field_type_of_def field_bits_def field_width_of_def)
qed

lemma from_current_sysenter:
  "from_current hw rip rsp idtr m = (Ok s, m') \<Longrightarrow> take_bit 32 (g_sysenter_cs s) = g_sysenter_cs s"
  by (auto simp: from_current_def Let_def elim!: and_then_OkE)

end
