(* ===== verification/Paging.thy ===== *)
theory Paging
  imports Msr
begin

text \<open>
  The walk of the current 4-level page tables (\<open>vmx/paging.rs\<close>): \<open>walk\<close> over a function that reads an
  entry, \<open>walk_current\<close> on the live CR3. The constants and \<open>ADDRESS_MASK\<close> carry a prefix where the EPT
  module has its own of the same name.

  The second half states what the walk has to do in terms of the list of entries the processor reads on its
  way down, in natural-number arithmetic, and proves that \<open>walk\<close> does it: which level it stops at, the
  translated address, and how the permissions of the levels combine.
\<close>

section \<open>The walk\<close>

definition PRESENT :: u64 where
  [const_defs]: "PRESENT = push_bit 0 1"

definition WRITABLE :: u64 where
  [const_defs]: "WRITABLE = push_bit 1 1"

definition USER :: u64 where
  [const_defs]: "USER = push_bit 2 1"

definition PAGE_SIZE_BIT :: u64 where
  [const_defs]: "PAGE_SIZE_BIT = push_bit 7 1"

definition EXECUTE_DISABLE :: u64 where
  [const_defs]: "EXECUTE_DISABLE = push_bit 63 1"

definition PAGING_ADDRESS_MASK :: u64 where
  [const_defs]: "PAGING_ADDRESS_MASK = 0x000FFFFFFFFFF000"

datatype PageSize = Size4K | Size2M | Size1G

record Mapping =
  map_physical :: u64
  map_size :: PageSize
  map_writable :: bool
  map_user :: bool
  map_execute_disable :: bool

datatype WalkError = FiveLevelPaging | NotPresent nat

text \<open>One level's page size, if its entry maps a page.\<close>

definition page_size_at :: "nat \<Rightarrow> u64 \<Rightarrow> PageSize option" where
  "page_size_at level entry =
     (if level = 3 \<and> entry AND PAGE_SIZE_BIT \<noteq> 0 then Some Size1G
      else if level = 2 \<and> entry AND PAGE_SIZE_BIT \<noteq> 0 then Some Size2M
      else if level = 1 then Some Size4K
      else None)"

text \<open>
  The loop over the levels from \<open>level\<close> down to 1, with the loop's variables as arguments; past level 1 is
  the \<open>unreachable!\<close> after the loop.
\<close>

fun walk_levels :: "(u64 \<Rightarrow> u64) \<Rightarrow> u64 \<Rightarrow> nat \<Rightarrow> u64 \<Rightarrow> bool \<Rightarrow> bool \<Rightarrow> bool \<Rightarrow> (WalkError, Mapping) result" where
  "walk_levels read_entry virtual_address 0 table writable user execute_disable = Panic"
| "walk_levels read_entry virtual_address (Suc n) table writable user execute_disable =
     (let shift = 12 + 9 * n;
          index = drop_bit shift virtual_address AND 0x1FF;
          entry = read_entry (table + index * 8)
      in if entry AND PRESENT = 0 then Err (NotPresent (Suc n))
         else (let writable = (writable \<and> entry AND WRITABLE \<noteq> 0);
                   user = (user \<and> entry AND USER \<noteq> 0);
                   execute_disable = (execute_disable \<or> entry AND EXECUTE_DISABLE \<noteq> 0)
               in (case page_size_at (Suc n) entry of
                     Some page_size \<Rightarrow>
                       (let offset_mask = push_bit shift 1 - 1;
                            frame = entry AND PAGING_ADDRESS_MASK AND NOT offset_mask
                        in Ok \<lparr>map_physical = frame OR (virtual_address AND offset_mask), map_size = page_size,
                              map_writable = writable, map_user = user, map_execute_disable = execute_disable\<rparr>)
                   | None \<Rightarrow>
                       walk_levels read_entry virtual_address n (entry AND PAGING_ADDRESS_MASK)
                         writable user execute_disable)))"

definition walk :: "u64 \<Rightarrow> u64 \<Rightarrow> (u64 \<Rightarrow> u64) \<Rightarrow> (WalkError, Mapping) result" where
  "walk cr3 virtual_address read_entry =
     walk_levels read_entry virtual_address 4 (cr3 AND PAGING_ADDRESS_MASK) True True False"

definition walk_current :: "'m platform \<Rightarrow> u64 \<Rightarrow> 'm \<Rightarrow> (WalkError, Mapping) result" where
  "walk_current hw virtual_address m =
     (if i_read_cr4 hw m AND CR4_LA57 \<noteq> 0 then Err FiveLevelPaging
      else walk (i_read_cr3 hw m) virtual_address (\<lambda>physical. load64 hw physical m))"

section \<open>What the processor reads\<close>

text \<open>
  Bits 51:12 of an entry as a table address, and the entries read from \<open>table\<close> at a level down to the one
  that ends the walk: an entry that is not present, or that maps a page.
\<close>

definition next_table :: "u64 \<Rightarrow> nat" where
  "next_table entry = unat entry div 2 ^ 12 mod 2 ^ 40 * 2 ^ 12"

definition maps_page :: "nat \<Rightarrow> u64 \<Rightarrow> bool" where
  "maps_page level entry \<longleftrightarrow> level = 1 \<or> (level = 2 \<or> level = 3) \<and> bit entry 7"

fun entries_read :: "(u64 \<Rightarrow> u64) \<Rightarrow> u64 \<Rightarrow> nat \<Rightarrow> nat \<Rightarrow> u64 list" where
  "entries_read read_entry va 0 table = []"
| "entries_read read_entry va (Suc n) table =
     (let entry = read_entry (of_nat (table + unat va div 2 ^ (12 + 9 * n) mod 512 * 8))
      in if bit entry 0 \<and> \<not> maps_page (Suc n) entry
         then entry # entries_read read_entry va n (next_table entry)
         else [entry])"

text \<open>The bits of the offset in a page of each size, and the address a page entry gives.\<close>

primrec offset_bits :: "PageSize \<Rightarrow> nat" where
  "offset_bits Size4K = 12"
| "offset_bits Size2M = 21"
| "offset_bits Size1G = 30"

definition translated :: "u64 \<Rightarrow> nat \<Rightarrow> u64 \<Rightarrow> nat" where
  "translated entry k va = unat entry mod 2 ^ 52 div 2 ^ k * 2 ^ k + unat va mod 2 ^ k"

text \<open>
  What the walk returns for the entries read from a level down: an error at the level of an absent entry, or the
  page of the last entry, with each permission combined over all of them.
\<close>

definition level_page_size :: "nat \<Rightarrow> PageSize" where
  "level_page_size level = (if level = 1 then Size4K else if level = 2 then Size2M else Size1G)"

definition page_mapping :: "u64 list \<Rightarrow> PageSize \<Rightarrow> u64 \<Rightarrow> Mapping" where
  "page_mapping entries page_size va =
     \<lparr>map_physical = of_nat (translated (last entries) (offset_bits page_size) va), map_size = page_size,
      map_writable = list_all (\<lambda>e. bit e 1) entries, map_user = list_all (\<lambda>e. bit e 2) entries,
      map_execute_disable = list_ex (\<lambda>e. bit e 63) entries\<rparr>"

definition walk_outcome :: "nat \<Rightarrow> u64 list \<Rightarrow> u64 \<Rightarrow> (WalkError, Mapping) result" where
  "walk_outcome from_level entries va =
     (let level = Suc from_level - length entries
      in if bit (last entries) 0 then Ok (page_mapping entries (level_page_size level) va)
         else Err (NotPresent level))"

section \<open>The walk is that list of entries\<close>

lemma paging_mask_bits: "bit PAGING_ADDRESS_MASK n \<longleftrightarrow> 12 \<le> n \<and> n < 52"
proof -
  have m: "PAGING_ADDRESS_MASK = push_bit 12 (mask 40)"
    by (simp add: const_defs mask_eq_exp_minus_1)
  show ?thesis by (subst m) (auto simp: bit_simps)
qed

lemma and_paging_mask_unat: "unat (w AND PAGING_ADDRESS_MASK) = unat w div 2 ^ 12 mod 2 ^ 40 * 2 ^ 12"
proof -
  have "w AND PAGING_ADDRESS_MASK = push_bit 12 (drop_bit 12 w AND mask 40)"
    by (rule bit_word_eqI) (auto simp: bit_simps paging_mask_bits)
  moreover have "unat w div 2 ^ 12 mod 2 ^ 40 * 2 ^ 12 < 2 ^ 64"
  proof -
    have "unat w div 2 ^ 12 mod 2 ^ 40 < 2 ^ 40" by simp
    then show ?thesis by simp
  qed
  ultimately show ?thesis
    by (simp only: unsigned_push_bit_eq and_mask_unat drop_bit_unat) (simp add: push_bit_eq_mult take_bit_eq_mod)
qed

lemma walk_entry_address:
  "(w AND PAGING_ADDRESS_MASK) + (drop_bit k va AND 0x1FF) * 8
     = of_nat (next_table w + unat va div 2 ^ k mod 512 * 8)"
proof -
  have "(0x1FF :: u64) = mask 9" by (simp add: mask_eq_exp_minus_1)
  then have "unat (drop_bit k va AND 0x1FF) = unat va div 2 ^ k mod 512"
    by (simp only: and_mask_unat drop_bit_unat) simp
  then have "drop_bit k va AND 0x1FF = of_nat (unat va div 2 ^ k mod 512)"
    by (rule word_of_unat)
  moreover have "w AND PAGING_ADDRESS_MASK = of_nat (next_table w)"
    by (rule word_of_unat) (simp add: and_paging_mask_unat next_table_def)
  ultimately show ?thesis by simp
qed

lemma walk_physical:
  assumes "12 \<le> k" and "k < 52"
  shows "unat ((entry AND PAGING_ADDRESS_MASK AND NOT (push_bit k 1 - 1)) OR (va AND (push_bit k 1 - 1)))
    = translated entry k va"
proof -
  have m: "push_bit k 1 - 1 = (mask k :: u64)"
    by (simp add: mask_eq_exp_minus_1 push_bit_eq_mult)
  have frame: "entry AND PAGING_ADDRESS_MASK AND NOT (mask k) = (entry AND mask 52) AND NOT (mask k)"
    using assms by (intro bit_word_eqI) (auto simp: bit_simps paging_mask_bits)
  have "(((entry AND mask 52) AND NOT (mask k)) AND (va AND mask k)) = 0"
    by (intro bit_word_eqI) (auto simp: bit_simps)
  then have "unat (((entry AND mask 52) AND NOT (mask k)) OR (va AND mask k))
      = unat ((entry AND mask 52) AND NOT (mask k)) + unat (va AND mask k)"
    by (simp add: or_disjoint_unat)
  then show ?thesis
    by (simp only: m frame and_not_mask_unat and_mask_unat translated_def)
qed

lemma entries_read_nonempty: "0 < n \<Longrightarrow> entries_read rd va n table \<noteq> []"
  by (cases n) (auto simp: Let_def)

lemma length_entries_read: "length (entries_read rd va n table) \<le> n"
  by (induction n arbitrary: table) (auto simp: Let_def)

lemma page_size_at_level:
  "page_size_at level e = (if maps_page level e then Some (level_page_size level) else None)"
  unfolding page_size_at_def maps_page_def level_page_size_def PAGE_SIZE_BIT_def bit_test by auto

lemma walk_ends_at_page:
  assumes "maps_page (Suc n) e" and "n < 4"
  shows "(e AND PAGING_ADDRESS_MASK AND NOT (push_bit (12 + 9 * n) 1 - 1)) OR (va AND (push_bit (12 + 9 * n) 1 - 1))
    = of_nat (translated e (offset_bits (level_page_size (Suc n))) va)"
proof -
  have offset_below: "12 + 9 * n < 52" using assms(2) by simp
  have "offset_bits (level_page_size (Suc n)) = 12 + 9 * n"
    using assms by (auto simp: level_page_size_def maps_page_def)
  then show ?thesis
    using walk_physical [of "12 + 9 * n" e va] assms(2) 
    by (intro word_of_unat) simp
qed

text \<open>The loop from a level on: the entries still to read, after what the levels above have combined.\<close>

lemma walk_levels_outcome:
  assumes "0 < n" and "n \<le> 4"
  shows "walk_levels rd va n (w AND PAGING_ADDRESS_MASK) wr us xd =
    (let entries = entries_read rd va n (next_table w)
     in case walk_outcome n entries va of
          Ok m \<Rightarrow> Ok (m\<lparr>map_writable := wr \<and> map_writable m, map_user := us \<and> map_user m,
                       map_execute_disable := xd \<or> map_execute_disable m\<rparr>)
        | Err e \<Rightarrow> Err e | Panic \<Rightarrow> Panic)"
  using assms
proof (induction n arbitrary: w wr us xd)
  case 0
  then show ?case by simp
next
  case (Suc n)
  define e where "e = rd (of_nat (next_table w + unat va div 2 ^ (12 + 9 * n) mod 512 * 8))"
  have read: "rd ((w AND PAGING_ADDRESS_MASK) + (drop_bit (12 + 9 * n) va AND 0x1FF) * 8) = e"
    by (simp only: walk_entry_address e_def)
  note bits = PRESENT_def WRITABLE_def USER_def EXECUTE_DISABLE_def bit_test
  consider "\<not> bit e 0" | "bit e 0" "maps_page (Suc n) e" | "bit e 0" "\<not> maps_page (Suc n) e" by blast
  then show ?case
  proof cases
    case 1
    then show ?thesis
      by (simp only: walk_levels.simps entries_read.simps Let_def read e_def [symmetric] bits)
        (simp add: walk_outcome_def)
  next
    case 2
    then show ?thesis using Suc.prems
      by (simp only: walk_levels.simps entries_read.simps Let_def read e_def [symmetric] bits page_size_at_level)
        (simp add: walk_outcome_def page_mapping_def walk_ends_at_page del: push_bit_of_1)
  next
    case 3
    then have n: "0 < n" by (cases n) (auto simp: maps_page_def)
    let ?rest = "entries_read rd va n (next_table e)"
    have ne: "?rest \<noteq> []" using n by (rule entries_read_nonempty)
    have "walk_levels rd va (Suc n) (w AND PAGING_ADDRESS_MASK) wr us xd =
        walk_levels rd va n (e AND PAGING_ADDRESS_MASK) (wr \<and> bit e 1) (us \<and> bit e 2) (xd \<or> bit e 63)"
      using 3 by (simp only: walk_levels.simps Let_def read bits page_size_at_level) simp
    moreover have "entries_read rd va (Suc n) (next_table w) = e # ?rest"
      using 3 by (simp only: entries_read.simps Let_def e_def [symmetric]) simp
    ultimately show ?thesis
      using Suc.IH [of e] n Suc.prems ne length_entries_read [of rd va n "next_table e"]
      by (auto simp: Let_def walk_outcome_def page_mapping_def Suc_diff_le)
  qed
qed

section \<open>Correctness properties\<close>

text \<open>
  C26. The page-table walk: it reads the entries of the virtual address level by level, stops at the first
  one that is not present (and reports its level) or that maps a page, and then returns the page's address with the
  offset the page size leaves, writable and user only if every entry read says so, execute-disable if any does. It
  never runs past the last level.
\<close>

theorem walk_translates:
  "walk cr3 va rd = walk_outcome 4 (entries_read rd va 4 (next_table cr3)) va"
  unfolding walk_def
  by (simp only: walk_levels_outcome Let_def) (auto simp: walk_outcome_def Let_def)

end
