(* ===== verification/Guest.thy ===== *)
theory Guest
  imports Paging Exit_Decision Segment
begin

text \<open>
  The guest's memory (\<open>vmx/guest.rs\<close>): the code page with the data page after it, the stack page and the IDT page
  with its NMI gate, and the checks that the page tables let the guest use them. The assembled guest code is a
  parameter: its bytes and the offset of its NMI handler.
\<close>

section \<open>The assembled code and the NMI gate\<close>

record guest_image =
  guest_code :: "u8 list"
  nmi_handler_offset :: nat

definition GATE_SIZE :: nat where
  [const_defs]: "GATE_SIZE = 16"

definition NMI_GATE_OFFSET :: nat where
  [const_defs]: "NMI_GATE_OFFSET = unat NMI_VECTOR * GATE_SIZE"

definition GUEST_IDT_LIMIT :: u16 where
  [const_defs]: "GUEST_IDT_LIMIT = of_nat (3 * GATE_SIZE - 1)"

definition interrupt_gate :: "u64 \<Rightarrow> u16 \<Rightarrow> u8 list" where
  "interrupt_gate handler selector =
     to_le_bytes (ucast handler :: u16) @ to_le_bytes selector @ [0, 0x8E] @
     to_le_bytes (ucast (drop_bit 16 handler) :: u16) @ to_le_bytes (ucast (drop_bit 32 handler) :: u32) @ replicate 4 0"

section \<open>Checks of the page tables\<close>

datatype GuestMemoryError =
    CodeTooLarge | CodeAllocationFailed | GuestStackAllocationFailed | IdtAllocationFailed
  | CodeNotMapped WalkError | StackNotMapped WalkError | IdtNotMapped WalkError | DataNotMapped WalkError
  | CodeNotExecutable | CodeBlockedBySmep | StackNotWritable | StackBlockedBySmap | IdtBlockedBySmap
  | DataNotWritable | DataBlockedBySmap | NotIdentityMapped u64 u64

definition check_identity :: "u64 \<Rightarrow> Mapping \<Rightarrow> (GuestMemoryError, unit) result" where
  "check_identity virtual_address mapping =
     (if map_physical mapping \<noteq> virtual_address then Err (NotIdentityMapped virtual_address (map_physical mapping)) else Ok ())"

definition check_permissions :: "Mapping \<Rightarrow> Mapping \<Rightarrow> u64 \<Rightarrow> (GuestMemoryError, unit) result" where
  "check_permissions code stack cr4 =
     (if map_execute_disable code then Err CodeNotExecutable
      else if map_user code \<and> cr4 AND CR4_SMEP \<noteq> 0 then Err CodeBlockedBySmep
      else if \<not> map_writable stack then Err StackNotWritable
      else if map_user stack \<and> cr4 AND CR4_SMAP \<noteq> 0 then Err StackBlockedBySmap
      else Ok ())"

definition check_idt_permissions :: "Mapping \<Rightarrow> u64 \<Rightarrow> (GuestMemoryError, unit) result" where
  "check_idt_permissions idt cr4 = (if map_user idt \<and> cr4 AND CR4_SMAP \<noteq> 0 then Err IdtBlockedBySmap else Ok ())"

definition check_data_permissions :: "Mapping \<Rightarrow> u64 \<Rightarrow> (GuestMemoryError, unit) result" where
  "check_data_permissions data cr4 =
     (if \<not> map_writable data then Err DataNotWritable
      else if map_user data \<and> cr4 AND CR4_SMAP \<noteq> 0 then Err DataBlockedBySmap
      else Ok ())"

record GuestMappings =
  gm_code :: Mapping
  gm_stack :: Mapping
  gm_idt :: Mapping
  gm_data :: Mapping

section \<open>The pages\<close>

record GuestMemory =
  code_page :: u64
  stack_page :: u64
  idt_page :: u64

definition code_base :: "GuestMemory \<Rightarrow> u64" where
  "code_base memory = code_page memory"

definition code_len :: "guest_image \<Rightarrow> nat" where
  "code_len img = length (guest_code img)"

definition nmi_handler :: "guest_image \<Rightarrow> GuestMemory \<Rightarrow> u64" where
  "nmi_handler img memory = code_base memory + of_nat (nmi_handler_offset img)"

definition data_page :: "GuestMemory \<Rightarrow> u64" where
  "data_page memory = code_base memory + of_nat PAGE_SIZE"

definition guest_stack_top :: "GuestMemory \<Rightarrow> ('e, u64) result" where
  "guest_stack_top memory =
     (let stack_end = stack_page memory + of_nat PAGE_SIZE in if stack_end mod 16 \<noteq> 0 then Panic else Ok stack_end)"

definition guest_idt :: "GuestMemory \<Rightarrow> DescriptorTable" where
  "guest_idt memory = \<lparr>base = idt_page memory, limit = GUEST_IDT_LIMIT\<rparr>"

definition allocate_guest :: "'m platform \<Rightarrow> guest_image \<Rightarrow> ('m, GuestMemoryError, GuestMemory) action" where
  "allocate_guest hw img =
     (let code_bytes = guest_code img
      in if length code_bytes > PAGE_SIZE then throw CodeTooLarge
         else
           and_then (allocate_zeroed_pages_of_type hw 2 LOADER_CODE CodeAllocationFailed) (\<lambda>code.
           and_then (allocate_zeroed_pages_of_type hw 1 LOADER_DATA GuestStackAllocationFailed) (\<lambda>stack.
           and_then (allocate_zeroed_pages_of_type hw 1 LOADER_DATA IdtAllocationFailed) (\<lambda>idt.
           let memory = \<lparr>code_page = code, stack_page = stack, idt_page = idt\<rparr>
           in
           and_then (modify (store_bytes hw code code_bytes)) (\<lambda>_.
           and_then (modify (store32 hw (data_page memory) GUEST_DATA_SEED)) (\<lambda>_.
           and_then (gets (i_cs hw)) (\<lambda>cs.
           and_then (modify (store_bytes hw (idt + of_nat NMI_GATE_OFFSET) (interrupt_gate (nmi_handler img memory) cs))) (\<lambda>_.
           ret memory))))))))"

definition check_mappings :: "'m platform \<Rightarrow> GuestMemory \<Rightarrow> ('m, GuestMemoryError, GuestMappings) action" where
  "check_mappings hw memory =
     (let walk = (\<lambda>address e m. (map_result_err e (walk_current hw address m), m));
          stack_base = stack_page memory
      in
      and_then (walk (code_base memory) CodeNotMapped) (\<lambda>code.
      and_then (walk stack_base StackNotMapped) (\<lambda>stack.
      and_then (walk (base (guest_idt memory)) IdtNotMapped) (\<lambda>idt.
      and_then (walk (data_page memory) DataNotMapped) (\<lambda>data.
      and_then (for_each [(code_base memory, code), (stack_base, stack), (base (guest_idt memory), idt), (data_page memory, data)]
        (\<lambda>(virtual_address, mapping). lift_result (check_identity virtual_address mapping))) (\<lambda>_.
      and_then (gets (i_read_cr4 hw)) (\<lambda>cr4.
      and_then (lift_result (check_permissions code stack cr4)) (\<lambda>_.
      and_then (lift_result (check_idt_permissions idt cr4)) (\<lambda>_.
      and_then (lift_result (check_data_permissions data cr4)) (\<lambda>_.
      ret \<lparr>gm_code = code, gm_stack = stack, gm_idt = idt, gm_data = data\<rparr>))))))))))"

section \<open>What the processor sees in the gate\<close>

text \<open>The handler address, selector, stack index and attributes the processor reads from a 64-bit gate.\<close>

definition gate_handler :: "u8 list \<Rightarrow> u64" where
  "gate_handler gate = from_le_bytes (take 2 gate @ take 2 (drop 6 gate) @ take 4 (drop 8 gate))"

definition gate_selector :: "u8 list \<Rightarrow> u16" where
  "gate_selector gate = from_le_bytes (take 2 (drop 2 gate))"

lemma length_interrupt_gate [simp]: "length (interrupt_gate handler selector) = 16"
  by (simp add: interrupt_gate_def)

lemma le_bytes_pieces:
  "to_le_bytes (ucast w :: u16) @ to_le_bytes (ucast (drop_bit 16 w) :: u16) @ to_le_bytes (ucast (drop_bit 32 w) :: u32)
     = to_le_bytes w" for w :: u64
proof (rule nth_equalityI)
  fix i assume "i < length (to_le_bytes (ucast w :: u16) @ to_le_bytes (ucast (drop_bit 16 w) :: u16)
      @ to_le_bytes (ucast (drop_bit 32 w) :: u32))"
  then have "i \<in> {0, 1, 2, 3, 4, 5, 6, 7}" by auto
  then show "(to_le_bytes (ucast w :: u16) @ to_le_bytes (ucast (drop_bit 16 w) :: u16)
      @ to_le_bytes (ucast (drop_bit 32 w) :: u32)) ! i = to_le_bytes w ! i"
    by (elim insertE; simp add: nth_append nth_to_le_bytes) (rule bit_word_eqI; simp add: bit_simps)+
qed simp

lemma interrupt_gate_fields:
  "gate_handler (interrupt_gate handler selector) = handler" "gate_selector (interrupt_gate handler selector) = selector"
  "interrupt_gate handler selector ! 4 = 0" "interrupt_gate handler selector ! 5 = 0x8E"
proof -
  have "take 2 (interrupt_gate handler selector) @ take 2 (drop 6 (interrupt_gate handler selector))
      @ take 4 (drop 8 (interrupt_gate handler selector)) = to_le_bytes handler"
    unfolding le_bytes_pieces [symmetric] by (simp add: interrupt_gate_def)
  then show "gate_handler (interrupt_gate handler selector) = handler" by (simp add: gate_handler_def)
  show "gate_selector (interrupt_gate handler selector) = selector"
    by (simp add: gate_selector_def interrupt_gate_def)
qed (simp_all add: interrupt_gate_def nth_append)

section \<open>What the checks guarantee\<close>

text \<open>
  What ring 0 may do with a page: SMEP (CR4 bit 20) stops it from executing a user page, SMAP (bit 21) from
  reading or writing one.
\<close>

definition ring0_executes :: "u64 \<Rightarrow> Mapping \<Rightarrow> bool" where
  "ring0_executes cr4 p \<longleftrightarrow> \<not> map_execute_disable p \<and> \<not> (map_user p \<and> bit cr4 20)"

definition ring0_reads :: "u64 \<Rightarrow> Mapping \<Rightarrow> bool" where
  "ring0_reads cr4 p \<longleftrightarrow> \<not> (map_user p \<and> bit cr4 21)"

definition ring0_writes :: "u64 \<Rightarrow> Mapping \<Rightarrow> bool" where
  "ring0_writes cr4 p \<longleftrightarrow> map_writable p \<and> ring0_reads cr4 p"

definition guest_pages_usable :: "u64 \<Rightarrow> GuestMappings \<Rightarrow> bool" where
  "guest_pages_usable cr4 maps \<longleftrightarrow> ring0_executes cr4 (gm_code maps) \<and> ring0_writes cr4 (gm_stack maps) \<and>
     ring0_reads cr4 (gm_idt maps) \<and> ring0_writes cr4 (gm_data maps)"

definition identity_mapped :: "GuestMemory \<Rightarrow> GuestMappings \<Rightarrow> bool" where
  "identity_mapped memory maps \<longleftrightarrow>
     map_physical (gm_code maps) = code_page memory \<and> map_physical (gm_stack maps) = stack_page memory \<and>
     map_physical (gm_idt maps) = idt_page memory \<and> map_physical (gm_data maps) = data_page memory"

lemma check_identity_Ok [simp]: "check_identity a p = Ok () \<longleftrightarrow> map_physical p = a"
  by (simp add: check_identity_def)

lemma permission_checks_Ok:
  "check_permissions code stack cr4 = Ok () \<longleftrightarrow> ring0_executes cr4 code \<and> ring0_writes cr4 stack"
  "check_idt_permissions idt cr4 = Ok () \<longleftrightarrow> ring0_reads cr4 idt"
  "check_data_permissions data cr4 = Ok () \<longleftrightarrow> ring0_writes cr4 data"
  unfolding check_permissions_def check_idt_permissions_def check_data_permissions_def ring0_executes_def
    ring0_writes_def ring0_reads_def CR4_SMEP_def CR4_SMAP_def bit_test by auto

lemma check_mappings_Ok_iff:
  "check_mappings hw memory m = (Ok maps, m') \<longleftrightarrow>
     m' = m \<and> walk_current hw (code_page memory) m = Ok (gm_code maps) \<and>
     walk_current hw (stack_page memory) m = Ok (gm_stack maps) \<and>
     walk_current hw (idt_page memory) m = Ok (gm_idt maps) \<and>
     walk_current hw (data_page memory) m = Ok (gm_data maps) \<and>
     identity_mapped memory maps \<and> guest_pages_usable (i_read_cr4 hw m) maps"
  unfolding check_mappings_def Let_def
  by (auto simp: and_then_Ok_iff permission_checks_Ok guest_pages_usable_def identity_mapped_def code_base_def guest_idt_def)

section \<open>What the pages hold\<close>

text \<open>Neither storing to memory nor allocating pages changes CS.\<close>

locale guest_allocation = page_allocator +
  assumes cs_store: "i_cs hw (i_store8 hw a v m) = i_cs hw m"
    and cs_alloc: "f_allocate_pages hw ty n m = (p, m') \<Longrightarrow> i_cs hw m' = i_cs hw m"
begin

lemma cs_store_bytes [simp]: "i_cs hw (store_bytes hw a bs m) = i_cs hw m"
  by (induction bs arbitrary: a m) (simp_all add: cs_store)

lemma cs_allocate: "allocate_zeroed_pages_of_type hw n ty e m = (r, m') \<Longrightarrow> i_cs hw m' = i_cs hw m"
  by (auto simp: allocate_zeroed_pages_of_type_def dest: cs_alloc split: prod.splits option.splits if_splits)

lemma load_bytes_eqI:
  assumes "unat a + length bs \<le> 2 ^ 63"
    and "\<And>i. i < length bs \<Longrightarrow> i_load8 hw (of_nat (unat a + i)) m = bs ! i"
  shows "load_bytes hw a (length bs) m = bs"
  using assms(2) by (intro nth_equalityI) (simp_all add: load_bytes_def)

lemma allocate_guest_OkD:
  assumes "allocate_guest hw img m = (Ok memory, m')"
  shows "page_aligned (code_page memory)" "page_aligned (stack_page memory)" "page_aligned (idt_page memory)"
    and "page_aligned (data_page memory)" and "unat (data_page memory) = unat (code_page memory) + 4096"
    and "load_bytes hw (code_page memory) (length (guest_code img)) m' = guest_code img"
    and "load_bytes hw (data_page memory) 4 m' = to_le_bytes GUEST_DATA_SEED"
    and "load_bytes hw (idt_page memory + 32) 16 m' = interrupt_gate (nmi_handler img memory) (i_cs hw m)"
proof -
  obtain code m1 stack m2 idt m3 where len: "length (guest_code img) \<le> 4096"
    and a1: "allocate_zeroed_pages_of_type hw 2 LOADER_CODE CodeAllocationFailed m = (Ok code, m1)"
    and a2: "allocate_zeroed_pages_of_type hw 1 LOADER_DATA GuestStackAllocationFailed m1 = (Ok stack, m2)"
    and a3: "allocate_zeroed_pages_of_type hw 1 LOADER_DATA IdtAllocationFailed m2 = (Ok idt, m3)"
    and mem: "memory = \<lparr>code_page = code, stack_page = stack, idt_page = idt\<rparr>"
    and m': "m' = store_bytes hw (idt + 32) (interrupt_gate (nmi_handler img memory) (i_cs hw m3))
      (store32 hw (data_page memory) GUEST_DATA_SEED (store_bytes hw code (guest_code img) m3))"
    using assms unfolding allocate_guest_def
    by (auto elim!: and_then_OkE simp: Let_def PAGE_SIZE_def NMI_GATE_OFFSET_def GATE_SIZE_def NMI_VECTOR_def store32_def
        split: if_splits)
  note d1 = allocate_of_type_OkD [OF a1] and d2 = allocate_of_type_OkD [OF a2] and d3 = allocate_of_type_OkD [OF a3]
  have cs: "i_cs hw m3 = i_cs hw m" using cs_allocate [OF a1] cs_allocate [OF a2] cs_allocate [OF a3] by simp
  show "page_aligned (code_page memory)" "page_aligned (stack_page memory)" "page_aligned (idt_page memory)"
    using d1(1) d2(1) d3(1) mem by simp_all
  have data: "unat (data_page memory) = unat code + 4096"
    using d1(2) mem by (simp add: data_page_def code_base_def PAGE_SIZE_def unat_word_ariths)
  then show "unat (data_page memory) = unat (code_page memory) + 4096" by (simp add: mem)
  then show "page_aligned (data_page memory)" using d1(1,2) mem by (simp add: page_aligned_def)
  have idt: "unat (idt + 32) = unat idt + 32" using d3(2) by (simp add: unat_word_ariths)
  have "{unat code..<unat code + 2 * 4096} \<inter> {unat idt..<unat idt + 1 * 4096} = {}" using d1(4) d2(4) d3(3) by blast
  then have apart: "unat code + 2 * 4096 \<le> unat idt \<or> unat idt + 4096 \<le> unat code"
    using disjoint_intervals [of "unat code" "2 * 4096" "unat idt" "1 * 4096"] by simp
  show "load_bytes hw (code_page memory) (length (guest_code img)) m' = guest_code img"
    using len d1(2) d3(2) apart data idt
    by (intro load_bytes_eqI) (auto simp: m' store32_def load_after_store mem simp del: of_nat_add)
  have "load_bytes hw (data_page memory) (length (to_le_bytes GUEST_DATA_SEED)) m' = to_le_bytes GUEST_DATA_SEED"
    using len d1(2) d3(2) apart data idt
    by (intro load_bytes_eqI) (auto simp: m' store32_def load_after_store simp del: of_nat_add)
  then show "load_bytes hw (data_page memory) 4 m' = to_le_bytes GUEST_DATA_SEED" by simp
  have "load_bytes hw (idt + 32) (length (interrupt_gate (nmi_handler img memory) (i_cs hw m))) m'
      = interrupt_gate (nmi_handler img memory) (i_cs hw m)"
    using d3(2) idt cs
    by (intro load_bytes_eqI) (auto simp: m' store32_def load_after_store simp del: of_nat_add)
  then show "load_bytes hw (idt_page memory + 32) 16 m' = interrupt_gate (nmi_handler img memory) (i_cs hw m)"
    by (simp add: mem)
qed

end

section \<open>Correctness properties\<close>

text \<open>
  C23. The page-table check accepts exactly the tables the guest can run on: each of the four pages is mapped to
  itself, ring 0 may execute the code page, write the stack and data pages and read the IDT page under the current
  SMEP and SMAP; it returns those mappings and changes nothing.
\<close>

theorem guest_mappings_exact:
  "check_mappings hw memory m = (Ok maps, m') \<longleftrightarrow>
     m' = m \<and> walk_current hw (code_page memory) m = Ok (gm_code maps) \<and>
     walk_current hw (stack_page memory) m = Ok (gm_stack maps) \<and>
     walk_current hw (idt_page memory) m = Ok (gm_idt maps) \<and>
     walk_current hw (data_page memory) m = Ok (gm_data maps) \<and>
     identity_mapped memory maps \<and> guest_pages_usable (i_read_cr4 hw m) maps"
  by (rule check_mappings_Ok_iff)

end
