(* ===== verification/Guest_Program.thy ===== *)
theory Guest_Program
  imports Handler Exit_Run
begin

text \<open>
  The test guest (\<open>global_asm!\<close> of \<open>vmx/guest.rs\<close>) as a list of instructions, run by a virtual processor whose exits
  go to the hypervisor. RIP is an index into the list, so "past the instruction" is the next index; the assembler's
  bytes and instruction lengths are not modelled. An exit is judged by \<open>decide\<close> with the state of the run so far, and
  the guest goes on as the resume plan says; instructions are executed for it by the handler's own \<open>execute\<close>. NMIs
  may arrive before any instruction.
\<close>

section \<open>Instructions\<close>

datatype reg = EAX | EBX | ECX | EDX | ESI | EDI

datatype label = guest_wait | guest_wait_done | guest_nmi_handler | guest_emulation_failed

datatype instr =
    Mov reg u32
  | MovReg reg reg
  | Xor reg
  | Cmp reg u32
  | Bt reg nat
  | Test reg
  | Inc reg
  | Dec reg
  | MovDx u16
  | MovAl u8
  | CmpAl u8
  | MovSilAl
  | MovAlSil
  | LeaRdiCode
  | AddRdi u64
  | Load reg
  | Store u32
  | Jc label
  | Jne label
  | CPUID
  | RDMSR
  | WRMSR
  | InAl
  | OutAl
  | VMCALL
  | PAUSE
  | UD2
  | PushRax
  | PopRax
  | Iretq

definition guest_code_start_block :: "instr list" where
  "guest_code_start_block =
     [Mov EAX 1, Xor ECX, CPUID, Bt ECX 5, Jc guest_emulation_failed,
      Mov ECX IA32_KERNEL_GS_BASE, RDMSR, MovReg ESI EAX, MovReg EDI EDX,
      Mov EAX (ucast GUEST_MSR_VALUE), Mov EDX (ucast (drop_bit 32 GUEST_MSR_VALUE)), WRMSR,
      Xor EAX, Xor EDX, RDMSR,
      Cmp EAX (ucast GUEST_MSR_VALUE), Jne guest_emulation_failed,
      Cmp EDX (ucast (drop_bit 32 GUEST_MSR_VALUE)), Jne guest_emulation_failed,
      MovReg EAX ESI, MovReg EDX EDI, WRMSR,
      MovDx GUEST_SCRATCH_PORT, InAl, MovSilAl, MovAl GUEST_IO_VALUE, OutAl,
      Xor EAX, InAl, CmpAl GUEST_IO_VALUE, Jne guest_emulation_failed, MovAlSil, OutAl,
      Xor EBX, LeaRdiCode, AddRdi 0x1000, Load ECX, Store GUEST_EPT_VALUE, Load EDX,
      Mov EAX GUEST_MARKER, VMCALL, Mov ECX GUEST_WAIT_ITERATIONS]"

definition guest_wait_block :: "instr list" where
  "guest_wait_block = [Test EBX, Jne guest_wait_done, PAUSE, Dec ECX, Jne guest_wait]"

definition guest_wait_done_block :: "instr list" where
  "guest_wait_done_block = [Inc EAX, VMCALL, UD2]"

definition guest_nmi_handler_block :: "instr list" where
  "guest_nmi_handler_block = [PushRax, Mov EAX GUEST_NMI_MARKER, VMCALL, PopRax, Mov EBX 1, Iretq]"

definition guest_emulation_failed_block :: "instr list" where
  "guest_emulation_failed_block = [Mov EAX GUEST_EMULATION_FAIL_MARKER, UD2]"

lemmas block_defs = guest_code_start_block_def guest_wait_block_def guest_wait_done_block_def guest_nmi_handler_block_def
  guest_emulation_failed_block_def

definition guest_program :: "instr list" where
  "guest_program = guest_code_start_block @ guest_wait_block @ guest_wait_done_block @ guest_nmi_handler_block
     @ guest_emulation_failed_block"

text \<open>Where a label stands: behind the blocks before it.\<close>

primrec target :: "label \<Rightarrow> nat" where
  "target guest_wait = length guest_code_start_block"
| "target guest_wait_done = length (guest_code_start_block @ guest_wait_block)"
| "target guest_nmi_handler = length (guest_code_start_block @ guest_wait_block @ guest_wait_done_block)"
| "target guest_emulation_failed =
     length (guest_code_start_block @ guest_wait_block @ guest_wait_done_block @ guest_nmi_handler_block)"

section \<open>The virtual processor\<close>

text \<open>A stack slot: a pushed register, or what event delivery pushes (of it, RIP and the two flags the guest tests).\<close>

datatype slot = Quad u64 | Frame nat bool bool

text \<open>
  The guest's registers and flags, its stack, its memory by dwords, virtual-NMI blocking; what the hypervisor set up
  for it (NMI-window exiting, a writable data page, a queued #GP); the machine below; and the exits so far.
\<close>

record 'm vm =
  vm_regs :: RegisterFrame
  vm_cf :: bool
  vm_zf :: bool
  vm_pc :: nat
  vm_stack :: "slot list"
  vm_data :: "u64 \<Rightarrow> u32"
  vm_blocking :: bool
  vm_window :: bool
  vm_writable :: bool
  vm_gp :: bool
  vm_machine :: 'm
  vm_run :: run

primrec get_reg :: "reg \<Rightarrow> RegisterFrame \<Rightarrow> u64" where
  "get_reg EAX f = reg_rax f" | "get_reg EBX f = reg_rbx f" | "get_reg ECX f = reg_rcx f"
| "get_reg EDX f = reg_rdx f" | "get_reg ESI f = reg_rsi f" | "get_reg EDI f = reg_rdi f"

primrec put_reg :: "reg \<Rightarrow> u64 \<Rightarrow> RegisterFrame \<Rightarrow> RegisterFrame" where
  "put_reg EAX v f = f\<lparr>reg_rax := v\<rparr>" | "put_reg EBX v f = f\<lparr>reg_rbx := v\<rparr>" | "put_reg ECX v f = f\<lparr>reg_rcx := v\<rparr>"
| "put_reg EDX v f = f\<lparr>reg_rdx := v\<rparr>" | "put_reg ESI v f = f\<lparr>reg_rsi := v\<rparr>" | "put_reg EDI v f = f\<lparr>reg_rdi := v\<rparr>"

text \<open>Reading 32 bits; writing 32 bits clears the upper half.\<close>

definition get32 :: "reg \<Rightarrow> 'm vm \<Rightarrow> u32" where
  "get32 r s = ucast (get_reg r (vm_regs s))"

definition put32 :: "reg \<Rightarrow> u32 \<Rightarrow> 'm vm \<Rightarrow> 'm vm" where
  "put32 r v s = s\<lparr>vm_regs := put_reg r (ucast v) (vm_regs s)\<rparr>"

definition next_pc :: "'m vm \<Rightarrow> 'm vm" where
  "next_pc s = s\<lparr>vm_pc := vm_pc s + 1\<rparr>"

definition data_address :: "u64 \<Rightarrow> u64" where
  "data_address code = code + 0x1000"

definition exit_info :: "u64 \<Rightarrow> u16 \<Rightarrow> u32 \<Rightarrow> bool \<Rightarrow> u64 \<Rightarrow> u64 \<Rightarrow> 'm vm \<Rightarrow> ExitInfo" where
  "exit_info code reason info vectoring qualification physical s =
     \<lparr>ei_reason = \<lparr>er_basic = reason, er_entry_failure = False\<rparr>, ei_interruption_info = info,
      ei_guest_rax = reg_rax (vm_regs s), ei_guest_rcx = reg_rcx (vm_regs s), ei_guest_rdx = reg_rdx (vm_regs s),
      ei_interruptibility = (if vm_blocking s then BLOCKING_BY_NMI else 0), ei_idt_vectoring_valid = vectoring,
      ei_qualification = qualification, ei_guest_physical = physical, ei_protected_page = data_address code\<rparr>"

section \<open>The hypervisor's side of an exit\<close>

definition deliver_nmi :: "'m vm \<Rightarrow> 'm vm" where
  "deliver_nmi s = s\<lparr>vm_stack := Frame (vm_pc s) (vm_cf s) (vm_zf s) # vm_stack s, vm_pc := target guest_nmi_handler,
     vm_blocking := True\<rparr>"

definition emulate_for :: "'m platform \<Rightarrow> Emulation \<Rightarrow> 'm vm \<Rightarrow> 'm vm" where
  "emulate_for hw emulation s =
     (case execute hw emulation (vm_regs s) (vm_machine s) of
        (Ok (_, frame), m) \<Rightarrow> s\<lparr>vm_regs := frame, vm_machine := m\<rparr>
      | (_, m) \<Rightarrow> s\<lparr>vm_machine := m\<rparr>)"

definition resume_guest :: "'m platform \<Rightarrow> ResumePlan \<Rightarrow> 'm vm \<Rightarrow> 'm vm" where
  "resume_guest hw plan s =
     (let s1 = (case emulate plan of Some e \<Rightarrow> emulate_for hw e s | None \<Rightarrow> s);
          s2 = (if advance_rip plan then next_pc s1 else s1);
          s3 = s2\<lparr>vm_gp := inject_gp plan\<rparr>;
          s4 = (case plan_nmi_window plan of Some on \<Rightarrow> s3\<lparr>vm_window := on\<rparr> | None \<Rightarrow> s3);
          s5 = (if plan_grant_write plan then s4\<lparr>vm_writable := True\<rparr> else s4)
      in if inject_nmi plan then deliver_nmi s5 else s5)"

definition handle_exit :: "'m platform \<Rightarrow> ExitInfo \<Rightarrow> 'm vm \<Rightarrow> 'm vm" where
  "handle_exit hw x s =
     (case decide (r_state (vm_run s)) x of (ev, st) \<Rightarrow>
      let r = vm_run s in
      case event_action ev of
        Resume plan \<Rightarrow> resume_guest hw plan (s\<lparr>vm_run := \<lparr>r_state = st, r_events = r_events r @ [ev], r_stopped = None\<rparr>\<rparr>)
      | act \<Rightarrow> s\<lparr>vm_run := \<lparr>r_state = st, r_events = r_events r @ [ev], r_stopped = Some act\<rparr>\<rparr>)"

section \<open>One instruction\<close>

definition plain :: "u64 \<Rightarrow> u16 \<Rightarrow> 'm vm \<Rightarrow> ExitInfo" where
  "plain code reason s = exit_info code reason 0 False 0 0 s"

text \<open>An exception: every vector exits (exception bitmap all ones). The vector is the argument.\<close>

definition exception :: "'m platform \<Rightarrow> u64 \<Rightarrow> u32 \<Rightarrow> 'm vm \<Rightarrow> 'm vm" where
  "exception hw code v s = handle_exit hw (exit_info code EXIT_REASON_EXCEPTION_OR_NMI (0x80000300 OR v) False 0 0 s) s"

definition io_qualification :: "u16 \<Rightarrow> bool \<Rightarrow> u64" where
  "io_qualification port input = push_bit 16 (ucast port) OR (if input then 8 else 0)"

fun exec :: "'m platform \<Rightarrow> u64 \<Rightarrow> instr \<Rightarrow> 'm vm \<Rightarrow> 'm vm" where
  "exec hw code (Mov r v) s = next_pc (put32 r v s)"
| "exec hw code (MovReg r q) s = next_pc (put32 r (get32 q s) s)"
| "exec hw code (Xor r) s = next_pc (put32 r 0 (s\<lparr>vm_cf := False, vm_zf := True\<rparr>))"
| "exec hw code (Cmp r v) s = next_pc (s\<lparr>vm_cf := get32 r s < v, vm_zf := get32 r s = v\<rparr>)"
| "exec hw code (Bt r n) s = next_pc (s\<lparr>vm_cf := bit (get32 r s) n\<rparr>)"
| "exec hw code (Test r) s = next_pc (s\<lparr>vm_cf := False, vm_zf := get32 r s = 0\<rparr>)"
| "exec hw code (Inc r) s = next_pc (put32 r (get32 r s + 1) (s\<lparr>vm_zf := get32 r s + 1 = 0\<rparr>))"
| "exec hw code (Dec r) s = next_pc (put32 r (get32 r s - 1) (s\<lparr>vm_zf := get32 r s - 1 = 0\<rparr>))"
| "exec hw code (MovDx v) s = next_pc (s\<lparr>vm_regs := (vm_regs s)\<lparr>reg_rdx := (reg_rdx (vm_regs s) AND NOT 0xFFFF) OR ucast v\<rparr>\<rparr>)"
| "exec hw code (MovAl v) s = next_pc (s\<lparr>vm_regs := (vm_regs s)\<lparr>reg_rax := (reg_rax (vm_regs s) AND NOT 0xFF) OR ucast v\<rparr>\<rparr>)"
| "exec hw code (CmpAl v) s =
     (let al = ucast (reg_rax (vm_regs s)) :: u8 in next_pc (s\<lparr>vm_cf := al < v, vm_zf := al = v\<rparr>))"
| "exec hw code MovSilAl s = next_pc (s\<lparr>vm_regs := (vm_regs s)\<lparr>reg_rsi :=
     (reg_rsi (vm_regs s) AND NOT 0xFF) OR (reg_rax (vm_regs s) AND 0xFF)\<rparr>\<rparr>)"
| "exec hw code MovAlSil s = next_pc (s\<lparr>vm_regs := (vm_regs s)\<lparr>reg_rax :=
     (reg_rax (vm_regs s) AND NOT 0xFF) OR (reg_rsi (vm_regs s) AND 0xFF)\<rparr>\<rparr>)"
| "exec hw code LeaRdiCode s = next_pc (s\<lparr>vm_regs := (vm_regs s)\<lparr>reg_rdi := code\<rparr>\<rparr>)"
| "exec hw code (AddRdi v) s =
     (let sum = reg_rdi (vm_regs s) + v
      in next_pc (s\<lparr>vm_regs := (vm_regs s)\<lparr>reg_rdi := sum\<rparr>, vm_cf := sum < v, vm_zf := sum = 0\<rparr>))"
| "exec hw code (Load r) s = next_pc (put32 r (vm_data s (reg_rdi (vm_regs s))) s)"
| "exec hw code (Store v) s =
     (let a = reg_rdi (vm_regs s)
      in if a AND NOT 0xFFF = data_address code \<and> \<not> vm_writable s
         then handle_exit hw (exit_info code EXIT_REASON_EPT_VIOLATION 0 False
           (EPT_ACCESS_WRITE OR EPT_PAGE_READABLE OR EPT_LINEAR_VALID OR EPT_TRANSLATED_ACCESS) a s) s
         else next_pc (s\<lparr>vm_data := (vm_data s)(a := v)\<rparr>))"
| "exec hw code (Jc l) s = (if vm_cf s then s\<lparr>vm_pc := target l\<rparr> else next_pc s)"
| "exec hw code (Jne l) s = (if \<not> vm_zf s then s\<lparr>vm_pc := target l\<rparr> else next_pc s)"
| "exec hw code CPUID s = handle_exit hw (plain code EXIT_REASON_CPUID s) s"
| "exec hw code RDMSR s =
     (let msr = ucast (reg_rcx (vm_regs s))
      in if route msr = NotIntercepted then next_pc (emulate_for hw (Rdmsr msr) s)
         else handle_exit hw (plain code EXIT_REASON_RDMSR s) s)"
| "exec hw code WRMSR s =
     (let msr = ucast (reg_rcx (vm_regs s));
          v = push_bit 32 (reg_rdx (vm_regs s)) OR (reg_rax (vm_regs s) AND 0xFFFFFFFF)
      in if route msr = NotIntercepted then next_pc (emulate_for hw (Wrmsr msr v) s)
         else handle_exit hw (plain code EXIT_REASON_WRMSR s) s)"
| "exec hw code InAl s =
     (let port = ucast (reg_rdx (vm_regs s))
      in if port \<in> set INTERCEPTED_PORTS
         then handle_exit hw (exit_info code EXIT_REASON_IO_INSTRUCTION 0 False (io_qualification port True) 0 s) s
         else next_pc (emulate_for hw (In port Byte) s))"
| "exec hw code OutAl s =
     (let port = ucast (reg_rdx (vm_regs s))
      in if port \<in> set INTERCEPTED_PORTS
         then handle_exit hw (exit_info code EXIT_REASON_IO_INSTRUCTION 0 False (io_qualification port False) 0 s) s
         else next_pc (emulate_for hw (Out port Byte (out_value (reg_rax (vm_regs s)) Byte)) s))"
| "exec hw code VMCALL s = handle_exit hw (plain code EXIT_REASON_VMCALL s) s"
| "exec hw code PAUSE s = next_pc s"
| "exec hw code UD2 s = exception hw code 6 s"
| "exec hw code PushRax s = next_pc (s\<lparr>vm_stack := Quad (reg_rax (vm_regs s)) # vm_stack s\<rparr>)"
| "exec hw code PopRax s =
     (case vm_stack s of
        Quad v # rest \<Rightarrow> next_pc (s\<lparr>vm_regs := (vm_regs s)\<lparr>reg_rax := v\<rparr>, vm_stack := rest\<rparr>)
      | _ \<Rightarrow> exception hw code 12 s)"
| "exec hw code Iretq s =
     (case vm_stack s of
        Frame pc cf zf # rest \<Rightarrow> s\<lparr>vm_pc := pc, vm_cf := cf, vm_zf := zf, vm_stack := rest, vm_blocking := False\<rparr>
      | _ \<Rightarrow> exception hw code 13 s)"

text \<open>
  One step: a queued #GP is delivered first, and the guest's IDT has no gate for it, so the delivery itself exits;
  then an arriving NMI; then a pending window; then the next instruction. Past the code there is nothing to run.
\<close>

definition guest_step :: "'m platform \<Rightarrow> u64 \<Rightarrow> bool \<Rightarrow> 'm vm \<Rightarrow> 'm vm" where
  "guest_step hw code nmi s =
     (if r_stopped (vm_run s) \<noteq> None then s
      else if vm_gp s then handle_exit hw (exit_info code EXIT_REASON_EXCEPTION_OR_NMI 0x80000308 True 0 0 s) s
      else if nmi then handle_exit hw (exit_info code EXIT_REASON_EXCEPTION_OR_NMI INFO_NMI False 0 0 s) s
      else if vm_window s \<and> \<not> vm_blocking s then handle_exit hw (plain code EXIT_REASON_NMI_WINDOW s) s
      else if vm_pc s < length guest_program then exec hw code (guest_program ! vm_pc s) s
      else exception hw code 6 s)"

text \<open>\<open>nmis t\<close>: an NMI arrives before step \<open>t\<close>.\<close>

primrec run_guest :: "'m platform \<Rightarrow> u64 \<Rightarrow> (nat \<Rightarrow> bool) \<Rightarrow> nat \<Rightarrow> 'm vm \<Rightarrow> 'm vm" where
  "run_guest hw code nmis 0 s = s"
| "run_guest hw code nmis (Suc n) s = run_guest hw code (\<lambda>t. nmis (Suc t)) n (guest_step hw code (nmis 0) s)"

text \<open>At launch: RIP at the start of the code, registers as the host left them, the seed in the data page.\<close>

definition guest_start :: "u64 \<Rightarrow> RegisterFrame \<Rightarrow> 'm \<Rightarrow> 'm vm" where
  "guest_start code frame m =
     \<lparr>vm_regs = frame, vm_cf = False, vm_zf = False, vm_pc = 0, vm_stack = [], vm_data = (\<lambda>_. 0)(data_address code := GUEST_DATA_SEED),
      vm_blocking = False, vm_window = False, vm_writable = False, vm_gp = False, vm_machine = m, vm_run = start_run\<rparr>"

end
