(* ===== verification/Guest_Run.thy ===== *)
theory Guest_Run
  imports Guest_Program
begin

text \<open>
  The test guest always reaches its last VMCALL. \<open>main_view\<close> separates the main code from the NMI handler: every step
  outside the main code keeps the view, and with finitely many NMIs to come there are finitely many of them
  (\<open>settle\<close>). So the main code runs as if undisturbed, up to EBX, which only the wait loop reads, and that loop ends
  either way. The locale \<open>passthrough_devices\<close> states what the guest's own checks rely on of the machine.
\<close>

section \<open>The main code and the NMI handler\<close>

text \<open>
  NMIs and the handler only touch EBX, the NMI fields of the state and NMI-window exiting. \<open>main_view\<close> is what the main
  code sees of a state: the interrupted registers when the handler is running, and those parts erased.
\<close>

definition core_state :: "ExitState \<Rightarrow> ExitState" where
  "core_state st = st\<lparr>nmi_pending := False, nmis_injected := 0, nmis_handled := 0\<rparr>"

definition erase :: "'m vm \<Rightarrow> 'm vm" where
  "erase s = s\<lparr>vm_regs := (vm_regs s)\<lparr>reg_rbx := 0\<rparr>, vm_stack := [], vm_blocking := False, vm_window := False,
     vm_run := \<lparr>r_state = core_state (r_state (vm_run s)), r_events = [], r_stopped = r_stopped (vm_run s)\<rparr>\<rparr>"

fun interrupted :: "slot list \<Rightarrow> 'm vm \<Rightarrow> 'm vm" where
  "interrupted [Frame pc cf zf] s = s\<lparr>vm_pc := pc, vm_cf := cf, vm_zf := zf\<rparr>"
| "interrupted [Quad v, Frame pc cf zf] s = s\<lparr>vm_pc := pc, vm_cf := cf, vm_zf := zf, vm_regs := (vm_regs s)\<lparr>reg_rax := v\<rparr>\<rparr>"
| "interrupted _ s = s"

definition main_view :: "'m vm \<Rightarrow> 'm vm" where
  "main_view s = erase (interrupted (vm_stack s) s)"

definition in_main :: "'m vm \<Rightarrow> bool" where
  "in_main s \<longleftrightarrow> vm_stack s = [] \<and> \<not> vm_blocking s \<and> vm_pc s < target guest_nmi_handler"

text \<open>At the handler's instruction \<open>j\<close>, with the stack and RAX it has there.\<close>

definition handler_at :: "nat \<Rightarrow> 'm vm \<Rightarrow> bool" where
  "handler_at j s \<longleftrightarrow> vm_blocking s \<and> vm_pc s = target guest_nmi_handler + j \<and> j < 6 \<and>
     (\<exists>v pc cf zf. pc < target guest_nmi_handler \<and>
        vm_stack s = (if j \<in> {1, 2, 3} then [Quad v, Frame pc cf zf] else [Frame pc cf zf])) \<and>
     (j = 2 \<longrightarrow> reg_rax (vm_regs s) = ucast GUEST_NMI_MARKER)"

definition live :: "'m vm \<Rightarrow> bool" where
  "live s \<longleftrightarrow> r_stopped (vm_run s) = None \<and> \<not> vm_gp s \<and> vm_window s = nmi_pending (r_state (vm_run s)) \<and>
     (in_main s \<or> (\<exists>j. handler_at j s))"

lemma target_simps [simp]:
  "target guest_wait = 42" "target guest_wait_done = 47" "target guest_nmi_handler = 50" "target guest_emulation_failed = 56"
  by (simp_all add: block_defs)

declare target.simps [simp del]

lemma length_guest_program [simp]: "length guest_program = 58"
  by (simp add: guest_program_def block_defs)

lemma handler_code:
  "guest_program ! 50 = PushRax" "guest_program ! 51 = Mov EAX GUEST_NMI_MARKER" "guest_program ! 52 = VMCALL"
  "guest_program ! 53 = PopRax" "guest_program ! 54 = Mov EBX 1" "guest_program ! 55 = Iretq"
  by (simp_all add: guest_program_def block_defs)

lemmas vm_defs = next_pc_def put32_def get32_def

text \<open>The exits NMIs cause.\<close>

lemma decide_nmi:
  "decide st (exit_info code EXIT_REASON_EXCEPTION_OR_NMI INFO_NMI False 0 0 s) =
     (if vm_blocking s then (NmiDeferred, st\<lparr>nmi_pending := True\<rparr>) else (NmiInjected, injected st))"
  by (simp add: exit_info_def decide_def exception_or_nmi_def is_nmi_def is_valid_def vector_def const_defs)

lemma decide_window:
  "nmi_pending st \<Longrightarrow> \<not> vm_blocking s \<Longrightarrow> decide st (plain code EXIT_REASON_NMI_WINDOW s) = (NmiWindowInjected, injected st)"
  by (simp add: plain_def exit_info_def decide_def nmi_window_def const_defs)

lemma decide_handler_vmcall:
  "reg_rax (vm_regs s) = ucast GUEST_NMI_MARKER \<Longrightarrow>
   decide st (plain code EXIT_REASON_VMCALL s) = (GuestNmiHandler, st\<lparr>nmis_handled := nmis_handled st + 1\<rparr>)"
  by (simp add: plain_def exit_info_def decide_def vmcall_def const_defs)

lemma core_state_simps [simp]:
  "core_state (injected st) = core_state st" "core_state (st\<lparr>nmi_pending := b\<rparr>) = core_state st"
  "core_state (st\<lparr>nmis_handled := n\<rparr>) = core_state st" "core_state (core_state st) = core_state st"
  by (simp_all add: core_state_def injected_def)

text \<open>Outside the main code every step keeps the view, and the handler comes to its end.\<close>

lemma interrupted_update:
  "interrupted st (s\<lparr>vm_window := a, vm_gp := b, vm_run := r\<rparr>) = (interrupted st s)\<lparr>vm_window := a, vm_gp := b, vm_run := r\<rparr>"
  "vm_run (interrupted st s) = vm_run s" "vm_gp (interrupted st s) = vm_gp s" "vm_data (interrupted st s) = vm_data s"
  "vm_machine (interrupted st s) = vm_machine s"
  by (cases "(st, s)" rule: interrupted.cases; simp)+

lemma live_modes:
  assumes "live s"
  shows "vm_blocking s \<Longrightarrow> \<exists>j. handler_at j s" and "\<not> vm_blocking s \<Longrightarrow> in_main s"
  using assms by (auto simp: live_def in_main_def handler_at_def)

lemma nmi_step_blocked:
  assumes "live s" and "vm_blocking s"
  shows "guest_step hw code True s = s\<lparr>vm_window := True, vm_gp := False,
      vm_run := \<lparr>r_state = (r_state (vm_run s))\<lparr>nmi_pending := True\<rparr>, r_events = r_events (vm_run s) @ [NmiDeferred], r_stopped = None\<rparr>\<rparr>"
  using assms by (simp add: guest_step_def live_def handle_exit_def decide_nmi resume_guest_def plan_defs)

lemma nmi_blocked_live:
  assumes "live s" and "vm_blocking s"
  shows "live (guest_step hw code True s)" and "main_view (guest_step hw code True s) = main_view s"
proof -
  obtain j where j: "handler_at j s" using live_modes(1) [OF assms] by blast
  have "handler_at j (guest_step hw code True s)" using j by (simp add: nmi_step_blocked [OF assms] handler_at_def)
  then show "live (guest_step hw code True s)"
    using assms by (simp add: live_def) (auto simp: nmi_step_blocked [OF assms])
  show "main_view (guest_step hw code True s) = main_view s"
    using assms(1) by (simp add: nmi_step_blocked [OF assms] main_view_def erase_def interrupted_update live_def)
qed

text \<open>The state after an injection into the main code.\<close>

definition enter_handler :: "ExitEvent \<Rightarrow> 'm vm \<Rightarrow> 'm vm" where
  "enter_handler ev s = s\<lparr>vm_window := False, vm_gp := False, vm_blocking := True, vm_pc := 50,
      vm_stack := [Frame (vm_pc s) (vm_cf s) (vm_zf s)],
      vm_run := \<lparr>r_state = injected (r_state (vm_run s)), r_events = r_events (vm_run s) @ [ev], r_stopped = None\<rparr>\<rparr>"

lemma nmi_step_main: "live s \<Longrightarrow> in_main s \<Longrightarrow> guest_step hw code True s = enter_handler NmiInjected s"
  by (simp add: guest_step_def live_def handle_exit_def decide_nmi resume_guest_def plan_defs deliver_nmi_def in_main_def
      enter_handler_def)

lemma window_step_main:
  "live s \<Longrightarrow> in_main s \<Longrightarrow> vm_window s \<Longrightarrow> guest_step hw code False s = enter_handler NmiWindowInjected s"
  by (simp add: guest_step_def live_def handle_exit_def decide_window resume_guest_def plan_defs deliver_nmi_def in_main_def
      enter_handler_def)

lemma enter_handler_live:
  assumes "live s" and "in_main s"
  shows "live (enter_handler ev s)" and "main_view (enter_handler ev s) = main_view s"
proof -
  have "handler_at 0 (enter_handler ev s)" using assms(2) by (simp add: handler_at_def enter_handler_def in_main_def)
  then show "live (enter_handler ev s)" unfolding live_def by (auto simp: enter_handler_def injected_def)
  show "main_view (enter_handler ev s) = main_view s"
    using assms by (simp add: main_view_def erase_def enter_handler_def in_main_def live_def)
qed

lemma less_6_cases: "(j :: nat) < 6 \<Longrightarrow> j = 0 \<or> j = 1 \<or> j = 2 \<or> j = 3 \<or> j = 4 \<or> j = 5"
  by auto

lemma handler_step:
  assumes "live s" and "handler_at j s"
  shows "live (guest_step hw code False s)" and "main_view (guest_step hw code False s) = main_view s"
    and "vm_window (guest_step hw code False s) = vm_window s"
    and "if j < 5 then handler_at (j + 1) (guest_step hw code False s) else in_main (guest_step hw code False s)"
proof -
  obtain v pc cf zf where st: "pc < 50" "vm_stack s = (if j \<in> {1, 2, 3} then [Quad v, Frame pc cf zf] else [Frame pc cf zf])"
    using assms(2) by (auto simp: handler_at_def)
  have b: "vm_blocking s" "vm_pc s = 50 + j" "j < 6" "j = 2 \<Longrightarrow> reg_rax (vm_regs s) = ucast GUEST_NMI_MARKER"
    using assms(2) by (auto simp: handler_at_def)
  have l: "r_stopped (vm_run s) = None" "\<not> vm_gp s" "vm_window s = nmi_pending (r_state (vm_run s))"
    using assms(1) by (auto simp: live_def)
  have s': "guest_step hw code False s = exec hw code (guest_program ! (50 + j)) s"
    using b l by (simp add: guest_step_def)
  let ?r = "\<lambda>st. \<lparr>r_state = st, r_events = r_events (vm_run s) @ [GuestNmiHandler], r_stopped = None\<rparr>"
  have e: "guest_step hw code False s =
     (if j = 0 then s\<lparr>vm_pc := 51, vm_stack := [Quad (reg_rax (vm_regs s)), Frame pc cf zf]\<rparr>
      else if j = 1 then s\<lparr>vm_pc := 52, vm_regs := (vm_regs s)\<lparr>reg_rax := ucast GUEST_NMI_MARKER\<rparr>\<rparr>
      else if j = 2 then s\<lparr>vm_pc := 53, vm_gp := False, vm_run := ?r ((r_state (vm_run s))\<lparr>nmis_handled := nmis_handled (r_state (vm_run s)) + 1\<rparr>)\<rparr>
      else if j = 3 then s\<lparr>vm_pc := 54, vm_stack := [Frame pc cf zf], vm_regs := (vm_regs s)\<lparr>reg_rax := v\<rparr>\<rparr>
      else if j = 4 then s\<lparr>vm_pc := 55, vm_regs := (vm_regs s)\<lparr>reg_rbx := 1\<rparr>\<rparr>
      else s\<lparr>vm_pc := pc, vm_cf := cf, vm_zf := zf, vm_stack := [], vm_blocking := False\<rparr>)"
    using less_6_cases [OF b(3)]
  proof (elim disjE)
    assume "j = 2"
    then show ?thesis using b unfolding s'
      by (simp add: handler_code handle_exit_def decide_handler_vmcall resume_guest_def plan_defs vm_defs)
  qed (use st b in \<open>simp_all add: s' handler_code vm_defs\<close>)
  show h: "if j < 5 then handler_at (j + 1) (guest_step hw code False s) else in_main (guest_step hw code False s)"
    using less_6_cases [OF b(3)] st b by (elim disjE) (simp_all add: e handler_at_def in_main_def)
  show w: "vm_window (guest_step hw code False s) = vm_window s"
    using less_6_cases [OF b(3)] by (elim disjE) (simp_all add: e)
  show "main_view (guest_step hw code False s) = main_view s"
    using less_6_cases [OF b(3)] st b l by (elim disjE) (simp_all add: e main_view_def erase_def)
  have "r_stopped (vm_run (guest_step hw code False s)) = None" "\<not> vm_gp (guest_step hw code False s)"
    "nmi_pending (r_state (vm_run (guest_step hw code False s))) = nmi_pending (r_state (vm_run s))"
    using less_6_cases [OF b(3)] l by (elim disjE; simp add: e)+
  then show "live (guest_step hw code False s)" using h w l(3) unfolding live_def by (auto split: if_splits)
qed


section \<open>NMIs settle\<close>

lemma run_guest_add:
  "run_guest hw code nmis (n + k) s = run_guest hw code (\<lambda>t. nmis (n + t)) k (run_guest hw code nmis n s)"
  by (induction n arbitrary: nmis s) simp_all

lemma card_shift:
  assumes "finite {t. nmis t}"
  shows "finite {t. nmis (Suc t)}" and "card {t. nmis t} = card {t. nmis (Suc t)} + of_bool (nmis 0)"
proof -
  have s: "{t. nmis t} = Suc ` {t. nmis (Suc t)} \<union> (if nmis 0 then {0} else {})"
    by (auto simp: image_iff) (metis not0_implies_Suc)+
  then have "finite (Suc ` {t. nmis (Suc t)})" using assms by (metis finite_Un)
  then show f: "finite {t. nmis (Suc t)}" by (simp add: finite_image_iff)
  have "card {t. nmis t} = card (Suc ` {t. nmis (Suc t)}) + card (if nmis 0 then {0 :: nat} else {})"
    unfolding s using f by (intro card_Un_disjoint) auto
  then show "card {t. nmis t} = card {t. nmis (Suc t)} + of_bool (nmis 0)" by (simp add: card_image)
qed

lemma finite_shift: "finite {t. nmis t} \<Longrightarrow> finite {t. nmis (n + t)}" for nmis :: "nat \<Rightarrow> bool"
  by (induction n arbitrary: nmis) (auto dest: card_shift(1))

text \<open>Steps of the handler still to come, and a bound on all steps outside the main code.\<close>

definition handler_left :: "'m vm \<Rightarrow> nat" where
  "handler_left s = (if vm_blocking s then 56 - vm_pc s else 0)"

definition nmi_work :: "(nat \<Rightarrow> bool) \<Rightarrow> 'm vm \<Rightarrow> nat" where
  "nmi_work nmis s = 7 * (2 * card {t. nmis t} + of_bool (vm_window s)) + handler_left s"

definition settled :: "'m vm \<Rightarrow> bool" where
  "settled s \<longleftrightarrow> live s \<and> in_main s \<and> \<not> vm_window s"

lemma unsettled_step:
  assumes "live s" and "finite {t. nmis t}" and "\<not> (settled s \<and> \<not> nmis 0)"
  shows "live (guest_step hw code (nmis 0) s)" and "main_view (guest_step hw code (nmis 0) s) = main_view s"
    and "nmi_work (\<lambda>t. nmis (Suc t)) (guest_step hw code (nmis 0) s) < nmi_work nmis s"
proof -
  note c = card_shift(2) [OF assms(2)]
  consider (blocked) "nmis 0" "vm_blocking s" | (inject) "nmis 0" "in_main s" | (window) "\<not> nmis 0" "in_main s" "vm_window s"
    | (handler) j where "\<not> nmis 0" "handler_at j s"
    using assms live_modes [OF assms(1)] by (auto simp: settled_def)
  then have "live (guest_step hw code (nmis 0) s) \<and> main_view (guest_step hw code (nmis 0) s) = main_view s \<and>
    nmi_work (\<lambda>t. nmis (Suc t)) (guest_step hw code (nmis 0) s) < nmi_work nmis s"
  proof cases
    case blocked
    then show ?thesis using nmi_blocked_live [OF assms(1)] nmi_step_blocked [OF assms(1)] c
      by (simp add: nmi_work_def handler_left_def)
  next
    case inject
    then show ?thesis using enter_handler_live [OF assms(1)] nmi_step_main [OF assms(1)] c
      by (simp add: nmi_work_def) (simp add: handler_left_def enter_handler_def)
  next
    case window
    then show ?thesis using enter_handler_live [OF assms(1)] window_step_main [OF assms(1)] c
      by (simp add: nmi_work_def) (simp add: handler_left_def enter_handler_def)
  next
    case handler
    note h = handler_step [OF assms(1) handler(2), of hw code]
    have "handler_left (guest_step hw code False s) < handler_left s"
    proof (cases "j < 5")
      case True
      then show ?thesis using h(4) handler(2) by (auto simp: handler_at_def handler_left_def)
    next
      case False
      then show ?thesis using h(4) handler(2) by (auto simp: handler_at_def handler_left_def in_main_def)
    qed
    then show ?thesis using handler(1) h(1-3) c by (simp add: nmi_work_def)
  qed
  then show "live (guest_step hw code (nmis 0) s)" "main_view (guest_step hw code (nmis 0) s) = main_view s"
    "nmi_work (\<lambda>t. nmis (Suc t)) (guest_step hw code (nmis 0) s) < nmi_work nmis s" by simp_all
qed

lemma settle:
  assumes "live s" and "finite {t. nmis t}"
  shows "\<exists>n. settled (run_guest hw code nmis n s) \<and> main_view (run_guest hw code nmis n s) = main_view s \<and> \<not> nmis n"
  using assms
proof (induction "nmi_work nmis s" arbitrary: nmis s rule: less_induct)
  case less
  show ?case
  proof (cases "settled s \<and> \<not> nmis 0")
    case True
    then show ?thesis by (intro exI [of _ 0]) simp
  next
    case False
    note u = unsettled_step [OF less.prems False, of hw code]
    from less.hyps [OF u(3,1) card_shift(1) [OF less.prems(2)]] obtain n where
      "settled (run_guest hw code nmis (Suc n) s)" "main_view (run_guest hw code nmis (Suc n) s) = main_view s" "\<not> nmis (Suc n)"
      using u(2) by auto
    then show ?thesis by blast
  qed
qed

section \<open>The main code\<close>

text \<open>With finitely many NMIs to come, every state with the first property is followed by one with the second.\<close>

definition leads :: "'m platform \<Rightarrow> u64 \<Rightarrow> ('m vm \<Rightarrow> bool) \<Rightarrow> ('m vm \<Rightarrow> bool) \<Rightarrow> bool" where
  "leads hw code P Q \<longleftrightarrow> (\<forall>nmis s. finite {t. nmis t} \<longrightarrow> P s \<longrightarrow> (\<exists>n. Q (run_guest hw code nmis n s)))"

lemma leads_trans [trans]: "leads hw code P Q \<Longrightarrow> leads hw code Q R \<Longrightarrow> leads hw code P R"
  unfolding leads_def by (metis run_guest_add finite_shift)

definition at_view :: "'m vm \<Rightarrow> 'm vm \<Rightarrow> bool" where
  "at_view v s \<longleftrightarrow> live s \<and> main_view s = v"

lemma leads_settled:
  assumes "\<And>s. settled s \<Longrightarrow> main_view s = v \<Longrightarrow> Q (guest_step hw code False s)"
  shows "leads hw code (at_view v) Q"
  unfolding leads_def
proof (intro allI impI)
  fix nmis :: "nat \<Rightarrow> bool" and s :: "'a vm"
  assume f: "finite {t. nmis t}" and "at_view v s"
  then obtain n where n: "settled (run_guest hw code nmis n s)" "main_view (run_guest hw code nmis n s) = v" "\<not> nmis n"
    using settle [of s nmis hw code] by (auto simp: at_view_def)
  have "run_guest hw code nmis (n + 1) s = guest_step hw code False (run_guest hw code nmis n s)"
    unfolding run_guest_add by (simp add: n(3))
  then show "\<exists>n. Q (run_guest hw code nmis n s)" using assms [OF n(1,2)] by metis
qed

text \<open>The instructions of the main code that do not read EBX, and what they leave alone.\<close>

fun reads_ebx :: "instr \<Rightarrow> bool" where
  "reads_ebx (MovReg r q) \<longleftrightarrow> q = EBX"
| "reads_ebx (Cmp r v) \<longleftrightarrow> r = EBX"
| "reads_ebx (Bt r n) \<longleftrightarrow> r = EBX"
| "reads_ebx (Test r) \<longleftrightarrow> r = EBX"
| "reads_ebx (Inc r) \<longleftrightarrow> r = EBX"
| "reads_ebx (Dec r) \<longleftrightarrow> r = EBX"
| "reads_ebx _ \<longleftrightarrow> False"

definition main_instr :: "instr \<Rightarrow> bool" where
  "main_instr i \<longleftrightarrow> \<not> reads_ebx i \<and> i \<notin> {UD2, PushRax, PopRax, Iretq}"

definition nmi_part :: "'m vm \<Rightarrow> slot list \<times> bool \<times> bool \<times> bool" where
  "nmi_part s = (vm_stack s, vm_blocking s, vm_window s, nmi_pending (r_state (vm_run s)))"

text \<open>An exit for none of the NMI reasons is decided on the core of the state.\<close>

definition core_agrees :: "(ExitState \<Rightarrow> ExitEvent \<times> ExitState) \<Rightarrow> bool" where
  "core_agrees f \<longleftrightarrow> (\<forall>st. fst (f (core_state st)) = fst (f st) \<and> core_state (snd (f (core_state st))) = core_state (snd (f st)) \<and>
     nmi_pending (snd (f st)) = nmi_pending st \<and> fst (f st) \<notin> {NmiInjected, NmiWindowInjected, NmiDeferred})"

lemma core_agrees_handlers:
  "core_agrees (\<lambda>st. cpuid st x)" "core_agrees (\<lambda>st. ept_violation st x)" "core_agrees (\<lambda>st. (Unexpected, st))"
  "core_agrees (\<lambda>st. (InterruptedDelivery, st))"
  by (simp_all add: core_agrees_def cpuid_def ept_violation_def counted_def core_state_def Let_def)

lemma core_agrees_msr: "core_agrees (\<lambda>st. rdmsr_exit st x)" "core_agrees (\<lambda>st. wrmsr_exit st x)"
  by (simp_all add: core_agrees_def rdmsr_exit_def wrmsr_exit_def counted_def core_state_def Let_def split: MsrRoute.split)

lemma core_agrees_io: "core_agrees (\<lambda>st. io st x)"
  by (simp add: core_agrees_def io_def counted_def core_state_def Let_def split: option.split)

lemma core_agrees_vmcall: "core_agrees (\<lambda>st. vmcall st x)"
  by (simp add: core_agrees_def vmcall_def core_state_def Let_def expected_main_rax_def)

lemma core_agrees_if: "core_agrees f \<Longrightarrow> core_agrees g \<Longrightarrow> core_agrees (\<lambda>st. if c then f st else g st)"
  by (cases c) simp_all

lemma decide_core:
  assumes "er_basic (ei_reason x) \<notin> {EXIT_REASON_EXCEPTION_OR_NMI, EXIT_REASON_NMI_WINDOW}"
  shows "core_agrees (\<lambda>st. decide st x)"
proof -
  have d: "decide st x = (let basic = er_basic (ei_reason x)
      in if er_entry_failure (ei_reason x) then (Unexpected, st) else if ei_idt_vectoring_valid x then (InterruptedDelivery, st)
         else if basic = EXIT_REASON_CPUID then cpuid st x else if basic = EXIT_REASON_RDMSR then rdmsr_exit st x
         else if basic = EXIT_REASON_WRMSR then wrmsr_exit st x else if basic = EXIT_REASON_IO_INSTRUCTION then io st x
         else if basic = EXIT_REASON_EPT_VIOLATION then ept_violation st x else if basic = EXIT_REASON_VMCALL then vmcall st x
         else (Unexpected, st))" for st
    using assms by (simp add: decide_def Let_def)
  show ?thesis unfolding d Let_def
    by (intro core_agrees_if core_agrees_handlers core_agrees_msr core_agrees_io core_agrees_vmcall)
qed

lemma execute_ebx:
  "\<exists>outcome frame frame' m'. execute hw e f m = (Ok (outcome, frame), m') \<and>
     execute hw e (f\<lparr>reg_rbx := 0\<rparr>) m = (Ok (outcome, frame'), m') \<and> frame'\<lparr>reg_rbx := 0\<rparr> = frame\<lparr>reg_rbx := 0\<rparr>"
proof (cases e)
  case (In port sz)
  then show ?thesis by (cases sz) (simp_all add: execute_def and_then_run inb_def inw_def inl_def split_beta)
next
  case (Out port sz v)
  then show ?thesis by (cases sz) (simp_all add: execute_def and_then_run outb_def outw_def outl_def split_beta)
qed (simp_all add: execute_def and_then_run rdmsr_def wrmsr_def Let_def split_beta)

lemma handle_exit_erase:
  assumes x: "er_basic (ei_reason x) \<notin> {EXIT_REASON_EXCEPTION_OR_NMI, EXIT_REASON_NMI_WINDOW}"
  shows "erase (handle_exit hw x (erase s)) = erase (handle_exit hw x s)" and "nmi_part (handle_exit hw x s) = nmi_part s"
proof -
  obtain ev st where d: "decide (r_state (vm_run s)) x = (ev, st)" by fastforce
  obtain st' where d': "decide (core_state (r_state (vm_run s))) x = (ev, st')" "core_state st' = core_state st"
    and p: "nmi_pending st = nmi_pending (r_state (vm_run s))" and n: "ev \<notin> {NmiInjected, NmiWindowInjected, NmiDeferred}"
    using decide_core [OF x] d unfolding core_agrees_def by (metis fst_conv snd_conv prod.collapse)
  have "erase (handle_exit hw x (erase s)) = erase (handle_exit hw x s) \<and> nmi_part (handle_exit hw x s) = nmi_part s"
  proof (cases ev)
    case (Emulated e)
    obtain outcome frame frame' m' where ex: "execute hw e (vm_regs s) (vm_machine s) = (Ok (outcome, frame), m')"
      "execute hw e ((vm_regs s)\<lparr>reg_rbx := 0\<rparr>) (vm_machine s) = (Ok (outcome, frame'), m')" "frame'\<lparr>reg_rbx := 0\<rparr> = frame\<lparr>reg_rbx := 0\<rparr>"
      using execute_ebx [of hw e "vm_regs s" "vm_machine s"] by blast
    then show ?thesis using d d' p Emulated
      by (simp add: handle_exit_def erase_def resume_guest_def plan_defs emulate_for_def next_pc_def nmi_part_def)
  qed (use d d' p n in \<open>simp_all add: handle_exit_def erase_def resume_guest_def plan_defs next_pc_def nmi_part_def\<close>)
  then show "erase (handle_exit hw x (erase s)) = erase (handle_exit hw x s)" "nmi_part (handle_exit hw x s) = nmi_part s"
    by simp_all
qed

lemma exit_info_erase:
  "\<not> vm_blocking s \<Longrightarrow> exit_info code reason info vec q p (erase s) = exit_info code reason info vec q p s"
  "\<not> vm_blocking s \<Longrightarrow> plain code reason (erase s) = plain code reason s"
  by (simp_all add: plain_def exit_info_def erase_def)

lemma exit_reasons_plain:
  "er_basic (ei_reason (exit_info code reason info vec q p s)) = reason" "er_basic (ei_reason (plain code reason s)) = reason"
  by (simp_all add: plain_def exit_info_def)

lemma emulate_for_erase:
  "erase (next_pc (emulate_for hw e (erase s))) = erase (next_pc (emulate_for hw e s))"
  "nmi_part (next_pc (emulate_for hw e s)) = nmi_part s"
proof -
  obtain outcome frame frame' m' where ex: "execute hw e (vm_regs s) (vm_machine s) = (Ok (outcome, frame), m')"
    "execute hw e ((vm_regs s)\<lparr>reg_rbx := 0\<rparr>) (vm_machine s) = (Ok (outcome, frame'), m')" "frame'\<lparr>reg_rbx := 0\<rparr> = frame\<lparr>reg_rbx := 0\<rparr>"
    using execute_ebx [of hw e "vm_regs s" "vm_machine s"] by blast
  then show "erase (next_pc (emulate_for hw e (erase s))) = erase (next_pc (emulate_for hw e s))"
    "nmi_part (next_pc (emulate_for hw e s)) = nmi_part s"
    by (simp_all add: erase_def emulate_for_def next_pc_def nmi_part_def)
qed

lemma erase_simps [simp]:
  "reg_rax (vm_regs (erase s)) = reg_rax (vm_regs s)" "reg_rcx (vm_regs (erase s)) = reg_rcx (vm_regs s)"
  "reg_rdx (vm_regs (erase s)) = reg_rdx (vm_regs s)" "reg_rdi (vm_regs (erase s)) = reg_rdi (vm_regs s)"
  "vm_cf (erase s) = vm_cf s" "vm_zf (erase s) = vm_zf s" "vm_data (erase s) = vm_data s" "vm_writable (erase s) = vm_writable s"
  "vm_pc (erase s) = vm_pc s" "vm_gp (erase s) = vm_gp s" "r_stopped (vm_run (erase s)) = r_stopped (vm_run s)"
  by (simp_all add: erase_def)

lemma erase_machine: "vm_machine (erase s) = vm_machine s"
  by (simp add: erase_def)

lemma exec_main_simple:
  assumes "main_instr i" and "i \<notin> {CPUID, RDMSR, WRMSR, InAl, OutAl, VMCALL}" and "i \<notin> range Store"
  shows "erase (exec hw code i (erase s)) = erase (exec hw code i s) \<and> nmi_part (exec hw code i s) = nmi_part s"
proof -
  have put: "put_reg r v (f\<lparr>reg_rbx := 0\<rparr>)\<lparr>reg_rbx := 0\<rparr> = put_reg r v f\<lparr>reg_rbx := 0\<rparr>" for r v f by (cases r) simp_all
  have get: "r \<noteq> EBX \<Longrightarrow> get_reg r (f\<lparr>reg_rbx := 0\<rparr>) = get_reg r f" for r f by (cases r) simp_all
  from assms show ?thesis
    by (cases i) (simp_all add: main_instr_def erase_def vm_defs nmi_part_def put get Let_def)
qed

lemma exec_main:
  assumes "main_instr i" and "\<not> vm_blocking s"
  shows "erase (exec hw code i (erase s)) = erase (exec hw code i s) \<and> nmi_part (exec hw code i s) = nmi_part s"
proof -
  note handled = handle_exit_erase exit_info_erase [OF assms(2)] exit_reasons_plain emulate_for_erase
  consider "i \<in> {CPUID, RDMSR, WRMSR, InAl, OutAl, VMCALL}" | v where "i = Store v"
    | "i \<notin> {CPUID, RDMSR, WRMSR, InAl, OutAl, VMCALL}" "i \<notin> range Store" by blast
  then show ?thesis
  proof cases
    case 1
    then show ?thesis by (elim insertE) (simp_all add: handled const_defs Let_def)
  next
    case (2 v)
    then show ?thesis by (simp add: handled const_defs Let_def) (simp add: erase_def next_pc_def nmi_part_def)
  next
    case 3
    then show ?thesis by (rule exec_main_simple [OF assms(1)])
  qed
qed

text \<open>One instruction of the main code, on the view; \<open>ready\<close> says it is one the main code has.\<close>

definition main_exec :: "'m platform \<Rightarrow> u64 \<Rightarrow> 'm vm \<Rightarrow> 'm vm" where
  "main_exec hw code v = erase (exec hw code (guest_program ! vm_pc v) v)"

definition ready :: "'m vm \<Rightarrow> bool" where
  "ready v \<longleftrightarrow> r_stopped (vm_run v) = None \<and> \<not> vm_gp v \<and> vm_pc v < 50"

lemma settled_step:
  assumes "settled s" and "main_instr (guest_program ! vm_pc s)"
  shows "erase (guest_step hw code False s) = main_exec hw code (main_view s)"
    and "nmi_part (guest_step hw code False s) = nmi_part s"
proof -
  have s: "guest_step hw code False s = exec hw code (guest_program ! vm_pc s) s" "\<not> vm_blocking s" "main_view s = erase s"
    using assms(1) by (auto simp: guest_step_def settled_def live_def in_main_def main_view_def)
  show "erase (guest_step hw code False s) = main_exec hw code (main_view s)" "nmi_part (guest_step hw code False s) = nmi_part s"
    using exec_main [OF assms(2) s(2), of hw code] by (simp_all add: s main_exec_def)
qed

lemma settled_live:
  assumes "settled s" and "nmi_part s' = nmi_part s" and "ready (erase s')"
  shows "live s'" and "main_view s' = erase s'"
  using assms by (auto simp: settled_def live_def in_main_def nmi_part_def ready_def main_view_def)

lemma settled_view:
  assumes "settled s"
  shows "vm_pc (main_view s) = vm_pc s" and "main_view s = erase s"
  using assms by (simp_all add: settled_def in_main_def main_view_def)

lemma leads_main:
  assumes "main_instr (guest_program ! vm_pc v)" and "ready (main_exec hw code v)"
  shows "leads hw code (at_view v) (at_view (main_exec hw code v))"
proof (rule leads_settled)
  fix s :: "'a vm"
  assume s: "settled s" "main_view s = v"
  note st = settled_step [OF s(1), of hw code] settled_view [OF s(1)]
  have i: "main_instr (guest_program ! vm_pc s)" using assms(1) s(2) st(3) by simp
  show "at_view (main_exec hw code v) (guest_step hw code False s)"
    using settled_live [OF s(1) st(2) [OF i]] st(1) [OF i] assms(2) s(2) by (simp add: at_view_def)
qed

text \<open>A stretch of such instructions.\<close>

primrec main_run :: "'m platform \<Rightarrow> u64 \<Rightarrow> nat \<Rightarrow> 'm vm \<Rightarrow> 'm vm option" where
  "main_run hw code 0 v = Some v"
| "main_run hw code (Suc n) v =
     (if main_instr (guest_program ! vm_pc v) \<and> ready (main_exec hw code v) then main_run hw code n (main_exec hw code v) else None)"

lemma leads_refl: "leads hw code P P"
  unfolding leads_def by (metis run_guest.simps(1))

lemma leads_main_run: "main_run hw code n v = Some v' \<Longrightarrow> leads hw code (at_view v) (at_view v')"
  by (induction n arbitrary: v) (auto intro: leads_refl leads_main leads_trans split: if_splits)

section \<open>The guest's checks pass\<close>

text \<open>What the guest relies on of the machine: an MSR and a port that keep what is written to them.\<close>

locale passthrough_devices =
  fixes hw :: "'m platform" and kernel_gs :: "'m \<Rightarrow> u64" and scratch :: "'m \<Rightarrow> u8"
  assumes rdmsr_gs: "i_rdmsr hw IA32_KERNEL_GS_BASE m = (ucast (kernel_gs m), ucast (drop_bit 32 (kernel_gs m)), m)"
    and wrmsr_gs: "kernel_gs (i_wrmsr hw IA32_KERNEL_GS_BASE lo hi m) = push_bit 32 (ucast hi) OR ucast lo"
      "scratch (i_wrmsr hw IA32_KERNEL_GS_BASE lo hi m) = scratch m"
    and in_scratch: "i_in8 hw GUEST_SCRATCH_PORT m = (scratch m, m)"
    and out_scratch: "scratch (i_out8 hw GUEST_SCRATCH_PORT v m) = v" "kernel_gs (i_out8 hw GUEST_SCRATCH_PORT v m) = kernel_gs m"

text \<open>
  The views of the main code: the registers it uses, its flags, and what it shares (memory, writability, the machine,
  the main VMCALLs, the granted write, the emulated instructions).
\<close>

type_synonym 'm shared = "(u64 \<Rightarrow> u32) \<times> bool \<times> 'm \<times> u32 \<times> u32 \<times> EmulationCounts"

definition mstate ::
  "RegisterFrame \<Rightarrow> nat \<Rightarrow> u64 \<Rightarrow> u64 \<Rightarrow> u64 \<Rightarrow> u64 \<Rightarrow> u64 \<Rightarrow> bool \<Rightarrow> bool \<Rightarrow> 'm shared \<Rightarrow> 'm vm" where
  "mstate f pc rax rcx rdx rsi rdi cf zf e = (case e of (d, w, m, n, g, c) \<Rightarrow>
     \<lparr>vm_regs = f\<lparr>reg_rax := rax, reg_rbx := 0, reg_rcx := rcx, reg_rdx := rdx, reg_rsi := rsi, reg_rdi := rdi\<rparr>, vm_cf = cf, vm_zf = zf,
      vm_pc = pc, vm_stack = [], vm_data = d, vm_blocking = False, vm_window = False, vm_writable = w, vm_gp = False, vm_machine = m,
      vm_run = \<lparr>r_state = \<lparr>main_vmcalls = n, nmi_pending = False, nmis_injected = 0, nmis_handled = 0,
        ept_writes_granted = g, emulated = c\<rparr>, r_events = [], r_stopped = None\<rparr>\<rparr>)"

lemma mstate_simps [simp]:
  "vm_pc (mstate f pc rax rcx rdx rsi rdi cf zf e) = pc" "ready (mstate f pc rax rcx rdx rsi rdi cf zf e) \<longleftrightarrow> pc < 50"
  "erase (mstate f pc rax rcx rdx rsi rdi cf zf e) = mstate f pc rax rcx rdx rsi rdi cf zf e"
  by (cases e; simp add: mstate_def ready_def erase_def core_state_def)+

text \<open>The instructions on such a view.\<close>

lemma exec_mstate:
  "exec hw code (Mov EAX v) (mstate f pc rax rcx rdx rsi rdi cf zf e)
     = mstate f (pc + 1) (ucast v) rcx rdx rsi rdi cf zf e"
  "exec hw code (Mov ECX v) (mstate f pc rax rcx rdx rsi rdi cf zf e)
     = mstate f (pc + 1) rax (ucast v) rdx rsi rdi cf zf e"
  "exec hw code (Mov EDX v) (mstate f pc rax rcx rdx rsi rdi cf zf e)
     = mstate f (pc + 1) rax rcx (ucast v) rsi rdi cf zf e"
  "exec hw code (Xor EAX) (mstate f pc rax rcx rdx rsi rdi cf zf e)
     = mstate f (pc + 1) 0 rcx rdx rsi rdi False True e"
  "exec hw code (Xor EBX) (mstate f pc rax rcx rdx rsi rdi cf zf e)
     = mstate f (pc + 1) rax rcx rdx rsi rdi False True e"
  "exec hw code (Xor ECX) (mstate f pc rax rcx rdx rsi rdi cf zf e)
     = mstate f (pc + 1) rax 0 rdx rsi rdi False True e"
  "exec hw code (Xor EDX) (mstate f pc rax rcx rdx rsi rdi cf zf e)
     = mstate f (pc + 1) rax rcx 0 rsi rdi False True e"
  "exec hw code (MovReg ESI EAX) (mstate f pc rax rcx rdx rsi rdi cf zf e)
     = mstate f (pc + 1) rax rcx rdx (ucast (ucast rax :: u32)) rdi cf zf e"
  "exec hw code (MovReg EDI EDX) (mstate f pc rax rcx rdx rsi rdi cf zf e)
     = mstate f (pc + 1) rax rcx rdx rsi (ucast (ucast rdx :: u32)) cf zf e"
  "exec hw code (MovReg EAX ESI) (mstate f pc rax rcx rdx rsi rdi cf zf e)
     = mstate f (pc + 1) (ucast (ucast rsi :: u32)) rcx rdx rsi rdi cf zf e"
  "exec hw code (MovReg EDX EDI) (mstate f pc rax rcx rdx rsi rdi cf zf e)
     = mstate f (pc + 1) rax rcx (ucast (ucast rdi :: u32)) rsi rdi cf zf e"
  "exec hw code (Bt ECX k) (mstate f pc rax rcx rdx rsi rdi cf zf e)
     = mstate f (pc + 1) rax rcx rdx rsi rdi (bit (ucast rcx :: u32) k) zf e"
  "exec hw code (Cmp EAX v) (mstate f pc rax rcx rdx rsi rdi cf zf e)
     = mstate f (pc + 1) rax rcx rdx rsi rdi (ucast rax < v) (ucast rax = v) e"
  "exec hw code (Cmp EDX v) (mstate f pc rax rcx rdx rsi rdi cf zf e)
     = mstate f (pc + 1) rax rcx rdx rsi rdi (ucast rdx < v) (ucast rdx = v) e"
  "exec hw code (Jc l) (mstate f pc rax rcx rdx rsi rdi cf zf e)
     = mstate f (if cf then target l else pc + 1) rax rcx rdx rsi rdi cf zf e"
  "exec hw code (Jne l) (mstate f pc rax rcx rdx rsi rdi cf zf e)
     = mstate f (if zf then pc + 1 else target l) rax rcx rdx rsi rdi cf zf e"
  "exec hw code (MovDx p) (mstate f pc rax rcx rdx rsi rdi cf zf e)
     = mstate f (pc + 1) rax rcx ((rdx AND NOT 0xFFFF) OR ucast p) rsi rdi cf zf e"
  "exec hw code (MovAl b) (mstate f pc rax rcx rdx rsi rdi cf zf e)
     = mstate f (pc + 1) ((rax AND NOT 0xFF) OR ucast b) rcx rdx rsi rdi cf zf e"
  "exec hw code (CmpAl b) (mstate f pc rax rcx rdx rsi rdi cf zf e)
     = mstate f (pc + 1) rax rcx rdx rsi rdi (ucast rax < b) (ucast rax = b) e"
  "exec hw code (MovSilAl) (mstate f pc rax rcx rdx rsi rdi cf zf e)
     = mstate f (pc + 1) rax rcx rdx ((rsi AND NOT 0xFF) OR (rax AND 0xFF)) rdi cf zf e"
  "exec hw code (MovAlSil) (mstate f pc rax rcx rdx rsi rdi cf zf e)
     = mstate f (pc + 1) ((rax AND NOT 0xFF) OR (rsi AND 0xFF)) rcx rdx rsi rdi cf zf e"
  "exec hw code (LeaRdiCode) (mstate f pc rax rcx rdx rsi rdi cf zf e)
     = mstate f (pc + 1) rax rcx rdx rsi code cf zf e"
  "exec hw code (AddRdi q) (mstate f pc rax rcx rdx rsi rdi cf zf e)
     = mstate f (pc + 1) rax rcx rdx rsi (rdi + q) (rdi + q < q) (rdi + q = 0) e"
  "exec hw code (PAUSE) (mstate f pc rax rcx rdx rsi rdi cf zf e)
     = mstate f (pc + 1) rax rcx rdx rsi rdi cf zf e"
  "exec hw code (Inc EAX) (mstate f pc rax rcx rdx rsi rdi cf zf e)
     = mstate f (pc + 1) (ucast (ucast rax + 1 :: u32)) rcx rdx rsi rdi cf (ucast rax + 1 = (0 :: u32)) e"
  "exec hw code (Dec ECX) (mstate f pc rax rcx rdx rsi rdi cf zf e)
     = mstate f (pc + 1) rax (ucast (ucast rcx - 1 :: u32)) rdx rsi rdi cf (ucast rcx - 1 = (0 :: u32)) e"
  by (cases e; simp add: mstate_def vm_defs Let_def)+

lemma exec_load:
  "exec hw code (Load ECX) (mstate f pc rax rcx rdx rsi rdi cf zf (d, w, m, n, g, c))
     = mstate f (pc + 1) rax (ucast (d rdi)) rdx rsi rdi cf zf (d, w, m, n, g, c)"
  "exec hw code (Load EDX) (mstate f pc rax rcx rdx rsi rdi cf zf (d, w, m, n, g, c))
     = mstate f (pc + 1) rax rcx (ucast (d rdi)) rsi rdi cf zf (d, w, m, n, g, c)"
  by (simp_all add: mstate_def vm_defs)

lemma main_code:
  "guest_program ! 0 = Mov EAX 1" "guest_program ! 1 = Xor ECX" "guest_program ! 2 = CPUID" "guest_program ! 3 = Bt ECX 5"
  "guest_program ! 4 = Jc guest_emulation_failed" "guest_program ! 5 = Mov ECX IA32_KERNEL_GS_BASE" "guest_program ! 6 = RDMSR"
  "guest_program ! 7 = MovReg ESI EAX" "guest_program ! 8 = MovReg EDI EDX" "guest_program ! 9 = Mov EAX (ucast GUEST_MSR_VALUE)"
  "guest_program ! 10 = Mov EDX (ucast (drop_bit 32 GUEST_MSR_VALUE))" "guest_program ! 11 = WRMSR" "guest_program ! 12 = Xor EAX"
  "guest_program ! 13 = Xor EDX" "guest_program ! 14 = RDMSR" "guest_program ! 15 = Cmp EAX (ucast GUEST_MSR_VALUE)"
  "guest_program ! 16 = Jne guest_emulation_failed" "guest_program ! 17 = Cmp EDX (ucast (drop_bit 32 GUEST_MSR_VALUE))"
  "guest_program ! 18 = Jne guest_emulation_failed" "guest_program ! 19 = MovReg EAX ESI" "guest_program ! 20 = MovReg EDX EDI"
  "guest_program ! 21 = WRMSR" "guest_program ! 22 = MovDx GUEST_SCRATCH_PORT" "guest_program ! 23 = InAl" "guest_program ! 24 = MovSilAl"
  "guest_program ! 25 = MovAl GUEST_IO_VALUE" "guest_program ! 26 = OutAl" "guest_program ! 27 = Xor EAX" "guest_program ! 28 = InAl"
  "guest_program ! 29 = CmpAl GUEST_IO_VALUE" "guest_program ! 30 = Jne guest_emulation_failed" "guest_program ! 31 = MovAlSil"
  "guest_program ! 32 = OutAl" "guest_program ! 33 = Xor EBX" "guest_program ! 34 = LeaRdiCode" "guest_program ! 35 = AddRdi 0x1000"
  "guest_program ! 36 = Load ECX" "guest_program ! 37 = Store GUEST_EPT_VALUE" "guest_program ! 38 = Load EDX"
  "guest_program ! 39 = Mov EAX GUEST_MARKER" "guest_program ! 40 = VMCALL" "guest_program ! 41 = Mov ECX GUEST_WAIT_ITERATIONS"
  "guest_program ! 42 = Test EBX" "guest_program ! 43 = Jne guest_wait_done" "guest_program ! 44 = PAUSE" "guest_program ! 45 = Dec ECX"
  "guest_program ! 46 = Jne guest_wait" "guest_program ! 47 = Inc EAX" "guest_program ! 48 = VMCALL"
  by (simp_all add: guest_program_def block_defs)

lemma main_run_numeral:
  "main_run hw code (numeral k) v =
     (if main_instr (guest_program ! vm_pc v) \<and> ready (main_exec hw code v) then main_run hw code (pred_numeral k) (main_exec hw code v) else None)"
  by (simp add: numeral_eq_Suc)

lemma main_run_one:
  "main_run hw code 1 v = (if main_instr (guest_program ! vm_pc v) \<and> ready (main_exec hw code v) then Some (main_exec hw code v) else None)"
  by simp

section \<open>Exits of the main code\<close>

lemma exit_mstate:
  "\<lbrakk>ucast rax = (1 :: u32); guest = cpuid_policy 1 (i_cpuid hw 1 (ucast rcx) m)\<rbrakk> \<Longrightarrow>
     erase (exec hw code CPUID (mstate f pc rax rcx rdx rsi rdi cf zf (d, w, m, n, g, c)))
     = mstate f (pc + 1) (ucast (eax guest)) (ucast (ecx guest)) (ucast (edx guest)) rsi rdi cf zf
         (d, w, m, n, g, c\<lparr>n_cpuid := n_cpuid c + 1\<rparr>)"
  by (simp add: mstate_def plain_def exit_info_def handle_exit_def decide_def cpuid_def counted_def resume_guest_def plan_defs
      emulate_for_def execute_def and_then_run Let_def next_pc_def erase_def core_state_def const_defs)

lemma route_kernel_gs: "route IA32_KERNEL_GS_BASE = Intercepted"
  by (simp add: route_def msr_bit_def INTERCEPTED_MSRS_def const_defs)

lemma scratch_qualification:
  "io_size (io_qualification GUEST_SCRATCH_PORT b) = Some Byte" "io_port (io_qualification GUEST_SCRATCH_PORT b) = GUEST_SCRATCH_PORT"
  "is_in (io_qualification GUEST_SCRATCH_PORT b) = b" "\<not> is_string (io_qualification GUEST_SCRATCH_PORT b)"
  "\<not> is_rep (io_qualification GUEST_SCRATCH_PORT b)"
  by (cases b; simp add: io_qualification_def io_size_def io_port_def is_in_def is_string_def is_rep_def const_defs)+

lemma scratch_intercepted: "GUEST_SCRATCH_PORT \<in> set INTERCEPTED_PORTS"
  by (simp add: INTERCEPTED_PORTS_def)

lemma reasons_differ:
  "EXIT_REASON_RDMSR \<noteq> EXIT_REASON_CPUID" "EXIT_REASON_WRMSR \<noteq> EXIT_REASON_CPUID" "EXIT_REASON_WRMSR \<noteq> EXIT_REASON_RDMSR"
  by (simp_all add: const_defs)

lemmas exit_simps = mstate_def plain_def exit_info_def handle_exit_def counted_def resume_guest_def plan_defs
  emulate_for_def execute_def and_then_run next_pc_def erase_def core_state_def

lemma decide_reasons:
  assumes "er_basic (ei_reason x) = reason" and "\<not> er_entry_failure (ei_reason x)" and "\<not> ei_idt_vectoring_valid x"
  shows "reason = EXIT_REASON_RDMSR \<Longrightarrow> decide st x = rdmsr_exit st x" "reason = EXIT_REASON_WRMSR \<Longrightarrow> decide st x = wrmsr_exit st x"
    "reason = EXIT_REASON_IO_INSTRUCTION \<Longrightarrow> decide st x = io st x" "reason = EXIT_REASON_VMCALL \<Longrightarrow> decide st x = vmcall st x"
    "reason = EXIT_REASON_EPT_VIOLATION \<Longrightarrow> decide st x = ept_violation st x"
  using assms by (simp_all add: decide_def const_defs)

context passthrough_devices
begin

lemma exec_rdmsr:
  assumes "ucast rcx = IA32_KERNEL_GS_BASE"
  shows "erase (exec hw code RDMSR (mstate f pc rax rcx rdx rsi rdi cf zf (d, w, m, n, g, c)))
     = mstate f (pc + 1) (kernel_gs m AND 0xFFFFFFFF) rcx (drop_bit 32 (kernel_gs m)) rsi rdi cf zf
         (d, w, m, n, g, c\<lparr>n_rdmsr := n_rdmsr c + 1\<rparr>)"
proof -
  have r: "rdmsr hw IA32_KERNEL_GS_BASE m = (Ok (kernel_gs m), m)" by (simp add: rdmsr_def rdmsr_gs msr_halves)
  show ?thesis using assms
    by (simp add: exit_simps decide_reasons rdmsr_exit_def route_kernel_gs r Let_def)
qed

lemma exec_wrmsr:
  assumes "ucast rcx = IA32_KERNEL_GS_BASE" and "v = push_bit 32 rdx OR (rax AND 0xFFFFFFFF)" and "is_canonical_48 v" and "pc' = pc + 1"
  shows "\<exists>m'. erase (exec hw code WRMSR (mstate f pc rax rcx rdx rsi rdi cf zf (d, w, m, n, g, c)))
     = mstate f pc' rax rcx rdx rsi rdi cf zf (d, w, m', n, g, c\<lparr>n_wrmsr := n_wrmsr c + 1\<rparr>) \<and>
     kernel_gs m' = v \<and> scratch m' = scratch m"
proof -
  let ?m = "i_wrmsr hw IA32_KERNEL_GS_BASE (ucast v) (ucast (drop_bit 32 v)) m"
  have "kernel_gs ?m = v" "scratch ?m = scratch m" by (simp_all add: wrmsr_gs msr_halves)
  then show ?thesis using assms(1,3)
    by (intro exI [of _ ?m])
      (simp add: exit_simps decide_reasons wrmsr_exit_def wrmsr_def route_kernel_gs Let_def assms(2) [symmetric] assms(4))
qed

lemma exec_in:
  assumes "ucast rdx = GUEST_SCRATCH_PORT"
  shows "erase (exec hw code InAl (mstate f pc rax rcx rdx rsi rdi cf zf (d, w, m, n, g, c)))
     = mstate f (pc + 1) ((rax AND NOT 0xFF) OR ucast (scratch m)) rcx rdx rsi rdi cf zf
         (d, w, m, n, g, c\<lparr>n_io_in := n_io_in c + 1\<rparr>)"
proof -
  have r: "inb hw GUEST_SCRATCH_PORT m = (Ok (scratch m), m)" by (simp add: inb_def in_scratch)
  have b: "(0xFF :: u64) = mask 8" by (simp add: mask_eq_exp_minus_1)
  have "ucast (ucast b :: u32) AND 0xFF = (ucast b :: u64)" for b :: u8
    unfolding b by (rule bit_word_eqI) (auto simp: bit_simps dest: bit_imp_le_length)
  then show ?thesis using assms
    by (simp add: exit_simps decide_reasons io_def scratch_qualification scratch_intercepted r Let_def merge_in_def)
qed

lemma exec_out:
  assumes "ucast rdx = GUEST_SCRATCH_PORT" and "pc' = pc + 1"
  shows "\<exists>m'. erase (exec hw code OutAl (mstate f pc rax rcx rdx rsi rdi cf zf (d, w, m, n, g, c)))
     = mstate f pc' rax rcx rdx rsi rdi cf zf (d, w, m', n, g, c\<lparr>n_io_out := n_io_out c + 1\<rparr>) \<and>
     kernel_gs m' = kernel_gs m \<and> scratch m' = ucast rax"
proof -
  have b: "(0xFF :: u64) = mask 8" by (simp add: mask_eq_exp_minus_1)
  have o: "ucast (out_value rax Byte) = (ucast rax :: u8)" unfolding out_value_def size_mask.simps b
    by (rule bit_word_eqI) (auto simp: bit_simps)
  have r: "outb hw GUEST_SCRATCH_PORT b m = (Ok (), i_out8 hw GUEST_SCRATCH_PORT b m)" for b by (simp add: outb_def)
  show ?thesis using assms
    by (simp add: exit_simps decide_reasons io_def scratch_qualification scratch_intercepted r Let_def o out_scratch)
qed


end

declare exec.simps [simp del]

lemma low_half: "ucast (ucast (v AND 0xFFFFFFFF :: u64) :: u32) = v AND 0xFFFFFFFF"
  and high_half: "ucast (ucast (drop_bit 32 v :: u64) :: u32) = drop_bit 32 v"
proof -
  have m: "(0xFFFFFFFF :: u64) = mask 32" by (simp add: mask_eq_exp_minus_1)
  show "ucast (ucast (v AND 0xFFFFFFFF :: u64) :: u32) = v AND 0xFFFFFFFF"
    unfolding m by (rule bit_word_eqI) (auto simp: bit_simps)
  show "ucast (ucast (drop_bit 32 v :: u64) :: u32) = drop_bit 32 v"
    by (rule bit_word_eqI) (auto simp: bit_simps dest: bit_imp_le_length)
qed

lemma guest_msr_words:
  "(ucast GUEST_MSR_VALUE :: u32) = 0" "(ucast (drop_bit 32 GUEST_MSR_VALUE) :: u32) = 0x7A1E" "(ucast (0x7A1E :: u32) :: u64) = 0x7A1E"
  "(ucast (GUEST_MSR_VALUE AND 0xFFFFFFFF) :: u32) = 0"
  by (simp_all add: GUEST_MSR_VALUE_def)

lemma msr_value_halves: "push_bit 32 (drop_bit 32 v) OR (v AND 0xFFFFFFFF) = (v :: u64)"
proof -
  have m: "(0xFFFFFFFF :: u64) = mask 32" by (simp add: mask_eq_exp_minus_1)
  show ?thesis unfolding m by (rule bit_word_eqI) (auto simp: bit_simps)
qed

lemma low_byte: "ucast (((a :: u64) AND NOT 0xFF) OR ucast b) = (b :: u8)"
  and low_byte_kept: "(((a :: u64) AND NOT 0xFF) OR ((x AND NOT 0xFF OR ucast b) AND 0xFF)) AND 0xFF = ucast b"
  and low_word: "ucast (((a :: u64) AND NOT 0xFFFF) OR ucast p) = (p :: u16)"
proof -
  have m: "(0xFF :: u64) = mask 8" "(0xFFFF :: u64) = mask 16" by (simp_all add: mask_eq_exp_minus_1)
  show "ucast (((a :: u64) AND NOT 0xFF) OR ucast b) = (b :: u8)" "ucast (((a :: u64) AND NOT 0xFFFF) OR ucast p) = (p :: u16)"
    "(((a :: u64) AND NOT 0xFF) OR ((x AND NOT 0xFF OR ucast b) AND 0xFF)) AND 0xFF = ucast b"
    unfolding m by (rule bit_word_eqI, auto simp: bit_simps dest: bit_imp_le_length)+
qed

lemmas run_simps = ucast_u32_back main_run_numeral main_run_one main_exec_def main_instr_def main_code exec_mstate exec_load exit_mstate

context passthrough_devices
begin

text \<open>CPUID without VMX.\<close>

lemma cpuid_check:
  "\<exists>rax' rcx' rdx'. leads hw code (at_view (mstate f 0 rax rcx rdx rsi rdi cf zf (d, w, m, n, g, c)))
     (at_view (mstate f 5 rax' rcx' rdx' rsi rdi False True (d, w, m, n, g, c\<lparr>n_cpuid := n_cpuid c + 1\<rparr>)))"
proof -
  let ?guest = "cpuid_policy 1 (i_cpuid hw 1 0 m)"
  have "\<not> bit (ecx ?guest) 5" by (simp add: cpuid_policy_def CPUID_1_ECX_VMX_def bit_simps)
  moreover have "ucast (ucast (ecx ?guest) :: u64) = ecx ?guest" by (rule bit_word_eqI) (simp add: bit_simps)
  ultimately have "main_run hw code 5 (mstate f 0 rax rcx rdx rsi rdi cf zf (d, w, m, n, g, c))
      = Some (mstate f 5 (ucast (eax ?guest)) (ucast (ecx ?guest)) (ucast (edx ?guest)) rsi rdi False True
          (d, w, m, n, g, c\<lparr>n_cpuid := n_cpuid c + 1\<rparr>))"
    by (simp add: run_simps del: One_nat_def)
  from leads_main_run [OF this] show ?thesis by blast
qed


text \<open>The MSR: written, read back, compared and restored.\<close>

lemma leads_step:
  assumes "main_instr (guest_program ! pc)" and "erase (exec hw code (guest_program ! pc) (mstate f pc rax rcx rdx rsi rdi cf zf e)) = v" and "ready v"
  shows "leads hw code (at_view (mstate f pc rax rcx rdx rsi rdi cf zf e)) (at_view v)"
  using leads_main [of "mstate f pc rax rcx rdx rsi rdi cf zf e" hw code] assms by (simp add: main_exec_def)

lemma msr_written:
  "\<exists>rax' rdx' m'. leads hw code (at_view (mstate f 5 rax rcx rdx rsi rdi cf zf (d, w, m, n, g, c)))
     (at_view (mstate f 12 rax' (ucast IA32_KERNEL_GS_BASE) rdx' (kernel_gs m AND 0xFFFFFFFF) (drop_bit 32 (kernel_gs m)) cf zf
        (d, w, m', n, g, c\<lparr>n_rdmsr := n_rdmsr c + 1, n_wrmsr := n_wrmsr c + 1\<rparr>))) \<and>
     kernel_gs m' = GUEST_MSR_VALUE \<and> scratch m' = scratch m"
proof -
  have 1: "leads hw code (at_view (mstate f 5 rax rcx rdx rsi rdi cf zf (d, w, m, n, g, c)))
      (at_view (mstate f 11 0 (ucast IA32_KERNEL_GS_BASE) 0x7A1E (kernel_gs m AND 0xFFFFFFFF) (drop_bit 32 (kernel_gs m)) cf zf
        (d, w, m, n, g, c\<lparr>n_rdmsr := n_rdmsr c + 1\<rparr>)))"
    by (rule leads_main_run [where n = 6])
      (simp add: run_simps exec_rdmsr low_half high_half guest_msr_words del: One_nat_def)
  have v: "GUEST_MSR_VALUE = push_bit 32 0x7A1E OR (0 AND 0xFFFFFFFF)" "is_canonical_48 GUEST_MSR_VALUE"
    by (simp_all add: GUEST_MSR_VALUE_def is_canonical_48_def)
  obtain m' where m: "erase (exec hw code WRMSR (mstate f 11 0 (ucast IA32_KERNEL_GS_BASE) 0x7A1E (kernel_gs m AND 0xFFFFFFFF)
        (drop_bit 32 (kernel_gs m)) cf zf (d, w, m, n, g, c\<lparr>n_rdmsr := n_rdmsr c + 1\<rparr>)))
      = mstate f 12 0 (ucast IA32_KERNEL_GS_BASE) 0x7A1E (kernel_gs m AND 0xFFFFFFFF) (drop_bit 32 (kernel_gs m)) cf zf
        (d, w, m', n, g, c\<lparr>n_rdmsr := n_rdmsr c + 1, n_wrmsr := n_wrmsr c + 1\<rparr>)"
    "kernel_gs m' = GUEST_MSR_VALUE" "scratch m' = scratch m"
    using exec_wrmsr [OF ucast_u32_back v, of 12 11 code f "kernel_gs m AND 0xFFFFFFFF" "drop_bit 32 (kernel_gs m)" cf zf d w m n g
        "c\<lparr>n_rdmsr := n_rdmsr c + 1\<rparr>"] by auto
  note leads_trans [OF 1 leads_step [OF _ m(1) [folded main_code(12)]]]
  then have "leads hw code (at_view (mstate f 5 rax rcx rdx rsi rdi cf zf (d, w, m, n, g, c))) (at_view (mstate f 12 0 (ucast IA32_KERNEL_GS_BASE) 0x7A1E (kernel_gs m AND 0xFFFFFFFF) (drop_bit 32 (kernel_gs m)) cf zf
      (d, w, m', n, g, c\<lparr>n_rdmsr := n_rdmsr c + 1, n_wrmsr := n_wrmsr c + 1\<rparr>)))" by (simp add: main_instr_def main_code)
  then show ?thesis using m(2,3) by blast
qed

lemma msr_restored:
  assumes "kernel_gs m = GUEST_MSR_VALUE" and "is_canonical_48 v"
  shows "\<exists>rax' rcx' rdx' cf' zf' m'. leads hw code
     (at_view (mstate f 12 rax (ucast IA32_KERNEL_GS_BASE) rdx (v AND 0xFFFFFFFF) (drop_bit 32 v) cf zf (d, w, m, n, g, c)))
     (at_view (mstate f 22 rax' rcx' rdx' (v AND 0xFFFFFFFF) (drop_bit 32 v) cf' zf'
        (d, w, m', n, g, c\<lparr>n_rdmsr := n_rdmsr c + 1, n_wrmsr := n_wrmsr c + 1\<rparr>))) \<and>
     kernel_gs m' = v \<and> scratch m' = scratch m"
proof -
  have 1: "leads hw code
     (at_view (mstate f 12 rax (ucast IA32_KERNEL_GS_BASE) rdx (v AND 0xFFFFFFFF) (drop_bit 32 v) cf zf (d, w, m, n, g, c)))
     (at_view (mstate f 21 (v AND 0xFFFFFFFF) (ucast IA32_KERNEL_GS_BASE) (drop_bit 32 v) (v AND 0xFFFFFFFF) (drop_bit 32 v) False True
        (d, w, m, n, g, c\<lparr>n_rdmsr := n_rdmsr c + 1\<rparr>)))"
    by (rule leads_main_run [where n = 9])
      (simp add: run_simps exec_rdmsr assms(1) low_half high_half guest_msr_words del: One_nat_def)
  have v: "v = push_bit 32 (drop_bit 32 v) OR ((v AND 0xFFFFFFFF) AND 0xFFFFFFFF)"
    by (simp add: msr_value_halves)
  obtain m' where m: "erase (exec hw code WRMSR (mstate f 21 (v AND 0xFFFFFFFF) (ucast IA32_KERNEL_GS_BASE) (drop_bit 32 v) (v AND 0xFFFFFFFF)
        (drop_bit 32 v) False True (d, w, m, n, g, c\<lparr>n_rdmsr := n_rdmsr c + 1\<rparr>)))
      = mstate f 22 (v AND 0xFFFFFFFF) (ucast IA32_KERNEL_GS_BASE) (drop_bit 32 v) (v AND 0xFFFFFFFF) (drop_bit 32 v) False True
        (d, w, m', n, g, c\<lparr>n_rdmsr := n_rdmsr c + 1, n_wrmsr := n_wrmsr c + 1\<rparr>)"
    "kernel_gs m' = v" "scratch m' = scratch m"
    using exec_wrmsr [OF ucast_u32_back v assms(2), of 22 21 code f "v AND 0xFFFFFFFF" "drop_bit 32 v" False True d w m n g
        "c\<lparr>n_rdmsr := n_rdmsr c + 1\<rparr>"] by auto
  note leads_trans [OF 1 leads_step [OF _ m(1) [folded main_code(22)]]]
  then have "leads hw code (at_view (mstate f 12 rax (ucast IA32_KERNEL_GS_BASE) rdx (v AND 0xFFFFFFFF) (drop_bit 32 v) cf zf (d, w, m, n, g, c))) (at_view (mstate f 22 (v AND 0xFFFFFFFF) (ucast IA32_KERNEL_GS_BASE) (drop_bit 32 v) (v AND 0xFFFFFFFF) (drop_bit 32 v) False True
      (d, w, m', n, g, c\<lparr>n_rdmsr := n_rdmsr c + 1, n_wrmsr := n_wrmsr c + 1\<rparr>)))" by (simp add: main_instr_def main_code)
  then show ?thesis using m(2,3) by blast
qed

text \<open>The port: written, read back, compared and restored.\<close>

lemma port_written:
  "\<exists>rax' rdx' rsi' m'. leads hw code (at_view (mstate f 22 rax rcx rdx rsi rdi cf zf (d, w, m, n, g, c)))
     (at_view (mstate f 27 rax' rcx rdx' rsi' rdi cf zf (d, w, m', n, g, c\<lparr>n_io_in := n_io_in c + 1, n_io_out := n_io_out c + 1\<rparr>))) \<and>
     ucast rdx' = GUEST_SCRATCH_PORT \<and> rsi' AND 0xFF = ucast (scratch m) \<and> scratch m' = GUEST_IO_VALUE \<and> kernel_gs m' = kernel_gs m"
proof -
  let ?rdx = "(rdx AND NOT 0xFFFF) OR ucast GUEST_SCRATCH_PORT" and ?al = "(rax AND NOT 0xFF) OR ucast (scratch m)"
  let ?rsi = "(rsi AND NOT 0xFF) OR (?al AND 0xFF)" and ?rax = "(?al AND NOT 0xFF) OR ucast GUEST_IO_VALUE"
  let ?c = "c\<lparr>n_io_in := n_io_in c + 1\<rparr>"
  have p: "ucast ?rdx = GUEST_SCRATCH_PORT" by (rule low_word)
  have 1: "leads hw code (at_view (mstate f 22 rax rcx rdx rsi rdi cf zf (d, w, m, n, g, c)))
      (at_view (mstate f 26 ?rax rcx ?rdx ?rsi rdi cf zf (d, w, m, n, g, ?c)))"
    by (rule leads_main_run [where n = 4]) (simp add: run_simps exec_in [OF p [simplified]] del: One_nat_def)
  obtain m' where m: "erase (exec hw code OutAl (mstate f 26 ?rax rcx ?rdx ?rsi rdi cf zf (d, w, m, n, g, ?c)))
      = mstate f 27 ?rax rcx ?rdx ?rsi rdi cf zf (d, w, m', n, g, ?c\<lparr>n_io_out := n_io_out ?c + 1\<rparr>)"
    "kernel_gs m' = kernel_gs m" "scratch m' = GUEST_IO_VALUE"
    using exec_out [OF p, of 27 26 code f ?rax rcx ?rsi rdi cf zf d w m n g ?c] unfolding low_byte by fastforce
  note leads_trans [OF 1 leads_step [OF _ m(1) [folded main_code(27)]]]
  moreover have "?rsi AND 0xFF = ucast (scratch m)" by (rule low_byte_kept)
  ultimately show ?thesis using m(2,3) p by (intro exI [of _ ?rax] exI [of _ ?rdx] exI [of _ ?rsi] exI [of _ m'])
      (simp add: main_instr_def main_code)
qed

lemma port_restored:
  assumes "ucast rdx = GUEST_SCRATCH_PORT" and "rsi AND 0xFF = ucast v" and "scratch m = GUEST_IO_VALUE"
  shows "\<exists>rax' cf' zf' m'. leads hw code (at_view (mstate f 27 rax rcx rdx rsi rdi cf zf (d, w, m, n, g, c)))
     (at_view (mstate f 33 rax' rcx rdx rsi rdi cf' zf' (d, w, m', n, g, c\<lparr>n_io_in := n_io_in c + 1, n_io_out := n_io_out c + 1\<rparr>))) \<and>
     scratch m' = v \<and> kernel_gs m' = kernel_gs m"
proof -
  let ?rax = "(ucast GUEST_IO_VALUE AND NOT 0xFF) OR (rsi AND 0xFF)" and ?c = "c\<lparr>n_io_in := n_io_in c + 1\<rparr>"
  have 1: "leads hw code (at_view (mstate f 27 rax rcx rdx rsi rdi cf zf (d, w, m, n, g, c)))
      (at_view (mstate f 32 ?rax rcx rdx rsi rdi False True (d, w, m, n, g, ?c)))"
    by (rule leads_main_run [where n = 5])
      (simp add: run_simps exec_in [OF assms(1)] assms(3) ucast_u8_back del: One_nat_def)
  have r: "ucast ?rax = v" unfolding assms(2) by (rule low_byte)
  obtain m' where m: "erase (exec hw code OutAl (mstate f 32 ?rax rcx rdx rsi rdi False True (d, w, m, n, g, ?c)))
      = mstate f 33 ?rax rcx rdx rsi rdi False True (d, w, m', n, g, ?c\<lparr>n_io_out := n_io_out ?c + 1\<rparr>)"
    "kernel_gs m' = kernel_gs m" "scratch m' = v"
    using exec_out [OF assms(1), of 33 32 code f ?rax rcx rsi rdi False True d w m n g ?c] unfolding r by fastforce
  note leads_trans [OF 1 leads_step [OF _ m(1) [folded main_code(33)]]]
  then show ?thesis using m(2,3)
    by (intro exI [of _ ?rax] exI [of _ False] exI [of _ True] exI [of _ m']) (simp add: main_instr_def main_code)
qed

end


text \<open>The data page: read, written after the grant, read back.\<close>

lemma exec_store:
  assumes "a = data_address code" and "a AND NOT 0xFFF = a" and "a \<noteq> 0"
  shows "erase (exec hw code (Store v) (mstate f pc rax rcx rdx rsi a cf zf (d, False, m, n, 0, c)))
      = mstate f pc rax rcx rdx rsi a cf zf (d, True, m, n, 1, c)"
    and "exec hw code (Store v) (mstate f pc rax rcx rdx rsi a cf zf (d, True, m, n, g, c))
      = mstate f (pc + 1) rax rcx rdx rsi a cf zf (d(a := v), True, m, n, g, c)"
proof -
  have q: "is_protected_write (EPT_ACCESS_WRITE OR EPT_PAGE_READABLE OR EPT_LINEAR_VALID OR EPT_TRANSLATED_ACCESS)"
    by (simp add: is_protected_write_def const_defs)
  show "erase (exec hw code (Store v) (mstate f pc rax rcx rdx rsi a cf zf (d, False, m, n, 0, c)))
      = mstate f pc rax rcx rdx rsi a cf zf (d, True, m, n, 1, c)"
    using assms(2,3) unfolding exec.simps
    by (simp add: exit_simps decide_reasons ept_violation_def q assms(1) [symmetric])
  show "exec hw code (Store v) (mstate f pc rax rcx rdx rsi a cf zf (d, True, m, n, g, c))
      = mstate f (pc + 1) rax rcx rdx rsi a cf zf (d(a := v), True, m, n, g, c)"
    by (simp add: exec.simps mstate_def next_pc_def)
qed

lemma exec_main_vmcall:
  "erase (exec hw code VMCALL (mstate f pc (ucast GUEST_MARKER) (ucast GUEST_DATA_SEED) (ucast GUEST_EPT_VALUE) rsi rdi cf zf (d, w, m, 0, 1, c)))
     = mstate f (pc + 1) (ucast GUEST_MARKER) (ucast GUEST_DATA_SEED) (ucast GUEST_EPT_VALUE) rsi rdi cf zf (d, w, m, 1, 1, c)"
proof -
  have "vmcall \<lparr>main_vmcalls = 0, nmi_pending = False, nmis_injected = 0, nmis_handled = 0, ept_writes_granted = 1, emulated = c\<rparr>
      (plain code EXIT_REASON_VMCALL (mstate f pc (ucast GUEST_MARKER) (ucast GUEST_DATA_SEED) (ucast GUEST_EPT_VALUE) rsi rdi cf zf (d, w, m, 0, 1, c)))
      = (MainVmcall, \<lparr>main_vmcalls = 1, nmi_pending = False, nmis_injected = 0, nmis_handled = 0, ept_writes_granted = 1, emulated = c\<rparr>)"
    by (simp add: vmcall_def plain_def exit_info_def mstate_def expected_main_rax_def data_page_read_back_def const_defs)
  then show ?thesis by (simp add: exec.simps exit_simps decide_reasons)
qed

lemma data_page_used:
  assumes "data_address code AND NOT 0xFFF = data_address code" and "data_address code \<noteq> 0" and "d (data_address code) = GUEST_DATA_SEED"
  shows "\<exists>cf' zf' d'. leads hw code (at_view (mstate f 33 rax rcx rdx rsi rdi cf zf (d, False, m, 0, 0, c)))
     (at_view (mstate f 42 (ucast GUEST_MARKER) (ucast GUEST_WAIT_ITERATIONS) (ucast GUEST_EPT_VALUE) rsi (data_address code) cf' zf' (d', True, m, 1, 1, c)))"
proof -
  let ?a = "data_address code"
  have a: "code + 0x1000 = ?a" by (simp add: data_address_def)
  have "leads hw code (at_view (mstate f 33 rax rcx rdx rsi rdi cf zf (d, False, m, 0, 0, c)))
      (at_view (mstate f 37 rax (ucast GUEST_DATA_SEED) rdx rsi ?a (?a < 0x1000) (?a = 0) (d, False, m, 0, 0, c)))"
    by (rule leads_main_run [where n = 4]) (simp add: run_simps a assms(3) del: One_nat_def)
  also have "leads hw code \<dots> (at_view (mstate f 42 (ucast GUEST_MARKER) (ucast GUEST_WAIT_ITERATIONS) (ucast GUEST_EPT_VALUE) rsi ?a
      (?a < 0x1000) (?a = 0) (d(?a := GUEST_EPT_VALUE), True, m, 1, 1, c)))"
    by (rule leads_main_run [where n = 6])
      (simp add: run_simps exec_store [OF refl assms(1,2)] exec_main_vmcall del: One_nat_def)
  finally show ?thesis by blast
qed

text \<open>The wait: whatever the handler makes of EBX, ECX runs out.\<close>

lemma leads_ex: "(\<And>x. leads hw code (P x) Q) \<Longrightarrow> leads hw code (\<lambda>s. \<exists>x. P x s) Q"
  unfolding leads_def by blast

lemma leads_weaken: "leads hw code P Q \<Longrightarrow> (\<And>s. Q s \<Longrightarrow> R s) \<Longrightarrow> leads hw code P R"
  unfolding leads_def by blast

lemma leads_test:
  "leads hw code (at_view (mstate f 42 rax rcx rdx rsi rdi cf zf e)) (\<lambda>s. \<exists>zf'. at_view (mstate f 43 rax rcx rdx rsi rdi False zf' e) s)"
proof (rule leads_settled)
  fix s
  assume s: "settled s" "main_view s = mstate f 42 rax rcx rdx rsi rdi cf zf e"
  note v = settled_view [OF s(1)]
  have e: "erase s = mstate f 42 rax rcx rdx rsi rdi cf zf e" "vm_pc s = 42" using v s(2) by (metis, metis mstate_simps(1))
  have g: "guest_step hw code False s = s\<lparr>vm_cf := False, vm_zf := get32 EBX s = 0, vm_pc := 43\<rparr>" (is "_ = ?s")
    using s(1) e(2) by (auto simp: guest_step_def settled_def live_def in_main_def main_code exec.simps vm_defs)
  have "erase ?s = (erase s)\<lparr>vm_cf := False, vm_zf := get32 EBX s = 0, vm_pc := 43\<rparr>" by (simp add: erase_def)
  also have "\<dots> = mstate f 43 rax rcx rdx rsi rdi False (get32 EBX s = 0) e" unfolding e(1) by (cases e) (simp add: mstate_def)
  finally have r: "erase ?s = mstate f 43 rax rcx rdx rsi rdi False (get32 EBX s = 0) e" .
  have "nmi_part ?s = nmi_part s" by (simp add: nmi_part_def)
  from settled_live [OF s(1) this] r show "\<exists>zf'. at_view (mstate f 43 rax rcx rdx rsi rdi False zf' e) (guest_step hw code False s)"
    unfolding g at_view_def by auto
qed

abbreviation wait_done :: "RegisterFrame \<Rightarrow> u64 \<Rightarrow> u64 \<Rightarrow> u64 \<Rightarrow> u64 \<Rightarrow> 'm shared \<Rightarrow> 'm vm \<Rightarrow> bool" where
  "wait_done f rax rdx rsi rdi e s \<equiv> \<exists>rcx cf zf. at_view (mstate f 47 rax rcx rdx rsi rdi cf zf e) s"

lemma wait_ends:
  "leads hw code (at_view (mstate f 42 rax (ucast (k :: u32)) rdx rsi rdi cf zf e)) (wait_done f rax rdx rsi rdi e)"
proof (induction "unat (k - 1)" arbitrary: k cf zf rule: less_induct)
  case less
  have r: "leads hw code (at_view (mstate f 43 rax (ucast k) rdx rsi rdi False zf' e)) (wait_done f rax rdx rsi rdi e)" for zf'
  proof (cases zf')
    case False
    then have "leads hw code (at_view (mstate f 43 rax (ucast k) rdx rsi rdi False zf' e)) (at_view (mstate f 47 rax (ucast k) rdx rsi rdi False zf' e))"
      by (intro leads_main_run [where n = 1]) (simp add: run_simps del: One_nat_def)
    then show ?thesis by (rule leads_weaken) blast
  next
    case True
    have round: "leads hw code (at_view (mstate f 43 rax (ucast k) rdx rsi rdi False zf' e))
        (at_view (mstate f (if k - 1 = 0 then 47 else 42) rax (ucast (k - 1)) rdx rsi rdi False (k - 1 = 0) e))"
      using True by (intro leads_main_run [where n = 4]) (simp add: run_simps del: One_nat_def)
    show ?thesis
    proof (cases "k - 1 = 0")
      case True
      then show ?thesis using round by (auto intro: leads_weaken)
    next
      case False
      then have "unat (k - 1 - 1) < unat (k - 1)" by (metis measure_unat)
      from leads_trans [OF round [unfolded if_not_P [OF False]] less.hyps [OF this]] show ?thesis .
    qed
  qed
  from leads_trans [OF leads_test leads_ex [OF r]] show ?case .
qed

text \<open>The last VMCALL.\<close>

lemma exec_last_vmcall:
  assumes "c = EXPECTED_EMULATION"
  shows "r_stopped (vm_run (main_exec hw code (mstate f 48 (ucast (GUEST_MARKER + 1)) rcx rdx rsi rdi cf zf (d, w, m, 1, 1, c)))) = Some Finished"
    and "vm_machine (main_exec hw code (mstate f 48 (ucast (GUEST_MARKER + 1)) rcx rdx rsi rdi cf zf (d, w, m, 1, 1, c))) = m"
proof -
  have "vmcall \<lparr>main_vmcalls = 1, nmi_pending = False, nmis_injected = 0, nmis_handled = 0, ept_writes_granted = 1, emulated = c\<rparr>
      (plain code EXIT_REASON_VMCALL (mstate f 48 (ucast (GUEST_MARKER + 1)) rcx rdx rsi rdi cf zf (d, w, m, 1, 1, c)))
      = (LastMainVmcall, \<lparr>main_vmcalls = 2, nmi_pending = False, nmis_injected = 0, nmis_handled = 0, ept_writes_granted = 1, emulated = c\<rparr>)"
    using assms by (simp add: vmcall_def plain_def exit_info_def mstate_def expected_main_rax_def const_defs)
  then show "r_stopped (vm_run (main_exec hw code (mstate f 48 (ucast (GUEST_MARKER + 1)) rcx rdx rsi rdi cf zf (d, w, m, 1, 1, c)))) = Some Finished"
    "vm_machine (main_exec hw code (mstate f 48 (ucast (GUEST_MARKER + 1)) rcx rdx rsi rdi cf zf (d, w, m, 1, 1, c))) = m"
    by (simp_all add: main_exec_def main_code exec.simps exit_simps decide_reasons)
qed

lemma guest_stops:
  assumes "c = EXPECTED_EMULATION"
  shows "leads hw code (at_view (mstate f 47 (ucast GUEST_MARKER) rcx rdx rsi rdi cf zf (d, w, m, 1, 1, c)))
    (\<lambda>s. r_stopped (vm_run s) = Some Finished \<and> vm_machine s = m)"
proof -
  let ?v = "mstate f 48 (ucast (GUEST_MARKER + 1)) rcx rdx rsi rdi cf False (d, w, m, 1, 1, c)"
  have "GUEST_MARKER + 1 \<noteq> 0" by (simp add: GUEST_MARKER_def)
  then have "leads hw code (at_view (mstate f 47 (ucast GUEST_MARKER) rcx rdx rsi rdi cf zf (d, w, m, 1, 1, c))) (at_view ?v)"
    by (intro leads_main_run [where n = 1]) (simp add: run_simps del: One_nat_def)
  also have "leads hw code \<dots> (\<lambda>s. r_stopped (vm_run s) = Some Finished \<and> vm_machine s = m)"
  proof (rule leads_settled)
    fix s
    assume s: "settled s" "main_view s = ?v"
    have "vm_pc s = 48" using settled_view(1) [OF s(1)] unfolding s(2) by simp
    then have "erase (guest_step hw code False s) = main_exec hw code ?v"
      using settled_step(1) [OF s(1), of hw code] s(2) by (simp add: main_code main_instr_def)
    then show "r_stopped (vm_run (guest_step hw code False s)) = Some Finished \<and> vm_machine (guest_step hw code False s) = m"
      using exec_last_vmcall [OF assms, of hw code f rcx rdx rsi rdi cf False d w m]
      by (metis erase_simps(11) erase_machine)
  qed
  finally show ?thesis .
qed

context passthrough_devices
begin

lemma start_view:
  "at_view (mstate frame 0 (reg_rax frame) (reg_rcx frame) (reg_rdx frame) (reg_rsi frame) (reg_rdi frame) False False
     ((\<lambda>_. 0)(data_address code := GUEST_DATA_SEED), False, m, 0, 0, emulated default_ExitState)) (guest_start code frame m)"
  by (simp add: at_view_def live_def in_main_def main_view_def erase_def guest_start_def start_run_def mstate_def core_state_def
      default_ExitState_def)

theorem guest_always_finishes:
  assumes "is_canonical_48 (kernel_gs m)" and "data_address code AND NOT 0xFFF = data_address code" and "data_address code \<noteq> 0"
    and "finite {t. nmis t}"
  shows "\<exists>n. let s = run_guest hw code nmis n (guest_start code frame m)
    in r_stopped (vm_run s) = Some Finished \<and> kernel_gs (vm_machine s) = kernel_gs m \<and> scratch (vm_machine s) = scratch m"
proof -
  define d0 where "d0 = (\<lambda>_ :: u64. 0 :: u32)(data_address code := GUEST_DATA_SEED)"
  define c0 where "c0 = emulated default_ExitState"
  define c1 where "c1 = c0\<lparr>n_cpuid := n_cpuid c0 + 1\<rparr>"
  define c2 where "c2 = c1\<lparr>n_rdmsr := n_rdmsr c1 + 1, n_wrmsr := n_wrmsr c1 + 1\<rparr>"
  define c3 where "c3 = c2\<lparr>n_rdmsr := n_rdmsr c2 + 1, n_wrmsr := n_wrmsr c2 + 1\<rparr>"
  define c4 where "c4 = c3\<lparr>n_io_in := n_io_in c3 + 1, n_io_out := n_io_out c3 + 1\<rparr>"
  define c5 where "c5 = c4\<lparr>n_io_in := n_io_in c4 + 1, n_io_out := n_io_out c4 + 1\<rparr>"
  define lo hi where "lo = kernel_gs m AND 0xFFFFFFFF" and "hi = drop_bit 32 (kernel_gs m)"
  obtain rax1 rcx1 rdx1 where 1: "leads hw code (at_view (mstate frame 0 (reg_rax frame) (reg_rcx frame) (reg_rdx frame) (reg_rsi frame)
      (reg_rdi frame) False False (d0, False, m, 0, 0, c0)))
    (at_view (mstate frame 5 rax1 rcx1 rdx1 (reg_rsi frame) (reg_rdi frame) False True (d0, False, m, 0, 0, c1)))"
    using cpuid_check [of code frame "reg_rax frame" "reg_rcx frame" "reg_rdx frame" "reg_rsi frame" "reg_rdi frame" False False
        d0 False m 0 0 c0, folded c1_def] by blast
  obtain rax2 rdx2 m2 where 2: "leads hw code (at_view (mstate frame 5 rax1 rcx1 rdx1 (reg_rsi frame) (reg_rdi frame) False True (d0, False, m, 0, 0, c1)))
      (at_view (mstate frame 12 rax2 (ucast IA32_KERNEL_GS_BASE) rdx2 lo hi False True (d0, False, m2, 0, 0, c2)))"
    "kernel_gs m2 = GUEST_MSR_VALUE" "scratch m2 = scratch m"
    using msr_written [of code frame rax1 rcx1 rdx1 "reg_rsi frame" "reg_rdi frame" False True d0 False m 0 0 c1, folded c2_def lo_def hi_def] by blast
  obtain rax3 rcx3 rdx3 cf3 zf3 m3 where 3: "leads hw code (at_view (mstate frame 12 rax2 (ucast IA32_KERNEL_GS_BASE) rdx2 lo hi False True (d0, False, m2, 0, 0, c2)))
      (at_view (mstate frame 22 rax3 rcx3 rdx3 lo hi cf3 zf3 (d0, False, m3, 0, 0, c3)))"
    "kernel_gs m3 = kernel_gs m" "scratch m3 = scratch m"
    using msr_restored [OF 2(2) assms(1), of code frame rax2 rdx2 False True d0 False 0 0 c2, folded c3_def lo_def hi_def] 2(3) by metis
  obtain rax4 rdx4 rsi4 m4 where 4: "leads hw code (at_view (mstate frame 22 rax3 rcx3 rdx3 lo hi cf3 zf3 (d0, False, m3, 0, 0, c3)))
      (at_view (mstate frame 27 rax4 rcx3 rdx4 rsi4 hi cf3 zf3 (d0, False, m4, 0, 0, c4)))"
    "ucast rdx4 = GUEST_SCRATCH_PORT" "rsi4 AND 0xFF = ucast (scratch m)" "scratch m4 = GUEST_IO_VALUE" "kernel_gs m4 = kernel_gs m"
    using port_written [of code frame rax3 rcx3 rdx3 lo hi cf3 zf3 d0 False m3 0 0 c3, folded c4_def] 3(2,3) by metis
  obtain rax5 cf5 zf5 m5 where 5: "leads hw code (at_view (mstate frame 27 rax4 rcx3 rdx4 rsi4 hi cf3 zf3 (d0, False, m4, 0, 0, c4)))
      (at_view (mstate frame 33 rax5 rcx3 rdx4 rsi4 hi cf5 zf5 (d0, False, m5, 0, 0, c5)))"
    "scratch m5 = scratch m" "kernel_gs m5 = kernel_gs m"
    using port_restored [OF 4(2-4), of code frame rax4 rcx3 hi cf3 zf3 d0 False 0 0 c4, folded c5_def] 4(5) by metis
  have seed: "d0 (data_address code) = GUEST_DATA_SEED" by (simp add: d0_def)
  obtain cf6 zf6 d6 where 6: "leads hw code (at_view (mstate frame 33 rax5 rcx3 rdx4 rsi4 hi cf5 zf5 (d0, False, m5, 0, 0, c5)))
      (at_view (mstate frame 42 (ucast GUEST_MARKER) (ucast GUEST_WAIT_ITERATIONS) (ucast GUEST_EPT_VALUE) rsi4 (data_address code) cf6 zf6 (d6, True, m5, 1, 1, c5)))"
    using data_page_used [where d = d0, OF assms(2,3) seed, of hw frame rax5 rcx3 rdx4 rsi4 hi cf5 zf5 m5 c5] by blast
  have c: "c5 = EXPECTED_EMULATION" by (simp add: c5_def c4_def c3_def c2_def c1_def c0_def EXPECTED_EMULATION_def default_ExitState_def)
  note stop = leads_trans [OF wait_ends leads_ex [OF leads_ex [OF leads_ex [OF guest_stops [OF c]]]]]
  from leads_trans [OF 1 leads_trans [OF 2(1) leads_trans [OF 3(1) leads_trans [OF 4(1) leads_trans [OF 5(1) leads_trans [OF 6 stop]]]]]]
  obtain n where "r_stopped (vm_run (run_guest hw code nmis n (guest_start code frame m))) = Some Finished"
    "vm_machine (run_guest hw code nmis n (guest_start code frame m)) = m5"
    using assms(4) start_view [of frame code m, folded c0_def d0_def] unfolding leads_def by metis
  then show ?thesis using 5(2,3) by (auto simp: Let_def)
qed

end

text \<open>The run the virtual processor keeps is a run of the exit machine on the exits it made.\<close>

definition more_exits :: "run \<Rightarrow> run \<Rightarrow> bool" where
  "more_exits r r' \<longleftrightarrow> (\<exists>xs. r' = run_exits r xs)"

lemma more_exits_refl: "more_exits r r"
  unfolding more_exits_def by (metis run_exits.simps(1))

lemma more_exits_trans: "more_exits r r' \<Longrightarrow> more_exits r' r'' \<Longrightarrow> more_exits r r''"
  unfolding more_exits_def by (metis run_exits_append)

lemma vm_run_kept:
  "vm_run (next_pc s) = vm_run s" "vm_run (put32 r v s) = vm_run s" "vm_run (deliver_nmi s) = vm_run s"
  "vm_run (emulate_for hw e s) = vm_run s" "vm_run (resume_guest hw plan s) = vm_run s"
proof -
  show emu: "vm_run (emulate_for hw e s) = vm_run s" for e s
    by (simp add: emulate_for_def split: prod.split result.split)
  show "vm_run (resume_guest hw plan s) = vm_run s"
    by (simp add: resume_guest_def Let_def next_pc_def deliver_nmi_def emu split: option.split)
qed (simp_all add: vm_defs deliver_nmi_def)

lemma handle_exit_run:
  assumes "r_stopped (vm_run s) = None"
  shows "more_exits (vm_run s) (vm_run (handle_exit hw x s))"
proof -
  have "vm_run (handle_exit hw x s) = run_exits (vm_run s) [x]"
    using assms by (simp add: handle_exit_def Let_def vm_run_kept split: prod.split ExitAction.split)
  then show ?thesis unfolding more_exits_def by blast
qed

lemma exec_run:
  assumes "r_stopped (vm_run s) = None"
  shows "more_exits (vm_run s) (vm_run (exec hw code i s))"
  using handle_exit_run [OF assms]
  by (cases i) (simp_all add: exec.simps vm_run_kept exception_def Let_def more_exits_refl split: list.split slot.split)

lemma guest_step_run: "more_exits (vm_run s) (vm_run (guest_step hw code nmi s))"
  using exec_run [of s] handle_exit_run [of s] by (simp add: guest_step_def exception_def more_exits_refl)

lemma run_guest_run: "more_exits (vm_run s) (vm_run (run_guest hw code nmis n s))"
proof (induction n arbitrary: nmis s)
  case (Suc n)
  show ?case using more_exits_trans [OF guest_step_run Suc] by simp
qed (simp add: more_exits_refl)

end
