(* ===== verification/Serial.thy ===== *)
theory Serial
  imports World
begin

text \<open>
  The serial driver (\<open>serial.rs\<close>): programming COM1, the loopback probe, and sending bytes with a bounded wait.
  The locale \<open>port_trace\<close> states that a port write is an event and a port read is none; \<open>uart\<close> is the register
  model of the 16550 the module documentation describes, on which the writes are replayed.
\<close>

section \<open>The driver\<close>

definition DATA :: u16 where
  [const_defs]: "DATA = 0"

definition INTERRUPT_ENABLE :: u16 where
  [const_defs]: "INTERRUPT_ENABLE = 1"

definition FIFO_CONTROL :: u16 where
  [const_defs]: "FIFO_CONTROL = 2"

definition LINE_CONTROL :: u16 where
  [const_defs]: "LINE_CONTROL = 3"

definition MODEM_CONTROL :: u16 where
  [const_defs]: "MODEM_CONTROL = 4"

definition LINE_STATUS :: u16 where
  [const_defs]: "LINE_STATUS = 5"

definition LINE_8N1 :: u8 where
  [const_defs]: "LINE_8N1 = 0x03"

definition LINE_DLAB :: u8 where
  [const_defs]: "LINE_DLAB = push_bit 7 1"

definition FIFO_ENABLE_AND_CLEAR :: u8 where
  [const_defs]: "FIFO_ENABLE_AND_CLEAR = 0xC7"

definition MODEM_READY :: u8 where
  [const_defs]: "MODEM_READY = 0x0B"

definition MODEM_LOOPBACK :: u8 where
  [const_defs]: "MODEM_LOOPBACK = push_bit 4 1"

definition STATUS_DATA_READY :: u8 where
  [const_defs]: "STATUS_DATA_READY = push_bit 0 1"

definition STATUS_TRANSMIT_EMPTY :: u8 where
  [const_defs]: "STATUS_TRANSMIT_EMPTY = push_bit 5 1"

definition SPIN_LIMIT :: nat where
  "SPIN_LIMIT = 100000"

definition PROBE :: u8 where
  [const_defs]: "PROBE = 0xAE"

text \<open>The division panics on a zero rate.\<close>

definition divisor :: "u32 \<Rightarrow> ('e, u16) result" where
  "divisor baud = (if baud = 0 then Panic else Ok (ucast (115200 div baud)))"

datatype SerialError = LoopbackFailed

text \<open>The machine and the static \<open>READY\<close>.\<close>

record 'm serial_state =
  s_machine :: 'm
  READY :: bool

definition on_uart :: "('m, 'e, 'a) action \<Rightarrow> ('m serial_state, 'e, 'a) action" where
  "on_uart act s = (case act (s_machine s) of (r, m) \<Rightarrow> (r, s\<lparr>s_machine := m\<rparr>))"

text \<open>The probe loop: at most \<open>n\<close> polls of the line status.\<close>

primrec poll_received :: "'m platform \<Rightarrow> nat \<Rightarrow> ('m, 'e, u8 option) action" where
  "poll_received hw 0 = ret None"
| "poll_received hw (Suc n) =
     and_then (inb hw (COM1 + LINE_STATUS)) (\<lambda>status.
     if status AND STATUS_DATA_READY \<noteq> 0 then and_then (inb hw (COM1 + DATA)) (\<lambda>byte. ret (Some byte))
     else poll_received hw n)"

definition init :: "'m platform \<Rightarrow> ('m serial_state, SerialError, unit) action" where
  "init hw =
     and_then (lift_result (divisor 115200)) (\<lambda>d.
     let divisor_low = to_le_bytes d ! 0; divisor_high = to_le_bytes d ! 1
     in
     and_then (on_uart (outb hw (COM1 + INTERRUPT_ENABLE) 0)) (\<lambda>_.
     and_then (on_uart (outb hw (COM1 + LINE_CONTROL) LINE_DLAB)) (\<lambda>_.
     and_then (on_uart (outb hw (COM1 + DATA) divisor_low)) (\<lambda>_.
     and_then (on_uart (outb hw (COM1 + INTERRUPT_ENABLE) divisor_high)) (\<lambda>_.
     and_then (on_uart (outb hw (COM1 + LINE_CONTROL) LINE_8N1)) (\<lambda>_.
     and_then (on_uart (outb hw (COM1 + FIFO_CONTROL) FIFO_ENABLE_AND_CLEAR)) (\<lambda>_.
     and_then (on_uart (outb hw (COM1 + MODEM_CONTROL) (MODEM_READY OR MODEM_LOOPBACK))) (\<lambda>_.
     and_then (on_uart (outb hw (COM1 + DATA) PROBE)) (\<lambda>_.
     and_then (on_uart (poll_received hw SPIN_LIMIT)) (\<lambda>received.
     and_then (on_uart (outb hw (COM1 + MODEM_CONTROL) MODEM_READY)) (\<lambda>_.
     if received \<noteq> Some PROBE then throw LoopbackFailed
     else modify (\<lambda>s. s\<lparr>READY := True\<rparr>))))))))))))"

primrec wait_transmit_empty :: "'m platform \<Rightarrow> nat \<Rightarrow> ('m, 'e, unit) action" where
  "wait_transmit_empty hw 0 = ret ()"
| "wait_transmit_empty hw (Suc n) =
     and_then (inb hw (COM1 + LINE_STATUS)) (\<lambda>status.
     if status AND STATUS_TRANSMIT_EMPTY \<noteq> 0 then ret () else wait_transmit_empty hw n)"

definition write_byte :: "'m platform \<Rightarrow> u8 \<Rightarrow> ('m serial_state, 'e, unit) action" where
  "write_byte hw byte =
     and_then (gets READY) (\<lambda>ready.
     if \<not> ready then ret ()
     else
       and_then (on_uart (wait_transmit_empty hw SPIN_LIMIT)) (\<lambda>_.
       on_uart (outb hw (COM1 + DATA) byte)))"

definition write_str :: "'m platform \<Rightarrow> u8 list \<Rightarrow> ('m serial_state, 'e, unit) action" where
  "write_str hw chars =
     for_each chars (\<lambda>byte.
       and_then (if byte = 0x0A then write_byte hw 0x0D else ret ()) (\<lambda>_. write_byte hw byte))"

section \<open>What reaches the ports\<close>

locale port_trace =
  fixes hw :: "'m platform" and trace :: "'m \<Rightarrow> (u16 \<times> u8) list"
  assumes trace_out: "trace (i_out8 hw p v m) = trace m @ [(p, v)]"
    and trace_in: "trace (snd (i_in8 hw p m)) = trace m"
begin

lemma inb_run [simp]: "fst (inb hw p m) = Ok (fst (i_in8 hw p m))" "trace (snd (inb hw p m)) = trace m"
  using trace_in [of p m] by (simp_all add: inb_def split_beta)

lemma poll_received_run [simp]: "\<exists>b. fst (poll_received hw n m) = Ok b" "trace (snd (poll_received hw n m)) = trace m"
  by (induction n arbitrary: m) (simp_all add: and_then_run)

lemma wait_transmit_empty_run [simp]:
  "fst (wait_transmit_empty hw n m) = Ok ()" "trace (snd (wait_transmit_empty hw n m)) = trace m"
  by (induction n arbitrary: m) (simp_all add: and_then_run)

text \<open>What is written for a byte: nothing before the UART was found.\<close>

lemma write_byte_run:
  "fst (write_byte hw b s) = Ok ()" "READY (snd (write_byte hw b s)) = READY s"
  "trace (s_machine (snd (write_byte hw b s))) = trace (s_machine s) @ (if READY s then [(COM1, b)] else [])"
  by (simp_all add: write_byte_def and_then_run on_uart_def split_beta outb_def trace_out DATA_def)

end

text \<open>Newlines as a terminal wants them.\<close>

fun crlf :: "u8 list \<Rightarrow> u8 list" where
  "crlf [] = []"
| "crlf (b # bs) = (if b = 0x0A then [0x0D, 0x0A] else [b]) @ crlf bs"

text \<open>The register writes of \<open>init\<close>, in order.\<close>

definition init_writes :: "(u16 \<times> u8) list" where
  "init_writes = [(0x3F9, 0), (0x3FB, 0x80), (0x3F8, 1), (0x3F9, 0), (0x3FB, 0x03), (0x3FA, 0xC7), (0x3FC, 0x1B),
     (0x3F8, 0xAE), (0x3FC, 0x0B)]"

lemma divisor_115200: "divisor 115200 = Ok 1" "to_le_bytes (1 :: u16) ! 0 = 1" "to_le_bytes (1 :: u16) ! Suc 0 = 0"
  by (simp_all add: divisor_def nth_to_le_bytes)

context port_trace
begin

lemma write_str_run:
  "fst (write_str hw chars s) = Ok () \<and> READY (snd (write_str hw chars s)) = READY s \<and>
   trace (s_machine (snd (write_str hw chars s))) = trace (s_machine s) @ (if READY s then map (Pair COM1) (crlf chars) else [])"
  by (induction chars arbitrary: s) (simp_all add: write_str_def and_then_run write_byte_run)

lemma init_run:
  "fst (init hw s) \<noteq> Panic" "READY (snd (init hw s)) = (fst (init hw s) = Ok () \<or> READY s)"
  "trace (s_machine (snd (init hw s))) = trace (s_machine s) @ init_writes"
proof -
  let ?m = "foldl (\<lambda>m (p, v). i_out8 hw p v m) (s_machine s) (butlast init_writes)"
  obtain b where b: "fst ((poll_received hw SPIN_LIMIT :: ('m, SerialError, u8 option) action) ?m) = Ok b"
    using poll_received_run(1) by blast
  show "fst (init hw s) \<noteq> Panic" "READY (snd (init hw s)) = (fst (init hw s) = Ok () \<or> READY s)"
    "trace (s_machine (snd (init hw s))) = trace (s_machine s) @ init_writes"
    using b
    by (auto simp: init_def and_then_run divisor_115200 on_uart_def split_beta outb_def const_defs trace_out init_writes_def
        split: if_splits)
qed

end

section \<open>What reaches the wire\<close>

text \<open>
  The registers of a 16550 that matter for sending, by the module's table: offsets 0 and 1 are the divisor while bit
  7 of the line control is set; a byte written to the transmitter goes to the wire unless loopback (bit 4 of the
  modem control) feeds it back.
\<close>

record uart =
  u_divisor :: u16
  u_interrupts :: u8
  u_fifo :: u8
  u_line :: u8
  u_modem :: u8
  u_wire :: "u8 list"

definition uart_write :: "uart \<Rightarrow> u16 \<times> u8 \<Rightarrow> uart" where
  "uart_write u w = (case w of (port, v) \<Rightarrow>
     if port = COM1 then
       if bit (u_line u) 7 then u\<lparr>u_divisor := (u_divisor u AND 0xFF00) OR ucast v\<rparr>
       else if bit (u_modem u) 4 then u
       else u\<lparr>u_wire := u_wire u @ [v]\<rparr>
     else if port = COM1 + 1 then
       if bit (u_line u) 7 then u\<lparr>u_divisor := (u_divisor u AND 0xFF) OR push_bit 8 (ucast v)\<rparr>
       else u\<lparr>u_interrupts := v\<rparr>
     else if port = COM1 + 2 then u\<lparr>u_fifo := v\<rparr>
     else if port = COM1 + 3 then u\<lparr>u_line := v\<rparr>
     else if port = COM1 + 4 then u\<lparr>u_modem := v\<rparr>
     else u)"

definition uart_replay :: "(u16 \<times> u8) list \<Rightarrow> uart \<Rightarrow> uart" where
  "uart_replay ws u = foldl uart_write u ws"

lemma divisor_bytes: "((d AND 0xFF00) OR 1) AND 0xFF = (1 :: u16)"
proof -
  have m: "(0xFF00 :: u16) = push_bit 8 (mask 8)" "(0xFF :: u16) = mask 8" "(1 :: u16) = mask 1"
    by (simp_all add: mask_eq_exp_minus_1)
  show ?thesis unfolding m by (rule bit_word_eqI) (auto simp: bit_simps)
qed

text \<open>
  The registers after \<open>init\<close>: 115200 baud, 8N1, ready and out of loopback, and no byte of the probe on the wire. The
  first write reaches the interrupt-enable register only if the divisor latch was closed before.
\<close>

definition programmed :: "uart \<Rightarrow> uart" where
  "programmed u = u\<lparr>u_divisor := 1, u_interrupts := (if bit (u_line u) 7 then u_interrupts u else 0), u_fifo := 0xC7,
     u_line := 0x03, u_modem := 0x0B\<rparr>"

lemma replay_init: "uart_replay init_writes u = programmed u"
proof -
  have "bit (0x80 :: u8) 7" "\<not> bit (0x03 :: u8) 7" "bit (0x1B :: u8) 4" by simp_all
  then show ?thesis
    by (simp add: uart_replay_def init_writes_def uart_write_def COM1_def divisor_bytes programmed_def)
qed

lemma replay_data:
  assumes "\<not> bit (u_line u) 7" and "\<not> bit (u_modem u) 4"
  shows "uart_replay (map (Pair COM1) bs) u = u\<lparr>u_wire := u_wire u @ bs\<rparr>"
  using assms by (induction bs arbitrary: u) (simp_all add: uart_replay_def uart_write_def)

lemma uart_replay_append: "uart_replay (xs @ ys) u = uart_replay ys (uart_replay xs u)"
  by (simp add: uart_replay_def)

end
