(* ===== verification/Teardown.thy ===== *)
theory Teardown
  imports Vmxon Host_Tables World
begin

text \<open>
  Leaving VMX operation and handing the CPU back to firmware (\<open>bring_up/teardown.rs\<close>), with the log the bring-up
  code writes (\<open>log!\<close> of \<open>main.rs\<close>, \<open>log_line\<close> of \<open>output.rs\<close>). A log line is its format string with the integers it
  formats, or the error it prints; the flag beside it says whether it also went to the firmware console.
\<close>

section \<open>The log\<close>

datatype TeardownError = VmclearFailed VmcsError | VmxoffFailed VmxFail

datatype log_message = Log string "u64 list" | LogTeardown TeardownError

record 'm bring_up =
  b_world :: "'m world"
  b_log :: "(log_message \<times> bool) list"

definition log_line :: "log_message \<Rightarrow> ('m bring_up, 'e, unit) action" where
  "log_line line = modify (\<lambda>b. b\<lparr>b_log := b_log b @ [(line, console_allowed (b_world b))]\<rparr>)"

abbreviation log_values :: "string \<Rightarrow> u64 list \<Rightarrow> ('m bring_up, 'e, unit) action" where
  "log_values message vs \<equiv> log_line (Log message vs)"

abbreviation machine_of :: "'m bring_up \<Rightarrow> 'm" where
  "machine_of b \<equiv> w_machine (b_world b)"

text \<open>An action of the world or of the machine, run in the bring-up state.\<close>

definition on_world :: "('m world, 'e, 'a) action \<Rightarrow> ('m bring_up, 'e, 'a) action" where
  "on_world act b = (case act (b_world b) of (r, w) \<Rightarrow> (r, b\<lparr>b_world := w\<rparr>))"

definition on_cpu :: "('m, 'e, 'a) action \<Rightarrow> ('m bring_up, 'e, 'a) action" where
  "on_cpu act = on_world (on_hw act)"

definition truth :: "bool \<Rightarrow> u64" where
  "truth p = (if p then 1 else 0)"

section \<open>Teardown\<close>

definition RFLAGS_IF :: u64 where
  [const_defs]: "RFLAGS_IF = push_bit 9 1"

record FirmwareState =
  fw_gdtr :: DescriptorTable
  fw_idtr :: DescriptorTable
  fw_interrupts_enabled :: bool

definition interrupts_enabled :: "'m platform \<Rightarrow> 'm \<Rightarrow> bool" where
  "interrupts_enabled hw m \<longleftrightarrow> i_pushfq hw m AND RFLAGS_IF \<noteq> 0"

definition teardown_report :: "'m platform \<Rightarrow> FirmwareState \<Rightarrow> ('m bring_up, 'e, unit) action" where
  "teardown_report hw firmware =
     and_then (on_cpu (gets (\<lambda>m. (i_read_cr4 hw m AND CR4_VMXE \<noteq> 0,
       read_gdtr hw m = fw_gdtr firmware \<and> read_idtr hw m = fw_idtr firmware, interrupts_enabled hw m))))
       (\<lambda>(vmxe, tables_restored, enabled).
     log_values ''Teardown: CR4.VMXE, firmware GDTR/IDTR restored, IF'' [truth vmxe, truth tables_restored, truth enabled])"

text \<open>\<open>if let Err(error) = act \{ log; .. \}\<close>: the error, if any, as a value.\<close>

definition catch_error :: "('s, 'e, unit) action \<Rightarrow> ('s, 'f, 'e option) action" where
  "catch_error act s =
     (case act s of (Ok _, t) \<Rightarrow> (Ok None, t) | (Err e, t) \<Rightarrow> (Ok (Some e), t) | (Panic, t) \<Rightarrow> (Panic, t))"

definition log_failure :: "TeardownError option \<Rightarrow> ('m bring_up, 'e, unit) action" where
  "log_failure failure = (case failure of Some e \<Rightarrow> log_line (LogTeardown e) | None \<Rightarrow> ret ())"

definition teardown ::
  "'m platform \<Rightarrow> VmxOperation \<Rightarrow> VmxRegion option \<Rightarrow> FirmwareState \<Rightarrow> ('m bring_up, TeardownError, unit) action" where
  "teardown hw vmx_operation vmcs firmware =
     and_then (on_cpu (modify (load_gdtr hw (fw_gdtr firmware)))) (\<lambda>_.
     and_then (on_cpu (modify (load_idtr hw (fw_idtr firmware)))) (\<lambda>_.
     and_then (case vmcs of Some region \<Rightarrow> on_cpu (catch_error (map_err VmclearFailed (vmclear hw region))) | None \<Rightarrow> ret None) (\<lambda>cleared.
     and_then (log_failure cleared) (\<lambda>_.
     and_then (on_cpu (catch_error (map_err VmxoffFailed (leave hw vmx_operation)))) (\<lambda>left.
     and_then (log_failure left) (\<lambda>_.
     and_then (on_world (set_phase BootServices)) (\<lambda>_.
     and_then (if fw_interrupts_enabled firmware then on_cpu (modify (i_sti hw)) else ret ()) (\<lambda>_.
     and_then (teardown_report hw firmware) (\<lambda>_.
     case cleared of Some e \<Rightarrow> throw e | None \<Rightarrow> (case left of Some e \<Rightarrow> throw e | None \<Rightarrow> ret ()))))))))))"

section \<open>What firmware gets back\<close>

lemma on_cpu_run:
  "on_cpu act b = (fst (act (machine_of b)), b\<lparr>b_world := (b_world b)\<lparr>w_machine := snd (act (machine_of b))\<rparr>\<rparr>)"
  by (simp add: on_cpu_def on_world_def on_hw_def split_beta)

lemma catch_error_run:
  "catch_error act s = (case fst (act s) of Ok _ \<Rightarrow> Ok None | Err e \<Rightarrow> Ok (Some e) | Panic \<Rightarrow> Panic, snd (act s))"
  by (cases "act s"; cases "fst (act s)") (simp_all add: catch_error_def)

text \<open>
  LGDT and LIDT load their registers; VMCLEAR, VMXOFF, writes of CR0 and CR4, and STI change neither; and a control
  register keeps what was written to it through the rest of the teardown.
\<close>

locale teardown_registers =
  fixes hw :: "'m platform"
  assumes lgdt_sgdt: "length bs = 10 \<Longrightarrow> i_sgdt hw (i_lgdt hw bs m) = bs"
    and lidt_sidt: "length bs = 10 \<Longrightarrow> i_sidt hw (i_lidt hw bs m) = bs"
    and lidt_sgdt: "i_sgdt hw (i_lidt hw bs m) = i_sgdt hw m"
    and vmclear_tables: "i_sgdt hw (snd (i_vmclear hw p m)) = i_sgdt hw m" "i_sidt hw (snd (i_vmclear hw p m)) = i_sidt hw m"
    and vmxoff_tables: "i_sgdt hw (snd (i_vmxoff hw m)) = i_sgdt hw m" "i_sidt hw (snd (i_vmxoff hw m)) = i_sidt hw m"
    and cr0_tables: "i_sgdt hw (i_write_cr0 hw v m) = i_sgdt hw m" "i_sidt hw (i_write_cr0 hw v m) = i_sidt hw m"
    and cr4_tables: "i_sgdt hw (i_write_cr4 hw v m) = i_sgdt hw m" "i_sidt hw (i_write_cr4 hw v m) = i_sidt hw m"
    and sti_tables: "i_sgdt hw (i_sti hw m) = i_sgdt hw m" "i_sidt hw (i_sti hw m) = i_sidt hw m"
    and cr0_kept: "i_read_cr0 hw (i_write_cr0 hw v m) = v" "i_read_cr0 hw (i_write_cr4 hw u m) = i_read_cr0 hw m"
      "i_read_cr0 hw (i_sti hw m) = i_read_cr0 hw m"
    and cr4_kept: "i_read_cr4 hw (i_write_cr4 hw v m) = v" "i_read_cr4 hw (i_sti hw m) = i_read_cr4 hw m"
begin

lemma vmclear_keeps:
  "i_sgdt hw (snd (vmclear hw region m)) = i_sgdt hw m" "i_sidt hw (snd (vmclear hw region m)) = i_sidt hw m"
  "fst (vmclear hw region m) \<noteq> Panic"
  using vmclear_tables [of "phys_addr region" m]
  by (auto simp: vmclear_def map_err_def vmx_asm_def split: prod.splits result.splits)

lemma leave_keeps:
  "i_sgdt hw (snd (leave hw operation m)) = i_sgdt hw m" "i_sidt hw (snd (leave hw operation m)) = i_sidt hw m"
  "fst (leave hw operation m) \<noteq> Panic"
  "fst (leave hw operation m) = Ok () \<Longrightarrow> i_read_cr0 hw (snd (leave hw operation m)) = original_cr0 operation"
  "fst (leave hw operation m) = Ok () \<Longrightarrow> i_read_cr4 hw (snd (leave hw operation m)) = original_cr4 operation"
  using vmxoff_tables [of m]
  by (auto simp: leave_def vmxoff_def vmx_asm_def and_then_def cr0_tables cr4_tables cr0_kept cr4_kept
      split: prod.splits result.splits)

lemma teardown_run:
  assumes "teardown hw operation vmcs firmware b = (r, b')"
  shows "r \<noteq> Panic" and "read_gdtr hw (machine_of b') = fw_gdtr firmware" and "read_idtr hw (machine_of b') = fw_idtr firmware"
    and "PHASE (b_world b') = 0"
    and "r = Ok () \<Longrightarrow> i_read_cr0 hw (machine_of b') = original_cr0 operation \<and>
      i_read_cr4 hw (machine_of b') = original_cr4 operation"
proof -
  let ?m1 = "load_idtr hw (fw_idtr firmware) (load_gdtr hw (fw_gdtr firmware) (machine_of b))"
  define m2 where "m2 = (case vmcs of Some region \<Rightarrow> snd (vmclear hw region ?m1) | None \<Rightarrow> ?m1)"
  define m3 where "m3 = snd (leave hw operation m2)"
  define m4 where "m4 = (if fw_interrupts_enabled firmware then i_sti hw m3 else m3)"
  have t: "i_sgdt hw m4 = to_operand (fw_gdtr firmware)" "i_sidt hw m4 = to_operand (fw_idtr firmware)"
    by (simp_all add: m4_def m3_def m2_def load_gdtr_def load_idtr_def sti_tables leave_keeps vmclear_keeps lgdt_sgdt lidt_sidt
        lidt_sgdt split: option.split)
  define cleared where "cleared = (case vmcs of Some region \<Rightarrow> fst (vmclear hw region ?m1) | None \<Rightarrow> Ok ())"
  have nc: "cleared \<noteq> Panic" using vmclear_keeps(3) by (simp add: cleared_def split: option.split)
  have nl: "fst (leave hw operation m2) \<noteq> Panic" by (rule leave_keeps)
  have cl: "(case vmcs of Some region \<Rightarrow> on_cpu (catch_error (map_err VmclearFailed (vmclear hw region))) | None \<Rightarrow> ret None)
      (b\<lparr>b_world := b_world b\<lparr>w_machine := ?m1\<rparr>\<rparr>)
    = (Ok (case cleared of Err e \<Rightarrow> Some (VmclearFailed e) | _ \<Rightarrow> None), b\<lparr>b_world := b_world b\<lparr>w_machine := m2\<rparr>\<rparr>)"
    using nc by (cases vmcs; cases cleared) (simp_all add: cleared_def m2_def on_cpu_run catch_error_run map_err_run)
  have run: "machine_of b' = m4 \<and> PHASE (b_world b') = 0 \<and>
      r = (case cleared of Err e \<Rightarrow> Err (VmclearFailed e)
           | _ \<Rightarrow> (case fst (leave hw operation m2) of Err e \<Rightarrow> Err (VmxoffFailed e) | _ \<Rightarrow> Ok ()))"
    using assms nc nl
    by (cases cleared; cases "fst (leave hw operation m2)")
      (auto simp: teardown_def and_then_run on_cpu_run cl log_failure_def log_line_def catch_error_run map_err_run
        teardown_report_def on_world_def m3_def [symmetric] m4_def phase_value.simps split_beta)
  show "r \<noteq> Panic" using run nc nl by (auto split: result.splits)
  show "read_gdtr hw (machine_of b') = fw_gdtr firmware" "read_idtr hw (machine_of b') = fw_idtr firmware"
    using run t by (simp_all add: read_gdtr_def read_idtr_def)
  show "PHASE (b_world b') = 0" using run by simp
  show "i_read_cr0 hw (machine_of b') = original_cr0 operation \<and> i_read_cr4 hw (machine_of b') = original_cr4 operation"
    if "r = Ok ()"
  proof -
    have "fst (leave hw operation m2) = Ok ()" using run nl that by (auto split: result.splits)
    then show ?thesis using run leave_keeps(4,5) [of operation m2] by (simp add: m4_def m3_def cr0_kept cr4_kept)
  qed
qed

end

end
