(* ===== verification/Bring_Up.thy ===== *)
theory Bring_Up
  imports Teardown Guest Guest_State Launch Handler Exit_Bitmaps
begin

text \<open>
  The bring-up sequence (\<open>bring_up/mod.rs\<close>, \<open>bring_up/error.rs\<close>, \<open>bring_up/report.rs\<close>): everything \<open>main\<close> does between
  setting up output and returning to firmware. The guest's run between VMLAUNCH and the stop is the parameter
  \<open>vmx_launch\<close>: what the processor and the exit stub do until the stub returns its stop value.
\<close>

section \<open>Errors\<close>

datatype BringUpError =
    BTss TssError
  | BGdt GdtError
  | BVmExitStack VmExitStackError
  | BGuestMemory GuestMemoryError
  | BExitBitmaps ExitBitmapsError
  | VmxNotSupportedByCpu
  | VmxDisabledByFirmware
  | BEpt EptError
  | BVmxOn VmxOnError
  | BVmcs string VmcsError "u32 option"
  | BGuestState GuestStateError "u32 option"
  | HostTablesChanged
  | UnexpectedExit u64 ExitReason
  | BResumeFailed VmcsError "u32 option"
  | BTeardown TeardownError

text \<open>
  \<open>map_err(vmcs_step(operation))\<close> and \<open>map_err(guest_state_error)\<close>: the VM-instruction error is read when the error is
  made, while the VMCS is current.
\<close>

definition vmcs_step :: "'m platform \<Rightarrow> string \<Rightarrow> ('m, VmcsError, 'a) action \<Rightarrow> ('m, BringUpError, 'a) action" where
  "vmcs_step hw operation act m =
     (case act m of
        (Ok x, m1) \<Rightarrow> (Ok x, m1)
      | (Err error, m1) \<Rightarrow> and_then (instruction_error_for hw error) (\<lambda>ie. throw (BVmcs operation error ie)) m1
      | (Panic, m1) \<Rightarrow> (Panic, m1))"

definition guest_state_error :: "'m platform \<Rightarrow> ('m, GuestStateError, 'a) action \<Rightarrow> ('m, BringUpError, 'a) action" where
  "guest_state_error hw act m =
     (case act m of
        (Ok x, m1) \<Rightarrow> (Ok x, m1)
      | (Err error, m1) \<Rightarrow>
          and_then (case error of GuestStateVmcs _ e \<Rightarrow> instruction_error_for hw e | _ \<Rightarrow> ret None) (\<lambda>ie.
          throw (BGuestState error ie)) m1
      | (Panic, m1) \<Rightarrow> (Panic, m1))"

section \<open>Reports\<close>

definition report_segment_state :: "'m platform \<Rightarrow> ('m bring_up, 'e, unit) action" where
  "report_segment_state hw =
     and_then (on_cpu (read_all hw)) (\<lambda>state.
     and_then (log_values ''segments: cs ss ds es fs gs tr'' (map ucast
       [seg_cs state, seg_ss state, seg_ds state, seg_es state, seg_fs state, seg_gs state, seg_tr state])) (\<lambda>_.
     and_then (log_values ''bases: fs gs tr'' [seg_fs_base state, seg_gs_base state, seg_tr_base state]) (\<lambda>_.
     and_then (log_values ''gdtr: base limit'' [base (seg_gdtr state), ucast (limit (seg_gdtr state))]) (\<lambda>_.
     and_then (log_values ''idtr: base limit'' [base (seg_idtr state), ucast (limit (seg_idtr state))]) (\<lambda>_.
     if seg_tr state = 0 then log_values ''WARNING: TR is 0; VM entry would reject this host state.'' [] else ret ())))))"

definition report_vmx_capabilities :: "VmcsControlMsrs \<Rightarrow> ('m bring_up, 'e, unit) action" where
  "report_vmx_capabilities controls =
     and_then (log_values ''VMX BASIC; true controls'' [basic controls, truth (basic controls AND VMX_BASIC_TRUE_CONTROLS \<noteq> 0)]) (\<lambda>_.
     and_then (for_each [(''VMX pin: required allowed'', pinbased controls), (''VMX primary: required allowed'', primary controls),
         (''VMX exit: required allowed'', exit_cap controls), (''VMX entry: required allowed'', entry_cap controls)]
       (\<lambda>(name, capability). log_values name [ucast (required capability), ucast (allowed capability)])) (\<lambda>_.
     log_values ''VMX secondary: required allowed; EPT/VPID capabilities''
       [ucast (required (secondary controls)), ucast (allowed (secondary controls)), ept_vpid_cap controls]))"

definition report_ept :: "Ept \<Rightarrow> u64 \<Rightarrow> ('m bring_up, 'e, unit) action" where
  "report_ept ept data_page' =
     log_values ''EPT built: identity end, GiB, table pages; data page read-only''
       [ept_end ept, drop_bit 30 (ept_end ept), of_nat (ept_table_pages ept), data_page']"

primrec page_size_name :: "PageSize \<Rightarrow> string" where
  "page_size_name Size4K = ''Size4K''"
| "page_size_name Size2M = ''Size2M''"
| "page_size_name Size1G = ''Size1G''"

definition report_mapping :: "string \<times> u64 \<times> Mapping \<Rightarrow> ('m bring_up, 'e, unit) action" where
  "report_mapping entry = (case entry of (name, virtual_address, mapping) \<Rightarrow>
     log_values (name @ '': virt phys identity writable user xd, size '' @ page_size_name (map_size mapping))
       [virtual_address, map_physical mapping, truth (map_physical mapping = virtual_address),
       truth (map_writable mapping), truth (map_user mapping), truth (map_execute_disable mapping)])"

definition report_guest_mappings :: "'m platform \<Rightarrow> GuestMemory \<Rightarrow> GuestMappings \<Rightarrow> ('m bring_up, 'e, unit) action" where
  "report_guest_mappings hw guest mappings =
     and_then (lift_result (guest_stack_top guest)) (\<lambda>stack_end.
     and_then (for_each
       [(''Guest code page'', code_base guest, gm_code mappings), (''Guest stack page'', stack_end - of_nat PAGE_SIZE, gm_stack mappings),
        (''Guest IDT page'', base (guest_idt guest), gm_idt mappings), (''Guest data page'', data_page guest, gm_data mappings)]
       report_mapping) (\<lambda>_.
     and_then (on_cpu (rdmsr hw IA32_EFER)) (\<lambda>efer.
     and_then (on_cpu (gets (i_read_cr4 hw))) (\<lambda>cr4.
     log_values ''Guest code page executable, stack and data pages writable; host EFER.NXE CR4.SMEP CR4.SMAP''
       [truth (efer AND EFER_NXE \<noteq> 0), truth (cr4 AND CR4_SMEP \<noteq> 0), truth (cr4 AND CR4_SMAP \<noteq> 0)]))))"

definition report_exit_bitmaps :: "ExitBitmaps \<Rightarrow> ('m bring_up, 'e, unit) action" where
  "report_exit_bitmaps bitmaps =
     and_then (log_values ''Exit bitmaps allocated: MSR, I/O A, I/O B'' [bm_msr bitmaps, bm_io_a bitmaps, bm_io_b bitmaps]) (\<lambda>_.
     log_values ''Intercepted MSRs (read and write); intercepted ports'' (map ucast INTERCEPTED_MSRS @ map ucast INTERCEPTED_PORTS))"

record PassthroughState =
  pt_kernel_gs_base :: u64
  pt_com1_scratch :: u8

definition read_passthrough_state :: "'m platform \<Rightarrow> ('m, 'e, PassthroughState) action" where
  "read_passthrough_state hw =
     and_then (rdmsr hw IA32_KERNEL_GS_BASE) (\<lambda>kernel_gs_base.
     and_then (inb hw GUEST_SCRATCH_PORT) (\<lambda>com1_scratch.
     ret \<lparr>pt_kernel_gs_base = kernel_gs_base, pt_com1_scratch = com1_scratch\<rparr>))"

definition report_passthrough_state :: "PassthroughState \<Rightarrow> PassthroughState \<Rightarrow> ('m bring_up, 'e, unit) action" where
  "report_passthrough_state before after =
     log_values ''Passthrough state before the guest, after it; restored''
       [pt_kernel_gs_base before, ucast (pt_com1_scratch before), pt_kernel_gs_base after, ucast (pt_com1_scratch after),
        truth (before = after)]"

definition report_segment :: "string \<times> GuestSegment \<Rightarrow> ('m bring_up, 'e, unit) action" where
  "report_segment entry = (case entry of (name, segment) \<Rightarrow>
     log_values name [ucast (gs_selector segment), gs_seg_base segment, ucast (gs_limit segment), ucast (gs_access_rights segment)])"

definition report_guest_state :: "GuestState \<Rightarrow> ('m bring_up, 'e, unit) action" where
  "report_guest_state state =
     and_then (log_values ''Guest rip rsp rflags cr0 cr3 cr4''
       [g_rip state, g_rsp state, g_rflags state, g_cr0 state, g_cr3 state, g_cr4 state]) (\<lambda>_.
     and_then (for_each [(''Guest cs'', g_cs state), (''Guest ss'', g_ss state), (''Guest ds'', g_ds state), (''Guest es'', g_es state),
         (''Guest fs'', g_fs state), (''Guest gs'', g_gs state), (''Guest tr'', g_tr state), (''Guest ldtr'', g_ldtr state)]
       report_segment) (\<lambda>_.
     and_then (log_values ''Guest gdtr idtr; PAT load EFER load''
       [base (g_gdtr state), ucast (limit (g_gdtr state)), base (g_idtr state), ucast (limit (g_idtr state)),
        truth (g_pat state \<noteq> None), truth (g_efer state \<noteq> None)]) (\<lambda>_.
     log_values ''VMCS guest fields written and read back; VM entry not attempted.'' [])))"

section \<open>Host tables\<close>

record HostTables =
  ht_tss :: TssRegion
  ht_gdt :: GdtRegion
  ht_gdtr :: DescriptorTable
  ht_tr :: u16
  ht_tss_base :: u64
  ht_idtr :: DescriptorTable
  ht_firmware_gdtr :: DescriptorTable

definition activate_host_tables :: "'m platform \<Rightarrow> ('m bring_up, BringUpError, HostTables) action" where
  "activate_host_tables hw =
     and_then (on_cpu (gets (read_gdtr hw))) (\<lambda>firmware_gdtr.
     and_then (on_cpu (map_err BTss (tss_allocate hw))) (\<lambda>tss.
     and_then (log_values ''Host TSS allocated; TR not loaded yet.'' [tss_base tss]) (\<lambda>_.
     and_then (on_cpu (map_err BGdt (copy_active hw))) (\<lambda>gdt.
     and_then (log_values ''Host GDT copied.'' [gdt_base gdt]) (\<lambda>_.
     and_then (on_cpu (map_err BGdt (append_tss_descriptor hw gdt tss))) (\<lambda>(selector, gdt).
     and_then (on_cpu (gets (verify_tss_descriptor hw gdt tss))) (\<lambda>verified.
     if \<not> verified then throw (BGdt TssVerificationFailed)
     else case prepared_gdtr gdt of
       None \<Rightarrow> throw (BGdt GdtrPreparationFailed)
     | Some prepared \<Rightarrow>
         if \<not> (base prepared = gdt_base gdt \<and> limit prepared = selector + 15) then throw (BGdt GdtrPreparationFailed)
         else
           and_then (log_values ''Host GDT prepared: base limit tr_selector'' [base prepared, ucast (limit prepared), ucast selector]) (\<lambda>_.
           and_then (on_cpu (map_err BGdt (activate hw gdt tss))) (\<lambda>_.
           and_then (log_values ''Host GDT and TSS activated and verified.'' []) (\<lambda>_.
           and_then (on_cpu (gets (read_idtr hw))) (\<lambda>idtr.
           ret \<lparr>ht_tss = tss, ht_gdt = gdt, ht_gdtr = prepared, ht_tr = selector, ht_tss_base = tss_base tss, ht_idtr = idtr,
                ht_firmware_gdtr = firmware_gdtr\<rparr>)))))))))))"

definition check_host_tables_preserved :: "'m platform \<Rightarrow> HostTables \<Rightarrow> ('m bring_up, BringUpError, unit) action" where
  "check_host_tables_preserved hw expected =
     and_then (on_cpu (gets (\<lambda>m. (read_gdtr hw m, i_str hw m, read_idtr hw m)))) (\<lambda>(gdtr, tr, idtr).
     and_then (on_cpu (gets (segment_base_from_gdt hw gdtr tr))) (\<lambda>tr_base.
     let same_gdtr = (gdtr = ht_gdtr expected);
         same_idtr = (idtr = ht_idtr expected);
         same_tss_base = (same_gdtr \<and> tr = ht_tr expected \<and> tr_base = ht_tss_base expected)
     in if same_gdtr \<and> same_idtr \<and> same_tss_base
        then log_values ''Host GDTR, TR, TSS base and IDTR preserved after VMX/UEFI calls.'' []
        else
          and_then (log_values ''WARNING: Host descriptor state changed after VMX/UEFI calls.'' []) (\<lambda>_.
          and_then (log_values ''Expected GDTR TR TSS IDTR'' [base (ht_gdtr expected), ucast (limit (ht_gdtr expected)), ucast (ht_tr expected),
            ht_tss_base expected, base (ht_idtr expected), ucast (limit (ht_idtr expected))]) (\<lambda>_.
          and_then (log_values ''Actual GDTR TR IDTR TSS base matches'' [base gdtr, ucast (limit gdtr), ucast tr, base idtr,
            ucast (limit idtr), truth same_tss_base]) (\<lambda>_.
          throw HostTablesChanged)))))"

section \<open>Entering VMX operation\<close>

definition check_vmx_support :: "'m platform \<Rightarrow> ('m bring_up, BringUpError, VmcsControlMsrs \<times> InveptType) action" where
  "check_vmx_support hw =
     and_then (on_cpu (detect hw)) (\<lambda>capabilities.
     and_then (case capabilities of
         Supported \<Rightarrow> log_values ''VMX supported and enabled by firmware.'' []
       | NotSupportedByCpu \<Rightarrow> throw VmxNotSupportedByCpu
       | DisabledByFirmware \<Rightarrow> throw VmxDisabledByFirmware) (\<lambda>_.
     and_then (on_cpu (read_vmcs_control_msrs hw)) (\<lambda>controls.
     and_then (report_vmx_capabilities controls) (\<lambda>_.
     and_then (lift_result (map_result_err BEpt (check_support (secondary controls) (ept_vpid_cap controls)))) (\<lambda>invept.
     and_then (log_values (''EPT supported: 4-level walk, WB, 2 MiB pages, INVEPT '' @ invept_name invept) []) (\<lambda>_.
     ret (controls, invept)))))))"

record VmxEntry =
  e_vmexit_stack :: VmExitStack
  e_guest :: GuestMemory
  e_ept :: Ept
  e_bitmaps :: ExitBitmaps
  e_controls :: VmcsControlMsrs
  e_firmware :: FirmwareState
  e_vmx_operation :: VmxOperation

text \<open>\<open>VmExitStack::top\<close>, whose assertion panics.\<close>

definition exit_stack_top :: "VmExitStack \<Rightarrow> ('s, 'e, u64) action" where
  "exit_stack_top stack = (case stack_top stack of Some t \<Rightarrow> ret t | None \<Rightarrow> panic_with)"

definition on_ept :: "('m \<times> EptStatics, 'e, 'a) action \<Rightarrow> ('m bring_up, 'e, 'a) action" where
  "on_ept act = on_world (\<lambda>w. case act (w_machine w, w_ept w) of (r, m, e) \<Rightarrow> (r, w\<lparr>w_machine := m, w_ept := e\<rparr>))"

definition enter_vmx :: "'m platform \<Rightarrow> guest_image \<Rightarrow> HostTables \<Rightarrow> ('m bring_up, BringUpError, VmxEntry) action" where
  "enter_vmx hw img host_tables =
     and_then (on_cpu (map_err BVmExitStack (allocate_exit_stack hw))) (\<lambda>vmexit_stack.
     and_then (exit_stack_top vmexit_stack) (\<lambda>stack_end.
     and_then (log_values ''VM-exit stack allocated: top size'' [stack_end, of_nat VM_EXIT_STACK_SIZE]) (\<lambda>_.
     and_then (on_cpu (map_err BGuestMemory (allocate_guest hw img))) (\<lambda>guest.
     and_then (lift_result (guest_stack_top guest)) (\<lambda>guest_stack_end.
     and_then (log_values ''Guest memory allocated: code, bytes copied, stack top'' [code_base guest, of_nat (code_len img), guest_stack_end]) (\<lambda>_.
     and_then (log_values ''Guest IDT (limit): vector 2 -> NMI handler''
       [base (guest_idt guest), ucast (limit (guest_idt guest)), nmi_handler img guest]) (\<lambda>_.
     and_then (on_cpu (map_err BGuestMemory (check_mappings hw guest))) (\<lambda>mappings.
     and_then (report_guest_mappings hw guest mappings) (\<lambda>_.
     and_then (on_cpu (map_err BExitBitmaps (allocate_bitmaps hw))) (\<lambda>bitmaps.
     and_then (report_exit_bitmaps bitmaps) (\<lambda>_.
     and_then (check_vmx_support hw) (\<lambda>(controls, invept).
     and_then (on_ept (map_err BEpt (build hw (data_page guest) invept))) (\<lambda>ept.
     and_then (report_ept ept (data_page guest)) (\<lambda>_.
     and_then (on_cpu (gets (interrupts_enabled hw))) (\<lambda>enabled.
     let firmware = \<lparr>fw_gdtr = ht_firmware_gdtr host_tables, fw_idtr = ht_idtr host_tables, fw_interrupts_enabled = enabled\<rparr>
     in
     and_then (on_cpu (map_err BVmxOn (enter_vmx_root_operation hw))) (\<lambda>vmx_operation.
     and_then (log_values ''Entered VMX root operation.'' []) (\<lambda>_.
     ret \<lparr>e_vmexit_stack = vmexit_stack, e_guest = guest, e_ept = ept, e_bitmaps = bitmaps, e_controls = controls,
          e_firmware = firmware, e_vmx_operation = vmx_operation\<rparr>)))))))))))))))))"

section \<open>Launching\<close>

definition prepare_vmcs ::
  "'m platform \<Rightarrow> u64 \<Rightarrow> VmcsControlMsrs \<Rightarrow> VmExitStack \<Rightarrow> GuestMemory \<Rightarrow> Ept \<Rightarrow> ExitBitmaps
     \<Rightarrow> ('m bring_up, BringUpError, unit) action" where
  "prepare_vmcs hw entry_address controls vmexit_stack guest ept bitmaps =
     and_then (on_cpu (vmcs_step hw ''self-test'' (self_test hw))) (\<lambda>_.
     and_then (log_values ''VMCS self-test passed: VMREAD returned what VMWRITE stored.'' []) (\<lambda>_.
     and_then (on_cpu (vmcs_step hw ''control setup'' (configure_controls hw controls minimal_64_bit_guest))) (\<lambda>_.
     and_then (log_values ''VMCS controls written and read back successfully.'' []) (\<lambda>_.
     and_then (on_cpu (vmcs_step hw ''EPT pointer setup'' (set_ept_pointer hw (ept_eptp ept)))) (\<lambda>_.
     and_then (log_values ''VMCS EPT pointer (WB, 4-level) written and read back.'' [ept_eptp ept]) (\<lambda>_.
     and_then (on_cpu (vmcs_step hw ''exit bitmap setup'' (write_to_vmcs hw bitmaps))) (\<lambda>_.
     and_then (log_values ''VMCS MSR and I/O bitmap addresses written and read back.'' []) (\<lambda>_.
     and_then (on_cpu (vmcs_step hw ''host-state setup'' (configure_host_state hw))) (\<lambda>_.
     and_then (on_cpu (vmcs_step hw ''exit-control readback'' (vmread hw VM_EXIT_CONTROLS))) (\<lambda>exit_controls.
     and_then (log_values ''VMCS host fields written and read back; host PAT load, EFER load; VM entry not attempted.''
       [truth (exit_controls AND VM_EXIT_LOAD_IA32_PAT \<noteq> 0), truth (exit_controls AND VM_EXIT_LOAD_IA32_EFER \<noteq> 0)]) (\<lambda>_.
     and_then (exit_stack_top vmexit_stack) (\<lambda>stack_end.
     and_then (on_cpu (vmcs_step hw ''host entry address setup'' (configure_host_entry hw stack_end entry_address))) (\<lambda>_.
     and_then (log_values ''VMCS HOST_RSP/HOST_RIP written and read back; VM entry not attempted.'' []) (\<lambda>_.
     and_then (lift_result (guest_stack_top guest)) (\<lambda>guest_stack_end.
     and_then (on_cpu (guest_state_error hw (from_current hw (code_base guest) guest_stack_end (guest_idt guest)))) (\<lambda>guest_state.
     and_then (on_cpu (guest_state_error hw (write_guest_state hw guest_state))) (\<lambda>_.
     report_guest_state guest_state)))))))))))))))))"

fun guest_result :: "GuestStop \<Rightarrow> (BringUpError, u64) result" where
  "guest_result (GuestFinished exits) = Ok exits"
| "guest_result (GuestUnexpected number reason) = Err (UnexpectedExit number reason)"
| "guest_result (LaunchFailed error ie) = Err (BVmcs ''launch'' error ie)"
| "guest_result (ResumeFailed error ie) = Err (BResumeFailed error ie)"

text \<open>\<open>vmx::vmcs::launch\<close> with the guest's run as the parameter: it changes the whole world, the decoding only the machine.\<close>

definition launch_in_world :: "'m platform \<Rightarrow> ('m world \<Rightarrow> u64 \<times> 'm world) \<Rightarrow> ('m bring_up, 'e, GuestStop) action" where
  "launch_in_world hw vmx_launch = on_world (\<lambda>w.
     case vmx_launch w of (v, w1) \<Rightarrow>
     case launch hw (\<lambda>m. (v, m)) (w_machine w1) of (stop, m) \<Rightarrow> (Ok stop, w1\<lparr>w_machine := m\<rparr>))"

definition launch_guest ::
  "'m platform \<Rightarrow> u64 \<Rightarrow> ('m world \<Rightarrow> u64 \<times> 'm world) \<Rightarrow> VmcsControlMsrs \<Rightarrow> VmExitStack \<Rightarrow> GuestMemory \<Rightarrow> Ept
     \<Rightarrow> ExitBitmaps \<Rightarrow> HostTables \<Rightarrow> ('m bring_up, BringUpError, u64) action" where
  "launch_guest hw entry_address vmx_launch controls vmexit_stack guest ept bitmaps host_tables =
     and_then (prepare_vmcs hw entry_address controls vmexit_stack guest ept bitmaps) (\<lambda>_.
     and_then (check_host_tables_preserved hw host_tables) (\<lambda>_.
     and_then (log_values ''Launching the guest with VMLAUNCH; its VM exits are reported on serial only.'' []) (\<lambda>_.
     and_then (on_cpu (read_passthrough_state hw)) (\<lambda>before.
     and_then (launch_in_world hw vmx_launch) (\<lambda>stop.
     and_then (on_cpu (read_passthrough_state hw)) (\<lambda>after.
     and_then (report_passthrough_state before after) (\<lambda>_.
     lift_result (guest_result stop))))))))"

text \<open>\<open>match (result, left)\<close>: the earlier failure explains more.\<close>

fun combine :: "(BringUpError, u64) result \<Rightarrow> (TeardownError, unit) result \<Rightarrow> (BringUpError, u64) result" where
  "combine Panic left = Panic"
| "combine result Panic = Panic"
| "combine (Err error) left = Err error"
| "combine (Ok exits) (Err error) = Err (BTeardown error)"
| "combine (Ok exits) (Ok _) = Ok exits"

definition after_vmxon ::
  "'m platform \<Rightarrow> u64 \<Rightarrow> ('m world \<Rightarrow> u64 \<times> 'm world) \<Rightarrow> HostTables \<Rightarrow> VmxEntry \<Rightarrow> ('m bring_up, BringUpError, u64) action" where
  "after_vmxon hw entry_address vmx_launch host_tables entry b =
     (case on_cpu (vmcs_step hw ''creation'' (create_current hw)) b of (vmcs, b1) \<Rightarrow>
      case (case vmcs of
              Ok _ \<Rightarrow> launch_guest hw entry_address vmx_launch (e_controls entry) (e_vmexit_stack entry) (e_guest entry)
                (e_ept entry) (e_bitmaps entry) host_tables b1
            | Err error \<Rightarrow> (Err error, b1)
            | Panic \<Rightarrow> (Panic, b1)) of (result, b2) \<Rightarrow>
      if result = Panic then (Panic, b2)
      else
        case teardown hw (e_vmx_operation entry) (case vmcs of Ok region \<Rightarrow> Some region | _ \<Rightarrow> None) (e_firmware entry) b2 of (left, b3) \<Rightarrow>
        (combine result left, b3))"

definition run ::
  "'m platform \<Rightarrow> guest_image \<Rightarrow> u64 \<Rightarrow> ('m world \<Rightarrow> u64 \<times> 'm world) \<Rightarrow> ('m bring_up, BringUpError, u64) action" where
  "run hw img entry_address vmx_launch =
     and_then (activate_host_tables hw) (\<lambda>host_tables.
     and_then (report_segment_state hw) (\<lambda>_.
     (\<lambda>b. case enter_vmx hw img host_tables b of
        (Ok entry, b1) \<Rightarrow> after_vmxon hw entry_address vmx_launch host_tables entry b1
      | (Err error, b1) \<Rightarrow> and_then (on_cpu (modify (load_gdtr hw (ht_firmware_gdtr host_tables)))) (\<lambda>_. throw error) b1
      | (Panic, b1) \<Rightarrow> (Panic, b1))))"

section \<open>Every path gives the CPU back\<close>

lemma activate_records_gdtr:
  "activate_host_tables hw b = (Ok tables, b1) \<Longrightarrow> ht_firmware_gdtr tables = read_gdtr hw (machine_of b)"
  unfolding activate_host_tables_def
  by (auto elim!: and_then_OkE simp: on_cpu_run split: if_splits option.splits)

lemma enter_vmx_firmware:
  assumes "enter_vmx hw img tables b = (Ok entry, b1)"
  shows "fw_gdtr (e_firmware entry) = ht_firmware_gdtr tables" and "fw_idtr (e_firmware entry) = ht_idtr tables"
  using assms unfolding enter_vmx_def by (auto elim!: and_then_OkE simp: Let_def)

lemma combine_Ok_iff [simp]: "combine r left = Ok n \<longleftrightarrow> r = Ok n \<and> left = Ok ()"
  by (cases r; cases left) auto

lemma total_on_cpu [act_rules]: "total act \<Longrightarrow> total (on_cpu act)"
  by (auto simp: total_def on_cpu_run)

lemma total_log_line [act_rules]: "total (log_line line)"
  by (simp add: total_def log_line_def)

lemma total_read_all: "total (read_all hw)"
  by (simp add: total_def read_all_def read_fs_base_def read_gs_base_def rdmsr_def and_then_run split_beta)

lemma total_report_segment_state: "total (report_segment_state hw)"
  unfolding report_segment_state_def by (intro act_rules total_read_all)

context teardown_registers
begin

lemma after_vmxon_restores:
  assumes "after_vmxon hw entry_address vmx_launch tables entry b = (r, b')" and "r \<noteq> Panic"
  shows "read_gdtr hw (machine_of b') = fw_gdtr (e_firmware entry)" and "read_idtr hw (machine_of b') = fw_idtr (e_firmware entry)"
    and "PHASE (b_world b') = 0"
    and "r = Ok n \<Longrightarrow> i_read_cr0 hw (machine_of b') = original_cr0 (e_vmx_operation entry) \<and>
      i_read_cr4 hw (machine_of b') = original_cr4 (e_vmx_operation entry)"
proof -
  obtain result vmcs b2 left where t: "teardown hw (e_vmx_operation entry) vmcs (e_firmware entry) b2 = (left, b')"
    and r: "r = combine result left"
    using assms unfolding after_vmxon_def by (auto split: prod.splits if_splits)
  note run = teardown_run [OF t]
  show "read_gdtr hw (machine_of b') = fw_gdtr (e_firmware entry)" "read_idtr hw (machine_of b') = fw_idtr (e_firmware entry)"
    "PHASE (b_world b') = 0" using run by simp_all
  show "i_read_cr0 hw (machine_of b') = original_cr0 (e_vmx_operation entry) \<and>
      i_read_cr4 hw (machine_of b') = original_cr4 (e_vmx_operation entry)" if "r = Ok n"
    using that r run(5) by simp
qed

lemma run_restores:
  assumes a: "activate_host_tables hw b = (Ok tables, b1)" and r: "run hw img entry_address vmx_launch b = (r, b')" and "r \<noteq> Panic"
  shows "read_gdtr hw (machine_of b') = read_gdtr hw (machine_of b)"
proof -
  obtain b2 where s: "(report_segment_state hw :: ('m bring_up, BringUpError, unit) action) b1 = (Ok (), b2)"
    using total_report_segment_state unfolding total_def by (metis prod.collapse old.unit.exhaust)
  note g = activate_records_gdtr [OF a]
  obtain re b3 where e: "enter_vmx hw img tables b2 = (re, b3)" by fastforce
  have step: "run hw img entry_address vmx_launch b = (case re of
        Ok entry \<Rightarrow> after_vmxon hw entry_address vmx_launch tables entry b3
      | Err error \<Rightarrow> (Err error, b3\<lparr>b_world := (b_world b3)\<lparr>w_machine := load_gdtr hw (ht_firmware_gdtr tables) (machine_of b3)\<rparr>\<rparr>)
      | Panic \<Rightarrow> (Panic, b3))"
    using a s e by (simp add: run_def and_then_def on_cpu_run split: result.split)
  show ?thesis
  proof (cases re)
    case (Ok entry)
    then have "after_vmxon hw entry_address vmx_launch tables entry b3 = (r, b')" using step r by simp
    from after_vmxon_restores(1) [OF this assms(3)] enter_vmx_firmware(1) [OF e [unfolded Ok]] g show ?thesis by simp
  next
    case (Err error)
    then have "machine_of b' = load_gdtr hw (ht_firmware_gdtr tables) (machine_of b3)" using step r by auto
    then show ?thesis using g by (simp add: read_gdtr_def load_gdtr_def lgdt_sgdt)
  next
    case Panic
    then show ?thesis using step r assms(3) by simp
  qed
qed

end

lemma on_cpu_OkD:
  assumes "on_cpu act b = (Ok x, b')"
  shows "act (machine_of b) = (Ok x, machine_of b')"
  using assms by (auto simp: on_cpu_run prod_eq_iff)

lemma log_line_OkD: "log_line line b = (r, b') \<Longrightarrow> machine_of b' = machine_of b"
  by (auto simp: log_line_def)

lemma activate_host_tables_OkD:
  assumes "activate_host_tables hw b = (Ok tables, b')"
  obtains tss m1 region m2 region' m3 where
    "tss_allocate hw (machine_of b) = (Ok tss, m1)" "copy_active hw m1 = (Ok region, m2)"
    "append_tss_descriptor hw region tss m2 = (Ok (ht_tr tables, region'), m3)"
    "activate hw region' tss m3 = (Ok (), machine_of b')"
    "prepared_gdtr region' = Some (ht_gdtr tables)" "ht_tss_base tables = tss_base tss"
  using assms unfolding activate_host_tables_def
  by (auto elim!: and_then_OkE dest!: on_cpu_OkD log_line_OkD split: if_splits option.splits)

end
