(* ===== verification/Vmcs_Setup.thy ===== *)
theory Vmcs_Setup
  imports Bring_Up
begin

text \<open>
  What the VMCS holds once bring-up has prepared it for the first VM entry: every group of fields the setup writes,
  named field by field, after all of its steps (\<open>prepare_vmcs\<close>), and the guest state it captures from the processor.
  The locale \<open>setup_hardware\<close> states what this relies on besides the VMCS: RDMSR reads a register and nothing else
  happens, and VMWRITE leaves the processor's own registers, the MSRs and memory alone.
\<close>

section \<open>The processor's own state\<close>

definition cpu_state :: "'m platform \<Rightarrow> ('m \<Rightarrow> u32 \<Rightarrow> u64) \<Rightarrow> 'm \<Rightarrow>
    (u64 \<times> u64 \<times> u64) \<times> (u8 list \<times> u8 list) \<times> u16 list \<times> (u32 \<Rightarrow> u64) \<times> (u64 \<Rightarrow> u8)" where
  "cpu_state hw msr m =
     ((i_read_cr0 hw m, i_read_cr3 hw m, i_read_cr4 hw m), (i_sgdt hw m, i_sidt hw m),
      [i_es hw m, i_cs hw m, i_ss hw m, i_ds hw m, i_fs hw m, i_gs hw m, i_str hw m], msr m, \<lambda>a. i_load8 hw a m)"

locale setup_hardware = supported_vmcs +
  fixes msr :: "'a \<Rightarrow> u32 \<Rightarrow> u64"
  assumes rdmsr_law: "i_rdmsr hw r m = (ucast (msr m r), ucast (drop_bit 32 (msr m r)), m)"
    and vmwrite_cpu: "cpu_state hw msr (snd (i_vmwrite hw e v m)) = cpu_state hw msr m"

section \<open>What is captured, and where it is written\<close>

text \<open>
  A segment register as the guest gets it: a null selector is unusable, any other has its descriptor's contents with the
  accessed bit of a code or data segment (descriptor bit 44) set; \<open>b\<close> is the base when it does not come from the
  descriptor.
\<close>

definition captured_segment :: "'m platform \<Rightarrow> 'm \<Rightarrow> u16 \<Rightarrow> u64 option \<Rightarrow> GuestSegment \<Rightarrow> bool" where
  "captured_segment hw m selector b seg \<longleftrightarrow> gs_selector seg = selector \<and>
     (if unat selector < 4
      then gs_seg_base seg = (case b of Some v \<Rightarrow> v | None \<Rightarrow> 0) \<and> gs_limit seg = 0 \<and> gs_access_rights seg = 0x10000
      else (case read_descriptor hw (read_gdtr hw m) selector m of
              None \<Rightarrow> False
            | Some d \<Rightarrow> gs_seg_base seg = (case b of Some v \<Rightarrow> v | None \<Rightarrow> descriptor_base d) \<and>
                gs_limit seg = descriptor_limit d \<and> gs_access_rights seg = access_rights d OR of_bool (bit d 44)))"

definition captured_state ::
  "'m platform \<Rightarrow> ('m \<Rightarrow> u32 \<Rightarrow> u64) \<Rightarrow> 'm \<Rightarrow> u64 \<Rightarrow> u64 \<Rightarrow> u64 \<Rightarrow> DescriptorTable \<Rightarrow> GuestState \<Rightarrow> bool" where
  "captured_state hw msr m entry_controls rip rsp idtr s \<longleftrightarrow>
     g_rip s = rip \<and> g_rsp s = rsp \<and> g_rflags s = 2 \<and>
     g_cr0 s = i_read_cr0 hw m \<and> g_cr3 s = i_read_cr3 hw m \<and> g_cr4 s = i_read_cr4 hw m \<and>
     captured_segment hw m (i_es hw m) None (g_es s) \<and> captured_segment hw m (i_cs hw m) None (g_cs s) \<and>
     captured_segment hw m (i_ss hw m) None (g_ss s) \<and> captured_segment hw m (i_ds hw m) None (g_ds s) \<and>
     captured_segment hw m (i_fs hw m) (Some (msr m IA32_FS_BASE)) (g_fs s) \<and>
     captured_segment hw m (i_gs hw m) (Some (msr m IA32_GS_BASE)) (g_gs s) \<and>
     captured_segment hw m (i_str hw m) (Some (segment_base_from_gdt hw (read_gdtr hw m) (i_str hw m) m)) (g_tr s) \<and>
     g_ldtr s = \<lparr>gs_selector = 0, gs_seg_base = 0, gs_limit = 0, gs_access_rights = 0x10000\<rparr> \<and>
     g_gdtr s = read_gdtr hw m \<and> g_idtr s = idtr \<and>
     g_sysenter_cs s = take_bit 32 (msr m IA32_SYSENTER_CS) \<and> g_sysenter_esp s = msr m IA32_SYSENTER_ESP \<and>
     g_sysenter_eip s = msr m IA32_SYSENTER_EIP \<and>
     g_pat s = (if bit entry_controls 14 then Some (msr m IA32_PAT) else None) \<and>
     g_efer s = (if bit entry_controls 15 then Some (msr m IA32_EFER) else None)"

definition holds_segment :: "(u32 \<Rightarrow> u64) \<Rightarrow> u32 \<Rightarrow> u32 \<Rightarrow> u32 \<Rightarrow> u32 \<Rightarrow> GuestSegment \<Rightarrow> bool" where
  "holds_segment fld selector b l rights seg \<longleftrightarrow>
     fld selector = ucast (gs_selector seg) \<and> fld b = gs_seg_base seg \<and> fld l = ucast (gs_limit seg) \<and>
     fld rights = ucast (gs_access_rights seg)"

definition holds_guest_state :: "(u32 \<Rightarrow> u64) \<Rightarrow> GuestState \<Rightarrow> bool" where
  "holds_guest_state fld s \<longleftrightarrow>
     fld GUEST_RIP = g_rip s \<and> fld GUEST_RSP = g_rsp s \<and> fld GUEST_RFLAGS = g_rflags s \<and>
     fld GUEST_CR0 = g_cr0 s \<and> fld GUEST_CR3 = g_cr3 s \<and> fld GUEST_CR4 = g_cr4 s \<and>
     fld GUEST_GDTR_BASE = base (g_gdtr s) \<and> fld GUEST_GDTR_LIMIT = ucast (limit (g_gdtr s)) \<and>
     fld GUEST_IDTR_BASE = base (g_idtr s) \<and> fld GUEST_IDTR_LIMIT = ucast (limit (g_idtr s)) \<and>
     holds_segment fld GUEST_ES_SELECTOR GUEST_ES_BASE GUEST_ES_LIMIT GUEST_ES_ACCESS_RIGHTS (g_es s) \<and>
     holds_segment fld GUEST_CS_SELECTOR GUEST_CS_BASE GUEST_CS_LIMIT GUEST_CS_ACCESS_RIGHTS (g_cs s) \<and>
     holds_segment fld GUEST_SS_SELECTOR GUEST_SS_BASE GUEST_SS_LIMIT GUEST_SS_ACCESS_RIGHTS (g_ss s) \<and>
     holds_segment fld GUEST_DS_SELECTOR GUEST_DS_BASE GUEST_DS_LIMIT GUEST_DS_ACCESS_RIGHTS (g_ds s) \<and>
     holds_segment fld GUEST_FS_SELECTOR GUEST_FS_BASE GUEST_FS_LIMIT GUEST_FS_ACCESS_RIGHTS (g_fs s) \<and>
     holds_segment fld GUEST_GS_SELECTOR GUEST_GS_BASE GUEST_GS_LIMIT GUEST_GS_ACCESS_RIGHTS (g_gs s) \<and>
     holds_segment fld GUEST_LDTR_SELECTOR GUEST_LDTR_BASE GUEST_LDTR_LIMIT GUEST_LDTR_ACCESS_RIGHTS (g_ldtr s) \<and>
     holds_segment fld GUEST_TR_SELECTOR GUEST_TR_BASE GUEST_TR_LIMIT GUEST_TR_ACCESS_RIGHTS (g_tr s) \<and>
     fld GUEST_IA32_SYSENTER_CS = g_sysenter_cs s \<and> fld GUEST_IA32_SYSENTER_ESP = g_sysenter_esp s \<and>
     fld GUEST_IA32_SYSENTER_EIP = g_sysenter_eip s \<and>
     (\<forall>v. g_pat s = Some v \<longrightarrow> fld GUEST_IA32_PAT = v) \<and> (\<forall>v. g_efer s = Some v \<longrightarrow> fld GUEST_IA32_EFER = v) \<and>
     fld GUEST_DR7 = 0x400 \<and> fld GUEST_IA32_DEBUGCTL = 0 \<and> fld VMCS_LINK_POINTER = - 1 \<and>
     fld GUEST_ACTIVITY_STATE = 0 \<and> fld GUEST_INTERRUPTIBILITY_STATE = 0 \<and> fld GUEST_PENDING_DEBUG_EXCEPTIONS = 0"

definition guest_state_fields :: "u32 list" where
  "guest_state_fields =
     [GUEST_ES_SELECTOR, GUEST_ES_BASE, GUEST_ES_LIMIT, GUEST_ES_ACCESS_RIGHTS, GUEST_CS_SELECTOR,
      GUEST_CS_BASE, GUEST_CS_LIMIT, GUEST_CS_ACCESS_RIGHTS, GUEST_SS_SELECTOR, GUEST_SS_BASE, GUEST_SS_LIMIT,
      GUEST_SS_ACCESS_RIGHTS, GUEST_DS_SELECTOR, GUEST_DS_BASE, GUEST_DS_LIMIT, GUEST_DS_ACCESS_RIGHTS,
      GUEST_FS_SELECTOR, GUEST_FS_BASE, GUEST_FS_LIMIT, GUEST_FS_ACCESS_RIGHTS, GUEST_GS_SELECTOR,
      GUEST_GS_BASE, GUEST_GS_LIMIT, GUEST_GS_ACCESS_RIGHTS, GUEST_LDTR_SELECTOR, GUEST_LDTR_BASE,
      GUEST_LDTR_LIMIT, GUEST_LDTR_ACCESS_RIGHTS, GUEST_TR_SELECTOR, GUEST_TR_BASE, GUEST_TR_LIMIT,
      GUEST_TR_ACCESS_RIGHTS, GUEST_RIP, GUEST_RSP, GUEST_RFLAGS, GUEST_CR0, GUEST_CR3, GUEST_CR4,
      GUEST_GDTR_BASE, GUEST_GDTR_LIMIT, GUEST_IDTR_BASE, GUEST_IDTR_LIMIT, GUEST_IA32_SYSENTER_CS,
      GUEST_IA32_SYSENTER_ESP, GUEST_IA32_SYSENTER_EIP, GUEST_DR7, GUEST_IA32_DEBUGCTL, VMCS_LINK_POINTER,
      GUEST_ACTIVITY_STATE, GUEST_INTERRUPTIBILITY_STATE, GUEST_PENDING_DEBUG_EXCEPTIONS, GUEST_IA32_PAT,
      GUEST_IA32_EFER]"

text \<open>The host state of the processor, as VM exits reload it.\<close>

definition holds_host_state :: "'m platform \<Rightarrow> ('m \<Rightarrow> u32 \<Rightarrow> u64) \<Rightarrow> 'm \<Rightarrow> (u32 \<Rightarrow> u64) \<Rightarrow> bool" where
  "holds_host_state hw msr m fld \<longleftrightarrow>
     fld HOST_ES_SELECTOR = ucast (i_es hw m) \<and> fld HOST_CS_SELECTOR = ucast (i_cs hw m) \<and>
     fld HOST_SS_SELECTOR = ucast (i_ss hw m) \<and> fld HOST_DS_SELECTOR = ucast (i_ds hw m) \<and>
     fld HOST_FS_SELECTOR = ucast (i_fs hw m) \<and> fld HOST_GS_SELECTOR = ucast (i_gs hw m) \<and>
     fld HOST_TR_SELECTOR = ucast (i_str hw m) \<and>
     fld HOST_CR0 = i_read_cr0 hw m \<and> fld HOST_CR3 = i_read_cr3 hw m \<and> fld HOST_CR4 = i_read_cr4 hw m \<and>
     fld HOST_FS_BASE = msr m IA32_FS_BASE \<and> fld HOST_GS_BASE = msr m IA32_GS_BASE \<and>
     fld HOST_TR_BASE = segment_base_from_gdt hw (read_gdtr hw m) (i_str hw m) m \<and>
     fld HOST_GDTR_BASE = base (read_gdtr hw m) \<and> fld HOST_IDTR_BASE = base (read_idtr hw m) \<and>
     fld HOST_IA32_SYSENTER_CS = take_bit 32 (msr m IA32_SYSENTER_CS) \<and>
     fld HOST_IA32_SYSENTER_ESP = msr m IA32_SYSENTER_ESP \<and> fld HOST_IA32_SYSENTER_EIP = msr m IA32_SYSENTER_EIP \<and>
     (bit (fld VM_EXIT_CONTROLS) 19 \<longrightarrow> fld HOST_IA32_PAT = msr m IA32_PAT) \<and>
     (bit (fld VM_EXIT_CONTROLS) 21 \<longrightarrow> fld HOST_IA32_EFER = msr m IA32_EFER)"

text \<open>The controls the hypervisor depends on are on, every exception exits, and no event is injected at the entry.\<close>

definition holds_controls :: "(u32 \<Rightarrow> u64) \<Rightarrow> bool" where
  "holds_controls fld \<longleftrightarrow>
     bit (fld PIN_BASED_VM_EXEC_CONTROL) 3 \<and> bit (fld PIN_BASED_VM_EXEC_CONTROL) 5 \<and>
     bit (fld PRIMARY_VM_EXEC_CONTROL) 25 \<and> bit (fld PRIMARY_VM_EXEC_CONTROL) 28 \<and> bit (fld PRIMARY_VM_EXEC_CONTROL) 31 \<and>
     bit (fld SECONDARY_VM_EXEC_CONTROL) 1 \<and> bit (fld VM_EXIT_CONTROLS) 9 \<and> bit (fld VM_ENTRY_CONTROLS) 9 \<and>
     fld EXCEPTION_BITMAP = 0xFFFFFFFF \<and> fld VM_ENTRY_INTERRUPTION_INFO = 0"

section \<open>What depends on the processor's state only\<close>

lemma cpu_state_D:
  assumes "cpu_state hw msr m' = cpu_state hw msr m"
  shows "i_read_cr0 hw m' = i_read_cr0 hw m" "i_read_cr3 hw m' = i_read_cr3 hw m" "i_read_cr4 hw m' = i_read_cr4 hw m"
    "read_gdtr hw m' = read_gdtr hw m" "read_idtr hw m' = read_idtr hw m"
    "i_es hw m' = i_es hw m" "i_cs hw m' = i_cs hw m" "i_ss hw m' = i_ss hw m" "i_ds hw m' = i_ds hw m"
    "i_fs hw m' = i_fs hw m" "i_gs hw m' = i_gs hw m" "i_str hw m' = i_str hw m" "msr m' = msr m"
    "load_bytes hw a n m' = load_bytes hw a n m"
  using assms by (simp_all add: cpu_state_def read_gdtr_def read_idtr_def load_bytes_def fun_eq_iff)

lemma cpu_state_gdt:
  assumes "cpu_state hw msr m' = cpu_state hw msr m"
  shows "read_descriptor hw gdt selector m' = read_descriptor hw gdt selector m"
    and "segment_base_from_gdt hw gdt selector m' = segment_base_from_gdt hw gdt selector m"
  by (simp_all add: read_descriptor_def segment_base_from_gdt_def load64_def cpu_state_D [OF assms] split: option.split)

lemma captured_state_cpu:
  assumes "cpu_state hw msr m' = cpu_state hw msr m"
  shows "captured_state hw msr m' entry_controls rip rsp idtr s \<longleftrightarrow> captured_state hw msr m entry_controls rip rsp idtr s"
  by (simp add: captured_state_def captured_segment_def cpu_state_gdt [OF assms] cpu_state_D [OF assms])

lemma holds_host_state_cpu:
  assumes "cpu_state hw msr m' = cpu_state hw msr m"
  shows "holds_host_state hw msr m' fld \<longleftrightarrow> holds_host_state hw msr m fld"
  by (simp add: holds_host_state_def cpu_state_gdt [OF assms] cpu_state_D [OF assms])

section \<open>The captured state\<close>

lemma segment_from_gdt_captured:
  assumes "segment_from_gdt hw (read_gdtr hw m) selector b m = Ok seg"
  shows "captured_segment hw m selector b seg"
proof -
  have null: "selector AND NOT SELECTOR_RPL = 0 \<longleftrightarrow> unat selector < 4" by (rule selector_null_iff)
  have "(if rights AND CODE_OR_DATA \<noteq> 0 then rights OR TYPE_ACCESSED else rights) = rights OR of_bool (bit d 44)"
    if "rights = access_rights d" for rights d
  proof -
    have "bit (access_rights d) 4 \<longleftrightarrow> bit d 44"
    proof -
      have "(0xF0FF :: u32) = mask 8 OR push_bit 12 (mask 4)" by (simp add: mask_eq_exp_minus_1)
      then show ?thesis unfolding access_rights_def by (simp only: bit_and_iff bit_or_iff) (simp add: bit_simps)
    qed
    then show ?thesis using that unfolding CODE_OR_DATA_def bit_test by (simp add: TYPE_ACCESSED_def)
  qed
  then show ?thesis using assms
    by (auto simp: segment_from_gdt_def captured_segment_def unusable_def from_descriptor_def null Let_def
        ACCESS_RIGHTS_UNUSABLE_def split: if_splits option.splits)
qed

context setup_hardware
begin

lemma rdmsr_reads: "rdmsr hw r m = (Ok (msr m r), m)"
  by (simp add: rdmsr_def rdmsr_law msr_halves)

lemma read_all_reads:
  "read_all hw m = (Ok \<lparr>seg_cs = i_cs hw m, seg_ss = i_ss hw m, seg_ds = i_ds hw m, seg_es = i_es hw m,
     seg_fs = i_fs hw m, seg_gs = i_gs hw m, seg_tr = i_str hw m, seg_fs_base = msr m IA32_FS_BASE,
     seg_gs_base = msr m IA32_GS_BASE, seg_tr_base = segment_base_from_gdt hw (read_gdtr hw m) (i_str hw m) m,
     seg_gdtr = read_gdtr hw m, seg_idtr = read_idtr hw m\<rparr>, m)"
  by (simp add: read_all_def and_then_run read_fs_base_def read_gs_base_def rdmsr_reads)

lemma rdmsr_if_reads: "rdmsr_if hw loaded r m = (Ok (if loaded then Some (msr m r) else None), m)"
  by (simp add: rdmsr_if_def and_then_run rdmsr_reads)

lemma from_current_captured:
  assumes "from_current hw rip rsp idtr m = (Ok s, m1)"
  shows "m1 = m" and "captured_state hw msr m (field m VM_ENTRY_CONTROLS) rip rsp idtr s"
proof -
  let ?gdt = "read_gdtr hw m" and ?ec = "field m VM_ENTRY_CONTROLS"
  from assms obtain es cs ss ds fs gs tr where
    segs: "segment_from_gdt hw ?gdt (i_es hw m) None m = Ok es" "segment_from_gdt hw ?gdt (i_cs hw m) None m = Ok cs"
      "segment_from_gdt hw ?gdt (i_ss hw m) None m = Ok ss" "segment_from_gdt hw ?gdt (i_ds hw m) None m = Ok ds"
      "segment_from_gdt hw ?gdt (i_fs hw m) (Some (msr m IA32_FS_BASE)) m = Ok fs"
      "segment_from_gdt hw ?gdt (i_gs hw m) (Some (msr m IA32_GS_BASE)) m = Ok gs"
      "segment_from_gdt hw ?gdt (i_str hw m) (Some (segment_base_from_gdt hw ?gdt (i_str hw m) m)) m = Ok tr"
    and s: "s = \<lparr>g_rip = rip, g_rsp = rsp, g_rflags = INITIAL_RFLAGS, g_cr0 = i_read_cr0 hw m, g_cr3 = i_read_cr3 hw m,
        g_cr4 = i_read_cr4 hw m, g_es = es, g_cs = cs, g_ss = ss, g_ds = ds, g_fs = fs, g_gs = gs, g_ldtr = unusable 0 0, g_tr = tr,
        g_gdtr = ?gdt, g_idtr = idtr, g_sysenter_cs = ucast (ucast (msr m IA32_SYSENTER_CS) :: u32),
        g_sysenter_esp = msr m IA32_SYSENTER_ESP, g_sysenter_eip = msr m IA32_SYSENTER_EIP,
        g_pat = (if ?ec AND VM_ENTRY_LOAD_IA32_PAT \<noteq> 0 then Some (msr m IA32_PAT) else None),
        g_efer = (if ?ec AND VM_ENTRY_LOAD_IA32_EFER \<noteq> 0 then Some (msr m IA32_EFER) else None)\<rparr>"
    and m: "m1 = m"
    unfolding from_current_def
    by (auto simp: Let_def read_all_reads rdmsr_reads rdmsr_if_reads elim!: and_then_OkE dest!: vmread_OkD)
  show "m1 = m" by (rule m)
  have "(ucast (ucast v :: u32) :: u64) = take_bit 32 v" for v :: u64 by (rule bit_word_eqI) (auto simp: bit_simps)
  then show "captured_state hw msr m ?ec rip rsp idtr s"
    unfolding s captured_state_def VM_ENTRY_LOAD_IA32_PAT_def VM_ENTRY_LOAD_IA32_EFER_def bit_test
    using segs [THEN segment_from_gdt_captured]
    by (simp add: INITIAL_RFLAGS_def unusable_def ACCESS_RIGHTS_UNUSABLE_def)
qed

end

section \<open>What each step writes\<close>

text \<open>A step that writes some fields of the VMCS and nothing else.\<close>

definition changes_only ::
  "'m platform \<Rightarrow> ('m \<Rightarrow> u32 \<Rightarrow> u64) \<Rightarrow> ('m \<Rightarrow> u32 \<Rightarrow> u64) \<Rightarrow> u32 list \<Rightarrow> 'm \<Rightarrow> 'm \<Rightarrow> bool" where
  "changes_only hw field msr fs m m' \<longleftrightarrow>
     cpu_state hw msr m' = cpu_state hw msr m \<and> (\<forall>f. f \<notin> set fs \<longrightarrow> field m' f = field m f)"

lemma changes_onlyD:
  assumes "changes_only hw field msr fs m m'"
  shows "cpu_state hw msr m' = cpu_state hw msr m" and "f \<notin> set fs \<Longrightarrow> field m' f = field m f"
  using assms by (simp_all add: changes_only_def)

lemma changes_only_refl: "changes_only hw field msr [] m m"
  by (simp add: changes_only_def)

lemma changes_only_trans:
  "changes_only hw field msr fs m m1 \<Longrightarrow> changes_only hw field msr gs m1 m2 \<Longrightarrow> changes_only hw field msr (fs @ gs) m m2"
  by (simp add: changes_only_def)

lemma changes_only_mono: "changes_only hw field msr fs m m' \<Longrightarrow> set fs \<subseteq> set gs \<Longrightarrow> changes_only hw field msr gs m m'"
  by (auto simp: changes_only_def)

definition host_state_fields :: "u32 list" where
  "host_state_fields =
     [HOST_ES_SELECTOR, HOST_CS_SELECTOR, HOST_SS_SELECTOR, HOST_DS_SELECTOR, HOST_FS_SELECTOR, HOST_GS_SELECTOR,
      HOST_TR_SELECTOR, HOST_CR0, HOST_CR3, HOST_CR4, HOST_FS_BASE, HOST_GS_BASE, HOST_TR_BASE, HOST_GDTR_BASE,
      HOST_IDTR_BASE, HOST_IA32_SYSENTER_CS, HOST_IA32_SYSENTER_ESP, HOST_IA32_SYSENTER_EIP, HOST_IA32_PAT, HOST_IA32_EFER]"

lemma host_state_writes_distinct: "distinct (map fst (host_state_writes segments cr0 cr3 cr4 cs esp eip))"
  by (simp add: host_state_writes_def field_defs)

lemma guest_writes_fields: "set (map fst (guest_writes s)) \<subseteq> set guest_state_fields"
  by (cases "g_pat s"; cases "g_efer s")
    (simp_all add: guest_writes_def guest_segment_writes_def guest_other_writes_def segment_writes_def guest_state_fields_def)

context setup_hardware
begin

lemma write_verified_writes:
  assumes "write_verified hw f v m = (Ok (), m')"
  shows "changes_only hw field msr [f] m m'" and "field m' f = v"
proof -
  from assms obtain u m1 where "vmwrite hw f v m = (Ok u, m1)" and "m' = m1"
    unfolding write_verified_def by (elim and_then_OkE) (auto dest: vmread_OkD split: if_splits)
  then have "cpu_state hw msr m' = cpu_state hw msr m"
    using vmwrite_cpu [of "ucast f" v m] by (auto simp: vmwrite_def split: prod.splits)
  then show "changes_only hw field msr [f] m m'" "field m' f = v"
    using write_verified_OkD [OF assms] by (simp_all add: changes_only_def)
qed

lemma write_fields_writes:
  assumes "write_fields hw fvs m = (Ok (), m')"
  shows "changes_only hw field msr (map fst fvs) m m'"
    and "distinct (map fst fvs) \<Longrightarrow> list_all (\<lambda>(f, v). field m' f = v) fvs"
proof -
  show "changes_only hw field msr (map fst fvs) m m'"
    using assms
  proof (induction fvs arbitrary: m)
    case (Cons fv fvs)
    then obtain m1 where "write_verified hw (fst fv) (snd fv) m = (Ok (), m1)" "write_fields hw fvs m1 = (Ok (), m')"
      by (cases fv) (auto elim!: and_then_OkE)
    with Cons.IH changes_only_trans write_verified_writes(1) show ?case by fastforce
  qed (simp add: changes_only_refl)
  show "list_all (\<lambda>(f, v). field m' f = v) fvs" if "distinct (map fst fvs)"
    using that by (auto simp: list_all_iff write_fields_OkD [OF assms that])
qed

lemma write_guest_state_writes:
  assumes "write_guest_state hw s m = (Ok (), m')"
  shows "holds_guest_state (field m') s" and "changes_only hw field msr guest_state_fields m m'"
    and "g_pat s = None \<Longrightarrow> field m' GUEST_IA32_PAT = field m GUEST_IA32_PAT"
    and "g_efer s = None \<Longrightarrow> field m' GUEST_IA32_EFER = field m GUEST_IA32_EFER"
proof -
  from assms have w: "write_fields hw (guest_writes s) m = (Ok (), m')"
    by (simp add: write_guest_state_run write_field_for_each)
  note defs = guest_writes_def guest_segment_writes_def guest_other_writes_def segment_writes_def
  show "holds_guest_state (field m') s"
    using write_fields_writes(2) [OF w guest_writes_distinct]
    by (cases "g_pat s"; cases "g_efer s") (simp_all add: defs holds_guest_state_def holds_segment_def
      INITIAL_DR7_def VMCS_LINK_POINTER_NONE_def)
  show "changes_only hw field msr guest_state_fields m m'"
    by (rule changes_only_mono [OF write_fields_writes(1) [OF w] guest_writes_fields])
  note kept = changes_onlyD(2) [OF write_fields_writes(1) [OF w]]
  show "field m' GUEST_IA32_PAT = field m GUEST_IA32_PAT" if "g_pat s = None"
    using that by (intro kept, cases "g_efer s") (simp_all add: defs field_defs)
  show "field m' GUEST_IA32_EFER = field m GUEST_IA32_EFER" if "g_efer s = None"
    using that by (intro kept, cases "g_pat s") (simp_all add: defs field_defs)
qed

lemma configure_host_state_writes:
  assumes "configure_host_state hw m = (Ok (), m')"
  shows "holds_host_state hw msr m (field m')" and "changes_only hw field msr host_state_fields m m'"
proof -
  let ?segments = "\<lparr>seg_cs = i_cs hw m, seg_ss = i_ss hw m, seg_ds = i_ds hw m, seg_es = i_es hw m,
     seg_fs = i_fs hw m, seg_gs = i_gs hw m, seg_tr = i_str hw m, seg_fs_base = msr m IA32_FS_BASE,
     seg_gs_base = msr m IA32_GS_BASE, seg_tr_base = segment_base_from_gdt hw (read_gdtr hw m) (i_str hw m) m,
     seg_gdtr = read_gdtr hw m, seg_idtr = read_idtr hw m\<rparr>"
  let ?writes = "host_state_writes ?segments (i_read_cr0 hw m) (i_read_cr3 hw m) (i_read_cr4 hw m)
    (ucast (ucast (msr m IA32_SYSENTER_CS) :: u32)) (msr m IA32_SYSENTER_ESP) (msr m IA32_SYSENTER_EIP)"
  let ?ec = "field m VM_EXIT_CONTROLS"
  from assms obtain m1 m2 where w: "write_fields hw ?writes m = (Ok (), m1)"
    and pat: "if ?ec AND VM_EXIT_LOAD_IA32_PAT \<noteq> 0 then write_verified hw HOST_IA32_PAT (msr m1 IA32_PAT) m1 = (Ok (), m2) else m2 = m1"
    and efer: "if ?ec AND VM_EXIT_LOAD_IA32_EFER \<noteq> 0 then write_verified hw HOST_IA32_EFER (msr m2 IA32_EFER) m2 = (Ok (), m') else m' = m2"
    unfolding configure_host_state_def
    by (auto simp: read_all_reads rdmsr_reads elim!: and_then_OkE dest!: vmread_OkD split: if_splits)
  note c1 = write_fields_writes(1) [OF w]
  note h1 = write_fields_writes(2) [OF w host_state_writes_distinct]
  have c2: "changes_only hw field msr [HOST_IA32_PAT] m1 m2"
    and p2: "?ec AND VM_EXIT_LOAD_IA32_PAT \<noteq> 0 \<Longrightarrow> field m2 HOST_IA32_PAT = msr m1 IA32_PAT"
    using pat write_verified_writes by (auto simp: changes_only_def split: if_splits)
  have c3: "changes_only hw field msr [HOST_IA32_EFER] m2 m'"
    and p3: "?ec AND VM_EXIT_LOAD_IA32_EFER \<noteq> 0 \<Longrightarrow> field m' HOST_IA32_EFER = msr m2 IA32_EFER"
    using efer write_verified_writes by (auto simp: changes_only_def split: if_splits)
  note all = changes_only_trans [OF changes_only_trans [OF c1 c2] c3]
  show "changes_only hw field msr host_state_fields m m'"
    by (rule changes_only_mono [OF all]) (simp add: host_state_writes_def host_state_fields_def)
  have msr: "msr m1 = msr m" "msr m2 = msr m"
    using cpu_state_D(13) [OF changes_onlyD(1) [OF c1]] cpu_state_D(13) [OF changes_onlyD(1) [OF c2]] by simp_all
  have k: "field m' f = field m1 f" if "f \<noteq> HOST_IA32_PAT" "f \<noteq> HOST_IA32_EFER" for f
    using changes_onlyD(2) [OF c2, of f] changes_onlyD(2) [OF c3, of f] that by simp
  have k2: "field m' HOST_IA32_PAT = field m2 HOST_IA32_PAT"
    using changes_onlyD(2) [OF c3, of HOST_IA32_PAT] by (simp add: field_defs)
  have ec: "field m' VM_EXIT_CONTROLS = ?ec"
    using changes_onlyD(2) [OF all, of VM_EXIT_CONTROLS] by (simp add: host_state_writes_def field_defs)
  have h': "list_all (\<lambda>(f, v). field m' f = v) ?writes"
    using h1 by (simp add: host_state_writes_def k field_defs)
  have cs: "(ucast (ucast v :: u32) :: u64) = take_bit 32 v" for v :: u64 by (rule bit_word_eqI) (auto simp: bit_simps)
  show "holds_host_state hw msr m (field m')"
    using h' p2 p3 k2 msr unfolding holds_host_state_def ec VM_EXIT_LOAD_IA32_PAT_def VM_EXIT_LOAD_IA32_EFER_def bit_test
    by (simp add: host_state_writes_def cs)
qed

end

section \<open>The whole setup\<close>

definition control_fields :: "u32 list" where
  "control_fields = [PIN_BASED_VM_EXEC_CONTROL, PRIMARY_VM_EXEC_CONTROL, VM_EXIT_CONTROLS, VM_ENTRY_CONTROLS,
     SECONDARY_VM_EXEC_CONTROL, EXCEPTION_BITMAP] @ ZEROED_FIELDS"

lemma choose_control_bits:
  assumes "choose_control cap desired = Ok v" and "bit desired n"
  shows "bit (ucast v :: u64) n"
  using assms(2) choose_control_OkD(1) [OF assms(1)] by (auto simp: bit_simps dest: bit_imp_le_length)

lemma minimal_control_bits:
  "bit (dc_pin minimal_64_bit_guest) 3" "bit (dc_pin minimal_64_bit_guest) 5"
  "bit (primary_request minimal_64_bit_guest) 25" "bit (primary_request minimal_64_bit_guest) 28"
  "bit (primary_request minimal_64_bit_guest) 31" "bit (dc_secondary minimal_64_bit_guest) 1"
  "bit (dc_exit minimal_64_bit_guest OR VM_EXIT_HOST_ADDRESS_SPACE_SIZE) 9" "bit (dc_entry minimal_64_bit_guest) 9"
  by (simp_all add: minimal_64_bit_guest_def primary_request_def const_defs bit_simps)

lemma vmcs_step_OkD: "vmcs_step hw operation act m = (Ok x, m') \<Longrightarrow> act m = (Ok x, m')"
  by (auto simp: vmcs_step_def elim!: and_then_OkE split: prod.splits result.splits)

lemma guest_state_error_OkD: "guest_state_error hw act m = (Ok x, m') \<Longrightarrow> act m = (Ok x, m')"
  by (auto simp: guest_state_error_def elim!: and_then_OkE split: prod.splits result.splits)

lemma report_guest_state_machine: "report_guest_state s b = (r, b') \<Longrightarrow> machine_of b' = machine_of b"
  by (auto simp: report_guest_state_def report_segment_def and_then_run log_line_def)

context setup_hardware
begin

lemma configure_controls_writes:
  assumes "configure_controls hw caps minimal_64_bit_guest m = (Ok (), m')"
  shows "holds_controls (field m')" and "changes_only hw field msr control_fields m m'"
proof -
  from assms obtain c where c: "choose_controls caps minimal_64_bit_guest = Ok c"
    and w: "write_fields hw (control_writes c) m = (Ok (), m')"
    unfolding configure_controls_def by (auto elim!: and_then_OkE)
  note ch = choose_controls_OkD [OF c] and f = write_fields_OkD [OF w control_writes_distinct]
  obtain v where v: "choose_control (secondary caps) (dc_secondary minimal_64_bit_guest) = Ok v" "ch_secondary c = Some v"
    using ch(5) by (auto simp: minimal_64_bit_guest_def const_defs)
  have "map_of (control_writes c) VM_ENTRY_INTERRUPTION_INFO = Some 0"
    using control_writes_zeroed [of c] by (simp add: ZEROED_FIELDS_def)
  then show "holds_controls (field m')"
    using minimal_control_bits choose_control_bits ch(1-4) v
    by (simp add: holds_controls_def f control_writes_map control_writes_exceptions)
  show "changes_only hw field msr control_fields m m'"
    by (rule changes_only_mono [OF write_fields_writes(1) [OF w]])
      (auto simp: control_fields_def control_writes_def v(2))
qed

lemma set_ept_pointer_writes:
  assumes "set_ept_pointer hw eptp m = (Ok (), m')"
  shows "field m' EPT_POINTER = eptp" and "changes_only hw field msr [EPT_POINTER] m m'"
  using assms unfolding set_ept_pointer_def by (auto dest: write_verified_writes)

lemma write_to_vmcs_writes:
  assumes "write_to_vmcs hw bitmaps m = (Ok (), m')"
  shows "field m' MSR_BITMAP = bm_msr bitmaps" and "field m' IO_BITMAP_A = bm_io_a bitmaps"
    and "field m' IO_BITMAP_B = bm_io_b bitmaps" and "changes_only hw field msr [MSR_BITMAP, IO_BITMAP_A, IO_BITMAP_B] m m'"
proof -
  note w = write_fields_writes [OF assms [unfolded write_to_vmcs_def]]
  have "distinct [MSR_BITMAP, IO_BITMAP_A, IO_BITMAP_B]" by (simp add: field_defs)
  then show "field m' MSR_BITMAP = bm_msr bitmaps" "field m' IO_BITMAP_A = bm_io_a bitmaps"
    "field m' IO_BITMAP_B = bm_io_b bitmaps" "changes_only hw field msr [MSR_BITMAP, IO_BITMAP_A, IO_BITMAP_B] m m'"
    using w by simp_all
qed

lemma configure_host_entry_writes:
  assumes "configure_host_entry hw stack_end entry_rip m = (Ok (), m')"
  shows "field m' HOST_RSP = stack_end" and "field m' HOST_RIP = entry_rip" and "changes_only hw field msr [HOST_RSP, HOST_RIP] m m'"
proof -
  from assms have "write_fields hw [(HOST_RSP, stack_end), (HOST_RIP, entry_rip)] m = (Ok (), m')"
    by (simp only: configure_host_entry_def split: if_splits) simp_all
  note w = write_fields_writes [OF this]
  have "distinct [HOST_RSP, HOST_RIP]" by (simp add: field_defs)
  then show "field m' HOST_RSP = stack_end" "field m' HOST_RIP = entry_rip" "changes_only hw field msr [HOST_RSP, HOST_RIP] m m'"
    using w by simp_all
qed

lemma prepare_vmcs_steps:
  assumes "prepare_vmcs hw entry_rip controls stack guest ept bitmaps b = (Ok (), b')"
  obtains m1 m2 m3 m4 m5 m6 stack_end guest_stack_end s where
    "self_test hw (machine_of b) = (Ok (), m1)" "configure_controls hw controls minimal_64_bit_guest m1 = (Ok (), m2)"
    "set_ept_pointer hw (ept_eptp ept) m2 = (Ok (), m3)" "write_to_vmcs hw bitmaps m3 = (Ok (), m4)"
    "configure_host_state hw m4 = (Ok (), m5)" "stack_top stack = Some stack_end"
    "configure_host_entry hw stack_end entry_rip m5 = (Ok (), m6)"
    "guest_stack_top guest = (Ok guest_stack_end :: (BringUpError, u64) result)"
    "from_current hw (code_base guest) guest_stack_end (guest_idt guest) m6 = (Ok s, m6)"
    "write_guest_state hw s m6 = (Ok (), machine_of b')"
  using assms unfolding prepare_vmcs_def exit_stack_top_def
  by (auto simp: lift_result_def elim!: and_then_OkE split: option.splits dest!: on_cpu_OkD vmcs_step_OkD guest_state_error_OkD
      log_line_OkD report_guest_state_machine vmread_OkD) (use from_current_captured(1) in metis)

lemma prepare_vmcs_fields:
  fixes b b' :: "'a bring_up"
  assumes "prepare_vmcs hw entry_rip controls stack guest ept bitmaps b = (Ok (), b')"
  defines "fld \<equiv> field (machine_of b')" and "m \<equiv> machine_of b"
  shows "cpu_state hw msr (machine_of b') = cpu_state hw msr m" and "holds_controls fld" and "fld EPT_POINTER = ept_eptp ept"
    and "fld MSR_BITMAP = bm_msr bitmaps" and "fld IO_BITMAP_A = bm_io_a bitmaps" and "fld IO_BITMAP_B = bm_io_b bitmaps"
    and "holds_host_state hw msr m fld" and "fld HOST_RSP = stack_base stack + 0x4000" and "fld HOST_RIP = entry_rip"
    and "\<exists>s. captured_state hw msr m (fld VM_ENTRY_CONTROLS) (code_base guest) (stack_page guest + 0x1000)
        \<lparr>base = idt_page guest, limit = 0x2F\<rparr> s \<and> entry_segments s \<and> holds_guest_state fld s"
proof -
  obtain m1 m2 m3 m4 m5 m6 stack_end guest_stack_end s where
    steps: "self_test hw m = (Ok (), m1)" "configure_controls hw controls minimal_64_bit_guest m1 = (Ok (), m2)"
    "set_ept_pointer hw (ept_eptp ept) m2 = (Ok (), m3)" "write_to_vmcs hw bitmaps m3 = (Ok (), m4)"
    "configure_host_state hw m4 = (Ok (), m5)" "stack_top stack = Some stack_end"
    "configure_host_entry hw stack_end entry_rip m5 = (Ok (), m6)"
    "guest_stack_top guest = (Ok guest_stack_end :: (BringUpError, u64) result)"
    "from_current hw (code_base guest) guest_stack_end (guest_idt guest) m6 = (Ok s, m6)"
    "write_guest_state hw s m6 = (Ok (), machine_of b')"
    unfolding m_def using assms(1) by (rule prepare_vmcs_steps)
  note c1 = write_verified_writes(1) [OF steps(1) [unfolded self_test_def]]
  note c2 = configure_controls_writes [OF steps(2)]
  note c3 = set_ept_pointer_writes [OF steps(3)]
  note c4 = write_to_vmcs_writes [OF steps(4)]
  note c5 = configure_host_state_writes [OF steps(5)]
  note c6 = configure_host_entry_writes [OF steps(7)]
  note c7 = write_guest_state_writes [OF steps(10)]
  note r6 = c7(2) and r5 = changes_only_trans [OF c6(3) c7(2)]
  note r4 = changes_only_trans [OF c5(2) r5]
  note r3 = changes_only_trans [OF c4(4) r4]
  note r2 = changes_only_trans [OF c3(2) r3]
  note kept = changes_onlyD(2) [OF r2, folded fld_def] changes_onlyD(2) [OF r3, folded fld_def]
    changes_onlyD(2) [OF r4, folded fld_def] changes_onlyD(2) [OF r5, folded fld_def] changes_onlyD(2) [OF r6, folded fld_def]
  have cpu4: "cpu_state hw msr m4 = cpu_state hw msr m" and cpu6: "cpu_state hw msr m6 = cpu_state hw msr m"
    using c1 c2(2) c3(2) c4(4) c5(2) c6(3) by (simp_all add: changes_only_def)
  then show "cpu_state hw msr (machine_of b') = cpu_state hw msr m" using c7(2) by (simp add: changes_only_def)
  note fields = guest_state_fields_def host_state_fields_def field_defs
  show "holds_controls fld" using c2(1) unfolding holds_controls_def by (simp add: kept(1) fields)
  show "fld EPT_POINTER = ept_eptp ept" using c3(1) by (simp add: kept(2) fields)
  show "fld MSR_BITMAP = bm_msr bitmaps" using c4(1) by (simp add: kept(3) fields)
  show "fld IO_BITMAP_A = bm_io_a bitmaps" using c4(2) by (simp add: kept(3) fields)
  show "fld IO_BITMAP_B = bm_io_b bitmaps" using c4(3) by (simp add: kept(3) fields)
  have "holds_host_state hw msr m (field m5)" using c5(1) holds_host_state_cpu [OF cpu4] by simp
  then show "holds_host_state hw msr m fld" unfolding holds_host_state_def by (simp add: kept(4) fields)
  have "stack_end = stack_base stack + 0x4000"
    using steps(6) by (simp add: stack_top_def Let_def const_defs split: if_splits)
  then show "fld HOST_RSP = stack_base stack + 0x4000" using c6(1) by (simp add: kept(5) fields)
  show "fld HOST_RIP = entry_rip" using c6(2) by (simp add: kept(5) fields)
  have ec: "fld VM_ENTRY_CONTROLS = field m6 VM_ENTRY_CONTROLS" by (simp add: kept(5) fields)
  have gs: "guest_stack_end = stack_page guest + 0x1000" "guest_idt guest = \<lparr>base = idt_page guest, limit = 0x2F\<rparr>"
    using steps(8) by (simp_all add: guest_stack_top_def guest_idt_def Let_def const_defs split: if_splits)
  show "\<exists>s. captured_state hw msr m (fld VM_ENTRY_CONTROLS) (code_base guest) (stack_page guest + 0x1000)
      \<lparr>base = idt_page guest, limit = 0x2F\<rparr> s \<and> entry_segments s \<and> holds_guest_state fld s"
  proof (intro exI [of _ s] conjI)
    show "captured_state hw msr m (fld VM_ENTRY_CONTROLS) (code_base guest) (stack_page guest + 0x1000)
        \<lparr>base = idt_page guest, limit = 0x2F\<rparr> s"
      using from_current_captured(2) [OF steps(9)] by (simp only: captured_state_cpu [OF cpu6] ec gs)
    show "entry_segments s" by (rule from_current_OkD(5) [OF steps(9)])
    show "holds_guest_state fld s" unfolding fld_def by (rule c7(1))
  qed
qed

end

end
