(* ===== verification/Reference_Machine.thy ===== *)
theory Reference_Machine
  imports Handler_Spec Vmxon Host_Tables Guest_State Guest Guest_Run Serial Vmcs_Setup
begin

text \<open>
  A concrete machine for the platform parameter: byte memory, a VMCS that stores every field at its
  width and refuses writes to read-only fields, MSRs, control registers, a log of port writes, and a
  page allocator that hands out fresh pages in order. It satisfies the laws the development assumes
  of the hardware and the firmware, so no theorem with those laws as hypotheses is vacuous.
\<close>

record machine =
  rm_mem :: "u64 \<Rightarrow> u8"
  rm_vmcs :: "u32 \<Rightarrow> u64"
  rm_msr :: "u32 \<Rightarrow> u64"
  rm_cr0 :: u64
  rm_cr3 :: u64
  rm_cr4 :: u64
  rm_gdtr :: "u8 list"
  rm_idtr :: "u8 list"
  rm_tr :: u16
  rm_next :: nat
  rm_map :: "(u64 \<times> u64) list"
  rm_out :: "(u16 \<times> u32) list"

definition RFLAGS_SUCCESS :: u64 where
  "RFLAGS_SUCCESS = 0x2"

definition RFLAGS_FAIL_VALID :: u64 where
  "RFLAGS_FAIL_VALID = 0x42"

text \<open>The VMX capability MSRs of a processor with 4-KByte regions.\<close>

definition rm_caps :: "u32 \<Rightarrow> u64" where
  "rm_caps r =
     (if r = IA32_VMX_BASIC then 0x0000100000000004
      else if r = IA32_VMX_CR0_FIXED0 then 0x80000021
      else if r = IA32_VMX_CR0_FIXED1 then 0xFFFFFFFF
      else if r = IA32_VMX_CR4_FIXED0 then 0x2000
      else if r = IA32_VMX_CR4_FIXED1 then 0x3767FF
      else if r = IA32_VMX_EPT_VPID_CAP then 0xF0106334141
      else 0xFFFFFFFF00000000)"

text \<open>LTR sets the busy bit of the descriptor it loads.\<close>

definition mark_busy :: "DescriptorTable \<Rightarrow> u16 \<Rightarrow> (u64 \<Rightarrow> u8) \<Rightarrow> u64 \<Rightarrow> u8" where
  "mark_busy gdt selector mem =
     (let a = base gdt + of_nat (unat (selector AND NOT SELECTOR_RPL_TI)) + 5 in mem(a := mem a OR 2))"

text \<open>A register that reads as the last byte written to it.\<close>

definition last_out :: "u16 \<Rightarrow> (u16 \<times> u32) list \<Rightarrow> u8" where
  "last_out p ws = foldl (\<lambda>b (q, v). if q = p then ucast v else b) 0 ws"

definition rm_hw :: "machine platform" where
  "rm_hw = \<lparr>
     i_vmread = \<lambda>f m. (rm_vmcs m (ucast f), RFLAGS_SUCCESS, m),
     i_vmwrite = \<lambda>f v m. if field_type_of (ucast f) = ReadOnly then (RFLAGS_FAIL_VALID, m)
       else (RFLAGS_SUCCESS, m\<lparr>rm_vmcs := (rm_vmcs m)(ucast f := take_bit (field_bits (ucast f)) v)\<rparr>),
     i_vmclear = \<lambda>_ m. (RFLAGS_SUCCESS, m),
     i_vmptrld = \<lambda>_ m. (RFLAGS_SUCCESS, m),
     i_vmxon = \<lambda>_ m. (RFLAGS_SUCCESS, m),
     i_vmxoff = \<lambda>m. (RFLAGS_SUCCESS, m),
     i_invept = \<lambda>_ _ _ m. (RFLAGS_SUCCESS, m),
     i_rdmsr = \<lambda>r m. (let v = (if 0x480 \<le> r \<and> r \<le> 0x491 then rm_caps r else rm_msr m r)
       in (ucast v, ucast (drop_bit 32 v), m)),
     i_wrmsr = \<lambda>r lo hi m. m\<lparr>rm_msr := (rm_msr m)(r := push_bit 32 (ucast hi) OR ucast lo)\<rparr>,
     i_cpuid = \<lambda>_ _ _. \<lparr>eax = 0x806EA, ebx = 0x100800, ecx = 0x7FFAFBFF, edx = 0xBFEBFBFF\<rparr>,
     i_in8 = \<lambda>p m. (if p = COM1 then PROBE else if p = GUEST_SCRATCH_PORT then last_out p (rm_out m) else 0xA5, m),
     i_in16 = \<lambda>_ m. (0xFFFF, m),
     i_in32 = \<lambda>_ m. (0xFFFFFFFF, m),
     i_out8 = \<lambda>p v m. m\<lparr>rm_out := rm_out m @ [(p, ucast v)]\<rparr>,
     i_out16 = \<lambda>p v m. m\<lparr>rm_out := rm_out m @ [(p, ucast v)]\<rparr>,
     i_out32 = \<lambda>p v m. m\<lparr>rm_out := rm_out m @ [(p, v)]\<rparr>,
     i_read_cr0 = rm_cr0,
     i_read_cr3 = rm_cr3,
     i_read_cr4 = rm_cr4,
     i_write_cr0 = \<lambda>v m. m\<lparr>rm_cr0 := v\<rparr>,
     i_write_cr4 = \<lambda>v m. m\<lparr>rm_cr4 := v\<rparr>,
     i_sgdt = rm_gdtr,
     i_sidt = rm_idtr,
     i_lgdt = \<lambda>operand m. m\<lparr>rm_gdtr := operand\<rparr>,
     i_lidt = \<lambda>operand m. m\<lparr>rm_idtr := operand\<rparr>,
     i_ltr = \<lambda>selector m. m\<lparr>rm_tr := selector, rm_mem := mark_busy (from_operand (rm_gdtr m)) selector (rm_mem m)\<rparr>,
     i_cs = \<lambda>_. 0x38,
     i_ss = \<lambda>_. 0x30,
     i_ds = \<lambda>_. 0x30,
     i_es = \<lambda>_. 0x30,
     i_fs = \<lambda>_. 0x30,
     i_gs = \<lambda>_. 0x30,
     i_str = rm_tr,
     i_pushfq = \<lambda>_. 0x2,
     i_sti = \<lambda>m. m,
     i_load8 = \<lambda>a m. rm_mem m a,
     i_store8 = \<lambda>a v m. m\<lparr>rm_mem := (rm_mem m)(a := v)\<rparr>,
     f_allocate_pages = \<lambda>_ n m. if rm_next m + n * 4096 \<le> 2 ^ 52
       then (Some (of_nat (rm_next m)), m\<lparr>rm_next := rm_next m + n * 4096\<rparr>) else (None, m),
     f_free_pages = \<lambda>_ _ m. (True, m),
     f_memory_map = \<lambda>m. (Some (rm_map m), m)\<rparr>"

definition rm_init :: machine where
  "rm_init = \<lparr>rm_mem = \<lambda>_. 0, rm_vmcs = \<lambda>_. 0, rm_msr = \<lambda>_. 0, rm_cr0 = 0x80010033, rm_cr3 = 0x1000,
     rm_cr4 = 0x668, rm_gdtr = to_operand \<lparr>base = 0x2000, limit = 0x47\<rparr>, rm_idtr = to_operand \<lparr>base = 0x3000, limit = 0xFFF\<rparr>,
     rm_tr = 0, rm_next = 0x100000, rm_map = [(0, 0x100), (0x100000, 0x3FF00)], rm_out = []\<rparr>"

lemma rflags_of_reference [simp]:
  "check_rflags RFLAGS_SUCCESS = Ok ()" "check_rflags RFLAGS_FAIL_VALID = Err Valid"
  by (simp_all add: check_rflags_def RFLAGS_SUCCESS_def RFLAGS_FAIL_VALID_def const_defs)

declare ucast_u32_back [simp]

lemma ucast_byte [simp]: "ucast (ucast (v :: u8) :: u32) = v"
  by (rule bit_word_eqI) (simp add: bit_simps)

interpretation rm_memory: memory_laws rm_hw
  by unfold_locales (simp add: rm_hw_def)

interpretation rm_vmcs: supported_vmcs rm_hw rm_vmcs "\<lambda>_. True"
  by unfold_locales (auto simp: rm_hw_def split: if_splits)

interpretation rm_invept: invept_memory rm_hw
  by unfold_locales (auto simp: rm_hw_def)

interpretation rm_alloc: page_allocator rm_hw "\<lambda>m. {..<rm_next m}"
proof
  fix ty n and m m' :: machine and a
  assume "f_allocate_pages rm_hw ty n m = (Some a, m')"
  then have a: "rm_next m + n * 4096 \<le> 2 ^ 52" "a = of_nat (rm_next m)" "m' = m\<lparr>rm_next := rm_next m + n * 4096\<rparr>"
    by (auto simp: rm_hw_def split: if_splits)
  have u: "unat a = rm_next m" using a(1,2) by (simp add: unat_of_nat)
  then show "unat a + n * 4096 \<le> 2 ^ 52 \<and> {unat a..<unat a + n * 4096} \<inter> {..<rm_next m} = {} \<and>
      {..<rm_next m'} = {..<rm_next m} \<union> {unat a..<unat a + n * 4096}"
    using a by auto
  show "i_load8 rm_hw (of_nat x) m' = i_load8 rm_hw (of_nat x) m" for x
    using a(3) by (simp add: rm_hw_def)
qed (simp add: rm_hw_def)

interpretation rm_tables: descriptor_registers rm_hw "\<lambda>m. {..<rm_next m}"
  by unfold_locales (auto simp: rm_hw_def read_gdtr_def mark_busy_def Let_def split: if_splits)

interpretation rm_guest: guest_allocation rm_hw "\<lambda>m. {..<rm_next m}"
  by unfold_locales (auto simp: rm_hw_def split: if_splits)

interpretation rm_devices: passthrough_devices rm_hw "\<lambda>m. rm_msr m IA32_KERNEL_GS_BASE" "\<lambda>m. last_out GUEST_SCRATCH_PORT (rm_out m)"
  by unfold_locales (simp_all add: rm_hw_def Let_def last_out_def const_defs)

interpretation rm_ports: port_trace rm_hw "\<lambda>m. map (\<lambda>(p, v). (p, ucast v)) (rm_out m)"
  by unfold_locales (auto simp: rm_hw_def)

interpretation rm_teardown: teardown_registers rm_hw
  by unfold_locales (auto simp: rm_hw_def)

interpretation rm_exits: exit_hardware rm_hw rm_vmcs "\<lambda>_. True"
  by unfold_locales (auto simp: rm_hw_def list_all_iff Let_def)

interpretation rm_setup: setup_hardware rm_hw rm_vmcs "\<lambda>_. True"
  "\<lambda>m r. if 0x480 \<le> r \<and> r \<le> 0x491 then rm_caps r else rm_msr m r"
  by unfold_locales (auto simp: rm_hw_def cpu_state_def Let_def fun_eq_iff split: if_splits)

interpretation rm_control: control_registers rm_hw rm_caps
  by unfold_locales (auto simp: rm_hw_def Let_def)

lemma rm_next_store_bytes [simp]: "rm_next (store_bytes rm_hw a bs m) = rm_next m"
  by (induction bs arbitrary: a m) (simp_all add: rm_hw_def)

lemma rm_allocate:
  assumes "rm_next m + n * 4096 \<le> 2 ^ 52" and "4096 dvd rm_next m"
  obtains m' where "allocate_zeroed_pages rm_hw n e m = (Ok (of_nat (rm_next m)), m')"
    and "rm_next m' = rm_next m + n * 4096"
    and "m' = store_bytes rm_hw (of_nat (rm_next m)) (replicate (n * 4096) 0) (m\<lparr>rm_next := rm_next m + n * 4096\<rparr>)"
proof -
  let ?m1 = "m\<lparr>rm_next := rm_next m + n * 4096\<rparr>"
  have "unat (of_nat (rm_next m) :: u64) = rm_next m" using assms(1) by (simp add: unat_of_nat)
  then have "allocate_zeroed_pages rm_hw n e m
      = (Ok (of_nat (rm_next m)), store_bytes rm_hw (of_nat (rm_next m)) (replicate (n * 4096) 0) ?m1)"
    using assms by (simp add: dvd_eq_mod_eq_0 allocate_zeroed_pages_def allocate_zeroed_pages_of_type_def rm_hw_def PAGE_SIZE_def)
  then show thesis using that by simp
qed

lemma rm_map_store_bytes [simp]: "rm_map (store_bytes rm_hw a bs m) = rm_map m"
  by (induction bs arbitrary: a m) (simp_all add: rm_hw_def)

text \<open>On the reference machine with memory left for the tables, the build succeeds.\<close>

lemma rm_build_ok:
  assumes "4096 dvd rm_next m" and "rm_next m + 515 * 4096 \<le> 2 ^ 52"
    and "identity_map_end (rm_map m) = Ok end'" and "prot < end'" and "unat prot mod 4096 = 0"
  shows "\<exists>ept m' s'. build rm_hw prot invept (m, initial_EptStatics) = (Ok ept, (m', s')) \<and> ept_end ept = end'"
proof -
  let ?gibs = "unat (end' div SIZE_1G)"
  note g = identity_map_end_gibs [OF assms(3)]
  obtain m1 where a1: "allocate_zeroed_pages rm_hw 1 EptAllocationFailed m = (Ok (of_nat (rm_next m)), m1)"
    "rm_next m1 = rm_next m + 1 * 4096"
    using assms(1,2) by (rule_tac n = 1 and e = EptAllocationFailed and m = m in rm_allocate) (simp_all add: dvd_add_right_iff)
  obtain m2 where a2: "allocate_zeroed_pages rm_hw 1 EptAllocationFailed m1 = (Ok (of_nat (rm_next m1)), m2)"
    "rm_next m2 = rm_next m1 + 1 * 4096"
    using a1(2) assms(1,2) by (rule_tac n = 1 and e = EptAllocationFailed and m = m1 in rm_allocate) (simp_all add: dvd_add_right_iff)
  obtain m3 where a3: "allocate_zeroed_pages rm_hw ?gibs EptAllocationFailed m2 = (Ok (of_nat (rm_next m2)), m3)"
    "rm_next m3 = rm_next m2 + ?gibs * 4096"
    using a1(2) a2(2) assms(1,2) g(2)
    by (rule_tac n = ?gibs and e = EptAllocationFailed and m = m2 in rm_allocate) (simp_all add: dvd_add_right_iff)
  obtain m4 where a4: "allocate_zeroed_pages rm_hw 1 EptAllocationFailed m3 = (Ok (of_nat (rm_next m3)), m4)"
    "rm_next m4 = rm_next m3 + 1 * 4096"
    using a1(2) a2(2) a3(2) assms(1,2) g(2)
    by (rule_tac n = 1 and e = EptAllocationFailed and m = m3 in rm_allocate) (simp_all add: dvd_add_right_iff)
  note t = rm_alloc.four_allocations [OF a1(1) a2(1) a3(1) a4(1) g(3)]
  have "unat prot < ?gibs * 2 ^ 30" using assms(4) g(1) by (simp add: word_less_nat_alt)
  from rm_memory.fill_tables_in_memory_ok [OF t(1,2) g(2) this t(3,4)]
  obtain m5 where f: "fill_tables_in_memory rm_hw (of_nat (rm_next m)) (of_nat (rm_next m1)) (of_nat (rm_next m2))
      (of_nat (rm_next m3)) ?gibs prot m4 = (Ok (unat prot div 4096 mod 512), m5)" by blast
  have mm: "f_memory_map rm_hw m = (Some (rm_map m), m)" by (simp add: rm_hw_def)
  show ?thesis
    unfolding build_def
    using assms(3-5) mm a1(1) a2(1) a3(1) a4(1) f
    by (simp add: and_then_def on_machine_def on_statics_def ept_memory_map_def PAGE_SIZE_def publish_def
        initial_EptStatics_def decode_invept_def Let_def not_le)
qed

section \<open>The host tables on the reference machine\<close>

lemma rm_store_bytes [simp]:
  "rm_gdtr (store_bytes rm_hw a bs m) = rm_gdtr m" "rm_idtr (store_bytes rm_hw a bs m) = rm_idtr m"
  "rm_tr (store_bytes rm_hw a bs m) = rm_tr m" "rm_msr (store_bytes rm_hw a bs m) = rm_msr m"
  "rm_cr3 (store_bytes rm_hw a bs m) = rm_cr3 m" "rm_cr4 (store_bytes rm_hw a bs m) = rm_cr4 m"
  by (induction bs arbitrary: a m) (simp_all add: rm_hw_def)

text \<open>What an action that only takes fresh pages, fills them, or works on the VMCS leaves alone.\<close>

definition extends :: "machine \<Rightarrow> machine \<Rightarrow> bool" where
  "extends m m' \<longleftrightarrow> rm_next m \<le> rm_next m' \<and> (\<forall>x < rm_next m. rm_mem m' (of_nat x) = rm_mem m (of_nat x)) \<and>
     rm_msr m' = rm_msr m \<and> rm_cr3 m' = rm_cr3 m \<and> rm_gdtr m' = rm_gdtr m \<and> rm_idtr m' = rm_idtr m \<and>
     rm_tr m' = rm_tr m \<and> rm_map m' = rm_map m \<and> (rm_cr4 m AND CR4_LA57 = 0 \<longrightarrow> rm_cr4 m' AND CR4_LA57 = 0)"

lemma extends_refl [simp]: "extends m m"
  by (simp add: extends_def)

lemma extends_trans: "extends m1 m2 \<Longrightarrow> extends m2 m3 \<Longrightarrow> extends m1 m3"
  by (auto simp: extends_def)

lemma extends_store:
  assumes "extends m0 m" and "rm_next m0 \<le> unat a" and "unat a + length bs \<le> 2 ^ 63"
  shows "extends m0 (store_bytes rm_hw a bs m)"
proof -
  have "rm_mem (store_bytes rm_hw a bs m) (of_nat x) = rm_mem m (of_nat x)" if "x < rm_next m0" for x
    using rm_memory.load_after_store [OF assms(3), of x m] that assms(2,3) by (simp add: rm_hw_def)
  then show ?thesis using assms(1) by (simp add: extends_def)
qed

lemma extends_load_bytes:
  assumes "extends m m'" and "unat a + n \<le> rm_next m"
  shows "load_bytes rm_hw a n m' = load_bytes rm_hw a n m"
proof -
  have "rm_mem m' (a + of_nat i) = rm_mem m (a + of_nat i)" if "i < n" for i
  proof -
    have "a + of_nat i = of_nat (unat a + i)" by simp
    then show ?thesis using assms that by (simp only: extends_def)
  qed
  then show ?thesis by (simp add: load_bytes_def rm_hw_def)
qed

lemma rm_allocate_of_type:
  assumes "rm_next m + n * 4096 \<le> 2 ^ 52" and "4096 dvd rm_next m"
  shows "\<exists>m'. allocate_zeroed_pages_of_type rm_hw n ty e m = (Ok (of_nat (rm_next m)), m') \<and>
    rm_next m' = rm_next m + n * 4096 \<and> extends m m'"
proof -
  let ?m1 = "m\<lparr>rm_next := rm_next m + n * 4096\<rparr>"
  have u: "unat (of_nat (rm_next m) :: u64) = rm_next m" using assms(1) by (simp add: unat_of_nat)
  have "extends m (store_bytes rm_hw (of_nat (rm_next m)) (replicate (n * 4096) 0) ?m1)"
    by (rule extends_store) (use u assms(1) in \<open>simp_all add: extends_def\<close>)
  moreover have "f_allocate_pages rm_hw ty n m = (Some (of_nat (rm_next m)), ?m1)" using assms(1) by (simp add: rm_hw_def)
  ultimately show ?thesis
    using u assms(2) by (simp add: dvd_eq_mod_eq_0 allocate_zeroed_pages_of_type_def PAGE_SIZE_def)
qed

text \<open>Firmware whose IDT is empty: no gate wants an IST stack.\<close>

definition firmware_tables :: "machine \<Rightarrow> bool" where
  "firmware_tables m \<longleftrightarrow> rm_gdtr m = to_operand \<lparr>base = 0x2000, limit = 0x47\<rparr> \<and>
     rm_idtr m = to_operand \<lparr>base = 0x3000, limit = 0xFFF\<rparr> \<and> 0x100000 \<le> rm_next m \<and>
     (\<forall>x < 0x1000. rm_mem m (of_nat (0x3000 + x)) = 0)"

lemma firmware_tables_extends: "firmware_tables m \<Longrightarrow> extends m m' \<Longrightarrow> firmware_tables m'"
  by (auto simp: firmware_tables_def extends_def simp del: of_nat_add)

lemma firmware_tables_idt: "firmware_tables m \<Longrightarrow> check_idt rm_hw m = (Ok (), m)"
proof -
  assume f: "firmware_tables m"
  have "i_load8 rm_hw (0x3000 + of_nat (16 * v + 5)) m = 0" if "v < 256" for v
  proof -
    have "(0x3000 + of_nat (16 * v + 5) :: u64) = of_nat (0x3000 + (16 * v + 5))" by simp
    moreover have "rm_mem m (of_nat (0x3000 + (16 * v + 5))) = 0"
      using f that by (simp only: firmware_tables_def)
    ultimately show ?thesis by (simp only: rm_hw_def platform.simps)
  qed
  then show ?thesis
    using f by (auto simp: check_idt_run read_idtr_def firmware_tables_def rm_hw_def needs_ist_def Let_def simp del: of_nat_add of_nat_mult)
qed

lemma rm_fresh_page:
  assumes "rm_next m = n" and "4096 dvd n" and "n + 4096 \<le> 2 ^ 52"
  obtains m' where "allocate_zeroed_page rm_hw e m = (Ok (of_nat n), m')" and "rm_next m' = n + 4096" and "extends m m'"
  using rm_allocate_of_type [of m 1 LOADER_DATA e] assms by (auto simp: allocate_zeroed_page_def allocate_zeroed_pages_def)

text \<open>The tables in memory, before they are loaded.\<close>

lemma rm_build_tables:
  assumes "firmware_tables m" and "rm_next m = 0x100000"
  defines "gdt \<equiv> \<lparr>gdt_page = 0x101000, original_length = 0x48, tss_selector = Some 0x48\<rparr>"
  obtains m1 m2 m3 region where "tss_allocate rm_hw m = (Ok \<lparr>tss_page = 0x100000\<rparr>, m1)" and "copy_active rm_hw m1 = (Ok region, m2)"
    and "append_tss_descriptor rm_hw region \<lparr>tss_page = 0x100000\<rparr> m2 = (Ok (0x48, gdt), m3)"
    and "region = \<lparr>gdt_page = 0x101000, original_length = 0x48, tss_selector = None\<rparr>" and "extends m m3" and "rm_next m3 = 0x102000"
    and "load_bytes rm_hw 0x101000 0x58 m3 = load_bytes rm_hw 0x2000 0x48 m @ tss_descriptor 0x100000 0x67"
proof -
  obtain m1 where a1: "allocate_zeroed_page rm_hw TssAllocationFailed m = (Ok 0x100000, m1)" "rm_next m1 = 0x101000" "extends m m1"
    using rm_fresh_page [OF assms(2), of TssAllocationFailed] by auto
  define m2 where "m2 = store_bytes rm_hw 0x100066 (to_le_bytes (0x68 :: u16)) m1"
  have f2: "extends m m2" "rm_next m2 = 0x101000" using a1 assms(2) by (simp_all add: m2_def extends_store)
  have tss: "tss_allocate rm_hw m = (Ok \<lparr>tss_page = 0x100000\<rparr>, m2)"
    by (simp add: tss_allocate_def and_then_def a1 m2_def const_defs)
  obtain m3 where a3: "allocate_zeroed_page rm_hw GdtAllocationFailed m2 = (Ok 0x101000, m3)" "rm_next m3 = 0x102000" "extends m2 m3"
    using rm_fresh_page [OF f2(2), of GdtAllocationFailed] by auto
  have e3: "extends m m3" using f2(1) a3(3) by (rule extends_trans)
  have g3: "read_gdtr rm_hw m3 = \<lparr>base = 0x2000, limit = 0x47\<rparr>"
    using firmware_tables_extends [OF assms(1) e3] by (simp add: read_gdtr_def firmware_tables_def rm_hw_def)
  have old: "load_bytes rm_hw 0x2000 0x48 m3 = load_bytes rm_hw 0x2000 0x48 m"
    by (rule extends_load_bytes [OF e3]) (simp add: assms(2))
  define m4 where "m4 = store_bytes rm_hw 0x101000 (load_bytes rm_hw 0x2000 0x48 m) m3"
  have e4: "extends m m4" "rm_next m4 = 0x102000"
    using a3 e3 assms(2) by (simp_all add: m4_def extends_store load_bytes_def)
  let ?region = "\<lparr>gdt_page = 0x101000, original_length = 0x48, tss_selector = None\<rparr>"
  have copy: "copy_active rm_hw m2 = (Ok ?region, m4)"
    by (simp add: copy_active_def and_then_def a3(1) g3 Let_def SYSTEM_DESCRIPTOR_SIZE_def PAGE_SIZE_def m4_def old)
  define m5 where "m5 = store_bytes rm_hw 0x101048 (tss_descriptor 0x100000 0x67) m4"
  have e5: "extends m m5" "rm_next m5 = 0x102000" using e4 assms(2) by (simp_all add: m5_def extends_store)
  have app: "append_tss_descriptor rm_hw ?region \<lparr>tss_page = 0x100000\<rparr> m4 = (Ok (0x48, gdt), m5)"
    by (simp add: rm_memory.append_tss_descriptor_cases next_multiple_of_def Let_def m5_def tss_base_def gdt_def)
  have "load_bytes rm_hw 0x101000 0x58 m5 = load_bytes rm_hw 0x2000 0x48 m @ tss_descriptor 0x100000 0x67"
  proof (rule nth_equalityI)
    fix i assume "i < length (load_bytes rm_hw 0x101000 0x58 m5)"
    then have i: "i < 0x58" by (simp add: load_bytes_def)
    have a: "(0x101000 + of_nat i :: u64) = of_nat (0x101000 + i)" by simp
    have "i_load8 rm_hw (of_nat (0x101000 + i)) m5 = (load_bytes rm_hw 0x2000 0x48 m @ tss_descriptor 0x100000 0x67) ! i"
      using i by (auto simp: m5_def m4_def rm_memory.load_after_store nth_append load_bytes_def simp del: of_nat_add)
    then show "load_bytes rm_hw 0x101000 0x58 m5 ! i = (load_bytes rm_hw 0x2000 0x48 m @ tss_descriptor 0x100000 0x67) ! i"
      using i by (simp add: load_bytes_def [of rm_hw "0x101000"] a del: of_nat_add)
  qed (simp add: load_bytes_def)
  then show thesis using that [OF tss copy app refl e5] by simp
qed

text \<open>
  Activation on the reference machine: the GDT at 0x101000 holds the firmware's descriptors and the busy TSS
  descriptor at 0x48.
\<close>

definition host_gdtr :: DescriptorTable where
  "host_gdtr = \<lparr>base = 0x101000, limit = 0x57\<rparr>"

lemma rm_activate_host_tables:
  assumes "firmware_tables (machine_of b)" and "rm_next (machine_of b) = 0x100000"
  shows "\<exists>tables b' m. activate_host_tables rm_hw b = (Ok tables, b') \<and> extends (machine_of b) m \<and> rm_next m = 0x102000 \<and>
    b_world b' = (b_world b)\<lparr>w_machine := i_ltr rm_hw 0x48 (load_gdtr rm_hw host_gdtr m)\<rparr> \<and>
    load_bytes rm_hw 0x101000 0x58 m = load_bytes rm_hw 0x2000 0x48 (machine_of b) @ tss_descriptor 0x100000 0x67 \<and>
    ht_gdtr tables = host_gdtr \<and> ht_tr tables = 0x48 \<and> ht_tss_base tables = 0x100000 \<and>
    ht_idtr tables = \<lparr>base = 0x3000, limit = 0xFFF\<rparr> \<and> ht_firmware_gdtr tables = \<lparr>base = 0x2000, limit = 0x47\<rparr>"
proof -
  let ?gdt = "\<lparr>gdt_page = 0x101000, original_length = 0x48, tss_selector = Some 0x48\<rparr>" and ?tss = "\<lparr>tss_page = 0x100000\<rparr>"
  obtain m1 m2 m region where tss: "tss_allocate rm_hw (machine_of b) = (Ok ?tss, m1)" and copy: "copy_active rm_hw m1 = (Ok region, m2)"
    and app: "append_tss_descriptor rm_hw region ?tss m2 = (Ok (0x48, ?gdt), m)"
    and reg: "region = \<lparr>gdt_page = 0x101000, original_length = 0x48, tss_selector = None\<rparr>" and e: "extends (machine_of b) m" "rm_next m = 0x102000"
    and bytes: "load_bytes rm_hw 0x101000 0x58 m = load_bytes rm_hw 0x2000 0x48 (machine_of b) @ tss_descriptor 0x100000 0x67"
    by (rule rm_build_tables [OF assms])
  note f = firmware_tables_extends [OF assms(1) e(1)] and v = rm_memory.append_then_verify [OF app, unfolded reg, simplified]
  have "selectors_in_copy ?gdt 0x38 0x30"
    by (simp add: selectors_in_copy_def descriptor_offset_def const_defs gdt_base_def Let_def)
  then have "activation_refusal rm_hw ?gdt ?tss m = None"
    using v(1) firmware_tables_idt [OF f] by (simp add: activation_refusal_def rm_hw_def)
  from rm_tables.activate_loads [OF this v(2)]
  have act: "activate rm_hw ?gdt ?tss m = (Ok (), i_ltr rm_hw 0x48 (load_gdtr rm_hw host_gdtr m))"
    by (simp add: gdt_base_def host_gdtr_def)
  have idtr: "read_idtr rm_hw (i_ltr rm_hw 0x48 (load_gdtr rm_hw host_gdtr m)) = \<lparr>base = 0x3000, limit = 0xFFF\<rparr>"
    using f by (simp add: read_idtr_def load_gdtr_def rm_hw_def firmware_tables_def)
  have gdtr: "read_gdtr rm_hw (machine_of b) = \<lparr>base = 0x2000, limit = 0x47\<rparr>"
    using assms(1) by (simp add: read_gdtr_def firmware_tables_def rm_hw_def)
  have "\<exists>tables b'. activate_host_tables rm_hw b = (Ok tables, b') \<and>
    b_world b' = (b_world b)\<lparr>w_machine := i_ltr rm_hw 0x48 (load_gdtr rm_hw host_gdtr m)\<rparr> \<and>
    ht_gdtr tables = host_gdtr \<and> ht_tr tables = 0x48 \<and> ht_tss_base tables = 0x100000 \<and>
    ht_idtr tables = \<lparr>base = 0x3000, limit = 0xFFF\<rparr> \<and> ht_firmware_gdtr tables = \<lparr>base = 0x2000, limit = 0x47\<rparr>"
    using v(1,2)
    by (simp add: activate_host_tables_def and_then_run on_cpu_run map_err_run log_line_def tss copy app [unfolded reg] reg act gdt_base_def
        tss_base_def host_gdtr_def idtr [unfolded host_gdtr_def] gdtr)
  then show ?thesis using e bytes by blast
qed

end
