(* ===== verification/Stub.thy ===== *)
theory Stub
  imports Handler_Spec
begin

text \<open>
  The two assembly stubs: \<open>vmx_launch\<close> with \<open>vmx_return_to_launcher\<close> (\<open>vmx/vmcs/launch.rs\<close>) and
  \<open>vmexit_entry\<close> (\<open>vmx/vmexit/mod.rs\<close>), instruction by instruction on the host's registers and stacks. Their
  contract is \<open>Handler.vmexit_entry\<close>, which passes the guest's registers as a record and the stop value as a
  result: the stub finds both again through pushes, pops and the saved stack pointer.

  Memory is addressed by quadwords, and every stack access is one quadword at a distance of a multiple of 8 from
  the others. Rust code called by a stub follows the Microsoft x64 convention: it keeps the callee-saved registers,
  and of the stack it may change what lies below the caller's frame and the 32 bytes of shadow space. What it leaves
  there, and in the other registers, is the parameter \<open>clobber\<close>. A call with RSP off a 16-byte boundary is an error.
\<close>

section \<open>Registers, stack and instructions\<close>

datatype gpr = RAX | RBX | RCX | RDX | RSI | RDI | RBP | R8 | R9 | R10 | R11 | R12 | R13 | R14 | R15

primrec get_gpr :: "gpr \<Rightarrow> RegisterFrame \<Rightarrow> u64" where
  "get_gpr RAX f = reg_rax f" | "get_gpr RBX f = reg_rbx f" | "get_gpr RCX f = reg_rcx f" | "get_gpr RDX f = reg_rdx f"
| "get_gpr RSI f = reg_rsi f" | "get_gpr RDI f = reg_rdi f" | "get_gpr RBP f = reg_rbp f" | "get_gpr R8 f = reg_r8 f"
| "get_gpr R9 f = reg_r9 f" | "get_gpr R10 f = reg_r10 f" | "get_gpr R11 f = reg_r11 f" | "get_gpr R12 f = reg_r12 f"
| "get_gpr R13 f = reg_r13 f" | "get_gpr R14 f = reg_r14 f" | "get_gpr R15 f = reg_r15 f"

primrec put_gpr :: "gpr \<Rightarrow> u64 \<Rightarrow> RegisterFrame \<Rightarrow> RegisterFrame" where
  "put_gpr RAX v f = f\<lparr>reg_rax := v\<rparr>" | "put_gpr RBX v f = f\<lparr>reg_rbx := v\<rparr>" | "put_gpr RCX v f = f\<lparr>reg_rcx := v\<rparr>"
| "put_gpr RDX v f = f\<lparr>reg_rdx := v\<rparr>" | "put_gpr RSI v f = f\<lparr>reg_rsi := v\<rparr>" | "put_gpr RDI v f = f\<lparr>reg_rdi := v\<rparr>"
| "put_gpr RBP v f = f\<lparr>reg_rbp := v\<rparr>" | "put_gpr R8 v f = f\<lparr>reg_r8 := v\<rparr>" | "put_gpr R9 v f = f\<lparr>reg_r9 := v\<rparr>"
| "put_gpr R10 v f = f\<lparr>reg_r10 := v\<rparr>" | "put_gpr R11 v f = f\<lparr>reg_r11 := v\<rparr>" | "put_gpr R12 v f = f\<lparr>reg_r12 := v\<rparr>"
| "put_gpr R13 v f = f\<lparr>reg_r13 := v\<rparr>" | "put_gpr R14 v f = f\<lparr>reg_r14 := v\<rparr>" | "put_gpr R15 v f = f\<lparr>reg_r15 := v\<rparr>"

text \<open>The host's processor: \<open>h_rip\<close> is where \<open>ret\<close> went, \<open>h_launch_rsp\<close> the static \<open>VMX_LAUNCH_RSP\<close>.\<close>

record host_cpu =
  h_regs :: RegisterFrame
  h_rsp :: u64
  h_rflags :: u64
  h_rip :: u64
  h_mem :: "u64 \<Rightarrow> u64"
  h_launch_rsp :: u64

datatype stub_instr =
    Push gpr
  | Pop gpr
  | Pushfq
  | MovRcxRsp
  | SubRsp u64
  | AddRsp u64
  | Cld
  | SaveLaunchRsp
  | LoadLaunchRsp
  | Ret

definition push_value :: "u64 \<Rightarrow> host_cpu \<Rightarrow> host_cpu" where
  "push_value v c = c\<lparr>h_rsp := h_rsp c - 8, h_mem := (h_mem c)(h_rsp c - 8 := v)\<rparr>"

text \<open>
  \<open>sub\<close> and \<open>add\<close> also set the arithmetic flags, which nothing reads: RFLAGS are pushed only right after VMLAUNCH
  and VMRESUME, which set them.
\<close>

primrec stub_exec :: "stub_instr \<Rightarrow> host_cpu \<Rightarrow> host_cpu" where
  "stub_exec (Push r) c = push_value (get_gpr r (h_regs c)) c"
| "stub_exec (Pop r) c = c\<lparr>h_regs := put_gpr r (h_mem c (h_rsp c)) (h_regs c), h_rsp := h_rsp c + 8\<rparr>"
| "stub_exec Pushfq c = push_value (h_rflags c) c"
| "stub_exec MovRcxRsp c = c\<lparr>h_regs := (h_regs c)\<lparr>reg_rcx := h_rsp c\<rparr>\<rparr>"
| "stub_exec (SubRsp n) c = c\<lparr>h_rsp := h_rsp c - n\<rparr>"
| "stub_exec (AddRsp n) c = c\<lparr>h_rsp := h_rsp c + n\<rparr>"
| "stub_exec Cld c = c\<lparr>h_rflags := h_rflags c AND NOT 0x400\<rparr>"
| "stub_exec SaveLaunchRsp c = c\<lparr>h_launch_rsp := h_rsp c\<rparr>"
| "stub_exec LoadLaunchRsp c = c\<lparr>h_rsp := h_launch_rsp c\<rparr>"
| "stub_exec Ret c = c\<lparr>h_rip := h_mem c (h_rsp c), h_rsp := h_rsp c + 8\<rparr>"

primrec run_code :: "stub_instr list \<Rightarrow> host_cpu \<Rightarrow> host_cpu" where
  "run_code [] c = c"
| "run_code (i # is) c = run_code is (stub_exec i c)"

section \<open>The code\<close>

definition vmx_launch_code :: "stub_instr list" where
  "vmx_launch_code =
     [Push RBX, Push RBP, Push RDI, Push RSI, Push R12, Push R13, Push R14, Push R15, SaveLaunchRsp]"

definition launch_failed_code :: "stub_instr list" where
  "launch_failed_code = [Pushfq, Pop RAX]"

definition return_to_launcher_code :: "stub_instr list" where
  "return_to_launcher_code =
     [LoadLaunchRsp, Pop R15, Pop R14, Pop R13, Pop R12, Pop RSI, Pop RDI, Pop RBP, Pop RBX, Ret]"

definition vmexit_save_code :: "stub_instr list" where
  "vmexit_save_code =
     [Push R15, Push R14, Push R13, Push R12, Push R11, Push R10, Push R9, Push R8, Push RBP, Push RDI, Push RSI,
      Push RDX, Push RCX, Push RBX, Push RAX, MovRcxRsp, SubRsp 40, Cld]"

definition vmexit_restore_code :: "stub_instr list" where
  "vmexit_restore_code =
     [AddRsp 40, Pop RAX, Pop RBX, Pop RCX, Pop RDX, Pop RSI, Pop RDI, Pop RBP, Pop R8, Pop R9, Pop R10, Pop R11,
      Pop R12, Pop R13, Pop R14, Pop R15]"

definition resume_failed_code :: "stub_instr list" where
  "resume_failed_code = [Pushfq, Pop RCX, SubRsp 32]"

section \<open>Calls to Rust\<close>

text \<open>The \<open>repr(C)\<close> layout of \<open>RegisterFrame\<close>: fifteen quadwords, in the order of the fields.\<close>

definition frame_words :: "RegisterFrame \<Rightarrow> u64 list" where
  "frame_words f =
     [reg_rax f, reg_rbx f, reg_rcx f, reg_rdx f, reg_rsi f, reg_rdi f, reg_rbp f, reg_r8 f, reg_r9 f, reg_r10 f,
      reg_r11 f, reg_r12 f, reg_r13 f, reg_r14 f, reg_r15 f]"

definition load_frame :: "(u64 \<Rightarrow> u64) \<Rightarrow> u64 \<Rightarrow> RegisterFrame" where
  "load_frame mem p =
     \<lparr>reg_rax = mem p, reg_rbx = mem (p + 8), reg_rcx = mem (p + 16), reg_rdx = mem (p + 24), reg_rsi = mem (p + 32),
      reg_rdi = mem (p + 40), reg_rbp = mem (p + 48), reg_r8 = mem (p + 56), reg_r9 = mem (p + 64),
      reg_r10 = mem (p + 72), reg_r11 = mem (p + 80), reg_r12 = mem (p + 88), reg_r13 = mem (p + 96),
      reg_r14 = mem (p + 104), reg_r15 = mem (p + 112)\<rparr>"

primrec store_quads :: "u64 \<Rightarrow> u64 list \<Rightarrow> (u64 \<Rightarrow> u64) \<Rightarrow> u64 \<Rightarrow> u64" where
  "store_quads p [] mem = mem"
| "store_quads p (v # vs) mem = (store_quads (p + 8) vs mem)(p := v)"

definition after_call :: "u64 \<Rightarrow> (host_cpu \<Rightarrow> host_cpu) \<Rightarrow> u64 \<Rightarrow> (u64 \<Rightarrow> u64) \<Rightarrow> host_cpu \<Rightarrow> host_cpu" where
  "after_call bottom clobber v mem c =
     (let k = clobber c; left = h_regs k
      in c\<lparr>h_regs := (h_regs c)\<lparr>reg_rax := v, reg_rcx := reg_rcx left, reg_rdx := reg_rdx left, reg_r8 := reg_r8 left,
            reg_r9 := reg_r9 left, reg_r10 := reg_r10 left, reg_r11 := reg_r11 left\<rparr>,
          h_rflags := h_rflags k,
          h_mem := (\<lambda>a. if unat bottom \<le> unat a \<and> unat a < unat (h_rsp c) + 32 then h_mem k a else mem a)\<rparr>)"

definition call_rust ::
  "u64 \<Rightarrow> (host_cpu \<Rightarrow> host_cpu) \<Rightarrow> (host_cpu \<Rightarrow> ('m, u64 \<times> (u64 \<Rightarrow> u64)) exit_action) \<Rightarrow> host_cpu \<Rightarrow>
   ('m, host_cpu) exit_action" where
  "call_rust bottom clobber body c =
     (if unat (h_rsp c) mod 16 \<noteq> 0 then throw ()
      else and_then (body c) (\<lambda>(v, mem). ret (after_call bottom clobber v mem c)))"

definition handler_body :: "'m platform \<Rightarrow> host_cpu \<Rightarrow> ('m, u64 \<times> (u64 \<Rightarrow> u64)) exit_action" where
  "handler_body hw c =
     (let p = reg_rcx (h_regs c)
      in and_then (vmexit_handler hw (load_frame (h_mem c) p)) (\<lambda>(v, frame).
         ret (v, store_quads p (frame_words frame) (h_mem c))))"

definition resume_failed_body :: "'m platform \<Rightarrow> host_cpu \<Rightarrow> ('m, u64 \<times> (u64 \<Rightarrow> u64)) exit_action" where
  "resume_failed_body hw c = and_then (vmresume_failed hw (reg_rcx (h_regs c))) (\<lambda>v. ret (v, h_mem c))"

section \<open>The stubs\<close>

datatype stub_exit = InGuest host_cpu | AtLauncher host_cpu

definition vmexit_entry_stub ::
  "'m platform \<Rightarrow> (RegisterFrame \<Rightarrow> 'm \<Rightarrow> u64 option \<times> 'm) \<Rightarrow> u64 \<Rightarrow> (host_cpu \<Rightarrow> host_cpu) \<Rightarrow> host_cpu \<Rightarrow>
   ('m, stub_exit) exit_action" where
  "vmexit_entry_stub hw vmresume bottom clobber c =
     and_then (call_rust bottom clobber (handler_body hw) (run_code vmexit_save_code c)) (\<lambda>c2.
     if reg_rax (h_regs c2) \<noteq> 0 then ret (AtLauncher c2)
     else (let c3 = run_code vmexit_restore_code c2
           in (\<lambda>w. (case vmresume (h_regs c3) (w_machine w) of
                  (None, m) \<Rightarrow> (Ok (InGuest c3), w\<lparr>w_machine := m\<rparr>)
                | (Some rflags, m) \<Rightarrow>
                    and_then (call_rust bottom clobber (resume_failed_body hw)
                        (run_code resume_failed_code (c3\<lparr>h_rflags := rflags\<rparr>)))
                      (\<lambda>c5. ret (AtLauncher c5)) (w\<lparr>w_machine := m\<rparr>)))))"

text \<open>A VM exit loads the host's RSP and RFLAGS and leaves the guest's registers where they are.\<close>

definition vm_exit :: "u64 \<Rightarrow> RegisterFrame \<Rightarrow> host_cpu \<Rightarrow> host_cpu" where
  "vm_exit host_rsp frame c = c\<lparr>h_regs := frame, h_rsp := host_rsp, h_rflags := 2\<rparr>"

text \<open>
  The exits of a guest, at most \<open>n\<close> of them: \<open>None\<close> when it is still running. \<open>guest\<close> is the guest's run to its next
  exit: the registers it was entered with, and those it exits with.
\<close>

primrec exits_stub ::
  "nat \<Rightarrow> 'm platform \<Rightarrow> (RegisterFrame \<Rightarrow> 'm \<Rightarrow> u64 option \<times> 'm) \<Rightarrow> (RegisterFrame \<Rightarrow> 'm \<Rightarrow> RegisterFrame \<times> 'm) \<Rightarrow>
   u64 \<Rightarrow> u64 \<Rightarrow> (host_cpu \<Rightarrow> host_cpu) \<Rightarrow> RegisterFrame \<Rightarrow> host_cpu \<Rightarrow> 'm world \<Rightarrow> ((unit, host_cpu) result \<times> 'm world) option" where
  "exits_stub 0 hw vmresume guest bottom host_rsp clobber frame c w = None"
| "exits_stub (Suc n) hw vmresume guest bottom host_rsp clobber frame c w =
     (case guest frame (w_machine w) of (exited, m) \<Rightarrow>
      case vmexit_entry_stub hw vmresume bottom clobber (vm_exit host_rsp exited c) (w\<lparr>w_machine := m\<rparr>) of
        (Ok (InGuest c'), w') \<Rightarrow> exits_stub n hw vmresume guest bottom host_rsp clobber (h_regs c') c' w'
      | (Ok (AtLauncher c'), w') \<Rightarrow> Some (Ok (run_code return_to_launcher_code c'), w')
      | (Err e, w') \<Rightarrow> Some (Err e, w')
      | (Panic, w') \<Rightarrow> Some (Panic, w'))"

definition vmx_launch_stub ::
  "nat \<Rightarrow> 'm platform \<Rightarrow> (RegisterFrame \<Rightarrow> 'm \<Rightarrow> u64 option \<times> 'm) \<Rightarrow> (RegisterFrame \<Rightarrow> 'm \<Rightarrow> u64 option \<times> 'm) \<Rightarrow>
   (RegisterFrame \<Rightarrow> 'm \<Rightarrow> RegisterFrame \<times> 'm) \<Rightarrow> u64 \<Rightarrow> u64 \<Rightarrow> (host_cpu \<Rightarrow> host_cpu) \<Rightarrow> host_cpu \<Rightarrow> 'm world \<Rightarrow>
   ((unit, host_cpu) result \<times> 'm world) option" where
  "vmx_launch_stub n hw vmlaunch vmresume guest bottom host_rsp clobber c w =
     (let c1 = run_code vmx_launch_code c
      in case vmlaunch (h_regs c1) (w_machine w) of
           (Some rflags, m) \<Rightarrow>
             Some (Ok (run_code (launch_failed_code @ return_to_launcher_code) (c1\<lparr>h_rflags := rflags\<rparr>)), w\<lparr>w_machine := m\<rparr>)
         | (None, m) \<Rightarrow> exits_stub n hw vmresume guest bottom host_rsp clobber (h_regs c1) c1 (w\<lparr>w_machine := m\<rparr>))"

section \<open>What the stubs implement\<close>

text \<open>The same run without stacks: the registers go from guest to handler and back, the stop value to the caller.\<close>

primrec exits_run ::
  "nat \<Rightarrow> 'm platform \<Rightarrow> (RegisterFrame \<Rightarrow> 'm \<Rightarrow> u64 option \<times> 'm) \<Rightarrow> (RegisterFrame \<Rightarrow> 'm \<Rightarrow> RegisterFrame \<times> 'm) \<Rightarrow>
   RegisterFrame \<Rightarrow> 'm world \<Rightarrow> ((unit, u64) result \<times> 'm world) option" where
  "exits_run 0 hw vmresume guest frame w = None"
| "exits_run (Suc n) hw vmresume guest frame w =
     (case guest frame (w_machine w) of (exited, m) \<Rightarrow>
      case vmexit_entry hw vmresume exited (w\<lparr>w_machine := m\<rparr>) of
        (Ok (EnteredGuest frame'), w') \<Rightarrow> exits_run n hw vmresume guest frame' w'
      | (Ok (ReturnedToLauncher v), w') \<Rightarrow> Some (Ok v, w')
      | (Err e, w') \<Rightarrow> Some (Err e, w')
      | (Panic, w') \<Rightarrow> Some (Panic, w'))"

definition launch_run ::
  "nat \<Rightarrow> 'm platform \<Rightarrow> (RegisterFrame \<Rightarrow> 'm \<Rightarrow> u64 option \<times> 'm) \<Rightarrow> (RegisterFrame \<Rightarrow> 'm \<Rightarrow> u64 option \<times> 'm) \<Rightarrow>
   (RegisterFrame \<Rightarrow> 'm \<Rightarrow> RegisterFrame \<times> 'm) \<Rightarrow> RegisterFrame \<Rightarrow> 'm world \<Rightarrow> ((unit, u64) result \<times> 'm world) option" where
  "launch_run n hw vmlaunch vmresume guest frame w =
     (case vmlaunch frame (w_machine w) of
        (Some rflags, m) \<Rightarrow> Some (Ok rflags, w\<lparr>w_machine := m\<rparr>)
      | (None, m) \<Rightarrow> exits_run n hw vmresume guest frame (w\<lparr>w_machine := m\<rparr>))"

section \<open>Stack lemmas\<close>

text \<open>The quadwords from an address upwards.\<close>

primrec holds :: "(u64 \<Rightarrow> u64) \<Rightarrow> u64 \<Rightarrow> u64 list \<Rightarrow> bool" where
  "holds mem p [] = True"
| "holds mem p (v # vs) = (mem p = v \<and> holds mem (p + 8) vs)"

lemma holds_cong:
  assumes "holds mem p vs" and "\<And>a. unat p \<le> unat a \<Longrightarrow> unat a < unat p + 8 * length vs \<Longrightarrow> mem' a = mem a"
    and "unat p + 8 * length vs < 2 ^ 64"
  shows "holds mem' p vs"
  using assms
proof (induction vs arbitrary: p)
  case (Cons v vs)
  have p: "unat (p + 8) = unat p + 8" using Cons.prems(3) by (simp add: unat_word_ariths)
  have "mem' p = mem p" by (rule Cons.prems(2)) simp_all
  moreover have "holds mem' (p + 8) vs"
    using Cons.prems p by (intro Cons.IH) auto
  ultimately show ?case using Cons.prems(1) by simp
qed simp

lemma store_quads_outside:
  assumes "unat p + 8 * length vs < 2 ^ 64" and "unat a < unat p \<or> unat p + 8 * length vs \<le> unat a"
  shows "store_quads p vs mem a = mem a"
  using assms
proof (induction vs arbitrary: p)
  case (Cons v vs)
  have p: "unat (p + 8) = unat p + 8" using Cons.prems(1) by (simp add: unat_word_ariths)
  have "a \<noteq> p" using Cons.prems(2) by auto
  moreover have "store_quads (p + 8) vs mem a = mem a" using Cons.prems p by (intro Cons.IH) auto
  ultimately show ?case by simp
qed simp

lemma holds_store_quads:
  assumes "unat p + 8 * length vs < 2 ^ 64"
  shows "holds (store_quads p vs mem) p vs"
  using assms
proof (induction vs arbitrary: p)
  case (Cons v vs)
  have p: "unat (p + 8) = unat p + 8" using Cons.prems(1) by (simp add: unat_word_ariths)
  have "holds (store_quads (p + 8) vs mem) (p + 8) vs" using Cons.prems p by (intro Cons.IH) simp
  then have "holds ((store_quads (p + 8) vs mem)(p := v)) (p + 8) vs"
    by (rule holds_cong) (use Cons.prems p in auto)
  then show ?case by (simp add: fun_upd_def)
qed simp

lemma run_code_append [simp]: "run_code (xs @ ys) c = run_code ys (run_code xs c)"
  by (induction xs arbitrary: c) simp_all

text \<open>Pushing registers stores them, last one lowest; popping as many restores them.\<close>

lemma run_pushes:
  "run_code (map Push rs) c =
     c\<lparr>h_rsp := h_rsp c - of_nat (8 * length rs),
       h_mem := store_quads (h_rsp c - of_nat (8 * length rs)) (rev (map (\<lambda>r. get_gpr r (h_regs c)) rs)) (h_mem c)\<rparr>"
proof (induction rs rule: rev_induct)
  case (snoc r rs)
  let ?q = "h_rsp c - of_nat (8 * length rs)"
  have q: "h_rsp c - of_nat (8 * length (rs @ [r])) = ?q - 8" by (simp add: algebra_simps)
  show ?case unfolding q by (simp add: snoc push_value_def fun_upd_def del: of_nat_mult)
qed simp

lemma run_pops:
  "holds (h_mem c) (h_rsp c) vs \<Longrightarrow> length vs = length rs \<Longrightarrow>
   run_code (map Pop rs) c =
     c\<lparr>h_regs := fold (\<lambda>(r, v). put_gpr r v) (zip rs vs) (h_regs c), h_rsp := h_rsp c + of_nat (8 * length rs)\<rparr>"
proof (induction rs arbitrary: vs c)
  case (Cons r rs)
  then obtain v ws where "vs = v # ws" by (cases vs) auto
  then have h: "h_mem c (h_rsp c) = v" "holds (h_mem c) (h_rsp c + 8) ws" "length ws = length rs" using Cons.prems by auto
  let ?c = "stub_exec (Pop r) c"
  have "run_code (map Pop rs) ?c = ?c\<lparr>h_regs := fold (\<lambda>(r, v). put_gpr r v) (zip rs ws) (h_regs ?c),
      h_rsp := h_rsp ?c + of_nat (8 * length rs)\<rparr>"
    by (rule Cons.IH) (use h in simp_all)
  then show ?case using h \<open>vs = v # ws\<close> by (simp add: add.assoc)
qed simp

lemma load_frame_holds: "holds mem p (frame_words f) \<Longrightarrow> load_frame mem p = f"
  by (simp add: frame_words_def load_frame_def add.assoc)

section \<open>The VM-exit stub refines its contract\<close>

text \<open>The exit stack: its top aligned for a call, and room for the frame and the padding.\<close>

definition exit_stack :: "u64 \<Rightarrow> u64 \<Rightarrow> bool" where
  "exit_stack bottom hsp \<longleftrightarrow> unat hsp mod 16 = 0 \<and> unat bottom + 160 \<le> unat hsp"

primrec stub_cpu :: "stub_exit \<Rightarrow> host_cpu" where
  "stub_cpu (InGuest c) = c"
| "stub_cpu (AtLauncher c) = c"

primrec stub_view :: "stub_exit \<Rightarrow> stub_outcome" where
  "stub_view (InGuest c) = EnteredGuest (h_regs c)"
| "stub_view (AtLauncher c) = ReturnedToLauncher (reg_rax (h_regs c))"

text \<open>Nothing outside the exit stack changes.\<close>

definition keeps_outside :: "u64 \<Rightarrow> u64 \<Rightarrow> host_cpu \<Rightarrow> host_cpu \<Rightarrow> bool" where
  "keeps_outside bottom hsp c c' \<longleftrightarrow> h_launch_rsp c' = h_launch_rsp c \<and>
     (\<forall>a. unat a < unat bottom \<or> unat hsp \<le> unat a \<longrightarrow> h_mem c' a = h_mem c a)"

lemma unat_below: "n \<le> unat hsp \<Longrightarrow> n < 2 ^ 64 \<Longrightarrow> unat (hsp - of_nat n :: u64) = unat hsp - n"
  by (subst unat_sub) (simp_all add: word_le_nat_alt unat_of_nat)

lemma exit_stack_unats:
  assumes "exit_stack bottom hsp"
  shows "unat (hsp - 160) = unat hsp - 160" "unat (hsp - 120) = unat hsp - 120" "unat (hsp - 32) = unat hsp - 32"
    "unat (hsp - 8) = unat hsp - 8" "160 \<le> unat hsp" "unat bottom + 160 \<le> unat hsp" "unat hsp < 2 ^ 64"
    "unat (hsp - 160) mod 16 = 0" "unat (hsp - 32) mod 16 = 0"
proof -
  from assms show f: "160 \<le> unat hsp" "unat bottom + 160 \<le> unat hsp" by (auto simp: exit_stack_def)
  show "unat hsp < 2 ^ 64" using unsigned_less [of hsp] by simp
  show u: "unat (hsp - 160) = unat hsp - 160" "unat (hsp - 120) = unat hsp - 120" "unat (hsp - 32) = unat hsp - 32"
    "unat (hsp - 8) = unat hsp - 8"
    using unat_below [of 160 hsp] unat_below [of 120 hsp] unat_below [of 32 hsp] unat_below [of 8 hsp] f by simp_all
  have "unat hsp mod 16 = 0" using assms by (simp add: exit_stack_def)
  then show "unat (hsp - 160) mod 16 = 0" "unat (hsp - 32) mod 16 = 0" unfolding u using f by presburger+
qed

lemma run_save:
  "run_code vmexit_save_code c = c\<lparr>h_regs := (h_regs c)\<lparr>reg_rcx := h_rsp c - 120\<rparr>, h_rsp := h_rsp c - 160,
     h_rflags := h_rflags c AND NOT 0x400, h_mem := store_quads (h_rsp c - 120) (frame_words (h_regs c)) (h_mem c)\<rparr>"
proof -
  have code: "vmexit_save_code =
     map Push [R15, R14, R13, R12, R11, R10, R9, R8, RBP, RDI, RSI, RDX, RCX, RBX, RAX] @ [MovRcxRsp, SubRsp 40, Cld]"
    by (simp add: vmexit_save_code_def)
  show ?thesis unfolding code run_code_append run_pushes by (simp add: frame_words_def del: store_quads.simps)
qed

lemma run_restore:
  assumes "h_rsp c = hsp - 160" and "holds (h_mem c) (hsp - 120) (frame_words f)"
  shows "run_code vmexit_restore_code c = c\<lparr>h_regs := f, h_rsp := hsp\<rparr>"
proof -
  have code: "vmexit_restore_code = AddRsp 40 #
     map Pop [RAX, RBX, RCX, RDX, RSI, RDI, RBP, R8, R9, R10, R11, R12, R13, R14, R15]"
    by (simp add: vmexit_restore_code_def)
  have "holds (h_mem (stub_exec (AddRsp 40) c)) (h_rsp (stub_exec (AddRsp 40) c)) (frame_words f)"
    using assms by simp
  note pops = run_pops [OF this, of "[RAX, RBX, RCX, RDX, RSI, RDI, RBP, R8, R9, R10, R11, R12, R13, R14, R15]"]
  show ?thesis unfolding code run_code.simps by (subst pops) (simp_all add: frame_words_def assms(1))
qed

lemma run_resume_failed:
  "run_code resume_failed_code c = c\<lparr>h_regs := (h_regs c)\<lparr>reg_rcx := h_rflags c\<rparr>, h_rsp := h_rsp c - 32,
     h_mem := (h_mem c)(h_rsp c - 8 := h_rflags c)\<rparr>"
  by (simp add: resume_failed_code_def push_value_def)

lemma frame_words_length [simp]: "length (frame_words f) = 15"
  by (simp add: frame_words_def)

lemma call_handler:
  assumes "exit_stack bottom (h_rsp c)"
  shows "call_rust bottom clobber (handler_body hw) (run_code vmexit_save_code c) =
     and_then (vmexit_handler hw (h_regs c)) (\<lambda>(v, frame).
       ret (after_call bottom clobber v
         (store_quads (h_rsp c - 120) (frame_words frame) (store_quads (h_rsp c - 120) (frame_words (h_regs c)) (h_mem c)))
         (run_code vmexit_save_code c)))"
proof -
  note u = exit_stack_unats [OF assms]
  have "load_frame (store_quads (h_rsp c - 120) (frame_words (h_regs c)) (h_mem c)) (h_rsp c - 120) = h_regs c"
    by (rule load_frame_holds, rule holds_store_quads) (use u in simp)
  then show ?thesis
    using u(8) by (auto simp: call_rust_def handler_body_def run_save Let_def and_then_def fun_eq_iff
        split: prod.splits result.splits)
qed

lemma after_handler_holds:
  assumes "exit_stack bottom (h_rsp c)"
  shows "holds (h_mem (after_call bottom clobber v (store_quads (h_rsp c - 120) (frame_words frame) mem)
     (run_code vmexit_save_code c))) (h_rsp c - 120) (frame_words frame)"
proof -
  note u = exit_stack_unats [OF assms]
  have "holds (store_quads (h_rsp c - 120) (frame_words frame) mem) (h_rsp c - 120) (frame_words frame)"
    by (rule holds_store_quads) (use u in simp)
  then show ?thesis
    by (rule holds_cong) (use u in \<open>auto simp: after_call_def run_save Let_def\<close>)
qed

lemma after_call_simps [simp]:
  "h_rsp (after_call bottom clobber v mem c) = h_rsp c" "reg_rax (h_regs (after_call bottom clobber v mem c)) = v"
  "h_launch_rsp (after_call bottom clobber v mem c) = h_launch_rsp c"
  by (simp_all add: after_call_def Let_def)

lemma keeps_trans: "keeps_outside bottom hsp a b \<Longrightarrow> keeps_outside bottom hsp b c \<Longrightarrow> keeps_outside bottom hsp a c"
  by (simp add: keeps_outside_def)

lemma keeps_save: "exit_stack bottom (h_rsp c) \<Longrightarrow> keeps_outside bottom (h_rsp c) c (run_code vmexit_save_code c)"
  using exit_stack_unats [of bottom "h_rsp c"] by (auto simp: keeps_outside_def run_save store_quads_outside)

lemma keeps_after_call:
  assumes "exit_stack bottom hsp" and "h_rsp c = hsp - 160 \<or> h_rsp c = hsp - 32"
    and "\<And>a. unat a < unat bottom \<or> unat hsp \<le> unat a \<Longrightarrow> mem a = h_mem c a"
  shows "keeps_outside bottom hsp c (after_call bottom clobber v mem c)"
  using exit_stack_unats [OF assms(1)] assms(2,3) by (auto simp: keeps_outside_def after_call_def Let_def)

lemma keeps_handler:
  assumes "exit_stack bottom (h_rsp c)"
  shows "keeps_outside bottom (h_rsp c) c (after_call bottom clobber v
         (store_quads (h_rsp c - 120) (frame_words frame) (store_quads (h_rsp c - 120) (frame_words (h_regs c)) (h_mem c)))
         (run_code vmexit_save_code c))"
  by (rule keeps_trans [OF keeps_save [OF assms] keeps_after_call [OF assms]])
    (use exit_stack_unats [OF assms] in \<open>auto simp: run_save store_quads_outside\<close>)

lemma keeps_resume_failed:
  assumes "exit_stack bottom (h_rsp c)"
  shows "keeps_outside bottom (h_rsp c) c (after_call bottom clobber v ((h_mem c)(h_rsp c - 8 := rflags))
     (run_code resume_failed_code (c\<lparr>h_rflags := rflags\<rparr>)))"
proof (rule keeps_trans)
  note u = exit_stack_unats [OF assms]
  show "keeps_outside bottom (h_rsp c) c (run_code resume_failed_code (c\<lparr>h_rflags := rflags\<rparr>))"
    using u by (auto simp: keeps_outside_def run_resume_failed)
  show "keeps_outside bottom (h_rsp c) (run_code resume_failed_code (c\<lparr>h_rflags := rflags\<rparr>))
     (after_call bottom clobber v ((h_mem c)(h_rsp c - 8 := rflags)) (run_code resume_failed_code (c\<lparr>h_rflags := rflags\<rparr>)))"
    by (rule keeps_after_call [OF assms]) (simp_all add: run_resume_failed)
qed

lemma call_resume_failed:
  assumes "exit_stack bottom (h_rsp c)"
  shows "call_rust bottom clobber (resume_failed_body hw) (run_code resume_failed_code (c\<lparr>h_rflags := rflags\<rparr>)) =
     and_then (vmresume_failed hw rflags) (\<lambda>v. ret (after_call bottom clobber v ((h_mem c)(h_rsp c - 8 := rflags))
       (run_code resume_failed_code (c\<lparr>h_rflags := rflags\<rparr>))))"
  using exit_stack_unats(9) [OF assms]
  by (auto simp: call_rust_def resume_failed_body_def run_resume_failed and_then_def fun_eq_iff
      split: prod.splits result.splits)

text \<open>The stub after the handler returned \<open>v\<close> and left \<open>frame\<close>.\<close>

lemma restored_frame:
  fixes c clobber v frame bottom
  defines "c2 \<equiv> after_call bottom clobber v
         (store_quads (h_rsp c - 120) (frame_words frame) (store_quads (h_rsp c - 120) (frame_words (h_regs c)) (h_mem c)))
         (run_code vmexit_save_code c)"
  assumes "exit_stack bottom (h_rsp c)"
  shows "run_code vmexit_restore_code c2 = c2\<lparr>h_regs := frame, h_rsp := h_rsp c\<rparr>"
  unfolding c2_def by (rule run_restore [OF _ after_handler_holds [OF assms(2)]]) (simp add: run_save)

lemma vmexit_entry_stub_refines:
  assumes "exit_stack bottom (h_rsp c)"
  shows "map_prod (map_result id stub_view) id (vmexit_entry_stub hw vmresume bottom clobber c w) =
     vmexit_entry hw vmresume (h_regs c) w"
  by (auto simp: vmexit_entry_stub_def vmexit_entry_def call_handler [OF assms] restored_frame [OF assms]
      call_resume_failed assms and_then_def Let_def split: prod.splits result.splits option.splits)

lemma vmexit_entry_stub_keeps:
  assumes "exit_stack bottom (h_rsp c)"
    and "vmexit_entry_stub hw vmresume bottom clobber c w = (Ok x, w')"
  shows "keeps_outside bottom (h_rsp c) c (stub_cpu x)"
proof -
  obtain v frame w1 where h: "vmexit_handler hw (h_regs c) w = (Ok (v, frame), w1)"
    using assms(2) by (auto simp: vmexit_entry_stub_def call_handler [OF assms(1)] and_then_def
        split: prod.splits result.splits)
  let ?c2 = "after_call bottom clobber v
         (store_quads (h_rsp c - 120) (frame_words frame) (store_quads (h_rsp c - 120) (frame_words (h_regs c)) (h_mem c)))
         (run_code vmexit_save_code c)"
  let ?c3 = "?c2\<lparr>h_regs := frame, h_rsp := h_rsp c\<rparr>"
  have k: "keeps_outside bottom (h_rsp c) c ?c2" by (rule keeps_handler [OF assms(1)])
  then have k3: "keeps_outside bottom (h_rsp c) c ?c3" by (simp add: keeps_outside_def)
  have failed: "keeps_outside bottom (h_rsp c) c (after_call bottom clobber u ((h_mem ?c3)(h_rsp c - 8 := rflags))
     (run_code resume_failed_code (?c3\<lparr>h_rflags := rflags\<rparr>)))" for u rflags
    using keeps_trans [OF k3 keeps_resume_failed [of bottom ?c3 clobber u rflags, simplified]] assms(1) by simp
  show ?thesis
    using assms(2) k k3 failed
    by (auto simp: vmexit_entry_stub_def call_handler [OF assms(1)] restored_frame [OF assms(1)] h
        call_resume_failed assms(1) and_then_def Let_def split: prod.splits result.splits option.splits if_splits)
qed

section \<open>Launch and return\<close>

definition callee_saved :: "RegisterFrame \<Rightarrow> u64 list" where
  "callee_saved f = [reg_r15 f, reg_r14 f, reg_r13 f, reg_r12 f, reg_rsi f, reg_rdi f, reg_rbp f, reg_rbx f]"

text \<open>The caller's frame in the saved stack: its registers, and the return address above them.\<close>

definition launch_frame :: "host_cpu \<Rightarrow> host_cpu \<Rightarrow> bool" where
  "launch_frame c0 c \<longleftrightarrow> h_launch_rsp c = h_rsp c0 - 64 \<and>
     holds (h_mem c) (h_rsp c0 - 64) (callee_saved (h_regs c0) @ [h_mem c0 (h_rsp c0)])"

text \<open>The caller's stack has room for the pushes, and does not overlap the exit stack.\<close>

definition launch_stack :: "u64 \<Rightarrow> u64 \<Rightarrow> u64 \<Rightarrow> bool" where
  "launch_stack bottom hsp rsp \<longleftrightarrow> 72 \<le> unat rsp \<and> unat rsp + 8 < 2 ^ 64 \<and>
     (unat rsp + 8 \<le> unat bottom \<or> unat hsp + 64 \<le> unat rsp)"

text \<open>What a caller sees after the return.\<close>

definition launch_view :: "host_cpu \<Rightarrow> u64 \<times> u64 \<times> u64 \<times> u64 list" where
  "launch_view c = (reg_rax (h_regs c), h_rip c, h_rsp c, callee_saved (h_regs c))"

lemma launch_stack_unats:
  assumes "launch_stack bottom hsp rsp"
  shows "unat (rsp - 64) = unat rsp - 64" "unat (rsp - 72) = unat rsp - 72" "72 \<le> unat rsp" "unat rsp + 8 < 2 ^ 64"
    "unat rsp + 8 \<le> unat bottom \<or> unat hsp + 64 \<le> unat rsp"
  using assms unat_below [of 64 rsp] unat_below [of 72 rsp] by (auto simp: launch_stack_def)

lemma callee_saved_length [simp]: "length (callee_saved f) = 8"
  by (simp add: callee_saved_def)

lemma holds_append: "holds mem p (xs @ ys) \<longleftrightarrow> holds mem p xs \<and> holds mem (p + of_nat (8 * length xs)) ys"
  by (induction xs arbitrary: p) (simp_all add: algebra_simps)

lemma run_launch:
  assumes "launch_stack bottom hsp (h_rsp c)"
  shows "run_code vmx_launch_code c = c\<lparr>h_rsp := h_rsp c - 64, h_launch_rsp := h_rsp c - 64,
      h_mem := store_quads (h_rsp c - 64) (callee_saved (h_regs c)) (h_mem c)\<rparr>"
    and "launch_frame c (run_code vmx_launch_code c)"
proof -
  note u = launch_stack_unats [OF assms]
  have code: "vmx_launch_code = map Push [RBX, RBP, RDI, RSI, R12, R13, R14, R15] @ [SaveLaunchRsp]"
    by (simp add: vmx_launch_code_def)
  show run: "run_code vmx_launch_code c = c\<lparr>h_rsp := h_rsp c - 64, h_launch_rsp := h_rsp c - 64,
      h_mem := store_quads (h_rsp c - 64) (callee_saved (h_regs c)) (h_mem c)\<rparr>"
    unfolding code run_code_append run_pushes by (simp add: callee_saved_def del: store_quads.simps)
  have "holds (store_quads (h_rsp c - 64) (callee_saved (h_regs c)) (h_mem c)) (h_rsp c - 64) (callee_saved (h_regs c))"
    by (rule holds_store_quads) (use u in simp)
  moreover have "store_quads (h_rsp c - 64) (callee_saved (h_regs c)) (h_mem c) (h_rsp c) = h_mem c (h_rsp c)"
    by (rule store_quads_outside) (use u in simp_all)
  ultimately show "launch_frame c (run_code vmx_launch_code c)"
    by (simp add: launch_frame_def run holds_append)
qed

lemma launch_frame_keeps:
  assumes "launch_stack bottom hsp (h_rsp c0)" and "launch_frame c0 c" and "keeps_outside bottom hsp c c'"
  shows "launch_frame c0 c'"
  unfolding launch_frame_def
proof
  show "h_launch_rsp c' = h_rsp c0 - 64" using assms(2,3) by (simp add: launch_frame_def keeps_outside_def)
  show "holds (h_mem c') (h_rsp c0 - 64) (callee_saved (h_regs c0) @ [h_mem c0 (h_rsp c0)])"
    by (rule holds_cong [of "h_mem c"])
      (use assms(2,3) launch_stack_unats [OF assms(1)] in \<open>auto simp: launch_frame_def keeps_outside_def\<close>)
qed

lemma run_return:
  assumes "launch_frame c0 c"
  shows "launch_view (run_code return_to_launcher_code c) =
     (reg_rax (h_regs c), h_mem c0 (h_rsp c0), h_rsp c0 + 8, callee_saved (h_regs c0))"
proof -
  let ?rs = "[R15, R14, R13, R12, RSI, RDI, RBP, RBX]" and ?c = "stub_exec LoadLaunchRsp c"
  have code: "return_to_launcher_code = LoadLaunchRsp # map Pop ?rs @ [Ret]"
    by (simp add: return_to_launcher_code_def)
  have h: "holds (h_mem ?c) (h_rsp ?c) (callee_saved (h_regs c0))" and r: "h_mem ?c (h_rsp c0) = h_mem c0 (h_rsp c0)"
    and s: "h_rsp ?c = h_rsp c0 - 64"
    using assms by (simp_all add: launch_frame_def holds_append)
  show ?thesis unfolding code run_code.simps run_code_append
    by (subst run_pops [OF h]) (use r s in \<open>simp_all add: launch_view_def callee_saved_def\<close>)
qed

lemma run_launch_failed:
  assumes "launch_stack bottom hsp (h_rsp c)"
  shows "launch_view (run_code (launch_failed_code @ return_to_launcher_code) ((run_code vmx_launch_code c)\<lparr>h_rflags := rflags\<rparr>)) =
     (rflags, h_mem c (h_rsp c), h_rsp c + 8, callee_saved (h_regs c))"
proof -
  note u = launch_stack_unats [OF assms] and l = run_launch [OF assms]
  let ?c1 = "run_code vmx_launch_code c"
  let ?c2 = "run_code launch_failed_code (?c1\<lparr>h_rflags := rflags\<rparr>)"
  have mem: "h_mem ?c2 = (h_mem ?c1)(h_rsp c - 72 := rflags)" "h_launch_rsp ?c2 = h_launch_rsp ?c1"
    "reg_rax (h_regs ?c2) = rflags"
    by (simp_all add: launch_failed_code_def push_value_def l(1))
  have "holds (h_mem ?c2) (h_rsp c - 64) (callee_saved (h_regs c) @ [h_mem c (h_rsp c)])"
    by (rule holds_cong [of "h_mem ?c1"]) (use l(2) u in \<open>auto simp: launch_frame_def mem\<close>)
  then have "launch_frame c ?c2" using l(2) by (simp add: launch_frame_def mem)
  from run_return [OF this] show ?thesis by (simp add: mem)
qed

lemma exits_stub_refines:
  assumes "exit_stack bottom hsp" and "launch_stack bottom hsp (h_rsp c0)"
  shows "launch_frame c0 c \<Longrightarrow>
     map_option (map_prod (map_result id launch_view) id) (exits_stub n hw vmresume guest bottom hsp clobber frame c w) =
     map_option (map_prod (map_result id (\<lambda>v. (v, h_mem c0 (h_rsp c0), h_rsp c0 + 8, callee_saved (h_regs c0)))) id)
       (exits_run n hw vmresume guest frame w)"
proof (induction n arbitrary: frame c w)
  case (Suc n)
  obtain exited m where g: "guest frame (w_machine w) = (exited, m)" by fastforce
  let ?c = "vm_exit hsp exited c" and ?w = "w\<lparr>w_machine := m\<rparr>"
  have stack: "exit_stack bottom (h_rsp ?c)" and frame: "launch_frame c0 ?c"
    using assms(1) Suc.prems by (simp_all add: vm_exit_def launch_frame_def)
  have rsp: "h_rsp ?c = hsp" by (simp add: vm_exit_def)
  obtain r w' where e: "vmexit_entry_stub hw vmresume bottom clobber ?c ?w = (r, w')" by fastforce
  have abs: "vmexit_entry hw vmresume exited ?w = (map_result id stub_view r, w')"
    using vmexit_entry_stub_refines [OF stack, of hw vmresume clobber ?w] e by (simp add: vm_exit_def)
  have kept: "launch_frame c0 (stub_cpu x)" if "r = Ok x" for x
    using launch_frame_keeps [OF assms(2) frame vmexit_entry_stub_keeps [OF stack, unfolded rsp]] e that by simp
  show ?case
  proof (cases r)
    case (Ok x)
    then show ?thesis using kept [OF Ok] Suc.IH [of "stub_cpu x"] run_return
      by (cases x) (simp_all add: g e abs)
  qed (simp_all add: g e abs)
qed simp

text \<open>\<open>VmExitStack::top\<close> of a stack that does not wrap is such a stack top.\<close>

lemma stack_top_exit_stack:
  assumes "stack_top s = Some hsp" and "unat (stack_base s) + VM_EXIT_STACK_SIZE < 2 ^ 64"
  shows "exit_stack (stack_base s) hsp"
proof -
  have "unat (stack_base s + of_nat VM_EXIT_STACK_SIZE) = unat (stack_base s) + VM_EXIT_STACK_SIZE"
    using assms(2) by (simp add: const_defs unat_word_ariths)
  then show ?thesis using assms(1)
    by (auto simp: stack_top_def exit_stack_def Let_def const_defs split: if_splits)
qed

lemma vmx_launch_stub_refines:
  assumes "stack_top stack = Some hsp" and "unat (stack_base stack) + VM_EXIT_STACK_SIZE < 2 ^ 64"
    and "launch_stack (stack_base stack) hsp (h_rsp c)"
  shows "map_option (map_prod (map_result id launch_view) id)
       (vmx_launch_stub n hw vmlaunch vmresume guest (stack_base stack) hsp clobber c w) =
     map_option (map_prod (map_result id (\<lambda>v. (v, h_mem c (h_rsp c), h_rsp c + 8, callee_saved (h_regs c)))) id)
       (launch_run n hw vmlaunch vmresume guest (h_regs c) w)"
proof -
  have regs: "h_regs (run_code vmx_launch_code c) = h_regs c" by (simp add: run_launch(1) [OF assms(3)])
  show ?thesis
    using exits_stub_refines [OF stack_top_exit_stack [OF assms(1,2)] assms(3) run_launch(2) [OF assms(3)]]
      run_launch_failed [OF assms(3)]
    by (auto simp: vmx_launch_stub_def launch_run_def regs simp del: run_code_append split: prod.split option.split)
qed

section \<open>What a launch returns\<close>

lemma vmresume_failed_returns: "\<exists>w'. vmresume_failed hw rflags w = (Ok (encode_resume_failed rflags), w')"
proof -
  have p: "panic_free (on_hw (vm_instruction_error hw))" by (intro act_rules)
  obtain r w1 where e: "on_hw (vm_instruction_error hw) w = (r, w1)" by fastforce
  have "r \<noteq> Panic" using p e unfolding panic_free_def by (metis fst_conv)
  then show ?thesis
    by (cases r; cases "resume_failure rflags") (auto simp: vmresume_failed_def and_then_def e serial_println_def)
qed

lemma vmexit_entry_Ok: "\<exists>x w'. vmexit_entry hw vmresume frame w = (Ok x, w')"
proof -
  obtain v frame' w1 where h: "vmexit_handler hw frame w = (Ok (v, frame'), w1)"
    using totalE [OF total_vmexit_handler] by (metis prod.collapse)
  obtain r m where m: "vmresume frame' (w_machine w1) = (r, m)" by fastforce
  obtain w2 where f: "vmresume_failed hw (the r) (w1\<lparr>w_machine := m\<rparr>) = (Ok (encode_resume_failed (the r)), w2)"
    using vmresume_failed_returns by blast
  then show ?thesis by (cases "v = 0"; cases r) (simp_all add: vmexit_entry_def and_then_def h m)
qed

text \<open>Every outcome of a launch is a stop value: the exit path neither panics nor breaks the calling convention.\<close>

lemma exits_run_Ok: "exits_run n hw vmresume guest frame w = Some (r, w') \<Longrightarrow> \<exists>v. r = Ok v"
proof (induction n arbitrary: frame w)
  case (Suc n)
  obtain exited m where g: "guest frame (w_machine w) = (exited, m)" by fastforce
  obtain x w1 where e: "vmexit_entry hw vmresume exited (w\<lparr>w_machine := m\<rparr>) = (Ok x, w1)" using vmexit_entry_Ok by blast
  show ?case using Suc by (cases x) (auto simp: g e)
qed simp

lemma launch_run_Ok: "launch_run n hw vmlaunch vmresume guest frame w = Some (r, w') \<Longrightarrow> \<exists>v. r = Ok v"
  by (auto simp: launch_run_def split: prod.splits option.splits dest: exits_run_Ok)

text \<open>A launch through the stubs returns exactly when the run does, with its value in RAX.\<close>

lemma vmx_launch_stub_OkD:
  assumes "stack_top stack = Some hsp" and "unat (stack_base stack) + VM_EXIT_STACK_SIZE < 2 ^ 64"
    and "launch_stack (stack_base stack) hsp (h_rsp c)"
    and "vmx_launch_stub n hw vmlaunch vmresume guest (stack_base stack) hsp clobber c w = Some (Ok c', w')"
  shows "launch_run n hw vmlaunch vmresume guest (h_regs c) w = Some (Ok (reg_rax (h_regs c')), w')"
proof -
  note eq = vmx_launch_stub_refines [OF assms(1-3), of n hw vmlaunch vmresume guest clobber w]
  obtain r u where l: "launch_run n hw vmlaunch vmresume guest (h_regs c) w = Some (r, u)"
    using assms(4) eq by (cases "launch_run n hw vmlaunch vmresume guest (h_regs c) w") auto
  with launch_run_Ok obtain v where "r = Ok v" by blast
  then show ?thesis using assms(4) eq l by (simp add: launch_view_def)
qed

lemma vmx_launch_stub_OkI:
  assumes "stack_top stack = Some hsp" and "unat (stack_base stack) + VM_EXIT_STACK_SIZE < 2 ^ 64"
    and "launch_stack (stack_base stack) hsp (h_rsp c)"
    and "launch_run n hw vmlaunch vmresume guest (h_regs c) w = Some (Ok v, w')"
  shows "\<exists>c'. vmx_launch_stub n hw vmlaunch vmresume guest (stack_base stack) hsp clobber c w = Some (Ok c', w') \<and>
    launch_view c' = (v, h_mem c (h_rsp c), h_rsp c + 8, callee_saved (h_regs c))"
proof -
  note eq = vmx_launch_stub_refines [OF assms(1-3), of n hw vmlaunch vmresume guest clobber w]
  obtain r where r: "vmx_launch_stub n hw vmlaunch vmresume guest (stack_base stack) hsp clobber c w = Some (r, w')"
    "map_result id launch_view r = Ok (v, h_mem c (h_rsp c), h_rsp c + 8, callee_saved (h_regs c))"
    using eq assms(4) by auto
  then show ?thesis by (cases r) simp_all
qed

lemma vmexit_entry_finished:
  assumes "handler_run hw w0 None" and "w_exits w = w_exits w0" and "vmexit_entry hw vmresume frame w = (Ok x, w')"
  shows "case x of EnteredGuest _ \<Rightarrow> \<exists>w1. handler_run hw w1 None \<and> w_exits w' = w_exits w1
    | ReturnedToLauncher v \<Rightarrow> decode v = GuestFinished k \<longrightarrow> handler_run hw w' (Some v)"
proof -
  obtain v frame' w1 where h: "vmexit_handler hw frame w = (Ok (v, frame'), w1)"
    using totalE [OF total_vmexit_handler] by (metis prod.collapse)
  have run: "handler_run hw w1 (if v = 0 then None else Some v)" by (rule handler_run.Exit [OF assms(1,2) h])
  have "decode u \<noteq> GuestFinished k" if "vmresume_failed hw rflags w2 = (Ok u, w3)" for u rflags w2 w3
    using vmresume_failed_returns [of hw rflags w2] that by (auto simp: decode_encode_resume_failed)
  then show ?thesis using assms(3) run
    by (auto simp: vmexit_entry_def and_then_def h split: prod.splits result.splits option.splits if_splits)
qed

lemma exits_run_finished:
  assumes "decode v = GuestFinished k"
  shows "handler_run hw w0 None \<Longrightarrow> w_exits w = w_exits w0 \<Longrightarrow> exits_run n hw vmresume guest frame w = Some (Ok v, w') \<Longrightarrow>
    handler_run hw w' (Some v)"
proof (induction n arbitrary: frame w w0)
  case (Suc n)
  obtain exited m where g: "guest frame (w_machine w) = (exited, m)" by fastforce
  obtain x w1 where e: "vmexit_entry hw vmresume exited (w\<lparr>w_machine := m\<rparr>) = (Ok x, w1)" using vmexit_entry_Ok by blast
  have "w_exits (w\<lparr>w_machine := m\<rparr>) = w_exits w0" using Suc.prems(2) by simp
  note step = vmexit_entry_finished [OF Suc.prems(1) this e, of k]
  show ?case using Suc.IH Suc.prems(3) step assms by (cases x) (auto simp: g e)
qed simp

lemma launch_run_finished:
  assumes "w_exits w = initial_ExitStatics" and "decode v = GuestFinished k"
    and "\<And>frame m rflags m'. vmlaunch frame m = (Some rflags, m') \<Longrightarrow> unat rflags < 2 ^ 62"
    and "launch_run n hw vmlaunch vmresume guest frame w = Some (Ok v, w')"
  shows "handler_run hw w' (Some v)"
proof (cases "vmlaunch frame (w_machine w)")
  case (Pair r m)
  show ?thesis
  proof (cases r)
    case None
    then have "exits_run n hw vmresume guest frame (w\<lparr>w_machine := m\<rparr>) = Some (Ok v, w')"
      using assms(4) Pair by (simp add: launch_run_def)
    from exits_run_finished [OF assms(2) handler_run.Start [OF assms(1)] _ this] show ?thesis by simp
  next
    case (Some rflags)
    then have "decode v = decode rflags" "unat rflags < 2 ^ 62" using assms(3,4) Pair by (auto simp: launch_run_def)
    then show ?thesis using assms(2) by (simp add: decode_launch_failed)
  qed
qed

text \<open>
  On lawful hardware a launch follows the exit machine. The guest is a script: \<open>cnt\<close> reads its position off the VMCS,
  which resuming does not change, and at position \<open>i\<close> it exits with \<open>xs ! i\<close>.
\<close>

context exit_hardware
begin

lemma exits_run_follows:
  assumes script: "\<And>i m f. i < length xs \<Longrightarrow> cnt (field m) = i \<Longrightarrow>
      cnt (field (snd (guest f m))) = Suc i \<and> exit_info_of (field (snd (guest f m))) ept (fst (guest f m)) = xs ! i"
    and keep: "\<And>plan fld. cnt (plan_fields plan fld) = cnt fld"
  shows "w_ept w = ept \<Longrightarrow> r_state r = load_state (w_exits w) \<Longrightarrow> r_stopped r = None \<Longrightarrow>
    cnt (field (w_machine w)) + n = length xs \<Longrightarrow>
    r_stopped (run_exits r (drop (cnt (field (w_machine w))) xs)) = Some Finished \<Longrightarrow>
    \<exists>v k w'. exits_run n hw (\<lambda>_. Pair None) guest frame w = Some (Ok v, w') \<and> decode v = GuestFinished k"
proof (induction n arbitrary: w r frame)
  case (Suc n)
  let ?i = "cnt (field (w_machine w))"
  have i: "?i < length xs" using Suc.prems(4) by simp
  obtain exited m where g: "guest frame (w_machine w) = (exited, m)" by fastforce
  with script [OF i refl, of frame] have m: "cnt (field m) = Suc ?i" "exit_info_of (field m) ept exited = xs ! ?i" by auto
  obtain ev st where d: "decide (load_state (w_exits w)) (xs ! ?i) = (ev, st)" by fastforce
  let ?w = "w\<lparr>w_machine := m\<rparr>" and ?v = "stub_return (event_action ev) (EXIT_COUNT (w_exits w) + 1) (ucast (field m VM_EXIT_REASON))"
  obtain frame' w' where h: "vmexit_handler hw exited ?w = (Ok (?v, frame'), w')" "load_state (w_exits w') = st"
    "case event_action ev of Resume plan \<Rightarrow> field (w_machine w') = plan_fields plan (field m) | _ \<Rightarrow> True"
    using vmexit_handler_ok [of ?w exited ev st] d m(2) Suc.prems(1) by (cases "event_action ev") auto
  have ept: "w_ept w' = ept" using h(1) Suc.prems(1) by (auto elim: vmexit_handler_OkD)
  have xs: "drop ?i xs = xs ! ?i # drop (Suc ?i) xs" using i by (rule Cons_nth_drop_Suc [symmetric])
  show ?case
  proof (cases "event_action ev")
    case (Resume plan)
    let ?r = "\<lparr>r_state = st, r_events = r_events r @ [ev], r_stopped = None\<rparr>"
    have "cnt (field (w_machine w')) = Suc ?i" using h(3) Resume m(1) keep by simp
    moreover from this have "\<exists>v k w''. exits_run n hw (\<lambda>_. Pair None) guest frame' w' = Some (Ok v, w'') \<and> decode v = GuestFinished k"
      using Suc.IH [of w' ?r frame'] ept h(2) Suc.prems Resume d xs by simp
    ultimately show ?thesis using Resume by (simp add: g vmexit_entry_def and_then_def h(1) RESUME_GUEST_def)
  qed (use Suc.prems d xs in \<open>auto simp: g vmexit_entry_def and_then_def h(1) encode_nonzero run_exits_stopped decode_encode_finished\<close>)
qed simp

end

end
