(* ===== verification/Entry.thy ===== *)
theory Entry
  imports Bring_Up Serial
begin

text \<open>
  The UEFI entry point (\<open>main.rs\<close>), the report of a bring-up failure (\<open>bring_up/error.rs\<close>) and the panic handler
  (\<open>output.rs\<close>). The UEFI calls of \<open>main\<close> (the helpers' initialisation and the timer event) are parameters; each says
  whether it succeeded.
\<close>

section \<open>State\<close>

record 'm uefi =
  helpers_init :: "'m \<Rightarrow> bool \<times> 'm"
  create_event :: "'m \<Rightarrow> bool \<times> 'm"
  set_timer :: "'m \<Rightarrow> bool \<times> 'm"
  wait_for_event :: "'m \<Rightarrow> bool \<times> 'm"
  close_event :: "'m \<Rightarrow> bool \<times> 'm"

record 'm program =
  p_bring_up :: "'m bring_up"
  p_READY :: bool
  PANICKING :: bool

definition on_bring_up :: "('m bring_up, 'e, 'a) action \<Rightarrow> ('m program, 'e, 'a) action" where
  "on_bring_up act p = (case act (p_bring_up p) of (r, b) \<Rightarrow> (r, p\<lparr>p_bring_up := b\<rparr>))"

definition on_serial :: "('m serial_state, 'e, 'a) action \<Rightarrow> ('m program, 'e, 'a) action" where
  "on_serial act p =
     (case act \<lparr>s_machine = machine_of (p_bring_up p), READY = p_READY p\<rparr> of (r, s) \<Rightarrow>
       (r, p\<lparr>p_bring_up := (p_bring_up p)\<lparr>b_world := (b_world (p_bring_up p))\<lparr>w_machine := s_machine s\<rparr>\<rparr>, p_READY := READY s\<rparr>))"

definition log_program :: "string \<Rightarrow> u64 list \<Rightarrow> ('m program, 'e, unit) action" where
  "log_program message vs = on_bring_up (log_values message vs)"

text \<open>A UEFI call; the flag is \<open>is_ok()\<close>.\<close>

definition uefi_call :: "('m \<Rightarrow> bool \<times> 'm) \<Rightarrow> ('m program, 'e, bool) action" where
  "uefi_call call = on_bring_up (on_cpu (\<lambda>m. case call m of (ok, m1) \<Rightarrow> (Ok ok, m1)))"

section \<open>The panic handler\<close>

text \<open>What a panic prints before \<open>halt_forever\<close>, which never returns: serial always, the console in boot services.\<close>

definition panic_report :: "('m program, 'e, unit) action" where
  "panic_report =
     and_then (gets PANICKING) (\<lambda>already.
     and_then (modify (\<lambda>p. p\<lparr>PANICKING := True\<rparr>)) (\<lambda>_.
     if already then ret () else log_program ''PANIC'' []))"

section \<open>Reporting a failure\<close>

fun report_vmcs_error :: "string \<Rightarrow> VmcsError \<Rightarrow> u32 option \<Rightarrow> string \<times> u64 list" where
  "report_vmcs_error operation VmFailValid (Some code) =
     (''VMCS '' @ operation @ '' failed: '' @ vm_instruction_error_name code, [ucast code])"
| "report_vmcs_error operation VmFailValid None =
     (''VMCS '' @ operation @ '' failed: VmFailValid, error number unreadable'', [])"
| "report_vmcs_error operation (ReadbackMismatch field written read) _ =
     (''VMCS '' @ operation @ '' failed: field read back, but was written'', [ucast field, read, written])"
| "report_vmcs_error operation error _ = (''VMCS '' @ operation @ '' failed'', [])"

fun error_report :: "BringUpError \<Rightarrow> (string \<times> u64 list) list" where
  "error_report (BTss error) = [(''Host TSS allocation failed'', [])]"
| "error_report (BGdt ActivationVerificationFailed) =
     [(''Host GDT/TSS activation failed verification; the CPU may already use the new tables.'', [])]"
| "error_report (BGdt error) = [(''Host GDT/TSS setup failed; GDTR/TR unchanged.'', [])]"
| "error_report (BVmExitStack error) = [(''VM-exit stack allocation failed'', [])]"
| "error_report (BGuestMemory (NotIdentityMapped virtual_address physical)) =
     [(''Guest memory setup failed: page is not identity-mapped.'', [virtual_address, physical])]"
| "error_report (BGuestMemory error) = [(''Guest memory setup failed'', [])]"
| "error_report (BExitBitmaps error) = [(''Exit bitmap allocation failed'', [])]"
| "error_report VmxNotSupportedByCpu = [(''VMX not supported by this CPU.'', [])]"
| "error_report VmxDisabledByFirmware = [(''VMX supported by CPU but disabled by firmware.'', [])]"
| "error_report (BEpt (RangeTooLarge end')) =
     [(''EPT setup failed: the memory map reaches past what one PDPT maps.'', [end', MAX_IDENTITY_MAP])]"
| "error_report (BEpt error) = [(''EPT setup failed'', [])]"
| "error_report (BVmxOn error) = [(''VMXON failed'', [])]"
| "error_report (BVmcs operation error ie) = [report_vmcs_error operation error ie]"
| "error_report (BGuestState (GuestStateVmcs field (ReadbackMismatch _ written read)) ie) =
     [(''Guest-state field read back, but was written.'', [ucast field, read, written])]"
| "error_report (BGuestState (GuestStateVmcs field error) ie) =
     [(''Guest-state field failed:'', [ucast field]), report_vmcs_error ''guest-state write'' error ie]"
| "error_report (BGuestState error ie) = [(''Guest state invalid'', [])]"
| "error_report HostTablesChanged =
     [(''Host descriptor tables changed after VMX/UEFI calls; the guest was not launched.'', [])]"
| "error_report (UnexpectedExit number reason) =
     [(''Guest stopped at VM exit; Aleph0 did not resume the guest. '' @ exit_reason_name (er_basic reason),
       [number, ucast (er_basic reason), truth (er_entry_failure reason)])]"
| "error_report (BResumeFailed error ie) = [report_vmcs_error ''resume'' error ie]"
| "error_report (BTeardown error) = [(''Leaving VMX operation failed'', [])]"

definition report_error :: "BringUpError \<Rightarrow> ('m program, 'e, unit) action" where
  "report_error error = for_each (error_report error) (\<lambda>(message, vs). log_program message vs)"

section \<open>The entry point\<close>

datatype Status = SUCCESS | ABORTED

definition check_firmware_timer :: "'m uefi \<Rightarrow> ('m program, 'e, unit) action" where
  "check_firmware_timer fw =
     and_then (log_program ''Waiting on a firmware timer event (seconds)'' [1]) (\<lambda>_.
     and_then (uefi_call (create_event fw)) (\<lambda>created.
     if \<not> created then log_program ''Firmware timer event not created'' []
     else
       and_then (uefi_call (set_timer fw)) (\<lambda>armed.
       and_then (if \<not> armed then log_program ''Firmware timer not armed'' []
         else and_then (uefi_call (wait_for_event fw)) (\<lambda>fired.
              if \<not> fired then log_program ''Waiting on the firmware timer failed'' []
              else log_program ''Firmware timer fired: interrupts reach the firmware again.'' [])) (\<lambda>_.
       and_then (uefi_call (close_event fw)) (\<lambda>closed.
       if \<not> closed then log_program ''Firmware timer event not closed'' [] else ret ())))))"

text \<open>\<open>match bring_up::run()\<close>: a panic of bring-up does not return.\<close>

definition bring_up_status ::
  "'m platform \<Rightarrow> guest_image \<Rightarrow> u64 \<Rightarrow> ('m world \<Rightarrow> u64 \<times> 'm world) \<Rightarrow> ('m program, 'e, Status) action" where
  "bring_up_status hw img entry_rip vmx_launch p =
     (case on_bring_up (run hw img entry_rip vmx_launch) p of
        (Ok exits, p1) \<Rightarrow> and_then (log_program ''Guest finished after VM exits; VMX operation left.'' [exits]) (\<lambda>_. ret SUCCESS) p1
      | (Err error, p1) \<Rightarrow> and_then (report_error error) (\<lambda>_. ret ABORTED) p1
      | (Panic, p1) \<Rightarrow> and_then panic_report (\<lambda>_. panic_with) p1)"

definition main ::
  "'m platform \<Rightarrow> 'm uefi \<Rightarrow> guest_image \<Rightarrow> u64 \<Rightarrow> ('m world \<Rightarrow> u64 \<times> 'm world) \<Rightarrow> ('m program, 'e, Status) action" where
  "main hw fw img entry_rip vmx_launch =
     and_then (on_serial (catch_error (init hw))) (\<lambda>serial.
     and_then (log_program ''Initializing UEFI helpers...'' []) (\<lambda>_.
     and_then (uefi_call (helpers_init fw)) (\<lambda>ok.
     if \<not> ok then and_then panic_report (\<lambda>_. panic_with)
     else
       and_then (log_program ''UEFI helpers initialized successfully.'' []) (\<lambda>_.
       and_then (case serial of
           None \<Rightarrow> log_program ''Serial output enabled on COM1'' [ucast COM1]
         | Some _ \<Rightarrow> log_program ''Serial output disabled; console only.'' []) (\<lambda>_.
       and_then (bring_up_status hw img entry_rip vmx_launch) (\<lambda>status.
       and_then (check_firmware_timer fw) (\<lambda>_.
       and_then (log_program ''Returning to firmware with status'' [truth (status = SUCCESS)]) (\<lambda>_.
       ret status))))))))"

section \<open>What the status means\<close>

lemma bring_up_status_Ok:
  assumes "bring_up_status hw img entry_rip vmx_launch p = (Ok SUCCESS, p')"
  shows "\<exists>exits b. run hw img entry_rip vmx_launch (p_bring_up p) = (Ok exits, b)"
  using assms by (auto simp: bring_up_status_def on_bring_up_def elim!: and_then_OkE split: prod.splits result.splits)

end
