(* ===== verification/End_To_End.thy ===== *)
theory End_To_End
  imports Stub Entry
begin

text \<open>
  The whole program with its own launch in it: bring-up (\<open>bring_up/mod.rs\<close>) and the entry point (\<open>main.rs\<close>) take the
  guest's run as a parameter, and here it is the launch of \<open>Stub\<close>, which refines the assembly. Nothing before the
  launch or behind it touches the statics of the exit handler, so what bring-up reports is what the exit machine did.
\<close>

section \<open>The launch in bring-up\<close>

text \<open>
  \<open>vmx_launch\<close> as bring-up calls it. 0 is no stop value of a guest that finished; it stands for a guest that is still
  running after \<open>n\<close> exits.
\<close>

definition launched ::
  "nat \<Rightarrow> 'm platform \<Rightarrow> (RegisterFrame \<Rightarrow> 'm \<Rightarrow> u64 option \<times> 'm) \<Rightarrow> (RegisterFrame \<Rightarrow> 'm \<Rightarrow> u64 option \<times> 'm) \<Rightarrow>
   (RegisterFrame \<Rightarrow> 'm \<Rightarrow> RegisterFrame \<times> 'm) \<Rightarrow> RegisterFrame \<Rightarrow> 'm world \<Rightarrow> u64 \<times> 'm world" where
  "launched n hw vmlaunch vmresume guest frame w =
     (case launch_run n hw vmlaunch vmresume guest frame w of
        Some (Ok v, w') \<Rightarrow> (v, w')
      | _ \<Rightarrow> (0, w))"

lemma launched_finished:
  assumes "launched n hw vmlaunch vmresume guest frame w = (v, w')" and "decode v = GuestFinished k"
    and "w_exits w = initial_ExitStatics"
    and "\<And>frame m rflags m'. vmlaunch frame m = (Some rflags, m') \<Longrightarrow> unat rflags < 2 ^ 62"
  shows "handler_run hw w' (Some v)"
proof -
  have "v \<noteq> 0" using assms(2) decode_launch_failed [of 0] by auto
  then have "launch_run n hw vmlaunch vmresume guest frame w = Some (Ok v, w')"
    using assms(1) by (auto simp: launched_def split: option.splits prod.splits result.splits)
  with assms(2-4) show ?thesis by (intro launch_run_finished [where vmlaunch = vmlaunch]) blast+
qed

section \<open>Nothing else touches the handler's statics\<close>

abbreviation exit_statics :: "'m bring_up \<Rightarrow> ExitStatics" where
  "exit_statics b \<equiv> w_exits (b_world b)"

lemma keeps_on_cpu [act_rules]: "keeps exit_statics (on_cpu act)"
  by (simp add: keeps_def on_cpu_run)

lemma keeps_log_line [act_rules]: "keeps exit_statics (log_line line)"
  by (simp add: keeps_def log_line_def)

lemma keeps_on_ept [act_rules]: "keeps exit_statics (on_ept act)"
  by (simp add: keeps_def on_ept_def on_world_def split: prod.splits)

lemma keeps_pure [act_rules]: "keeps f (lift_result r)" "keeps f panic_with" "keeps f (exit_stack_top stack)"
  by (simp_all add: keeps_def lift_result_def exit_stack_top_def split: option.split)

lemma keeps_phase [act_rules]: "keeps exit_statics (on_world (set_phase phase))"
  by (simp add: keeps_def on_world_def)

lemma keeps_for_each [act_rules]: "(\<And>x. keeps f (body x)) \<Longrightarrow> keeps f (for_each xs body)"
  by (induction xs) (simp_all add: keeps_rules keeps_and_then)

lemma keeps_reports [act_rules]:
  "keeps exit_statics (report_segment_state hw)" "keeps exit_statics (report_guest_mappings hw guest mappings)"
  "keeps exit_statics (report_exit_bitmaps bitmaps)" "keeps exit_statics (report_vmx_capabilities controls)"
  "keeps exit_statics (report_ept ept page)" "keeps exit_statics (report_guest_state state)"
  "keeps exit_statics (report_passthrough_state before after)"
  unfolding report_segment_state_def report_guest_mappings_def report_exit_bitmaps_def report_vmx_capabilities_def
    report_ept_def report_guest_state_def report_passthrough_state_def report_mapping_def report_segment_def
  by (intro act_rules)+

lemma keeps_activate [act_rules]: "keeps exit_statics (activate_host_tables hw)"
  unfolding activate_host_tables_def by (intro act_rules)

lemma keeps_check_support [act_rules]: "keeps exit_statics (check_vmx_support hw)"
  unfolding check_vmx_support_def by (intro act_rules) (auto intro: act_rules split: VmxCapabilities.split)

lemma keeps_enter_vmx [act_rules]: "keeps exit_statics (enter_vmx hw img tables)"
  unfolding enter_vmx_def Let_def by (intro act_rules)

lemma keeps_prepare_vmcs [act_rules]: "keeps exit_statics (prepare_vmcs hw entry_rip controls stack guest ept bitmaps)"
  unfolding prepare_vmcs_def by (intro act_rules)

lemma keeps_tables_preserved [act_rules]: "keeps exit_statics (check_host_tables_preserved hw tables)"
  unfolding check_host_tables_preserved_def Let_def by (intro act_rules)

lemma keeps_teardown [act_rules]: "keeps exit_statics (teardown hw operation vmcs firmware)"
  unfolding teardown_def teardown_report_def log_failure_def by (intro act_rules)

section \<open>What bring-up reports\<close>

lemma launch_in_world_finished:
  assumes "launch_in_world hw vmx_launch b = (Ok (GuestFinished exits), b')"
  shows "\<exists>v w'. vmx_launch (b_world b) = (v, w') \<and> decode v = GuestFinished exits \<and> exit_statics b' = w_exits w'"
  using assms unfolding launch_in_world_def launch_def
  by (auto simp: on_world_def split: prod.splits GuestStop.splits result.splits)

lemma launch_guest_finished:
  assumes "launch_guest hw entry_rip vmx_launch controls stack guest ept bitmaps tables b = (Ok exits, b')"
  shows "\<exists>w v w'. vmx_launch w = (v, w') \<and> decode v = GuestFinished exits \<and> w_exits w = exit_statics b \<and>
    exit_statics b' = w_exits w'"
proof -
  obtain b1 b2 b3 b4 before stop b5 after b6 where
    p: "prepare_vmcs hw entry_rip controls stack guest ept bitmaps b = (Ok (), b1)"
    and c: "check_host_tables_preserved hw tables b1 = (Ok (), b2)"
    and l: "(log_values ''Launching the guest with VMLAUNCH; its VM exits are reported on serial only.'' [] ::
      ('a bring_up, BringUpError, unit) action) b2 = (Ok (), b3)"
    and r: "(on_cpu (read_passthrough_state hw) :: ('a bring_up, BringUpError, PassthroughState) action) b3 = (Ok before, b4)"
    and v: "(launch_in_world hw vmx_launch :: ('a bring_up, BringUpError, GuestStop) action) b4 = (Ok stop, b5)"
    and r': "(on_cpu (read_passthrough_state hw) :: ('a bring_up, BringUpError, PassthroughState) action) b5 = (Ok after, b6)"
    and e: "(report_passthrough_state before after :: ('a bring_up, BringUpError, unit) action) b6 = (Ok (), b')"
    and g: "guest_result stop = Ok exits"
    using assms unfolding launch_guest_def by (auto elim!: and_then_OkE simp: lift_result_def)
  have stop: "stop = GuestFinished exits" using g by (cases stop) auto
  have "exit_statics b4 = exit_statics b"
    using keepsD [OF keeps_prepare_vmcs p] keepsD [OF keeps_tables_preserved c] keepsD [OF keeps_log_line l]
      keepsD [OF keeps_on_cpu r] by simp
  moreover have "exit_statics b' = exit_statics b5"
    using keepsD [OF keeps_on_cpu r'] keepsD [OF keeps_reports(7) e] by simp
  ultimately show ?thesis using launch_in_world_finished [OF v [unfolded stop]] by metis
qed

lemma after_vmxon_finished:
  assumes "after_vmxon hw entry_rip vmx_launch tables entry b = (Ok exits, b')"
  shows "\<exists>w v w'. vmx_launch w = (v, w') \<and> decode v = GuestFinished exits \<and> w_exits w = exit_statics b \<and>
    exit_statics b' = w_exits w'"
proof -
  obtain region b1 b2 left where
    c: "on_cpu (vmcs_step hw ''creation'' (create_current hw)) b = (Ok region, b1)"
    and l: "launch_guest hw entry_rip vmx_launch (e_controls entry) (e_vmexit_stack entry) (e_guest entry) (e_ept entry)
      (e_bitmaps entry) tables b1 = (Ok exits, b2)"
    and t: "teardown hw (e_vmx_operation entry) (Some region) (e_firmware entry) b2 = (left, b')"
    using assms unfolding after_vmxon_def by (auto split: prod.splits result.splits if_splits)
  show ?thesis
    using launch_guest_finished [OF l] keepsD [OF keeps_on_cpu c] keepsD [OF keeps_teardown t] by simp
qed

lemma run_finished:
  assumes "run hw img entry_rip vmx_launch b = (Ok exits, b')"
  shows "\<exists>w v w'. vmx_launch w = (v, w') \<and> decode v = GuestFinished exits \<and> w_exits w = exit_statics b \<and>
    exit_statics b' = w_exits w'"
proof -
  obtain tables b1 b2 entry b3 where a: "activate_host_tables hw b = (Ok tables, b1)"
    and s: "(report_segment_state hw :: ('a bring_up, BringUpError, unit) action) b1 = (Ok (), b2)"
    and e: "enter_vmx hw img tables b2 = (Ok entry, b3)"
    and r: "after_vmxon hw entry_rip vmx_launch tables entry b3 = (Ok exits, b')"
    using assms unfolding run_def
    by (auto elim!: and_then_OkE simp: on_cpu_run split: prod.splits result.splits)
  have "exit_statics b3 = exit_statics b"
    using keepsD [OF keeps_activate a] keepsD [OF keeps_reports(1) s] keepsD [OF keeps_enter_vmx e] by simp
  then show ?thesis using after_vmxon_finished [OF r] by metis
qed

lemma run_launched:
  assumes "run hw img entry_rip (launched n hw vmlaunch vmresume guest frame) b = (Ok exits, b')"
    and "exit_statics b = initial_ExitStatics"
    and "\<And>frame m rflags m'. vmlaunch frame m = (Some rflags, m') \<Longrightarrow> unat rflags < 2 ^ 62"
  shows "\<exists>w v. handler_run hw w (Some v) \<and> decode v = GuestFinished exits \<and> w_exits w = exit_statics b'"
proof -
  from run_finished [OF assms(1)] obtain w v w' where
    l: "launched n hw vmlaunch vmresume guest frame w = (v, w')" and f: "decode v = GuestFinished exits"
    and s: "w_exits w = exit_statics b" "exit_statics b' = w_exits w'" by blast
  have "handler_run hw w' (Some v)" by (rule launched_finished [OF l f]) (use s assms(2,3) in auto)
  then show ?thesis using f s(2) by auto
qed

section \<open>What the entry point reports\<close>

abbreviation program_statics :: "'m program \<Rightarrow> ExitStatics" where
  "program_statics p \<equiv> exit_statics (p_bring_up p)"

lemma keeps_on_bring_up: "keeps exit_statics act \<Longrightarrow> keeps program_statics (on_bring_up act)"
  by (auto simp: keeps_def on_bring_up_def split: prod.splits) (metis snd_conv)

lemma keeps_program [act_rules]:
  "keeps program_statics (on_serial act)" "keeps program_statics (log_program message vs)" "keeps program_statics (uefi_call call)"
  unfolding log_program_def uefi_call_def
  by (simp_all add: keeps_on_bring_up keeps_log_line keeps_on_cpu) (simp add: keeps_def on_serial_def split: prod.splits)

lemma keeps_timer [act_rules]: "keeps program_statics (check_firmware_timer fw)"
  unfolding check_firmware_timer_def by (intro act_rules)

lemma status_launched:
  assumes "bring_up_status hw img entry_rip vmx_launch p = (Ok SUCCESS, p')"
  shows "\<exists>exits b. run hw img entry_rip vmx_launch (p_bring_up p) = (Ok exits, b) \<and> program_statics p' = exit_statics b"
proof -
  obtain exits b where r: "run hw img entry_rip vmx_launch (p_bring_up p) = (Ok exits, b)"
    using bring_up_status_Ok [OF assms] by blast
  then have "program_statics p' = exit_statics b"
    using assms by (auto simp: bring_up_status_def on_bring_up_def log_program_def log_line_def and_then_run)
  with r show ?thesis by blast
qed

lemma keeps_and_thenE:
  assumes "and_then m g s = (Ok y, t)" and "keeps f m"
  obtains x u where "m s = (Ok x, u)" and "f u = f s" and "g x u = (Ok y, t)"
  using assms by (elim and_then_OkE) (metis keepsD)

lemma main_launched:
  fixes hw :: "'m platform" and p p' :: "'m program"
  assumes "(main hw fw img entry_rip vmx_launch :: ('m program, 'e, Status) action) p = (Ok SUCCESS, p')"
  shows "\<exists>exits b b'. run hw img entry_rip vmx_launch b = (Ok exits, b') \<and> exit_statics b = program_statics p \<and>
    program_statics p' = exit_statics b'"
proof -
  have pre: "keeps program_statics (case x of None \<Rightarrow> log_program a as | Some _ \<Rightarrow> log_program c cs)" for x :: "SerialError option" and a as c cs
    by (intro act_rules)
  from assms obtain p1 p2 and status where
    s: "program_statics p1 = program_statics p" and
    b: "(bring_up_status hw img entry_rip vmx_launch :: ('m program, 'e, Status) action) p1 = (Ok status, p2)" and
    r: "(and_then (check_firmware_timer fw) (\<lambda>_.
       and_then (log_program ''Returning to firmware with status'' [truth (status = SUCCESS)]) (\<lambda>_. ret status))
       :: ('m program, 'e, Status) action) p2 = (Ok SUCCESS, p')"
    unfolding main_def
    by (elim keeps_and_thenE [OF _ keeps_program(1)] keeps_and_thenE [OF _ keeps_program(2)] keeps_and_thenE [OF _ keeps_program(3)])
      (auto split: if_splits elim!: keeps_and_thenE [OF _ keeps_program(2)] keeps_and_thenE [OF _ pre] and_then_OkE [where m = panic_report]
        and_then_OkE [where m = "bring_up_status hw img entry_rip vmx_launch"])
  have "status = SUCCESS" "program_statics p' = program_statics p2"
    using r by (auto elim!: keeps_and_thenE [OF _ keeps_timer] keeps_and_thenE [OF _ keeps_program(2)])
  then show ?thesis using status_launched [of hw img entry_rip vmx_launch p1 p2] b s by metis
qed

end
