(* ===== verification/Reference_Boot.thy ===== *)
theory Reference_Boot
  imports Reference_Machine End_To_End Paging
begin

text \<open>
  The program on the reference machine, from the firmware's tables to VMX operation: every step of bring-up up to
  VMXON succeeds, and so does every write of the VMCS setup. With \<open>Reference_Run\<close> this shows that the theorems about a
  successful run speak of runs that exist.
\<close>

section \<open>The firmware\<close>

text \<open>
  Memory below 1 MiB: a PML4 at 0x1000 and a PDPT at 0x4000 that map the first GiB to itself, a GDT at 0x2000 with a
  64-bit code segment at 0x38, an empty IDT at 0x3000. VMX is enabled and locked.
\<close>

definition rm_boot :: machine where
  "rm_boot = rm_init\<lparr>
     rm_mem := (\<lambda>_. 0)(0x1000 := 0x03, 0x1001 := 0x40, 0x203D := 0x9B, 0x203E := 0xAF, 0x4000 := 0x83),
     rm_msr := (\<lambda>_. 0)(IA32_FEATURE_CONTROL := 5)\<rparr>"

text \<open>What the serial driver has sent before bring-up starts is in the log of port writes.\<close>

abbreviation booting :: "(u16 \<times> u32) list \<Rightarrow> machine" where
  "booting out \<equiv> rm_boot\<lparr>rm_out := out\<rparr>"

lemma boot_firmware: "firmware_tables (booting out)" "rm_next (booting out) = 0x100000"
proof -
  have "rm_mem rm_boot (of_nat (0x3000 + x)) = 0" if "x < 0x1000" for x
  proof -
    have "unat (of_nat (0x3000 + x) :: u64) = 0x3000 + x" using that by (simp add: unat_of_nat del: of_nat_add)
    then have "unat (of_nat (0x3000 + x) :: u64) \<noteq> unat y" if "y \<in> {0x1000 :: u64, 0x1001, 0x203D, 0x203E, 0x4000}" for y
      using that \<open>x < 0x1000\<close> by (auto simp del: of_nat_add)
    then have "of_nat (0x3000 + x) \<notin> {0x1000 :: u64, 0x1001, 0x203D, 0x203E, 0x4000}" by (metis (no_types))
    then show ?thesis by (auto simp: rm_boot_def simp del: of_nat_add)
  qed
  then show "firmware_tables (booting out)"
    by (simp add: firmware_tables_def del: of_nat_add) (simp add: rm_boot_def rm_init_def)
qed (simp add: rm_boot_def rm_init_def)

section \<open>The machine with the host tables active\<close>

definition booted :: "machine \<Rightarrow> bool" where
  "booted m \<longleftrightarrow> rm_gdtr m = to_operand host_gdtr \<and> rm_idtr m = to_operand \<lparr>base = 0x3000, limit = 0xFFF\<rparr> \<and> rm_tr m = 0x48 \<and>
     rm_cr3 m = 0x1000 \<and> rm_cr4 m AND CR4_LA57 = 0 \<and> rm_msr m = (\<lambda>_. 0)(IA32_FEATURE_CONTROL := 5) \<and>
     rm_map m = [(0, 0x100), (0x100000, 0x3FF00)] \<and> 0x102000 \<le> rm_next m \<and>
     load_bytes rm_hw 0x1000 8 m = [0x03, 0x40, 0, 0, 0, 0, 0, 0] \<and> load_bytes rm_hw 0x4000 8 m = [0x83, 0, 0, 0, 0, 0, 0, 0] \<and>
     load_bytes rm_hw 0x101030 8 m = [0, 0, 0, 0, 0, 0, 0, 0] \<and> load_bytes rm_hw 0x101038 8 m = [0, 0, 0, 0, 0, 0x9B, 0xAF, 0] \<and>
     load_bytes rm_hw 0x101048 16 m = [0x67, 0, 0, 0, 0x10, 0x8B, 0, 0, 0, 0, 0, 0, 0, 0, 0, 0]"

lemma booted_extends: "booted m \<Longrightarrow> extends m m' \<Longrightarrow> booted m'"
  using extends_load_bytes [of m m' "0x1000" 8] extends_load_bytes [of m m' "0x4000" 8] extends_load_bytes [of m m' "0x101030" 8]
    extends_load_bytes [of m m' "0x101038" 8] extends_load_bytes [of m m' "0x101048" 16]
  by (simp add: booted_def) (simp add: extends_def)

lemma load_bytes_8: "load_bytes rm_hw a 8 m = [rm_mem m a, rm_mem m (a + 1), rm_mem m (a + 2), rm_mem m (a + 3), rm_mem m (a + 4),
   rm_mem m (a + 5), rm_mem m (a + 6), rm_mem m (a + 7)]"
proof -
  have "[0..<8] = [0, 1, 2, 3, 4, 5, 6, 7 :: nat]" by (simp add: upt_rec)
  then show ?thesis by (simp add: load_bytes_def rm_hw_def)
qed

lemma load_bytes_16: "load_bytes rm_hw a 16 m = load_bytes rm_hw a 8 m @ load_bytes rm_hw (a + 8) 8 m"
proof -
  have "[0..<16] = [0, 1, 2, 3, 4, 5, 6, 7, 8, 9, 10, 11, 12, 13, 14, 15 :: nat]" by (simp add: upt_rec)
  then show ?thesis unfolding load_bytes_8 by (simp add: load_bytes_def rm_hw_def add.assoc)
qed

lemma load_bytes_part:
  assumes "k + n \<le> l"
  shows "load_bytes hw (a + of_nat k) n m = take n (drop k (load_bytes hw a l m))"
  by (rule nth_equalityI) (use assms in \<open>auto simp: load_bytes_def add.assoc\<close>)

lemma boot_tss_bytes: "tss_descriptor 0x100000 0x67 = [0x67, 0, 0, 0, 0x10, 0x89, 0, 0, 0, 0, 0, 0, 0, 0, 0, 0]"
proof -
  have "replicate 4 (0 :: u8) = [0, 0, 0, 0]" by (simp add: numeral_eq_Suc)
  moreover have "[0..<2] = [0, 1 :: nat]" "[0..<4] = [0, 1, 2, 3 :: nat]" by (simp_all add: upt_rec)
  ultimately show ?thesis by (simp add: tss_descriptor_def to_le_bytes_def const_defs)
qed

text \<open>The copied GDT behind the TSS descriptor, and the firmware's page tables, before TR is loaded.\<close>

lemma boot_bytes:
  assumes "extends (booting out) m"
    and "load_bytes rm_hw 0x101000 0x58 m = load_bytes rm_hw 0x2000 0x48 (booting out) @ tss_descriptor 0x100000 0x67"
  shows "load_bytes rm_hw 0x1000 8 m = [0x03, 0x40, 0, 0, 0, 0, 0, 0]" "load_bytes rm_hw 0x4000 8 m = [0x83, 0, 0, 0, 0, 0, 0, 0]"
    "load_bytes rm_hw 0x101030 8 m = [0, 0, 0, 0, 0, 0, 0, 0]" "load_bytes rm_hw 0x101038 8 m = [0, 0, 0, 0, 0, 0x9B, 0xAF, 0]"
    "load_bytes rm_hw 0x101048 16 m = [0x67, 0, 0, 0, 0x10, 0x89, 0, 0, 0, 0, 0, 0, 0, 0, 0, 0]"
proof -
  have low: "load_bytes rm_hw x 8 m = load_bytes rm_hw x 8 (booting out)" if "unat x + 8 \<le> 0x100000" for x
    by (rule extends_load_bytes [OF assms(1)]) (use that boot_firmware(2) [of out] in simp)
  show "load_bytes rm_hw 0x1000 8 m = [0x03, 0x40, 0, 0, 0, 0, 0, 0]" "load_bytes rm_hw 0x4000 8 m = [0x83, 0, 0, 0, 0, 0, 0, 0]"
    by (simp_all add: low) (simp_all add: load_bytes_8 rm_boot_def)
  have len: "length (load_bytes rm_hw 0x2000 0x48 (booting out)) = 0x48" by (simp add: load_bytes_def)
  have gdt: "load_bytes rm_hw (0x101000 + of_nat k) 8 m = load_bytes rm_hw (0x2000 + of_nat k) 8 (booting out)" if "k + 8 \<le> 0x48" for k
    using that len load_bytes_part [of k 8 "0x58" rm_hw "0x101000" m] load_bytes_part [of k 8 "0x48" rm_hw "0x2000" "booting out"]
    by (simp add: assms(2))
  show "load_bytes rm_hw 0x101030 8 m = [0, 0, 0, 0, 0, 0, 0, 0]" "load_bytes rm_hw 0x101038 8 m = [0, 0, 0, 0, 0, 0x9B, 0xAF, 0]"
    using gdt [of "0x30"] gdt [of "0x38"] by (simp_all add: load_bytes_8 rm_boot_def)
  show "load_bytes rm_hw 0x101048 16 m = [0x67, 0, 0, 0, 0x10, 0x89, 0, 0, 0, 0, 0, 0, 0, 0, 0, 0]"
    using load_bytes_part [of "0x48" 16 "0x58" rm_hw "0x101000" m] len by (simp add: assms(2) boot_tss_bytes)
qed

lemma boot_activate:
  assumes "machine_of b0 = booting out"
  obtains tables b where "activate_host_tables rm_hw b0 = (Ok tables, b)" and "booted (machine_of b)"
    and "rm_next (machine_of b) = 0x102000" and "b_world b = (b_world b0)\<lparr>w_machine := machine_of b\<rparr>"
    and "ht_gdtr tables = host_gdtr" and "ht_tr tables = 0x48" and "ht_tss_base tables = 0x100000"
    and "ht_idtr tables = \<lparr>base = 0x3000, limit = 0xFFF\<rparr>"
proof -
  obtain tables b m where a: "activate_host_tables rm_hw b0 = (Ok tables, b)" "extends (booting out) m" "rm_next m = 0x102000"
    "b_world b = (b_world b0)\<lparr>w_machine := i_ltr rm_hw 0x48 (load_gdtr rm_hw host_gdtr m)\<rparr>"
    "load_bytes rm_hw 0x101000 0x58 m = load_bytes rm_hw 0x2000 0x48 (booting out) @ tss_descriptor 0x100000 0x67"
    "ht_gdtr tables = host_gdtr" "ht_tr tables = 0x48" "ht_tss_base tables = 0x100000" "ht_idtr tables = \<lparr>base = 0x3000, limit = 0xFFF\<rparr>"
    using rm_activate_host_tables [of b0] boot_firmware [of out] assms by auto
  note bytes = boot_bytes [OF a(2,5), unfolded load_bytes_16 load_bytes_8, simplified]
  let ?m = "i_ltr rm_hw 0x48 (load_gdtr rm_hw host_gdtr m)"
  have mem: "rm_mem ?m = (rm_mem m)(0x10104D := rm_mem m 0x10104D OR 2)"
    by (simp add: rm_hw_def load_gdtr_def mark_busy_def host_gdtr_def const_defs)
  have "load_bytes rm_hw 0x1000 8 ?m = [0x03, 0x40, 0, 0, 0, 0, 0, 0]" "load_bytes rm_hw 0x4000 8 ?m = [0x83, 0, 0, 0, 0, 0, 0, 0]"
    "load_bytes rm_hw 0x101030 8 ?m = [0, 0, 0, 0, 0, 0, 0, 0]" "load_bytes rm_hw 0x101038 8 ?m = [0, 0, 0, 0, 0, 0x9B, 0xAF, 0]"
    "load_bytes rm_hw 0x101048 16 ?m = [0x67, 0, 0, 0, 0x10, 0x8B, 0, 0, 0, 0, 0, 0, 0, 0, 0, 0]"
    unfolding load_bytes_16 load_bytes_8 mem by (simp_all add: bytes)
  moreover have "rm_msr ?m = (\<lambda>_. 0)(IA32_FEATURE_CONTROL := 5)" "rm_cr3 ?m = 0x1000" "rm_map ?m = [(0, 0x100), (0x100000, 0x3FF00)]"
    "rm_cr4 ?m AND CR4_LA57 = 0" "rm_gdtr ?m = to_operand host_gdtr" "rm_tr ?m = 0x48" "0x102000 \<le> rm_next ?m"
    "rm_idtr ?m = to_operand \<lparr>base = 0x3000, limit = 0xFFF\<rparr>"
    using a(2,3) by (simp_all add: rm_hw_def load_gdtr_def extends_def) (simp_all add: rm_boot_def rm_init_def const_defs)
  ultimately have "booted ?m" by (simp add: booted_def)
  moreover have "rm_next ?m = 0x102000" using a(3) by (simp add: rm_hw_def load_gdtr_def)
  ultimately show thesis using that a by simp
qed

section \<open>Allocating\<close>

lemma boot_exit_stack:
  assumes "rm_next m = 0x102000"
  shows "\<exists>m'. allocate_exit_stack rm_hw m = (Ok \<lparr>stack_base = 0x102000\<rparr>, m') \<and> rm_next m' = 0x106000 \<and> extends m m'"
  using rm_allocate_of_type [of m 4 LOADER_DATA StackAllocationFailed] assms
  by (auto simp: allocate_exit_stack_def allocate_zeroed_pages_def and_then_run VM_EXIT_STACK_PAGES_def)

definition boot_guest :: GuestMemory where
  "boot_guest = \<lparr>code_page = 0x106000, stack_page = 0x108000, idt_page = 0x109000\<rparr>"

lemma boot_allocate_guest:
  assumes "rm_next m = 0x106000" and "length (guest_code img) \<le> 4096"
  shows "\<exists>m'. allocate_guest rm_hw img m = (Ok boot_guest, m') \<and> rm_next m' = 0x10A000 \<and> extends m m'"
proof -
  obtain m1 where m1: "allocate_zeroed_pages_of_type rm_hw 2 LOADER_CODE CodeAllocationFailed m = (Ok 0x106000, m1)" "rm_next m1 = 0x108000" "extends m m1"
    using rm_allocate_of_type [of m 2 LOADER_CODE CodeAllocationFailed] assms by auto
  obtain m2 where m2: "allocate_zeroed_pages_of_type rm_hw 1 LOADER_DATA GuestStackAllocationFailed m1 = (Ok 0x108000, m2)" "rm_next m2 = 0x109000" "extends m1 m2"
    using rm_allocate_of_type [of m1 1 LOADER_DATA GuestStackAllocationFailed] m1(2) by auto
  obtain m3 where m3: "allocate_zeroed_pages_of_type rm_hw 1 LOADER_DATA IdtAllocationFailed m2 = (Ok 0x109000, m3)" "rm_next m3 = 0x10A000" "extends m2 m3"
    using rm_allocate_of_type [of m2 1 LOADER_DATA IdtAllocationFailed] m2(2) by auto
  have e: "extends m m3" using m1(3) m2(3) m3(3) extends_trans by blast
  show ?thesis using assms
    by (simp add: allocate_guest_def and_then_run m1 m2 m3 PAGE_SIZE_def Let_def boot_guest_def store32_def data_page_def
        code_base_def NMI_GATE_OFFSET_def GATE_SIZE_def NMI_VECTOR_def e extends_store del: One_nat_def)
qed

lemma boot_check_mappings:
  assumes "booted m"
  shows "\<exists>maps. check_mappings rm_hw boot_guest m = (Ok maps, m)"
proof -
  have t: "load64 rm_hw 0x1000 m = 0x4003" "load64 rm_hw 0x4000 m = 0x83" using assms by (simp_all add: booted_def load64_def)
  have c: "i_read_cr4 rm_hw m AND CR4_LA57 = 0" "i_read_cr3 rm_hw m = 0x1000" using assms by (simp_all add: booted_def rm_hw_def)
  note steps = walk_levels.simps(2) [where n = 3, simplified] walk_levels.simps(2) [where n = 2, simplified]
  have walk: "walk_current rm_hw a m = Ok \<lparr>map_physical = a, map_size = Size1G, map_writable = True, map_user = False, map_execute_disable = False\<rparr>"
    if "a = 0x106000 \<or> a = 0x107000 \<or> a = 0x108000 \<or> a = 0x109000" for a
    using that by (elim disjE) (simp_all add: walk_current_def c c(1) [unfolded CR4_LA57_def, simplified] walk_def steps page_size_at_def Let_def const_defs t)
  let ?p = "\<lambda>a. \<lparr>map_physical = a, map_size = Size1G, map_writable = True, map_user = False, map_execute_disable = False\<rparr>"
  show ?thesis
    by (rule exI [of _ "\<lparr>gm_code = ?p 0x106000, gm_stack = ?p 0x108000, gm_idt = ?p 0x109000, gm_data = ?p 0x107000\<rparr>"])
      (simp add: check_mappings_Ok_iff walk boot_guest_def data_page_def code_base_def PAGE_SIZE_def identity_mapped_def guest_pages_usable_def
        ring0_executes_def ring0_reads_def ring0_writes_def)
qed

lemma fill_pages:
  assumes "length msr = 4096" and "length io_a = 4096" and "length io_b = 4096"
  obtains pm pa pb where "fill msr io_a io_b = Some (pm, pa, pb)" and "length pm = 4096" and "length pa = 4096" and "length pb = 4096"
  using fill_msrs_bits [OF assms(1), of "[(m, a). m \<leftarrow> INTERCEPTED_MSRS, a \<leftarrow> [Read, Write]]"]
    fill_ports_bits [of "(io_a, io_b)" INTERCEPTED_PORTS] assms(2,3) that
  by (auto simp: fill_def simp del: INTERCEPTED_MSRS_def INTERCEPTED_PORTS_def)

lemma boot_bitmaps:
  assumes "rm_next m = 0x10A000"
  shows "\<exists>m'. allocate_bitmaps rm_hw m = (Ok \<lparr>bm_msr = 0x10A000, bm_io_a = 0x10B000, bm_io_b = 0x10C000\<rparr>, m') \<and>
    rm_next m' = 0x10D000 \<and> extends m m'"
proof -
  obtain m1 where m1: "allocate_zeroed_page rm_hw BitmapAllocationFailed m = (Ok 0x10A000, m1)" "rm_next m1 = 0x10B000" "extends m m1"
    using rm_fresh_page [OF assms, of BitmapAllocationFailed] by auto
  obtain m2 where m2: "allocate_zeroed_page rm_hw BitmapAllocationFailed m1 = (Ok 0x10B000, m2)" "rm_next m2 = 0x10C000" "extends m1 m2"
    using rm_fresh_page [OF m1(2), of BitmapAllocationFailed] by auto
  obtain m3 where m3: "allocate_zeroed_page rm_hw BitmapAllocationFailed m2 = (Ok 0x10C000, m3)" "rm_next m3 = 0x10D000" "extends m2 m3"
    using rm_fresh_page [OF m2(2), of BitmapAllocationFailed] by auto
  have e: "extends m m3" using m1(3) m2(3) m3(3) extends_trans by blast
  obtain pm pa pb where f: "fill (load_bytes rm_hw 0x10A000 PAGE_SIZE m3) (load_bytes rm_hw 0x10B000 PAGE_SIZE m3)
      (load_bytes rm_hw 0x10C000 PAGE_SIZE m3) = Some (pm, pa, pb)" "length pm = 4096" "length pa = 4096" "length pb = 4096"
    by (rule fill_pages [of "load_bytes rm_hw 0x10A000 PAGE_SIZE m3" "load_bytes rm_hw 0x10B000 PAGE_SIZE m3"
        "load_bytes rm_hw 0x10C000 PAGE_SIZE m3"]) (simp_all add: load_bytes_def PAGE_SIZE_def)
  show ?thesis using assms f by (simp add: allocate_bitmaps_def and_then_run m1 m2 m3 e extends_store)
qed

definition boot_controls :: VmcsControlMsrs where
  "boot_controls = \<lparr>basic = 0x0000100000000004, pinbased = 0xFFFFFFFF00000000, primary = 0xFFFFFFFF00000000,
     exit_cap = 0xFFFFFFFF00000000, entry_cap = 0xFFFFFFFF00000000, secondary = 0xFFFFFFFF00000000, ept_vpid_cap = 0xF0106334141\<rparr>"

lemma rm_rdmsr: "rdmsr rm_hw k m = (Ok (if 0x480 \<le> k \<and> k \<le> 0x491 then rm_caps k else rm_msr m k), m)"
  by (simp add: rdmsr_def rm_hw_def Let_def msr_halves)

lemma boot_vmx_support:
  assumes "booted (machine_of b)"
  shows "\<exists>b'. check_vmx_support rm_hw b = (Ok (boot_controls, SingleContext), b') \<and> b_world b' = b_world b"
proof -
  have d: "detect rm_hw m = (Ok Supported, m)" if "booted m" for m
    using that by (simp add: detect_def is_vmx_supported_def feature_control_vmx_enabled_def read_feature_control_def rm_rdmsr and_then_run
        booted_def Let_def const_defs) (simp add: rm_hw_def)
  have c: "read_vmcs_control_msrs rm_hw m = (Ok boot_controls, m)" for m
    by (simp add: read_vmcs_control_msrs_def rm_rdmsr and_then_run rm_caps_def const_defs Let_def allows_def allowed_def boot_controls_def)
  have s: "check_support (secondary boot_controls) (ept_vpid_cap boot_controls) = Ok SingleContext"
    by (simp add: check_support_def boot_controls_def allows_def allowed_def const_defs)
  show ?thesis
    using assms by (simp add: check_vmx_support_def and_then_run on_cpu_run d c s log_line_def report_vmx_capabilities_def)
qed

section \<open>Building the tables\<close>

lemma rm_allocate_OkD:
  assumes "allocate_zeroed_pages rm_hw n e m = (Ok a, m')" and "4096 dvd rm_next m"
  shows "unat a = rm_next m" and "rm_next m' = rm_next m + n * 4096" and "rm_next m' \<le> 2 ^ 52" and "extends m m'"
proof -
  have b: "rm_next m + n * 4096 \<le> 2 ^ 52"
    using assms(1) by (auto simp: allocate_zeroed_pages_def allocate_zeroed_pages_of_type_def rm_hw_def split: if_splits)
  then show "unat a = rm_next m" "rm_next m' = rm_next m + n * 4096" "rm_next m' \<le> 2 ^ 52" "extends m m'"
    using rm_allocate_of_type [OF b assms(2), of LOADER_DATA e] assms(1) by (auto simp: allocate_zeroed_pages_def unat_of_nat)
qed

lemma rm_next_store_words [simp]: "rm_next (store_words rm_hw a ws m) = rm_next m"
  by (induction ws arbitrary: a m) (simp_all add: store64_def)

lemma extends_store_words:
  "extends m0 m \<Longrightarrow> rm_next m0 \<le> unat a \<Longrightarrow> unat a + 8 * length ws \<le> 2 ^ 62 \<Longrightarrow> extends m0 (store_words rm_hw a ws m)"
proof (induction ws arbitrary: a m)
  case (Cons w ws)
  have "unat (a + 8) = unat a + 8" using Cons.prems(3) by (simp add: unat_word_ariths)
  moreover have "extends m0 (store64 rm_hw a w m)" using Cons.prems by (simp add: store64_def extends_store)
  ultimately show ?case using Cons.IH [of "store64 rm_hw a w m" "a + 8"] Cons.prems by simp
qed simp

lemma fill_pdpt_length: "fill_pdpt gibs pds pdpt = Some pdpt' \<Longrightarrow> length pdpt' = length pdpt"
  by (induction gibs arbitrary: pdpt) (auto simp: set_at_def bind_eq_Some_conv split: if_splits)

lemma fill_identity_map_lengths:
  assumes "fill_identity_map t gibs prot = Some (t', k)"
  shows "length (t_pml4 t') = length (t_pml4 t)" "length (t_pdpt t') = length (t_pdpt t)" "length (t_pds t') = length (t_pds t)"
    "length (t_pt t') = length (t_pt t)"
  using assms by (auto simp: fill_identity_map_def bind_eq_Some_conv set_at_def Let_def fill_pdpt_length split: if_splits)

lemma fill_tables_extends:
  assumes "fill_tables_in_memory rm_hw pml4 pdpt pds pt gibs prot m = (Ok k, m')" and "extends m0 m"
    and "rm_next m0 \<le> unat pml4" "rm_next m0 \<le> unat pdpt" "rm_next m0 \<le> unat pds" "rm_next m0 \<le> unat pt"
    and "unat pml4 + 4096 \<le> 2 ^ 62" "unat pdpt + 4096 \<le> 2 ^ 62" "unat pds + gibs * 4096 \<le> 2 ^ 62" "unat pt + 4096 \<le> 2 ^ 62"
  shows "extends m0 m'" and "rm_next m' = rm_next m"
proof -
  obtain t' where t: "fill_identity_map \<lparr>t_pml4 = load_words rm_hw pml4 ENTRIES m, t_pdpt = load_words rm_hw pdpt ENTRIES m,
              t_pds = load_words rm_hw pds (gibs * ENTRIES) m, t_pt = load_words rm_hw pt ENTRIES m,
              t_pdpt_address = pdpt, t_pds_address = pds, t_pt_address = pt\<rparr> gibs prot = Some (t', k)"
    and m': "m' = store_words rm_hw pt (t_pt t') (store_words rm_hw pds (t_pds t')
             (store_words rm_hw pdpt (t_pdpt t') (store_words rm_hw pml4 (t_pml4 t') m)))"
    using assms(1) by (auto simp: fill_tables_in_memory_def split: option.splits)
  have len: "length (t_pml4 t') = 512" "length (t_pdpt t') = 512" "length (t_pds t') = gibs * 512" "length (t_pt t') = 512"
    using fill_identity_map_lengths [OF t] by (simp_all add: load_words_def ENTRIES_def)
  show "extends m0 m'" "rm_next m' = rm_next m" unfolding m' using assms(2-) len by (simp_all add: extends_store_words)
qed

lemma boot_build:
  assumes "booted m" and "rm_next m = 0x10D000"
  shows "\<exists>ept m' s. build rm_hw 0x107000 SingleContext (m, initial_EptStatics) = (Ok ept, (m', s)) \<and> rm_next m' = 0x111000 \<and>
    extends m m' \<and> map_option pp_gpa (protected_page s) = Some 0x107000"
proof -
  have g: "identity_map_end (rm_map m) = Ok 0x40000000"
    using assms(1) by (simp add: identity_map_end_iff booted_def memory_end_def region_end_def round_up_gib_def)
  obtain ept m' s where b: "build rm_hw 0x107000 SingleContext (m, initial_EptStatics) = (Ok ept, (m', s))"
    using rm_build_ok [where m = m and prot = "0x107000" and invept = SingleContext, OF _ _ g] assms(2) by auto
  obtain pml4 m1 pdpt m2 pds m3 pt m4 k where a: "allocate_zeroed_pages rm_hw 1 EptAllocationFailed m = (Ok pml4, m1)"
    "allocate_zeroed_pages rm_hw 1 EptAllocationFailed m1 = (Ok pdpt, m2)" "allocate_zeroed_pages rm_hw 1 EptAllocationFailed m2 = (Ok pds, m3)"
    "allocate_zeroed_pages rm_hw 1 EptAllocationFailed m3 = (Ok pt, m4)"
    "fill_tables_in_memory rm_hw pml4 pdpt pds pt 1 0x107000 m4 = (Ok k, m')"
    "publish \<lparr>pp_gpa = 0x107000, pp_entry = pt + 8 * of_nat k, pp_eptp = eptp_new pml4, pp_invept = SingleContext\<rparr> initial_EptStatics = (Ok (), s)"
    using b g unfolding build_def
    by (auto elim!: and_then_OkE simp: on_machine_def on_statics_def ept_memory_map_def lift_result_def Let_def SIZE_1G_def rm_hw_def
        split: prod.splits if_splits)
  note d1 = rm_allocate_OkD [OF a(1), unfolded assms(2), simplified]
  note d2 = rm_allocate_OkD [OF a(2), unfolded d1(2), simplified]
  note d3 = rm_allocate_OkD [OF a(3), unfolded d2(2), simplified]
  note d4 = rm_allocate_OkD [OF a(4), unfolded d3(2), simplified]
  note u = d1(1) d2(1) d3(1) d4(1,2)
  have e4: "extends m m4" by (rule extends_trans [OF d1(4) extends_trans [OF d2(4) extends_trans [OF d3(4) d4(4)]]])
  have "extends m m'" "rm_next m' = 0x111000"
    using fill_tables_extends [OF a(5) e4] u assms(2) by simp_all
  then show ?thesis using b publish_OkD(1) [OF a(6)] by auto
qed

section \<open>VMX operation\<close>

lemma boot_region:
  assumes "rm_next m = n" and "4096 dvd n" and "n + 4096 \<le> 2 ^ 52"
  shows "\<exists>m'. allocate_region rm_hw e m = (Ok \<lparr>phys_addr = of_nat n\<rparr>, m') \<and> rm_next m' = n + 4096 \<and> extends m m'"
proof -
  obtain m1 where a: "allocate_zeroed_page rm_hw e m = (Ok (of_nat n), m1)" "rm_next m1 = n + 4096" "extends m m1"
    by (rule rm_fresh_page [OF assms])
  have "unat (of_nat n :: u64) = n" using assms(3) by (simp add: unat_of_nat)
  then show ?thesis using assms a
    by (simp add: allocate_region_def and_then_run vmcs_revision_id_def rm_rdmsr const_defs store32_def extends_store)
qed

lemma boot_vmxon:
  assumes "booted m" and "rm_next m = 0x111000"
  shows "\<exists>operation m'. enter_vmx_root_operation rm_hw m = (Ok operation, m') \<and> rm_next m' = 0x112000 \<and> extends m m'"
proof -
  obtain m1 where a: "allocate_region rm_hw VmxOnAllocationFailed m = (Ok \<lparr>phys_addr = 0x111000\<rparr>, m1)" "rm_next m1 = 0x112000" "extends m m1"
    using boot_region [OF assms(2), of VmxOnAllocationFailed] by auto
  let ?m = "enable_vmxe rm_hw m1"
  have v: "vmxon rm_hw region m' = (Ok (), m')" for region m'
    by (simp add: vmxon_def map_err_run vmx_asm_def) (simp add: rm_hw_def)
  obtain m' where r: "enter_vmx_root_operation rm_hw m = (Ok \<lparr>op_region = \<lparr>phys_addr = 0x111000\<rparr>, original_cr0 = rm_cr0 m1, original_cr4 = rm_cr4 m1\<rparr>, m')"
    and m': "m' = ?m\<lparr>rm_cr0 := (rm_cr0 ?m OR 0x80000021) AND 0xFFFFFFFF, rm_cr4 := (rm_cr4 ?m OR 0x2000) AND 0x3767FF\<rparr>"
    by (simp add: enter_vmx_root_operation_def and_then_run rm_rdmsr rm_caps_def const_defs a apply_fixed_bits_def vmxon_or_restore_def v)
      (simp add: rm_hw_def)
  have "extends m1 m'" "rm_next m' = rm_next m1"
    unfolding m' extends_def by (simp_all add: enable_vmxe_def rm_hw_def and.assoc const_defs)
  then show ?thesis using r a(2) extends_trans [OF a(3)] by auto
qed

lemma boot_create_current:
  assumes "booted m" and "rm_next m = 0x112000"
  shows "\<exists>region m'. create_current rm_hw m = (Ok region, m') \<and> extends m m' \<and> rm_next m' = 0x113000"
proof -
  obtain m1 where a: "allocate_region rm_hw VmcsAllocationFailed m = (Ok \<lparr>phys_addr = 0x112000\<rparr>, m1)" "rm_next m1 = 0x113000" "extends m m1"
    using boot_region [OF assms(2), of VmcsAllocationFailed] by auto
  have "vmclear rm_hw region m' = (Ok (), m')" "vmptrld rm_hw region m' = (Ok (), m')" for region m'
    by (simp_all add: vmclear_def vmptrld_def map_err_run vmx_asm_def) (simp_all add: rm_hw_def)
  then show ?thesis using a by (simp add: create_current_def and_then_run)
qed

section \<open>Filling the VMCS\<close>

definition with_fields :: "(u32 \<times> u64) list \<Rightarrow> machine \<Rightarrow> machine" where
  "with_fields fvs m = m\<lparr>rm_vmcs := foldl (\<lambda>g (f, v). g(f := v)) (rm_vmcs m) fvs\<rparr>"

definition writes_fit :: "(u32 \<times> u64) list \<Rightarrow> bool" where
  "writes_fit = list_all (\<lambda>(f, v). field_type_of f \<noteq> ReadOnly \<and> take_bit (field_bits f) v = v)"

lemma with_fields_extends [simp]: "extends m (with_fields fvs m)" "rm_next (with_fields fvs m) = rm_next m"
  by (simp_all add: with_fields_def extends_def)

lemma with_fields_other: "f \<notin> fst ` set fvs \<Longrightarrow> rm_vmcs (with_fields fvs m) f = rm_vmcs m f"
proof -
  have "f \<notin> fst ` set fvs \<Longrightarrow> foldl (\<lambda>g (f, v). g(f := v)) g fvs f = g f" for g :: "u32 \<Rightarrow> u64"
    by (induction fvs arbitrary: g) (auto split: prod.splits)
  then show "f \<notin> fst ` set fvs \<Longrightarrow> rm_vmcs (with_fields fvs m) f = rm_vmcs m f" by (simp add: with_fields_def)
qed

lemma rm_vmread: "vmread rm_hw f m = (Ok (rm_vmcs m f), m)"
  by (simp add: rm_vmcs.vmread_ok)

lemma rm_write_verified:
  assumes "field_type_of f \<noteq> ReadOnly" and "take_bit (field_bits f) v = v"
  shows "write_verified rm_hw f v m = (Ok (), m\<lparr>rm_vmcs := (rm_vmcs m)(f := v)\<rparr>)"
proof -
  have "vmwrite rm_hw f v m = (Ok (), m\<lparr>rm_vmcs := (rm_vmcs m)(f := v)\<rparr>)"
    using assms by (simp add: vmwrite_def) (simp add: rm_hw_def)
  then show ?thesis by (simp add: write_verified_def and_then_run rm_vmread)
qed

lemma rm_write_fields: "writes_fit fvs \<Longrightarrow> write_fields rm_hw fvs m = (Ok (), with_fields fvs m)"
proof (induction fvs arbitrary: m)
  case (Cons fv fvs)
  then show ?case by (cases fv) (simp add: writes_fit_def and_then_run rm_write_verified with_fields_def)
qed (simp add: with_fields_def)

lemmas widths = field_defs field_type_of_def field_bits_def field_width_of_def

lemma control_writes_fit: "writes_fit (control_writes c)"
  unfolding control_writes_def by (cases "ch_secondary c") (simp_all add: writes_fit_def ZEROED_FIELDS_def exception_bitmap_all widths)

lemma host_state_writes_fit: "writes_fit (host_state_writes segments cr0 cr3 cr4 (ucast (cs :: u32)) esp eip)"
  by (simp add: writes_fit_def host_state_writes_def widths)

lemma bitmap_writes_fit: "writes_fit [(MSR_BITMAP, a), (IO_BITMAP_A, b), (IO_BITMAP_B, c)]"
  by (simp add: writes_fit_def widths)

lemma boot_choose: "\<exists>c. choose_controls boot_controls minimal_64_bit_guest = Ok c"
  by (simp add: choose_controls_def choose_control_def boot_controls_def minimal_64_bit_guest_def required_def allowed_def allows_def
      primary_request_def const_defs)

lemma boot_self_test: "\<exists>m'. self_test rm_hw m = (Ok (), m') \<and> extends m m' \<and> rm_next m' = rm_next m"
  by (simp add: self_test_def rm_write_verified widths const_defs extends_def)

lemma boot_configure_controls:
  "\<exists>m'. configure_controls rm_hw boot_controls minimal_64_bit_guest m = (Ok (), m') \<and> extends m m' \<and> rm_next m' = rm_next m \<and>
     rm_vmcs m' CR3_TARGET_COUNT = 0"
proof -
  obtain c where c: "choose_controls boot_controls minimal_64_bit_guest = Ok c" using boot_choose by blast
  have w: "write_fields rm_hw (control_writes c) m = (Ok (), with_fields (control_writes c) m)"
    by (rule rm_write_fields [OF control_writes_fit])
  have "map_of (control_writes c) CR3_TARGET_COUNT = Some 0"
    using control_writes_zeroed [of c] by (simp add: ZEROED_FIELDS_def)
  then have "rm_vmcs (with_fields (control_writes c) m) CR3_TARGET_COUNT = 0"
    using rm_vmcs.write_fields_OkD [OF w control_writes_distinct] by simp
  then show ?thesis by (simp add: configure_controls_def and_then_run lift_result_def c w)
qed

text \<open>Writing other fields: the counter of the scripted guest keeps its value.\<close>

definition quiet :: "machine \<Rightarrow> machine \<Rightarrow> bool" where
  "quiet m m' \<longleftrightarrow> extends m m' \<and> rm_vmcs m' CR3_TARGET_COUNT = rm_vmcs m CR3_TARGET_COUNT"

lemma quiet_refl [simp]: "quiet m m"
  by (simp add: quiet_def)

lemma quiet_trans: "quiet m1 m2 \<Longrightarrow> quiet m2 m3 \<Longrightarrow> quiet m1 m3"
  using extends_trans by (auto simp: quiet_def)

lemma quiet_with_fields: "CR3_TARGET_COUNT \<notin> fst ` set fvs \<Longrightarrow> quiet m (with_fields fvs m)"
  by (simp add: quiet_def with_fields_other)

lemma boot_set_pointers:
  "\<exists>m'. set_ept_pointer rm_hw eptp m = (Ok (), m') \<and> quiet m m'"
  "\<exists>m'. write_to_vmcs rm_hw bitmaps m = (Ok (), m') \<and> quiet m m'"
proof -
  show "\<exists>m'. set_ept_pointer rm_hw eptp m = (Ok (), m') \<and> quiet m m'"
    by (simp add: set_ept_pointer_def rm_write_verified widths quiet_def extends_def)
  show "\<exists>m'. write_to_vmcs rm_hw bitmaps m = (Ok (), m') \<and> quiet m m'"
    unfolding write_to_vmcs_def rm_write_fields [OF bitmap_writes_fit] by (auto intro!: quiet_with_fields simp: field_defs)
qed

end
