(* ===== verification/Reference_Run.thy ===== *)
theory Reference_Run
  imports Reference_Boot
begin

text \<open>
  The program on the reference machine, continued: the VMCS is filled and accepted, the sample guest's exits are handled
  to the end of its plan, teardown succeeds, and the entry point returns \<open>SUCCESS\<close>.
\<close>

section \<open>Host and guest state\<close>

abbreviation boot_segments :: SegmentState where
  "boot_segments \<equiv> \<lparr>seg_cs = 0x38, seg_ss = 0x30, seg_ds = 0x30, seg_es = 0x30, seg_fs = 0x30, seg_gs = 0x30,
     seg_tr = 0x48, seg_fs_base = 0, seg_gs_base = 0, seg_tr_base = 0x100000, seg_gdtr = host_gdtr,
     seg_idtr = \<lparr>base = 0x3000, limit = 0xFFF\<rparr>\<rparr>"

lemma booted_registers:
  assumes "booted m"
  shows "read_gdtr rm_hw m = host_gdtr" "read_idtr rm_hw m = \<lparr>base = 0x3000, limit = 0xFFF\<rparr>" "i_str rm_hw m = 0x48"
    "i_cs rm_hw m = 0x38" "i_ss rm_hw m = 0x30" "i_ds rm_hw m = 0x30" "i_es rm_hw m = 0x30" "i_fs rm_hw m = 0x30" "i_gs rm_hw m = 0x30"
    "segment_base_from_gdt rm_hw host_gdtr 0x48 m = 0x100000"
proof -
  show "read_gdtr rm_hw m = host_gdtr" "read_idtr rm_hw m = \<lparr>base = 0x3000, limit = 0xFFF\<rparr>" "i_str rm_hw m = 0x48"
    "i_cs rm_hw m = 0x38" "i_ss rm_hw m = 0x30" "i_ds rm_hw m = 0x30" "i_es rm_hw m = 0x30" "i_fs rm_hw m = 0x30" "i_gs rm_hw m = 0x30"
    using assms by (simp_all add: booted_def read_gdtr_def read_idtr_def rm_hw_def)
  have o: "descriptor_offset host_gdtr 0x48 16 = Some 0x48" by (simp add: descriptor_offset_def host_gdtr_def const_defs)
  show "segment_base_from_gdt rm_hw host_gdtr 0x48 m = 0x100000"
    using assms unfolding segment_base_from_gdt_def o option.case
    by (simp add: booted_def host_gdtr_def system_descriptor_base_def descriptor_base_def Let_def)
qed

lemma booted_msr: "booted m \<Longrightarrow> k \<noteq> IA32_FEATURE_CONTROL \<Longrightarrow> k < 0x480 \<or> 0x491 < k \<Longrightarrow> rdmsr rm_hw k m = (Ok 0, m)"
  by (auto simp: rm_rdmsr booted_def)

lemma booted_reads: "booted m \<Longrightarrow> read_all rm_hw m = (Ok boot_segments, m)"
  by (simp add: read_all_def and_then_run booted_registers read_fs_base_def read_gs_base_def booted_msr const_defs)

lemma booted_descriptors:
  assumes "booted m"
  shows "read_descriptor rm_hw host_gdtr 0x38 m = Some 0x00AF9B0000000000" "read_descriptor rm_hw host_gdtr 0x30 m = Some 0"
    "read_descriptor rm_hw host_gdtr 0x48 m = Some 0x00008B1000000067"
proof -
  have o: "descriptor_offset host_gdtr 0x38 8 = Some 0x38" "descriptor_offset host_gdtr 0x30 8 = Some 0x30"
    "descriptor_offset host_gdtr 0x48 8 = Some 0x48" by (simp_all add: descriptor_offset_def host_gdtr_def const_defs)
  have "load_bytes rm_hw 0x101048 8 m = [0x67, 0, 0, 0, 0x10, 0x8B, 0, 0]"
    using assms arg_cong [OF load_bytes_16 [of "0x101048" m], of "take 8"] by (simp add: booted_def load_bytes_def)
  then show "read_descriptor rm_hw host_gdtr 0x38 m = Some 0x00AF9B0000000000" "read_descriptor rm_hw host_gdtr 0x30 m = Some 0"
    "read_descriptor rm_hw host_gdtr 0x48 m = Some 0x00008B1000000067"
    using assms unfolding read_descriptor_def o option.case by (simp_all add: host_gdtr_def load64_def booted_def)
qed

lemma quiet_optional_write:
  assumes "field_type_of f \<noteq> ReadOnly" and "field_bits f = 64" and "f \<noteq> CR3_TARGET_COUNT"
  shows "\<exists>m'. (if p then and_then (rdmsr rm_hw k) (write_verified rm_hw f) else ret ()) m = (Ok (), m') \<and> quiet m m'"
  using assms by (simp add: and_then_run rm_rdmsr rm_write_verified quiet_def extends_def)

lemma boot_host_state:
  assumes "booted m"
  shows "\<exists>m'. configure_host_state rm_hw m = (Ok (), m') \<and> quiet m m'"
proof -
  let ?ws = "host_state_writes boot_segments (i_read_cr0 rm_hw m) (i_read_cr3 rm_hw m) (i_read_cr4 rm_hw m) 0 0 0"
  have w: "write_fields rm_hw ?ws m' = (Ok (), with_fields ?ws m')" for m'
    by (rule rm_write_fields) (use host_state_writes_fit [of boot_segments _ _ _ 0] in simp)
  have "CR3_TARGET_COUNT \<notin> fst ` set ?ws" by (simp add: host_state_writes_def field_defs)
  note q = quiet_with_fields [OF this, of m]
  have msr: "rdmsr rm_hw IA32_SYSENTER_CS m = (Ok 0, m)" "rdmsr rm_hw IA32_SYSENTER_ESP m = (Ok 0, m)" "rdmsr rm_hw IA32_SYSENTER_EIP m = (Ok 0, m)"
    using assms by (simp_all add: booted_msr const_defs)
  have valid: "host_selectors_valid boot_segments" by (simp add: host_selectors_valid_def const_defs)
  have ro: "field_type_of HOST_IA32_PAT \<noteq> ReadOnly" "field_type_of HOST_IA32_EFER \<noteq> ReadOnly"
    and bits: "field_bits HOST_IA32_PAT = 64" "field_bits HOST_IA32_EFER = 64"
    and other: "HOST_IA32_PAT \<noteq> CR3_TARGET_COUNT" "HOST_IA32_EFER \<noteq> CR3_TARGET_COUNT" by (simp_all add: widths)
  let ?c = "rm_vmcs m VM_EXIT_CONTROLS"
  obtain m1 where m1: "(if ?c AND VM_EXIT_LOAD_IA32_PAT \<noteq> 0 then and_then (rdmsr rm_hw IA32_PAT) (write_verified rm_hw HOST_IA32_PAT) else ret ())
      (with_fields ?ws m) = (Ok (), m1)" "quiet (with_fields ?ws m) m1"
    using quiet_optional_write [of HOST_IA32_PAT, OF ro(1) bits(1) other(1)] by blast
  obtain m2 where m2: "(if ?c AND VM_EXIT_LOAD_IA32_EFER \<noteq> 0 then and_then (rdmsr rm_hw IA32_EFER) (write_verified rm_hw HOST_IA32_EFER) else ret ())
      m1 = (Ok (), m2)" "quiet m1 m2"
    using quiet_optional_write [of HOST_IA32_EFER, OF ro(2) bits(2) other(2)] by blast
  have "configure_host_state rm_hw m = (Ok (), m2)"
    using assms by (simp add: configure_host_state_def and_then_run booted_reads msr valid rm_vmread w m1(1) m2(1))
  then show ?thesis using quiet_trans [OF q quiet_trans [OF m1(2) m2(2)]] by blast
qed

lemma boot_host_entry: "entry_rip \<noteq> 0 \<Longrightarrow> \<exists>m'. configure_host_entry rm_hw 0x106000 entry_rip m = (Ok (), m') \<and> quiet m m'"
proof -
  have "writes_fit [(HOST_RSP, 0x106000), (HOST_RIP, entry_rip)]" by (simp add: writes_fit_def widths)
  from rm_write_fields [OF this, of m] quiet_with_fields [of "[(HOST_RSP, 0x106000), (HOST_RIP, entry_rip)]" m]
  show "entry_rip \<noteq> 0 \<Longrightarrow> ?thesis" by (simp add: configure_host_entry_def field_defs)
qed

lemma boot_from_current:
  assumes "booted m"
  shows "\<exists>s. from_current rm_hw rip rsp idtr m = (Ok s, m)"
proof -
  have d: "rdmsr_if rm_hw p k m = (Ok (if p then Some (rm_msr m k) else None), m)" if "k < 0x480 \<or> 0x491 < k" for p k
    using that by (auto simp: rdmsr_if_def and_then_run rm_rdmsr)
  show ?thesis
    using assms
    by (simp add: from_current_def and_then_run booted_reads rm_vmread map_err_run segment_from_gdt_def booted_descriptors SELECTOR_RPL_def)
      (simp add: rm_rdmsr d and_then_run check_segments_def from_descriptor_def is_usable_def access_rights_def Let_def const_defs lift_result_def)
qed

lemma boot_write_guest_state:
  assumes "from_current rm_hw rip rsp idtr m0 = (Ok s, m1)"
  shows "\<exists>m'. write_guest_state rm_hw s m = (Ok (), m') \<and> quiet m m'"
proof -
  have "write_fields rm_hw (guest_writes s) m = (Ok (), with_fields (guest_writes s) m)"
    by (rule rm_write_fields) (use guest_writes_fit [OF from_current_sysenter [OF assms]] in \<open>simp add: writes_fit_def\<close>)
  then have "write_guest_state rm_hw s m = (Ok (), with_fields (guest_writes s) m)"
    by (simp add: write_guest_state_run write_field_for_each)
  moreover have "CR3_TARGET_COUNT \<notin> fst ` set (guest_writes s)"
    by (cases "g_pat s"; cases "g_efer s")
      (simp_all add: guest_writes_def guest_segment_writes_def guest_other_writes_def segment_writes_def field_defs)
  ultimately show ?thesis using quiet_with_fields by blast
qed

section \<open>The VMCS ready to launch\<close>

lemma booted_quiet: "booted m \<Longrightarrow> quiet m m' \<Longrightarrow> booted m'"
  by (simp add: quiet_def booted_extends)

lemma log_guest_state: "\<exists>b'. report_guest_state s b = (Ok (), b') \<and> b_world b' = b_world b"
  by (simp add: report_guest_state_def report_segment_def and_then_run log_line_def)

lemma boot_tops: "stack_top \<lparr>stack_base = 0x102000\<rparr> = Some 0x106000" "guest_stack_top boot_guest = Ok 0x109000"
  by (simp_all add: stack_top_def VM_EXIT_STACK_SIZE_def VM_EXIT_STACK_PAGES_def PAGE_SIZE_def guest_stack_top_def boot_guest_def)

lemma boot_prepare_vmcs:
  assumes "booted (machine_of b)" and "entry_rip \<noteq> 0"
  shows "\<exists>b'. prepare_vmcs rm_hw entry_rip boot_controls \<lparr>stack_base = 0x102000\<rparr> boot_guest ept bitmaps b = (Ok (), b') \<and>
    booted (machine_of b') \<and> rm_vmcs (machine_of b') CR3_TARGET_COUNT = 0 \<and> b_world b' = (b_world b)\<lparr>w_machine := machine_of b'\<rparr>"
proof -
  let ?m = "machine_of b"
  obtain m1 where m1: "self_test rm_hw ?m = (Ok (), m1)" "extends ?m m1" using boot_self_test by blast
  obtain m2 where m2: "configure_controls rm_hw boot_controls minimal_64_bit_guest m1 = (Ok (), m2)" "extends m1 m2" "rm_vmcs m2 CR3_TARGET_COUNT = 0"
    using boot_configure_controls by blast
  obtain m3 where m3: "set_ept_pointer rm_hw (ept_eptp ept) m2 = (Ok (), m3)" "quiet m2 m3" using boot_set_pointers(1) by blast
  obtain m4 where m4: "write_to_vmcs rm_hw bitmaps m3 = (Ok (), m4)" "quiet m3 m4" using boot_set_pointers(2) by blast
  have b4: "booted m4"
    using assms(1) m1(2) m2(2) m3(2) m4(2) by (meson booted_extends booted_quiet)
  obtain m5 where m5: "configure_host_state rm_hw m4 = (Ok (), m5)" "quiet m4 m5" using boot_host_state [OF b4] by blast
  obtain m6 where m6: "configure_host_entry rm_hw 0x106000 entry_rip m5 = (Ok (), m6)" "quiet m5 m6" using boot_host_entry [OF assms(2)] by blast
  have b6: "booted m6" using b4 m5(2) m6(2) by (meson booted_quiet)
  obtain s where s: "from_current rm_hw (code_base boot_guest) 0x109000 (guest_idt boot_guest) m6 = (Ok s, m6)" using boot_from_current [OF b6] by blast
  obtain m7 where m7: "write_guest_state rm_hw s m6 = (Ok (), m7)" "quiet m6 m7" using boot_write_guest_state [OF s] by blast
  have b7: "booted m7" using b6 m7(2) by (meson booted_quiet)
  have c7: "rm_vmcs m7 CR3_TARGET_COUNT = 0" using m2(3) m3(2) m4(2) m5(2) m6(2) m7(2) by (simp add: quiet_def)
  obtain log where "prepare_vmcs rm_hw entry_rip boot_controls \<lparr>stack_base = 0x102000\<rparr> boot_guest ept bitmaps b
    = report_guest_state s (b\<lparr>b_log := log, b_world := (b_world b)\<lparr>w_machine := m7\<rparr>\<rparr>)"
    by (simp add: prepare_vmcs_def and_then_run on_cpu_run vmcs_step_def guest_state_error_def log_line_def exit_stack_top_def boot_tops
        lift_result_def rm_vmread m1 m2 m3 m4 m5 m6 s m7)
  with log_guest_state [of s "b\<lparr>b_log := log, b_world := (b_world b)\<lparr>w_machine := m7\<rparr>\<rparr>"] b7 c7 show ?thesis by auto
qed

lemma boot_tables_preserved:
  assumes "booted (machine_of b)" and "ht_gdtr tables = host_gdtr" and "ht_tr tables = 0x48" and "ht_tss_base tables = 0x100000"
    and "ht_idtr tables = \<lparr>base = 0x3000, limit = 0xFFF\<rparr>"
  shows "\<exists>b'. check_host_tables_preserved rm_hw tables b = (Ok (), b') \<and> b_world b' = b_world b"
  using assms by (simp add: check_host_tables_preserved_def and_then_run on_cpu_run booted_registers Let_def log_line_def)

section \<open>Entering VMX operation\<close>

lemma log_reports:
  "fst (report_guest_mappings rm_hw boot_guest maps b) = Ok ()" "b_world (snd (report_guest_mappings rm_hw boot_guest maps b)) = b_world b"
  "fst (report_exit_bitmaps bitmaps b) = Ok ()" "b_world (snd (report_exit_bitmaps bitmaps b)) = b_world b"
  "fst (report_ept ept page b) = Ok ()" "b_world (snd (report_ept ept page b)) = b_world b"
  by (simp_all add: report_guest_mappings_def boot_tops lift_result_def report_mapping_def and_then_run log_line_def on_cpu_run rm_rdmsr
      report_exit_bitmaps_def report_ept_def)

lemma boot_supported:
  assumes "booted (machine_of b)"
  shows "fst (check_vmx_support rm_hw b) = Ok (boot_controls, SingleContext)" "b_world (snd (check_vmx_support rm_hw b)) = b_world b"
  using boot_vmx_support [OF assms] by auto

lemma boot_enter_vmx:
  assumes "booted (machine_of b)" and "rm_next (machine_of b) = 0x102000" and "w_ept (b_world b) = initial_EptStatics"
    and "length (guest_code img) \<le> 4096"
  shows "\<exists>ept bitmaps operation b'. enter_vmx rm_hw img tables b = (Ok \<lparr>e_vmexit_stack = \<lparr>stack_base = 0x102000\<rparr>, e_guest = boot_guest,
      e_ept = ept, e_bitmaps = bitmaps, e_controls = boot_controls,
      e_firmware = \<lparr>fw_gdtr = ht_firmware_gdtr tables, fw_idtr = ht_idtr tables, fw_interrupts_enabled = False\<rparr>,
      e_vmx_operation = operation\<rparr>, b') \<and>
    booted (machine_of b') \<and> rm_next (machine_of b') = 0x112000 \<and> w_exits (b_world b') = w_exits (b_world b) \<and>
    map_option pp_gpa (protected_page (w_ept (b_world b'))) = Some 0x107000"
proof -
  obtain m1 where m1: "allocate_exit_stack rm_hw (machine_of b) = (Ok \<lparr>stack_base = 0x102000\<rparr>, m1)" "rm_next m1 = 0x106000" "extends (machine_of b) m1"
    using boot_exit_stack [OF assms(2)] by blast
  obtain m2 where m2: "allocate_guest rm_hw img m1 = (Ok boot_guest, m2)" "rm_next m2 = 0x10A000" "extends m1 m2"
    using boot_allocate_guest [OF m1(2) assms(4)] by blast
  have b2: "booted m2" using assms(1) m1(3) m2(3) by (meson booted_extends)
  obtain maps where maps: "check_mappings rm_hw boot_guest m2 = (Ok maps, m2)" using boot_check_mappings [OF b2] by blast
  obtain bitmaps m3 where m3: "allocate_bitmaps rm_hw m2 = (Ok bitmaps, m3)" "rm_next m3 = 0x10D000" "extends m2 m3"
    using boot_bitmaps [OF m2(2)] by blast
  have b3: "booted m3" using b2 m3(3) by (rule booted_extends)
  obtain ept m4 s where m4: "build rm_hw 0x107000 SingleContext (m3, initial_EptStatics) = (Ok ept, (m4, s))" "rm_next m4 = 0x111000" "extends m3 m4"
    "map_option pp_gpa (protected_page s) = Some 0x107000"
    using boot_build [OF b3 m3(2)] by blast
  have b4: "booted m4" using b3 m4(3) by (rule booted_extends)
  obtain operation m5 where m5: "enter_vmx_root_operation rm_hw m4 = (Ok operation, m5)" "rm_next m5 = 0x112000" "extends m4 m5"
    using boot_vmxon [OF b4 m4(2)] by blast
  have b5: "booted m5" using b4 m5(3) by (rule booted_extends)
  have page: "data_page boot_guest = 0x107000" by (simp add: data_page_def boot_guest_def code_base_def PAGE_SIZE_def)
  have i: "interrupts_enabled rm_hw m = False" for m by (simp add: interrupts_enabled_def rm_hw_def RFLAGS_IF_def)
  show ?thesis
    using b3 b5 m4(4) m5(2) assms(3)
    by (simp add: enter_vmx_def and_then_run on_cpu_run map_err_run log_line_def exit_stack_top_def boot_tops lift_result_def m1 m2 maps m3
        log_reports boot_supported page on_ept_def on_world_def m4(1) i m5(1) Let_def split_beta)
qed

section \<open>The guest\<close>

text \<open>The sample run of \<open>Exit_Run\<close>, as VMCS contents and register frames of the reference machine.\<close>

definition sample_guest :: "(machine \<times> RegisterFrame) list" where
  "sample_guest =
     (let exit = (\<lambda>reason rax rcx rdx q.
        (rm_init\<lparr>rm_vmcs := (\<lambda>_. 0)(VM_EXIT_REASON := reason, EXIT_QUALIFICATION := q, GUEST_PHYSICAL_ADDRESS := 0x107010,
           GUEST_RIP := 0x4000, VM_EXIT_INSTRUCTION_LEN := 2)\<rparr>,
         \<lparr>reg_rax = rax, reg_rbx = 0, reg_rcx = rcx, reg_rdx = rdx, reg_rsi = 0, reg_rdi = 0, reg_rbp = 0, reg_r8 = 0,
          reg_r9 = 0, reg_r10 = 0, reg_r11 = 0, reg_r12 = 0, reg_r13 = 0, reg_r14 = 0, reg_r15 = 0\<rparr>))
      in [exit 10 1 0 0 0, exit 31 0 0xC0000102 0 0, exit 31 0 0xC0000102 0 0, exit 32 0x1000 0xC0000102 0 0,
          exit 32 0x2000 0xC0000102 0 0, exit 30 0 0 0 0x3FF0008, exit 30 0 0 0 0x3FF0009, exit 30 0x5A 0 0 0x3FF0000,
          exit 30 0xA55A 0 0 0x3FF0001, exit 48 0 0 0 0x18A,
          exit 18 0xA1E0 (ucast GUEST_DATA_SEED) (ucast GUEST_EPT_VALUE) 0, exit 18 0xA1E1 0 0 0])"

definition sample_world :: "machine world" where
  "sample_world = \<lparr>w_machine = rm_init,
     w_ept = \<lparr>PROTECTED_GPA = 0x107000, PROTECTED_ENTRY = 0x110838, PUBLISHED_EPTP = 0x10001E, INVEPT_TYPE = 1\<rparr>,
     w_exits = initial_ExitStatics, PHASE = 1, w_serial = []\<rparr>"

lemma sample_guest_exits:
  "map (\<lambda>(m, frame). exit_info_of (rm_vmcs m) (w_ept sample_world) frame) sample_guest = sample_emulated @ sample_main"
  by (simp add: sample_guest_def sample_emulated_def sample_main_def sample_exit_def sample_world_def exit_info_of_def
      from_raw_def is_ept_exit_def protected_page_def decode_invept_def is_valid_def field_defs const_defs)

text \<open>
  The sample guest as a script: each time it runs, the VMCS holds its next exit. Its position is kept in a VMCS field that
  bring-up clears and the exits leave alone; the rest of the machine is as the guest found it.
\<close>

definition sample_script :: "RegisterFrame \<Rightarrow> machine \<Rightarrow> RegisterFrame \<times> machine" where
  "sample_script _ m =
     (case sample_guest ! unat (rm_vmcs m CR3_TARGET_COUNT) of (m', frame) \<Rightarrow>
        (frame, m\<lparr>rm_vmcs := (rm_vmcs m')(CR3_TARGET_COUNT := rm_vmcs m CR3_TARGET_COUNT + 1)\<rparr>))"

lemma exit_info_of_page:
  "map_option pp_gpa (protected_page ept) = map_option pp_gpa (protected_page ept') \<Longrightarrow> exit_info_of fld ept frame = exit_info_of fld ept' frame"
  by (auto simp: exit_info_of_def Let_def split: option.splits)

lemma sample_page: "map_option pp_gpa (protected_page (w_ept sample_world)) = Some 0x107000"
  by (simp add: sample_world_def protected_page_def decode_invept_def const_defs)

lemma sample_script_exits:
  assumes "map_option pp_gpa (protected_page ept) = Some 0x107000"
    and "i < length (sample_emulated @ sample_main)" and "unat (rm_vmcs m CR3_TARGET_COUNT) = i"
  shows "unat (rm_vmcs (snd (sample_script f m)) CR3_TARGET_COUNT) = Suc i \<and>
    exit_info_of (rm_vmcs (snd (sample_script f m))) ept (fst (sample_script f m)) = (sample_emulated @ sample_main) ! i"
proof -
  have len: "length sample_guest = length (sample_emulated @ sample_main)" using sample_guest_exits by (metis length_map)
  have small: "length (sample_emulated @ sample_main) \<le> 12" by (simp add: sample_emulated_def sample_main_def)
  obtain m' frame where g: "sample_guest ! i = (m', frame)" by fastforce
  have "exit_info_of (rm_vmcs m') (w_ept sample_world) frame = (sample_emulated @ sample_main) ! i"
    using arg_cong [OF sample_guest_exits, of "\<lambda>xs. xs ! i"] assms(2) len g by simp
  then have "exit_info_of (rm_vmcs m') ept frame = (sample_emulated @ sample_main) ! i"
    using exit_info_of_page [of ept "w_ept sample_world"] sample_page assms(1) by simp
  moreover have "exit_info_of ((rm_vmcs m')(CR3_TARGET_COUNT := v)) ept frame = exit_info_of (rm_vmcs m') ept frame" for v
    by (simp add: exit_info_of_def is_ept_exit_def field_defs Let_def)
  moreover have "unat (rm_vmcs m CR3_TARGET_COUNT + 1) = Suc i" using assms(2,3) small by (simp add: unat_word_ariths)
  ultimately show ?thesis using assms(3) g by (simp add: sample_script_def)
qed

lemma script_launch:
  assumes "rm_vmcs (w_machine w) CR3_TARGET_COUNT = 0" and "w_exits w = initial_ExitStatics"
    and "map_option pp_gpa (protected_page (w_ept w)) = Some 0x107000"
  shows "\<exists>v k w'. launch_run 12 rm_hw (\<lambda>_. Pair None) (\<lambda>_. Pair None) sample_script frame w = Some (Ok v, w') \<and> decode v = GuestFinished k"
proof -
  have keep: "unat (plan_fields plan fld CR3_TARGET_COUNT) = unat (fld CR3_TARGET_COUNT)" for plan fld
    by (simp add: plan_fields_def Let_def field_defs split: option.split)
  have start: "r_state start_run = load_state (w_exits w)" "r_stopped start_run = None"
    by (simp_all add: start_run_def default_ExitState_def load_state_def initial_ExitStatics_def assms(2))
  have len: "length (sample_emulated @ sample_main) = 12" by (simp add: sample_emulated_def sample_main_def)
  show ?thesis
    using exit_hardware.exits_run_follows [where cnt = "\<lambda>fld. unat (fld CR3_TARGET_COUNT)", OF rm_exits.exit_hardware_axioms
        sample_script_exits [OF assms(3)] keep refl start, where n = 12 and frame = frame] assms(1) len sample_stopped
    by (simp add: launch_run_def)
qed

lemma sample_launch:
  "\<exists>v k w'. launch_run 12 rm_hw (\<lambda>_. Pair None) (\<lambda>_. Pair None) sample_script frame sample_world = Some (Ok v, w') \<and>
     decode v = GuestFinished k"
  by (rule script_launch [OF _ _ sample_page]) (simp_all add: sample_world_def rm_init_def)

section \<open>The whole run\<close>

abbreviation boot_launch :: "machine world \<Rightarrow> u64 \<times> machine world" where
  "boot_launch \<equiv> launched 12 rm_hw (\<lambda>_. Pair None) (\<lambda>_. Pair None) sample_script (snd (hd sample_guest))"

lemma boot_launched:
  assumes "rm_vmcs (machine_of b) CR3_TARGET_COUNT = 0" and "w_exits (b_world b) = initial_ExitStatics"
    and "map_option pp_gpa (protected_page (w_ept (b_world b))) = Some 0x107000"
  shows "\<exists>k b'. launch_in_world rm_hw boot_launch b = (Ok (GuestFinished k), b')"
proof -
  obtain v k w' where "launch_run 12 rm_hw (\<lambda>_. Pair None) (\<lambda>_. Pair None) sample_script (snd (hd sample_guest)) (b_world b) = Some (Ok v, w')"
    "decode v = GuestFinished k"
    using script_launch [OF assms] by blast
  then show ?thesis by (simp add: launch_in_world_def on_world_def launched_def launch_def)
qed

lemma boot_launch_guest:
  assumes "booted (machine_of b)" and "entry_rip \<noteq> 0" and "w_exits (b_world b) = initial_ExitStatics"
    and "map_option pp_gpa (protected_page (w_ept (b_world b))) = Some 0x107000"
    and "ht_gdtr tables = host_gdtr" and "ht_tr tables = 0x48" and "ht_tss_base tables = 0x100000"
    and "ht_idtr tables = \<lparr>base = 0x3000, limit = 0xFFF\<rparr>"
  shows "\<exists>k b'. launch_guest rm_hw entry_rip boot_launch boot_controls \<lparr>stack_base = 0x102000\<rparr> boot_guest ept bitmaps tables b = (Ok k, b')"
proof -
  obtain b1 where b1: "prepare_vmcs rm_hw entry_rip boot_controls \<lparr>stack_base = 0x102000\<rparr> boot_guest ept bitmaps b = (Ok (), b1)"
    "booted (machine_of b1)" "rm_vmcs (machine_of b1) CR3_TARGET_COUNT = 0" "b_world b1 = (b_world b)\<lparr>w_machine := machine_of b1\<rparr>"
    using boot_prepare_vmcs [OF assms(1,2)] by blast
  obtain b2 where b2: "check_host_tables_preserved rm_hw tables b1 = (Ok (), b2)" "b_world b2 = b_world b1"
    using boot_tables_preserved [OF b1(2) assms(5-8)] by blast
  have world: "w_exits (b_world b1) = w_exits (b_world b)" "w_ept (b_world b1) = w_ept (b_world b)"
    using arg_cong [OF b1(4), of w_exits] arg_cong [OF b1(4), of w_ept] by simp_all
  have i8: "inb rm_hw p m = (Ok (fst (i_in8 rm_hw p m)), m)" for p m by (simp add: inb_def split_beta) (simp add: rm_hw_def)
  have pass: "on_cpu (read_passthrough_state rm_hw) b = (Ok \<lparr>pt_kernel_gs_base = rm_msr (machine_of b) IA32_KERNEL_GS_BASE,
      pt_com1_scratch = fst (i_in8 rm_hw GUEST_SCRATCH_PORT (machine_of b))\<rparr>, b)" for b :: "machine bring_up"
    by (simp add: read_passthrough_state_def and_then_run on_cpu_run rm_rdmsr i8) (simp add: const_defs)
  define b3 where "b3 = b2\<lparr>b_log := b_log b2 @
    [(Log ''Launching the guest with VMLAUNCH; its VM exits are reported on serial only.'' [], console_allowed (b_world b2))]\<rparr>"
  have w3: "b_world b3 = b_world b1" by (simp add: b3_def b2(2))
  obtain k b4 where b4: "(launch_in_world rm_hw boot_launch :: (machine bring_up, BringUpError, GuestStop) action) b3 = (Ok (GuestFinished k), b4)"
    using boot_launched [of b3] w3 b1(3) world assms(3,4) by auto
  show ?thesis
    by (simp add: launch_guest_def and_then_run b1(1) b2(1) pass lift_result_def report_passthrough_state_def log_line_def b3_def [symmetric] b4)
qed

lemma boot_teardown: "\<exists>b'. teardown rm_hw operation (Some region) firmware b = (Ok (), b')"
proof -
  have "vmclear rm_hw region m = (Ok (), m)" "vmxoff rm_hw m = (Ok (), m)" for m
    by (simp_all add: vmclear_def vmxoff_def map_err_run vmx_asm_def) (simp_all add: rm_hw_def)
  then show ?thesis
    by (simp add: teardown_def and_then_run on_cpu_run catch_error_run map_err_run leave_def log_failure_def log_line_def
        teardown_report_def on_world_def split_beta)
qed

lemma boot_run:
  assumes "machine_of b = booting out" and "w_ept (b_world b) = initial_EptStatics" and "w_exits (b_world b) = initial_ExitStatics"
    and "entry_rip \<noteq> 0" and "length (guest_code img) \<le> 4096"
  shows "\<exists>k b'. run rm_hw img entry_rip boot_launch b = (Ok k, b')"
proof -
  obtain tables b1 where b1: "activate_host_tables rm_hw b = (Ok tables, b1)" "booted (machine_of b1)"
    "rm_next (machine_of b1) = 0x102000" "b_world b1 = (b_world b)\<lparr>w_machine := machine_of b1\<rparr>"
    "ht_gdtr tables = host_gdtr" "ht_tr tables = 0x48" "ht_tss_base tables = 0x100000" "ht_idtr tables = \<lparr>base = 0x3000, limit = 0xFFF\<rparr>"
    using boot_activate [OF assms(1)] by metis
  obtain b2 where b2: "(report_segment_state rm_hw :: (machine bring_up, BringUpError, unit) action) b1 = (Ok (), b2)" "b_world b2 = b_world b1"
    using b1(2) by (simp add: report_segment_state_def and_then_run on_cpu_run booted_reads log_line_def)
  have statics: "w_ept (b_world b2) = initial_EptStatics" "w_exits (b_world b2) = initial_ExitStatics"
    using arg_cong [OF b1(4), of w_ept] arg_cong [OF b1(4), of w_exits] b2(2) assms(2,3) by simp_all
  obtain ept bitmaps operation firmware b3 where b3: "enter_vmx rm_hw img tables b2 = (Ok \<lparr>e_vmexit_stack = \<lparr>stack_base = 0x102000\<rparr>,
      e_guest = boot_guest, e_ept = ept, e_bitmaps = bitmaps, e_controls = boot_controls, e_firmware = firmware, e_vmx_operation = operation\<rparr>, b3)"
    "booted (machine_of b3)" "rm_next (machine_of b3) = 0x112000" "w_exits (b_world b3) = initial_ExitStatics"
    "map_option pp_gpa (protected_page (w_ept (b_world b3))) = Some 0x107000"
    using boot_enter_vmx [of b2 img tables] b1(2,3) b2(2) statics assms(5) by auto
  obtain region m4 where m4: "create_current rm_hw (machine_of b3) = (Ok region, m4)" "extends (machine_of b3) m4"
    using boot_create_current [OF b3(2,3)] by blast
  let ?b4 = "b3\<lparr>b_world := (b_world b3)\<lparr>w_machine := m4\<rparr>\<rparr>"
  obtain k b5 where b5: "launch_guest rm_hw entry_rip boot_launch boot_controls \<lparr>stack_base = 0x102000\<rparr> boot_guest ept bitmaps tables ?b4 = (Ok k, b5)"
    using boot_launch_guest [of ?b4 entry_rip tables ept bitmaps] booted_extends [OF b3(2) m4(2)] assms(4) b3(4,5) b1(5-8) by auto
  obtain b6 where "teardown rm_hw operation (Some region) firmware b5 = (Ok (), b6)" using boot_teardown by blast
  then show ?thesis
    by (simp add: run_def and_then_run b1(1) b2(1) b3(1) after_vmxon_def on_cpu_run vmcs_step_def m4(1) b5)
qed

text \<open>From the firmware's call of the entry point, with firmware calls that succeed.\<close>

lemma rm_poll_received: "poll_received rm_hw SPIN_LIMIT m = (Ok (Some PROBE), m)"
proof -
  have p: "poll_received rm_hw (Suc n) m = (Ok (Some PROBE), m)" for n
    by (simp add: and_then_def inb_def rm_hw_def const_defs)
  have e: "SPIN_LIMIT = Suc 99999" by (simp add: SPIN_LIMIT_def)
  show ?thesis unfolding e by (rule p)
qed

lemma rm_init_serial: "\<exists>s1 out. init rm_hw s = (Ok (), s1) \<and> s_machine s1 = (s_machine s)\<lparr>rm_out := out\<rparr>"
proof -
  have o: "i_out8 rm_hw p v m = m\<lparr>rm_out := rm_out m @ [(p, ucast v)]\<rparr>" for p v m by (simp add: rm_hw_def)
  show ?thesis
    by (simp add: init_def and_then_run divisor_115200 on_uart_def split_beta outb_def Let_def rm_poll_received o) blast
qed

definition boot_uefi :: "machine uefi" where
  "boot_uefi = \<lparr>helpers_init = Pair True, create_event = Pair True, set_timer = Pair True, wait_for_event = Pair True, close_event = Pair True\<rparr>"

definition boot_program :: "machine program" where
  "boot_program = \<lparr>p_bring_up = \<lparr>b_world = \<lparr>w_machine = rm_boot, w_ept = initial_EptStatics, w_exits = initial_ExitStatics, PHASE = 0, w_serial = []\<rparr>,
     b_log = []\<rparr>, p_READY = False, PANICKING = False\<rparr>"

lemma boot_main:
  assumes "entry_rip \<noteq> 0" and "length (guest_code img) \<le> 4096"
  shows "\<exists>p'. (main rm_hw boot_uefi img entry_rip boot_launch :: (machine program, unit, Status) action) boot_program = (Ok SUCCESS, p')"
proof -
  obtain s1 out where s1: "init rm_hw \<lparr>s_machine = rm_boot, READY = False\<rparr> = (Ok (), s1)" "s_machine s1 = booting out"
    using rm_init_serial [of "\<lparr>s_machine = rm_boot, READY = False\<rparr>"] by auto
  have r: "\<exists>p'. (bring_up_status rm_hw img entry_rip boot_launch :: (machine program, unit, Status) action) p = (Ok SUCCESS, p')"
    if "machine_of (p_bring_up p) = booting out" "w_ept (b_world (p_bring_up p)) = initial_EptStatics"
      "w_exits (b_world (p_bring_up p)) = initial_ExitStatics" for p
    using boot_run [OF that assms] by (auto simp: bring_up_status_def on_bring_up_def and_then_run log_program_def log_line_def)
  have t: "fst ((check_firmware_timer boot_uefi :: (machine program, unit, unit) action) p) = Ok ()" for p
    by (simp add: check_firmware_timer_def and_then_run log_program_def log_line_def uefi_call_def on_bring_up_def on_cpu_run boot_uefi_def split_beta)
  define p2 where "p2 = snd (and_then (on_serial (catch_error (init rm_hw))) (\<lambda>serial.
     and_then (log_program ''Initializing UEFI helpers...'' []) (\<lambda>_.
     and_then (uefi_call (helpers_init boot_uefi)) (\<lambda>ok.
     and_then (log_program ''UEFI helpers initialized successfully.'' []) (\<lambda>_.
     case serial of
           None \<Rightarrow> log_program ''Serial output enabled on COM1'' [ucast COM1]
         | Some _ \<Rightarrow> log_program ''Serial output disabled; console only.'' [])))) boot_program :: (unit, unit) result \<times> machine program)"
  have "machine_of (p_bring_up p2) = booting out" "w_ept (b_world (p_bring_up p2)) = initial_EptStatics"
      "w_exits (b_world (p_bring_up p2)) = initial_ExitStatics"
    by (simp_all add: p2_def and_then_run on_serial_def catch_error_run boot_program_def s1 log_program_def on_bring_up_def log_line_def uefi_call_def on_cpu_run boot_uefi_def)
  from r [OF this] obtain p3 where p3: "(bring_up_status rm_hw img entry_rip boot_launch :: (machine program, unit, Status) action) p2 = (Ok SUCCESS, p3)" by blast
  have "(main rm_hw boot_uefi img entry_rip boot_launch :: (machine program, unit, Status) action) boot_program =
     and_then (bring_up_status rm_hw img entry_rip boot_launch) (\<lambda>status.
       and_then (check_firmware_timer boot_uefi) (\<lambda>_.
       and_then (log_program ''Returning to firmware with status'' [truth (status = SUCCESS)]) (\<lambda>_.
       ret status))) p2"
    by (simp add: main_def p2_def and_then_run on_serial_def catch_error_run boot_program_def s1 log_program_def on_bring_up_def log_line_def uefi_call_def on_cpu_run boot_uefi_def)
  also have "\<exists>p'. \<dots> = (Ok SUCCESS, p')"
    by (simp add: and_then_run p3 t) (simp add: log_program_def on_bring_up_def log_line_def)
  finally show ?thesis .
qed

end
