(* ===== verification/Debug_Build.thy ===== *)
theory Debug_Build
  imports Handler_Spec
begin

text \<open>
  The exit path in the debug profile, where \<open>+\<close> panics when it overflows: the same code as in
  \<open>Exit_Decision\<close> and \<open>Handler\<close> (\<open>vmx/exit_decision/{emulation,scenario,mod}.rs\<close>,
  \<open>vmx/vmexit/handler.rs\<close>), each addition checked. A panic of a decision is \<open>None\<close>, a panic of an action
  is \<open>Panic\<close> with the state at the panic. The lemmas say exactly when the two profiles part: at a counter
  that is full, at the last exit number, and at a guest RIP moved past the end of the address space.
\<close>

section \<open>Checked additions\<close>

definition debug_add :: "'a::len word \<Rightarrow> 'a word \<Rightarrow> 'a word option" where
  "debug_add a b = (if unat a + unat b < 2 ^ LENGTH('a) then Some (a + b) else None)"

lemma debug_add_one: "debug_add a 1 = (if a = - 1 then None else Some (a + 1))" for a :: "'a::len word"
proof -
  have "a = - 1 \<longleftrightarrow> unat a = 2 ^ LENGTH('a) - 1" by (simp add: unat_max word_unat_eq_iff)
  then have "unat a + unat (1 :: 'a word) < 2 ^ LENGTH('a) \<longleftrightarrow> a \<noteq> - 1"
    using unat_lt [of a] by (auto simp del: unsigned_less)
  then show ?thesis by (simp add: debug_add_def)
qed

section \<open>The decision\<close>

definition cpuid_debug :: "ExitState \<Rightarrow> ExitInfo \<Rightarrow> (ExitEvent \<times> ExitState) option" where
  "cpuid_debug state exit =
     map_option (\<lambda>n. (Emulated (Cpuid (ucast (ei_guest_rax exit)) (ucast (ei_guest_rcx exit))),
         counted state (\<lambda>counts. counts\<lparr>n_cpuid := n\<rparr>)))
       (debug_add (n_cpuid (emulated state)) 1)"

definition rdmsr_exit_debug :: "ExitState \<Rightarrow> ExitInfo \<Rightarrow> (ExitEvent \<times> ExitState) option" where
  "rdmsr_exit_debug state exit =
     (let msr = ucast (ei_guest_rcx exit)
      in case route msr of
           Intercepted \<Rightarrow> map_option (\<lambda>n. (Emulated (Rdmsr msr), counted state (\<lambda>counts. counts\<lparr>n_rdmsr := n\<rparr>)))
             (debug_add (n_rdmsr (emulated state)) 1)
         | OutOfRange \<Rightarrow> Some (GuestGeneralProtection, state)
         | NotIntercepted \<Rightarrow> Some (Unexpected, state))"

definition wrmsr_exit_debug :: "ExitState \<Rightarrow> ExitInfo \<Rightarrow> (ExitEvent \<times> ExitState) option" where
  "wrmsr_exit_debug state exit =
     (let msr = ucast (ei_guest_rcx exit);
          value = push_bit 32 (ei_guest_rdx exit) OR (ei_guest_rax exit AND 0xFFFFFFFF)
      in case route msr of
           Intercepted \<Rightarrow>
             if \<not> is_canonical_48 value then Some (GuestGeneralProtection, state)
             else map_option (\<lambda>n. (Emulated (Wrmsr msr value), counted state (\<lambda>counts. counts\<lparr>n_wrmsr := n\<rparr>)))
               (debug_add (n_wrmsr (emulated state)) 1)
         | OutOfRange \<Rightarrow> Some (GuestGeneralProtection, state)
         | NotIntercepted \<Rightarrow> Some (Unexpected, state))"

definition io_debug :: "ExitState \<Rightarrow> ExitInfo \<Rightarrow> (ExitEvent \<times> ExitState) option" where
  "io_debug state exit =
     (let q = ei_qualification exit
      in case io_size q of
           None \<Rightarrow> Some (Unexpected, state)
         | Some sz \<Rightarrow>
             if is_string q \<or> is_rep q then Some (Unexpected, state)
             else let port = io_port q
                  in if is_in q
                     then map_option (\<lambda>n. (Emulated (In port sz), counted state (\<lambda>counts. counts\<lparr>n_io_in := n\<rparr>)))
                            (debug_add (n_io_in (emulated state)) 1)
                     else map_option (\<lambda>n. (Emulated (Out port sz (out_value (ei_guest_rax exit) sz)),
                              counted state (\<lambda>counts. counts\<lparr>n_io_out := n\<rparr>)))
                            (debug_add (n_io_out (emulated state)) 1))"

definition injected_debug :: "ExitState \<Rightarrow> ExitState option" where
  "injected_debug state =
     map_option (\<lambda>n. state\<lparr>nmi_pending := False, nmis_injected := n\<rparr>) (debug_add (nmis_injected state) 1)"

definition exception_or_nmi_debug :: "ExitState \<Rightarrow> ExitInfo \<Rightarrow> (ExitEvent \<times> ExitState) option" where
  "exception_or_nmi_debug state exit =
     (if \<not> is_nmi (ei_interruption_info exit) then Some (Unexpected, state)
      else if ei_interruptibility exit AND NMI_INJECTION_BLOCKED = 0
      then map_option (Pair NmiInjected) (injected_debug state)
      else Some (NmiDeferred, state\<lparr>nmi_pending := True\<rparr>))"

definition nmi_window_debug :: "ExitState \<Rightarrow> ExitInfo \<Rightarrow> (ExitEvent \<times> ExitState) option" where
  "nmi_window_debug state exit =
     (if \<not> nmi_pending state then Some (Unexpected, state)
      else if ei_interruptibility exit AND NMI_INJECTION_BLOCKED \<noteq> 0 then Some (NmiDeferred, state)
      else map_option (Pair NmiWindowInjected) (injected_debug state))"

definition vmcall_debug :: "ExitState \<Rightarrow> ExitInfo \<Rightarrow> (ExitEvent \<times> ExitState) option" where
  "vmcall_debug state exit =
     (if ei_guest_rax exit = ucast GUEST_NMI_MARKER
      then map_option (\<lambda>n. (GuestNmiHandler, state\<lparr>nmis_handled := n\<rparr>)) (debug_add (nmis_handled state) 1)
      else case debug_add (ucast GUEST_MARKER) (ucast (main_vmcalls state)) of
        None \<Rightarrow> None
      | Some expected \<Rightarrow>
      if ei_guest_rax exit \<noteq> expected then Some (Unexpected, state)
      else if ept_writes_granted state = 0 then Some (EptWriteMissing, state)
      else if main_vmcalls state = 0 \<and> \<not> data_page_read_back exit then Some (DataPageMismatch, state)
      else case debug_add (main_vmcalls state) 1 of
        None \<Rightarrow> None
      | Some n \<Rightarrow>
          let next = state\<lparr>main_vmcalls := n\<rparr>
          in Some (if main_vmcalls next < PLANNED_MAIN_VMCALLS then (MainVmcall, next)
                   else if emulated state \<noteq> EXPECTED_EMULATION then (EmulationMissing, state)
                   else (LastMainVmcall, next)))"

definition decide_debug :: "ExitState \<Rightarrow> ExitInfo \<Rightarrow> (ExitEvent \<times> ExitState) option" where
  "decide_debug state exit =
     (let basic = er_basic (ei_reason exit)
      in if er_entry_failure (ei_reason exit) then Some (Unexpected, state)
         else if ei_idt_vectoring_valid exit then Some (InterruptedDelivery, state)
         else if basic = EXIT_REASON_CPUID then cpuid_debug state exit
         else if basic = EXIT_REASON_RDMSR then rdmsr_exit_debug state exit
         else if basic = EXIT_REASON_WRMSR then wrmsr_exit_debug state exit
         else if basic = EXIT_REASON_IO_INSTRUCTION then io_debug state exit
         else if basic = EXIT_REASON_EXCEPTION_OR_NMI then exception_or_nmi_debug state exit
         else if basic = EXIT_REASON_NMI_WINDOW then nmi_window_debug state exit
         else if basic = EXIT_REASON_EPT_VIOLATION then Some (ept_violation state exit)
         else if basic = EXIT_REASON_VMCALL then vmcall_debug state exit
         else Some (Unexpected, state))"

section \<open>The handler\<close>

definition judge_debug :: "ExitInfo option \<Rightarrow> ('m, ExitEvent \<times> ExitState) exit_action" where
  "judge_debug exit w =
     (let state = load_state (w_exits w)
      in case (case exit of Some x \<Rightarrow> decide_debug state x | None \<Rightarrow> Some (Unexpected, state)) of
           None \<Rightarrow> (Panic, w)
         | Some (event, next) \<Rightarrow> (Ok (event, next), w\<lparr>w_exits := store_state next (w_exits w)\<rparr>))"

definition advance_guest_rip_debug :: "'m platform \<Rightarrow> u64 \<Rightarrow> u64 \<Rightarrow> u64 option \<Rightarrow> ('m, u64) resume_action" where
  "advance_guest_rip_debug hw number rip advance_by =
     (case advance_by of
        Some n \<Rightarrow>
          (case debug_add rip n of
             None \<Rightarrow> panic_with
           | Some target \<Rightarrow>
               and_then (on_machine (or_stop (vmwrite hw GUEST_RIP target) (L_advance_failed number))) (\<lambda>_. ret target))
      | None \<Rightarrow> ret rip)"

definition resume_steps_debug ::
  "'m platform \<Rightarrow> u64 \<Rightarrow> u64 option \<Rightarrow> u64 option \<Rightarrow> ResumePlan \<Rightarrow> ProtectedPage option \<Rightarrow>
   ('m, Resumed) resume_action" where
  "resume_steps_debug hw number rip len plan prot =
     (case rip of
        None \<Rightarrow> throw (L_rip_unreadable number)
      | Some rip \<Rightarrow>
     (case (if advance_rip plan then (case len of None \<Rightarrow> None | Some n \<Rightarrow> Some (Some n)) else Some None) of
        None \<Rightarrow> throw (L_length_unreadable number)
      | Some advance_by \<Rightarrow>
     and_then (emulate_instruction hw plan) (\<lambda>emulated'.
     and_then (advance_guest_rip_debug hw number rip advance_by) (\<lambda>resume_rip.
     and_then (queue_nmi hw number plan) (\<lambda>_.
     and_then (queue_gp hw number plan) (\<lambda>_.
     and_then (switch_nmi_window hw number plan) (\<lambda>_.
     and_then (grant_protected_page hw number plan prot) (\<lambda>invept.
     ret \<lparr>rs_rip = resume_rip, rs_invept = invept, rs_emulated = emulated'\<rparr>))))))))"

definition prepare_resume_debug ::
  "'m platform \<Rightarrow> u64 \<Rightarrow> u64 option \<Rightarrow> u64 option \<Rightarrow> ResumePlan \<Rightarrow> ProtectedPage option \<Rightarrow> RegisterFrame \<Rightarrow>
   ('m, Resumed option \<times> RegisterFrame) exit_action" where
  "prepare_resume_debug hw number rip len plan prot frame w =
     (case resume_steps_debug hw number rip len plan prot (w, frame) of
        (Ok resumed, (w', frame')) \<Rightarrow> (Ok (Some resumed, frame'), w')
      | (Err line, (w', frame')) \<Rightarrow> and_then (serial_println (StopLine line)) (\<lambda>_. ret (None, frame')) w'
      | (Panic, (w', frame')) \<Rightarrow> (Panic, w'))"

definition apply_event_debug ::
  "'m platform \<Rightarrow> u64 \<Rightarrow> ExitEvent \<Rightarrow> ExitRead \<Rightarrow> ExitState \<Rightarrow> RegisterFrame \<Rightarrow>
   ('m, ExitAction \<times> RegisterFrame) exit_action" where
  "apply_event_debug hw number event read next frame =
     and_then (case event_action event of
          Resume plan \<Rightarrow>
            and_then (prepare_resume_debug hw number (xr_rip read) (xr_length read) plan (xr_protected read) frame)
              (\<lambda>(resumed, frame').
            case resumed of
              Some resumed \<Rightarrow>
                and_then (report_event number event (xr_exit read) next (Some resumed)) (\<lambda>_. ret (Resume plan, frame'))
            | None \<Rightarrow> ret (UnexpectedStop, frame'))
        | stop \<Rightarrow>
            and_then (report_event number event (xr_exit read) next None) (\<lambda>_. ret (stop, frame))) (\<lambda>(act, frame').
     and_then (case act of
          Resume _ \<Rightarrow> ret ()
        | _ \<Rightarrow> serial_println (StopLine (L_stopping number))) (\<lambda>_.
     ret (act, frame')))"

text \<open>\<open>fetch_add\<close> wraps the static in every profile; the \<open>+ 1\<close> on the value it returns is the checked one.\<close>

definition vmexit_handler_debug :: "'m platform \<Rightarrow> RegisterFrame \<Rightarrow> ('m, u64 \<times> RegisterFrame) exit_action" where
  "vmexit_handler_debug hw frame =
     and_then (set_phase VmExit) (\<lambda>_.
     and_then (gets (\<lambda>w. EXIT_COUNT (w_exits w))) (\<lambda>old.
     and_then (modify (\<lambda>w. w\<lparr>w_exits := (w_exits w)\<lparr>EXIT_COUNT := EXIT_COUNT (w_exits w) + 1\<rparr>\<rparr>)) (\<lambda>_.
     case debug_add old 1 of
       None \<Rightarrow> panic_with
     | Some number \<Rightarrow>
     and_then (read_exit hw number frame) (\<lambda>read.
     and_then (judge_debug (xr_exit read)) (\<lambda>(event, next).
     and_then (apply_event_debug hw number event read next frame) (\<lambda>(act, frame').
     ret (stub_return act number (case xr_raw_reason read of Some raw \<Rightarrow> raw | None \<Rightarrow> ucast UNREADABLE_REASON),
          frame')))))))"

section \<open>When the decision panics\<close>

fun counter_full :: "ExitState \<Rightarrow> ExitEvent \<Rightarrow> bool" where
  "counter_full st (Emulated (Cpuid _ _)) \<longleftrightarrow> n_cpuid (emulated st) = - 1"
| "counter_full st (Emulated (Rdmsr _)) \<longleftrightarrow> n_rdmsr (emulated st) = - 1"
| "counter_full st (Emulated (Wrmsr _ _)) \<longleftrightarrow> n_wrmsr (emulated st) = - 1"
| "counter_full st (Emulated (In _ _)) \<longleftrightarrow> n_io_in (emulated st) = - 1"
| "counter_full st (Emulated (Out _ _ _)) \<longleftrightarrow> n_io_out (emulated st) = - 1"
| "counter_full st NmiInjected \<longleftrightarrow> nmis_injected st = - 1"
| "counter_full st NmiWindowInjected \<longleftrightarrow> nmis_injected st = - 1"
| "counter_full st GuestNmiHandler \<longleftrightarrow> nmis_handled st = - 1"
| "counter_full st MainVmcall \<longleftrightarrow> main_vmcalls st = - 1"
| "counter_full st _ \<longleftrightarrow> False"

lemma expected_main_rax_debug: "debug_add (ucast GUEST_MARKER) (ucast (main_vmcalls st)) = Some (expected_main_rax st)"
proof -
  have "unat (ucast GUEST_MARKER :: u64) + unat (ucast (main_vmcalls st) :: u64) < 2 ^ 64"
    using unat_lt [of "main_vmcalls st"] unat_lt [of GUEST_MARKER] by (simp add: unsigned_ucast_eq take_bit_nat_eq_self)
  then show ?thesis by (simp add: debug_add_def expected_main_rax_def)
qed

lemma decide_debug_eq:
  "decide_debug st x = (if counter_full st (fst (decide st x)) then None else Some (decide st x))"
proof -
  note dbg = cpuid_debug_def rdmsr_exit_debug_def wrmsr_exit_debug_def io_debug_def injected_debug_def
    exception_or_nmi_debug_def nmi_window_debug_def debug_add_one
  note rel = cpuid_def rdmsr_exit_def wrmsr_exit_def io_def injected_def exception_or_nmi_def nmi_window_def counted_def
  have "cpuid_debug st x = (if counter_full st (fst (cpuid st x)) then None else Some (cpuid st x))"
    "rdmsr_exit_debug st x = (if counter_full st (fst (rdmsr_exit st x)) then None else Some (rdmsr_exit st x))"
    "wrmsr_exit_debug st x = (if counter_full st (fst (wrmsr_exit st x)) then None else Some (wrmsr_exit st x))"
    "io_debug st x = (if counter_full st (fst (io st x)) then None else Some (io st x))"
    "exception_or_nmi_debug st x = (if counter_full st (fst (exception_or_nmi st x)) then None else Some (exception_or_nmi st x))"
    "nmi_window_debug st x = (if counter_full st (fst (nmi_window st x)) then None else Some (nmi_window st x))"
    by (simp_all add: dbg rel Let_def split: MsrRoute.split option.split)
  moreover have "vmcall_debug st x = (if counter_full st (fst (vmcall st x)) then None else Some (vmcall st x))"
    by (simp add: vmcall_debug_def vmcall_def expected_main_rax_debug debug_add_one Let_def PLANNED_MAIN_VMCALLS_def)
  moreover have "\<not> counter_full st (fst (ept_violation st x))" by (simp add: ept_violation_def Let_def)
  ultimately show ?thesis by (simp add: decide_debug_def decide_def Let_def)
qed

section \<open>When the handler panics\<close>

text \<open>The step past the instruction leaves the 64-bit address space.\<close>

definition rip_overflows :: "ResumePlan \<Rightarrow> u64 option \<Rightarrow> u64 option \<Rightarrow> bool" where
  "rip_overflows plan rip len \<longleftrightarrow> advance_rip plan \<and>
     (case (rip, len) of (Some rip, Some len) \<Rightarrow> 2 ^ 64 \<le> unat rip + unat len | _ \<Rightarrow> False)"

lemma emulate_instruction_Ok: "\<exists>o' s'. emulate_instruction hw plan s = (Ok o', s')"
proof (cases "emulate plan")
  case (Some e)
  obtain o' where "fst (execute_step hw e s) = Ok o'" using total_execute_step by (metis total_def)
  then show ?thesis using Some by (metis emulate_instruction_def option.simps(5) prod.collapse)
qed (simp add: emulate_instruction_def)

lemma resume_steps_debug_eq:
  "if rip_overflows plan rip len then fst (resume_steps_debug hw number rip len plan prot s) = Panic
   else resume_steps_debug hw number rip len plan prot s = resume_steps hw number rip len plan prot s"
proof (cases "\<exists>r n. rip = Some r \<and> len = Some n \<and> advance_rip plan")
  case True
  then obtain r n where rn: "rip = Some r" "len = Some n" "advance_rip plan" by blast
  show ?thesis
  proof (cases "2 ^ 64 \<le> unat r + unat n")
    case True
    then have "advance_guest_rip_debug hw number r (Some n) = panic_with"
      by (simp add: advance_guest_rip_debug_def debug_add_def)
    with True show ?thesis using rn emulate_instruction_Ok [of hw plan s]
      by (auto simp: rip_overflows_def resume_steps_debug_def and_then_def)
  next
    case False
    then have "advance_guest_rip_debug hw number r (Some n) = advance_guest_rip hw number r (Some n)"
      by (simp add: advance_guest_rip_debug_def advance_guest_rip_def debug_add_def)
    with False show ?thesis using rn by (simp add: rip_overflows_def resume_steps_debug_def resume_steps_def)
  qed
next
  case False
  have "advance_guest_rip_debug hw number r None = advance_guest_rip hw number r None" for r
    by (simp add: advance_guest_rip_debug_def advance_guest_rip_def)
  then have "resume_steps_debug hw number rip len plan prot s = resume_steps hw number rip len plan prot s"
    using False by (cases rip; cases len) (simp_all add: resume_steps_debug_def resume_steps_def)
  then show ?thesis using False by (auto simp: rip_overflows_def split: option.splits)
qed

lemma prepare_resume_debug_eq:
  "if rip_overflows plan rip len then fst (prepare_resume_debug hw number rip len plan prot frame w) = Panic
   else prepare_resume_debug hw number rip len plan prot frame w = prepare_resume hw number rip len plan prot frame w"
  using resume_steps_debug_eq [of plan rip len hw number prot "(w, frame)"]
  by (cases "resume_steps_debug hw number rip len plan prot (w, frame)")
    (auto simp: prepare_resume_debug_def prepare_resume_def split: if_splits)

lemma apply_event_debug_eq:
  "if (case event_action ev of Resume plan \<Rightarrow> rip_overflows plan (xr_rip read) (xr_length read) | _ \<Rightarrow> False)
   then fst (apply_event_debug hw number ev read st frame w) = Panic
   else apply_event_debug hw number ev read st frame w = apply_event hw number ev read st frame w"
proof (cases "event_action ev")
  case (Resume plan)
  show ?thesis
    using prepare_resume_debug_eq [of plan "xr_rip read" "xr_length read" hw number "xr_protected read" frame w] Resume
    by (cases "prepare_resume_debug hw number (xr_rip read) (xr_length read) plan (xr_protected read) frame w")
      (auto simp: apply_event_debug_def apply_event_def and_then_def split: if_splits)
qed (simp_all add: apply_event_debug_def apply_event_def)

text \<open>What the exit's judgement and its resume plan overflow.\<close>

definition exit_overflows :: "ExitState \<Rightarrow> ExitRead \<Rightarrow> bool" where
  "exit_overflows st read =
     (case xr_exit read of
        None \<Rightarrow> False
      | Some x \<Rightarrow>
          (let ev = fst (decide st x)
           in counter_full st ev \<or>
              (case event_action ev of Resume plan \<Rightarrow> rip_overflows plan (xr_rip read) (xr_length read) | _ \<Rightarrow> False)))"

lemma vmexit_handler_debug_eq:
  fixes w :: "'m world"
  defines "number \<equiv> EXIT_COUNT (w_exits w) + 1"
  assumes "EXIT_COUNT (w_exits w) \<noteq> - 1"
    and "fst (read_exit hw number frame (w\<lparr>PHASE := 2, w_exits := (w_exits w)\<lparr>EXIT_COUNT := number\<rparr>\<rparr>)) = Ok read"
  shows "if exit_overflows (load_state (w_exits w)) read then fst (vmexit_handler_debug hw frame w) = Panic
    else vmexit_handler_debug hw frame w = vmexit_handler hw frame w"
proof -
  let ?w1 = "w\<lparr>PHASE := 2, w_exits := (w_exits w)\<lparr>EXIT_COUNT := number\<rparr>\<rparr>" and ?st = "load_state (w_exits w)"
  obtain w2 where r: "read_exit hw number frame ?w1 = (Ok read, w2)" using assms(3) by (metis prod.collapse)
  have 2: "statics w2 = statics ?w1" using keepsD [OF keeps_read_exit r] by simp
  then have ld: "load_state (w_exits w2) = ?st" by (simp add: load_state_def)
  have n: "debug_add (EXIT_COUNT (w_exits w)) 1 = Some number" using assms(2) by (simp add: debug_add_one number_def)
  let ?rest = "\<lambda>judge' apply'. and_then (judge' (xr_exit read)) (\<lambda>(event, next).
     and_then (apply' event next) (\<lambda>(act, frame'). ret (stub_return act number
       (case xr_raw_reason read of Some raw \<Rightarrow> raw | None \<Rightarrow> ucast UNREADABLE_REASON), frame'))) w2"
  have h: "vmexit_handler_debug hw frame w = ?rest judge_debug (\<lambda>ev st. apply_event_debug hw number ev read st frame)"
    "vmexit_handler hw frame w = ?rest judge (\<lambda>ev st. apply_event hw number ev read st frame)"
    using r n by (simp_all add: vmexit_handler_debug_def vmexit_handler_def and_then_Ok number_def)
  obtain ev st where j: "judged ?st (xr_exit read) = (ev, st)" by fastforce
  let ?w3 = "w2\<lparr>w_exits := store_state st (w_exits w2)\<rparr>"
  have jd: "judge (xr_exit read) w2 = (Ok (ev, st), ?w3)"
    using j ld by (simp add: judge_def judged_def)
  show ?thesis
  proof (cases "\<exists>x. xr_exit read = Some x \<and> counter_full ?st ev")
    case True
    then have "judge_debug (xr_exit read) w2 = (Panic, w2)"
      using j ld by (auto simp: judge_debug_def judged_def decide_debug_eq)
    with True show ?thesis using j by (auto simp: h(1) and_then_def exit_overflows_def judged_def)
  next
    case False
    then have jb: "judge_debug (xr_exit read) w2 = (Ok (ev, st), ?w3)"
      using j ld by (auto simp: judge_debug_def judged_def decide_debug_eq split: option.splits)
    have e: "exit_overflows ?st read \<longleftrightarrow>
        (case event_action ev of Resume plan \<Rightarrow> rip_overflows plan (xr_rip read) (xr_length read) | _ \<Rightarrow> False)"
      using False j by (cases "xr_exit read") (auto simp: exit_overflows_def judged_def)
    show ?thesis unfolding h e and_then_def [of "judge (xr_exit read)"] and_then_def [of "judge_debug (xr_exit read)"] jd jb
      using apply_event_debug_eq [where ev = ev and read = read and hw = hw and number = number and st = st and frame = frame and w = ?w3]
      by (cases "apply_event_debug hw number ev read st frame ?w3") (auto simp: and_then_def split: if_splits)
  qed
qed

section \<open>Runs of fewer than \<open>2 ^ 32\<close> exits\<close>

lemma run_counter_not_full:
  assumes "exit_run xs r" and "length xs + 1 < 2 ^ 32"
  shows "\<not> counter_full (r_state r) ev"
proof (cases ev)
  case (Emulated e)
  then show ?thesis
    using cpuid_counter.counter_not_full [OF assms] rdmsr_counter.counter_not_full [OF assms]
      wrmsr_counter.counter_not_full [OF assms] in_counter.counter_not_full [OF assms] out_counter.counter_not_full [OF assms]
    by (cases e) simp_all
qed (use main_counter.counter_not_full [OF assms] injected_counter.counter_not_full [OF assms]
  handled_counter.counter_not_full [OF assms] in simp_all)

text \<open>
  In the course of a run the counters and the exit number never overflow: only a guest RIP at the end of the
  address space can make the debug build panic.
\<close>

lemma debug_handler_in_run:
  fixes w1 :: "'m world"
  defines "number \<equiv> EXIT_COUNT (w_exits w1) + 1"
  assumes run: "handler_trace hw xs w None" and w1: "w_exits w1 = w_exits w" and len: "length xs + 1 < 2 ^ 32"
    and read: "fst (read_exit hw number frame (w1\<lparr>PHASE := 2, w_exits := (w_exits w1)\<lparr>EXIT_COUNT := number\<rparr>\<rparr>)) = Ok read"
  shows "if (case judged (load_state (w_exits w1)) (xr_exit read) of (ev, _) \<Rightarrow>
      case event_action ev of Resume plan \<Rightarrow> rip_overflows plan (xr_rip read) (xr_length read) | _ \<Rightarrow> False)
    then fst (vmexit_handler_debug hw frame w1) = Panic
    else vmexit_handler_debug hw frame w1 = vmexit_handler hw frame w1"
proof -
  from handler_trace_simulates [OF run] obtain r where r: "exit_run (List.map_filter id xs) r"
    "r_state r = load_state (w_exits w1)" "EXIT_COUNT (w_exits w1) = of_nat (length xs)"
    using w1 by (auto simp: simulates_def)
  have "length (List.map_filter id xs) \<le> length xs" by (induction xs) (auto split: option.split)
  then have full: "\<not> counter_full (load_state (w_exits w1)) ev" for ev
    using run_counter_not_full [OF r(1)] len unfolding r(2) by simp
  have "unat (of_nat (length xs) :: u64) \<noteq> unat (- 1 :: u64)" using len by (simp add: unat_of_nat unat_max)
  then have "EXIT_COUNT (w_exits w1) \<noteq> - 1" using r(3) by metis
  moreover have "exit_overflows (load_state (w_exits w1)) read \<longleftrightarrow>
      (case judged (load_state (w_exits w1)) (xr_exit read) of (ev, _) \<Rightarrow>
        case event_action ev of Resume plan \<Rightarrow> rip_overflows plan (xr_rip read) (xr_length read) | _ \<Rightarrow> False)"
    using full by (auto simp: exit_overflows_def judged_def Let_def split: option.split prod.split)
  ultimately show ?thesis using vmexit_handler_debug_eq [of w1 hw frame read] read unfolding number_def by simp
qed

end
