(* ===== verification/Spec2Isabelle.thy ===== *)
theory Spec2Isabelle
  imports Reference_Run Debug_Build
begin

text \<open>
  Verification of Aleph0, a small x86-64 hypervisor written in Rust as a UEFI application. It gives the CPU its own
  GDT and TSS, enters VMX root operation, builds a VMCS, extended page tables and exit bitmaps, runs one test guest,
  handles its VM exits, leaves VMX operation again and hands the machine back to the firmware. File names below are
  relative to \<open>src/src\<close>.

  \<^bold>\<open>How the parts fit.\<close> \<open>main.rs\<close> programs the serial port and calls \<open>bring_up::run\<close>. That activates the host tables,
  allocates the exit stack, the guest's pages and the bitmaps, checks what the processor supports, builds the EPT,
  enters VMX operation, fills the VMCS and launches the guest. Each VM exit enters the stub of \<open>vmx/vmexit/mod.rs\<close>,
  which calls the handler (\<open>vmx/vmexit/handler.rs\<close>): it reads the exit, lets the pure \<open>decide\<close>
  (\<open>vmx/exit_decision\<close>) judge it with the state kept in statics, and resumes the guest or returns a stop value, which
  \<open>vmcs::launch\<close> decodes. Teardown then leaves VMX operation on every path.

  \<^bold>\<open>Conventions.\<close> The processor's instructions and the UEFI boot services are the record \<open>platform\<close>, a parameter over an
  abstract machine state; what the program relies on of them is the assumptions of locales, and \<open>Reference_Machine\<close>
  interprets every one of them on one concrete machine, which the witnesses use. Fallible code returns a \<open>result\<close>
  (\<open>Ok\<close>, \<open>Err\<close> or \<open>Panic\<close>), effects are state-passing actions with \<open>and_then\<close> for the \<open>?\<close> operator, and a Rust \<open>static\<close> is
  a record field of the state. Integers have the source's width and wrap as in the release profile. The debug profile
  panics on overflow instead: on the exit path that concerns \<open>rip + length\<close>, the exit count and the event counters, and
  \<open>Debug_Build\<close> models the path with these additions checked (\<open>debug_handler_panics\<close>); the \<open>debug_assert!\<close> of
  \<open>fill_identity_map\<close> is a panic in the model, which \<open>build\<close> cannot reach. Loops are structural recursion over the list or
  the bound the source has; the two polling loops of the serial port take the source's own \<open>SPIN_LIMIT\<close>, so no fuel is
  added there; the guest's run takes a number of steps, and that some number is enough is proved
  (\<open>test_guest_finishes\<close>). Every definition is total.

  \<^bold>\<open>The theories.\<close>
  \<^item> \<open>Prelude\<close>: integers, results, actions, little-endian bytes, shared bit lemmas; \<open>Platform\<close>: the parameter, memory and
    allocator laws, \<open>vmx/page.rs\<close>.
  \<^item> \<open>Instruction\<close>, \<open>Msr\<close>, \<open>Segment\<close>: \<open>vmx/instruction.rs\<close>; \<open>vmx/msr.rs\<close>, \<open>cpuid.rs\<close>, \<open>cr.rs\<close>, \<open>mod.rs\<close>; \<open>vmx/segment.rs\<close>. A
    control value is chosen exactly when a legal one exists, and is the least (\<open>choose_control_least\<close>).
  \<^item> \<open>Vmcs_Fields\<close>, \<open>Vmcs\<close>: \<open>vmx/vmcs/fields.rs\<close>, \<open>vmx/vmcs/mod.rs\<close>, \<open>vmx/region.rs\<close>. Locales \<open>current_vmcs\<close> and
    \<open>supported_vmcs\<close>; the controls written are legal (\<open>configure_controls_legal\<close>).
  \<^item> \<open>Ept\<close> models \<open>vmx/ept.rs\<close>; \<open>Ept_Walk\<close> is the processor's walk with its memory types and misconfigurations, \<open>Ept_Build\<close> shows that the tables in memory are an
    identity map with one read-only page and that granting the write changes nothing else.
  \<^item> \<open>Exit_Bitmaps\<close>: \<open>vmx/exit_bitmaps.rs\<close>, with the processor's reading of the bitmaps.
  \<^item> \<open>Exit_Decision\<close>: \<open>vmx/exit_decision\<close>. \<open>Exit_Spec\<close> specifies it as a relation that \<open>decide\<close> implements; \<open>Exit_Run\<close> is
    the state machine of a guest's exits and its invariants.
  \<^item> \<open>World\<close>, \<open>Report\<close>, \<open>Launch\<close>, \<open>Handler\<close>: \<open>output.rs\<close>, \<open>port.rs\<close>, \<open>vmx/vmexit\<close>, \<open>vmx/vmcs/launch.rs\<close>. \<open>Handler_Spec\<close>: the handler
    always returns in the release profile, refines the exit machine over the exits it reads (\<open>handler_trace\<close>), and on
    lawful hardware does what the plan says and takes a planned guest to its end (\<open>handle_exits\<close>).
  \<^item> \<open>Debug_Build\<close>: the same exit path in the debug profile; in a run of fewer than \<open>2 ^ 32\<close> exits only a guest RIP at the
    end of the address space makes it panic, and otherwise it does what the release build does.
  \<^item> \<open>Stub\<close>: the assembly of \<open>vmx/vmcs/launch.rs\<close> and \<open>vmx/vmexit/mod.rs\<close>, instruction by instruction on the host's registers
    and two stacks. It refines \<open>Handler.vmexit_entry\<close>, and \<open>vmx_launch\<close> returns to its caller as \<open>setjmp\<close> does. The run takes
    a number of exits; the equation holds for every number, so a launch returns exactly when its guest stops.
  \<^item> \<open>Paging\<close>: \<open>vmx/paging.rs\<close>, equal to a specification over the entries read.
  \<^item> \<open>Guest_Constants\<close>, \<open>Guest\<close>, \<open>Guest_State\<close>: \<open>vmx/guest.rs\<close>, \<open>vmx/guest_state.rs\<close>: the guest's pages, the mapping check
    and the state loaded into the VMCS.
  \<^item> \<open>Guest_Program\<close>, \<open>Guest_Run\<close>: the guest's own code (\<open>global_asm!\<close> of \<open>vmx/guest.rs\<close>) as a list of instructions on a
    virtual processor whose exits go to \<open>decide\<close>; under any finite number of NMIs it finishes and puts back what it wrote.
  \<^item> \<open>Host_Tables\<close>, \<open>Vmxon\<close>: \<open>vmx/host_tables.rs\<close>, \<open>vmx/vmxon.rs\<close>: switching to the host's GDT and TSS; CR0 and CR4 around
    VMX operation.
  \<^item> \<open>Serial\<close>: \<open>serial.rs\<close>, with the UART's registers as the specification the port writes are replayed on.
  \<^item> \<open>Teardown\<close>, \<open>Bring_Up\<close>, \<open>Entry\<close>: \<open>bring_up/\<close>, \<open>main.rs\<close>, the panic handler and \<open>log_line\<close> of \<open>output.rs\<close>: the whole
    sequence with every early return; whatever path is taken, the firmware's tables come back. \<open>Vmcs_Setup\<close>: what the VMCS holds, field by
    field, when bring-up has prepared it (locale \<open>setup_hardware\<close>).
  \<^item> \<open>End_To_End\<close> puts the launch of \<open>Stub\<close> into bring-up and the entry point: \<open>SUCCESS\<close> is only returned when the guest
    did all of its plan (\<open>success_means_kept_plan\<close>).
  \<^item> \<open>Reference_Machine\<close>, \<open>Reference_Boot\<close>, \<open>Reference_Run\<close>: the concrete machine of the witnesses, and the whole program on
    it, every step of bring-up from the firmware's tables to teardown, up to the entry point's \<open>SUCCESS\<close>.

  \<^bold>\<open>Not modelled.\<close> What the compiler makes of the Rust functions the stubs call: of their use of the stack and the
  volatile registers only what the calling convention allows is assumed, and the stubs' memory holds the two stacks,
  which the guest cannot reach. The bytes and instruction lengths the assembler makes of the guest's code: the bytes are a parameter of
  \<open>allocate_guest\<close>, and \<open>Guest_Program\<close> indexes instructions instead. The virtual processor takes an interrupt only
  between instructions and delivers an injected NMI in one step. The text of log lines: a line is its message with the
  values it formats, and an error printed with \<open>{:?}\<close> is left out of it; the byte-level serial driver is modelled on
  its own. The \<open>uefi\<close> crate, \<open>core::fmt\<close>, \<open>halt_forever\<close>, which never returns, compile-time assertions, and the unit
  tests.
\<close>

section \<open>Correctness properties\<close>

text \<open>
  C3. The handler refines the exit machine, exit by exit: whatever the hardware does, when \<open>xs\<close> is
  what the handler read at its exits (\<open>None\<close> for an exit with a field it could not read), the machine run over the
  exits it could read is in the state the statics hold, and the statics count the exits. While the guest is running
  the machine has not stopped and every exit was read; when the handler stops the guest it reports "finished" exactly
  when the machine has finished, and an unexpected exit otherwise, with the number of the exit (modulo the bits it is
  reported in).
\<close>

theorem handler_refines_exit_machine:
  assumes "handler_trace hw xs w stop"
  shows "\<exists>r. exit_run (List.map_filter id xs) r \<and> r_state r = load_state (w_exits w) \<and>
    EXIT_COUNT (w_exits w) = of_nat (length xs) \<and>
    (case stop of
       None \<Rightarrow> r_stopped r = None \<and> None \<notin> set xs
     | Some v \<Rightarrow>
         if r_stopped r = Some Finished
         then None \<notin> set xs \<and> decode v = GuestFinished (of_nat (length xs) AND PAYLOAD_MASK)
         else \<exists>reason. decode v = GuestUnexpected (of_nat (length xs) AND EXIT_NUMBER_MASK) reason)"
  using handler_trace_simulates [OF assms] unfolding simulates_def .

lemma sample_world_start: "handler_trace rm_hw [] sample_world None"
  by (rule handler_trace.Start) (simp add: sample_world_def)

lemma sample_side_exits:
  "list_all side_exit sample_emulated"
  "count_emulations sample_emulated (emulated default_ExitState) = EXPECTED_EMULATION"
  "protected_write_exit (sample_main ! 0)" "main_vmcall_exit 0 (sample_main ! 1)" "data_page_read_back (sample_main ! 1)"
  "main_vmcall_exit 1 (sample_main ! 2)"
  by (simp_all add: sample_emulated_def sample_main_def sample_exit_def side_exit_def side_event_def
      default_ExitState_def protected_write_exit_def main_vmcall_exit_def plain_exit_def decide_eval)

lemma sample_running: "r_stopped (run_exits start_run (butlast (sample_emulated @ sample_main))) = None"
proof -
  have "butlast (sample_emulated @ sample_main) = sample_emulated @ sample_main ! 0 # [] @ sample_main ! 1 # []"
    by (simp add: sample_main_def butlast_append)
  then show ?thesis using planned_run_finishes(2) [OF sample_side_exits(1) _ _ sample_side_exits(3-6), of "[]" "[]"] sample_side_exits(2)
    by simp
qed

lemma sample_handled:
  "\<exists>w' v. handle_exits rm_hw sample_guest sample_world = Some (Some v, w') \<and> v = encode_finished 12 \<and>
     handler_trace rm_hw (map Some (sample_emulated @ sample_main)) w' (Some v)"
proof -
  let ?exits = "map (\<lambda>(m, frame). exit_info_of (rm_vmcs m) (w_ept sample_world) frame)"
  have g: "sample_guest = butlast sample_guest @ [last sample_guest]"
    by (rule append_butlast_last_id [symmetric]) (simp add: sample_guest_def)
  have e: "?exits (butlast sample_guest) = butlast (sample_emulated @ sample_main)"
    using arg_cong [OF sample_guest_exits, of butlast] by (simp add: map_butlast)
  have "r_stopped (run_exits start_run (?exits (butlast sample_guest))) = None" unfolding e by (rule sample_running)
  moreover have "r_stopped (run_exits start_run (?exits (butlast sample_guest @ [last sample_guest]))) = Some Finished"
    unfolding g [symmetric] sample_guest_exits by (rule sample_stopped)
  moreover have "r_state start_run = load_state (w_exits sample_world)" "r_stopped start_run = None" "EXIT_COUNT (w_exits sample_world) = 0"
    by (simp_all add: start_run_def default_ExitState_def load_state_def initial_ExitStatics_def sample_world_def)
  moreover have "length sample_guest = 12" by (simp add: sample_guest_def)
  ultimately obtain w' where w': "handle_exits rm_hw sample_guest sample_world = Some (Some (encode_finished 12), w')"
    using rm_exits.handle_exits_finished [of start_run sample_world "butlast sample_guest" "last sample_guest"] g by auto
  have "map (\<lambda>(m, frame). Some (exit_info_of (rm_vmcs m) (w_ept sample_world) frame)) sample_guest
      = map Some (sample_emulated @ sample_main)"
    unfolding sample_guest_exits [symmetric] by auto
  with rm_exits.handle_exits_trace [OF sample_world_start w'] w' show ?thesis by simp
qed

theorem handler_refines_exit_machine_witness:
  "\<exists>w v r. handler_trace rm_hw (map Some (sample_emulated @ sample_main)) w (Some v) \<and> exit_run (sample_emulated @ sample_main) r \<and>
     r_state r = load_state (w_exits w) \<and> EXIT_COUNT (w_exits w) = 12 \<and> r_stopped r = Some Finished \<and> decode v = GuestFinished 12"
proof -
  obtain w v where w: "handler_trace rm_hw (map Some (sample_emulated @ sample_main)) w (Some v)" "v = encode_finished 12"
    using sample_handled by blast
  have "List.map_filter id (map Some xs) = xs" for xs :: "ExitInfo list" by (induction xs) simp_all
  moreover have "length (sample_emulated @ sample_main) = 12" by (simp add: sample_emulated_def sample_main_def)
  ultimately obtain r where "exit_run (sample_emulated @ sample_main) r" "r_state r = load_state (w_exits w)" "EXIT_COUNT (w_exits w) = 12"
    "r_stopped r = Some Finished"
    using handler_refines_exit_machine [OF w(1)] w(2) by (auto simp: decode_encode_finished split: if_splits)
  moreover have "decode v = GuestFinished 12" unfolding w(2) decode_encode_finished by (simp add: const_defs)
  ultimately show ?thesis using w(1) by blast
qed

text \<open>
  C28. In the debug profile, where an addition that overflows panics, the exit handler panics at an exit of a
  run of fewer than \<open>2 ^ 32\<close> exits exactly when the exit's plan moves the guest past its instruction and RIP plus the
  instruction length does not fit in 64 bits: neither the exit number nor a counter of the exit state can overflow, no
  unreadable field and no failed write makes it panic. At every other exit it does what the release build does, and
  returns to its stub.
\<close>

theorem debug_handler_panics:
  assumes "handler_trace hw xs w None" and "w_exits w1 = w_exits w" and "length xs + 1 < 2 ^ 32"
    and "number = EXIT_COUNT (w_exits w1) + 1"
    and "fst (read_exit hw number frame (w1\<lparr>PHASE := 2, w_exits := (w_exits w1)\<lparr>EXIT_COUNT := number\<rparr>\<rparr>)) = Ok read"
  shows "(fst (vmexit_handler_debug hw frame w1) = Panic \<longleftrightarrow>
      (\<exists>x plan rip len. xr_exit read = Some x \<and> event_action (fst (decide (load_state (w_exits w1)) x)) = Resume plan \<and>
         advance_rip plan \<and> xr_rip read = Some rip \<and> xr_length read = Some len \<and> 2 ^ 64 \<le> unat rip + unat len)) \<and>
    (fst (vmexit_handler_debug hw frame w1) \<noteq> Panic \<longrightarrow>
       (\<exists>v frame' w2. vmexit_handler_debug hw frame w1 = (Ok (v, frame'), w2) \<and> vmexit_handler hw frame w1 = (Ok (v, frame'), w2)))"
proof -
  let ?over = "case judged (load_state (w_exits w1)) (xr_exit read) of (ev, _) \<Rightarrow>
      case event_action ev of Resume plan \<Rightarrow> rip_overflows plan (xr_rip read) (xr_length read) | _ \<Rightarrow> False"
  have over: "?over \<longleftrightarrow> (\<exists>x plan rip len. xr_exit read = Some x \<and> event_action (fst (decide (load_state (w_exits w1)) x)) = Resume plan \<and>
      advance_rip plan \<and> xr_rip read = Some rip \<and> xr_length read = Some len \<and> 2 ^ 64 \<le> unat rip + unat len)"
    by (auto simp: judged_def rip_overflows_def split: option.splits ExitAction.splits prod.splits)
  obtain v frame' w2 where h: "vmexit_handler hw frame w1 = (Ok (v, frame'), w2)"
    using totalE [OF total_vmexit_handler] by (metis prod.collapse)
  from debug_handler_in_run [OF assms(1-3) assms(5) [unfolded assms(4)]] h show ?thesis
    unfolding over [symmetric] by (auto split: if_splits)
qed

definition sample_cpuid_at :: "u64 \<Rightarrow> machine world" where
  "sample_cpuid_at rip = sample_world\<lparr>w_machine := (fst (hd sample_guest))\<lparr>rm_vmcs := (rm_vmcs (fst (hd sample_guest)))(GUEST_RIP := rip)\<rparr>\<rparr>"

theorem debug_handler_panics_witness:
  "(\<exists>v frame' w. vmexit_handler_debug rm_hw (snd (hd sample_guest)) (sample_cpuid_at 0x4000) = (Ok (v, frame'), w)) \<and>
   fst (vmexit_handler_debug rm_hw (snd (hd sample_guest)) (sample_cpuid_at (- 1))) = Panic"
proof -
  let ?f = "snd (hd sample_guest)" and ?fld = "\<lambda>rip. rm_vmcs (w_machine (sample_cpuid_at rip))"
  let ?read = "\<lambda>rip. exit_read_of (?fld rip) (w_ept sample_world) ?f"
  let ?w1 = "\<lambda>rip. (sample_cpuid_at rip)\<lparr>PHASE := 2, w_exits := (w_exits (sample_cpuid_at rip))\<lparr>EXIT_COUNT := 1\<rparr>\<rparr>"
  have w: "w_exits (sample_cpuid_at rip) = w_exits sample_world" "1 = EXIT_COUNT (w_exits (sample_cpuid_at rip)) + 1" for rip
    by (simp_all add: sample_cpuid_at_def sample_world_def initial_ExitStatics_def)
  have r: "fst (read_exit rm_hw 1 ?f (?w1 rip)) = Ok (?read rip)" for rip
    using rm_exits.read_exit_ok [of 1 ?f "?w1 rip"] by (fastforce simp: sample_cpuid_at_def)
  have d: "event_action (fst (decide (load_state (w_exits (sample_cpuid_at rip))) (exit_info_of (?fld rip) (w_ept sample_world) ?f)))
      = Resume (PAST_INSTRUCTION\<lparr>emulate := Some (Cpuid 1 0)\<rparr>)" for rip
    by (simp add: sample_cpuid_at_def sample_guest_def sample_world_def exit_info_of_def from_raw_def is_ept_exit_def
        protected_page_def decode_invept_def is_valid_def field_defs decide_eval load_state_def initial_ExitStatics_def)
  have rip: "?fld rip GUEST_RIP = rip" "?fld rip VM_EXIT_INSTRUCTION_LEN = 2" for rip
    by (simp_all add: sample_cpuid_at_def sample_guest_def field_defs)
  note p = debug_handler_panics [OF sample_world_start w(1) _ w(2) r]
  have "fst (vmexit_handler_debug rm_hw ?f (sample_cpuid_at a)) = Panic \<longleftrightarrow> 2 ^ 64 \<le> unat a + 2" for a
    using p [of a] d [of a] rip [of a] by (simp add: exit_read_of_def PAST_INSTRUCTION_def)
  from this [of "0x4000"] this [of "- 1"] p [of "0x4000"] show ?thesis by (auto simp: unat_max)
qed



text \<open>
  C13. On hardware that keeps its laws a guest that keeps to its plan is run to its end: when its exits
  \<open>ms\<close> are emulated instructions, NMIs and MSR faults around the write of the protected page and the two main VMCALLs,
  with the planned number of emulated instructions, the handler resumes the guest at every one of them but the last,
  and there returns "finished" with the number of exits (modulo the 62 bits it reports it in).
\<close>

theorem planned_guest_finishes:
  fixes hw :: "'m platform" and w :: "'m world"
  assumes hw: "exit_hardware hw field supported" and w: "w_exits w = initial_ExitStatics"
    and exits: "map (\<lambda>(m, frame). exit_info_of (field m) (w_ept w) frame) ms = as @ e # bs @ x # cs @ [l]"
    and side: "list_all side_exit (as @ bs @ cs)" and e: "protected_write_exit e"
    and x: "main_vmcall_exit 0 x" "data_page_read_back x" and l: "main_vmcall_exit 1 l"
    and counts: "count_emulations (as @ bs @ cs) (emulated default_ExitState) = EXPECTED_EMULATION"
  shows "\<exists>v w'. handle_exits hw ms w = Some (Some v, w') \<and> decode v = GuestFinished (of_nat (length ms) AND PAYLOAD_MASK)"
proof -
  let ?exits = "map (\<lambda>(m, frame). exit_info_of (field m) (w_ept w) frame)"
  from exits have "?exits ms = (as @ e # bs @ x # cs) @ [l]" by simp
  then obtain ms' l' where ms: "ms = ms' @ [l']" "?exits ms' = as @ e # bs @ x # cs"
    by (cases ms rule: rev_cases) (simp_all del: append_assoc append_Cons)
  have "r_stopped (run_exits start_run (?exits ms)) = Some Finished" "r_stopped (run_exits start_run (?exits ms')) = None"
    unfolding exits ms(2) using planned_run_finishes [OF _ _ _ e x l counts] side by simp_all
  moreover have "r_state start_run = load_state (w_exits w)" "r_stopped start_run = None" "EXIT_COUNT (w_exits w) = 0"
    using w by (simp_all add: start_run_def default_ExitState_def load_state_def initial_ExitStatics_def)
  ultimately show ?thesis
    using exit_hardware.handle_exits_finished [OF hw, of start_run w ms' l'] ms(1) by (auto simp: decode_encode_finished)
qed

theorem planned_guest_finishes_witness:
  "\<exists>v w'. handle_exits rm_hw sample_guest sample_world = Some (Some v, w') \<and> decode v = GuestFinished 12"
proof -
  have "\<exists>v w'. handle_exits rm_hw sample_guest sample_world = Some (Some v, w') \<and>
      decode v = GuestFinished (of_nat (length sample_guest) AND PAYLOAD_MASK)"
  proof (rule planned_guest_finishes [OF rm_exits.exit_hardware_axioms, where w = sample_world and ms = sample_guest
        and as = sample_emulated and bs = "[]" and cs = "[]"])
    show "w_exits sample_world = initial_ExitStatics" by (simp add: sample_world_def)
    show "map (\<lambda>(m, frame). exit_info_of (rm_vmcs m) (w_ept sample_world) frame) sample_guest
        = sample_emulated @ sample_main ! 0 # [] @ sample_main ! 1 # [] @ [sample_main ! 2]"
      unfolding sample_guest_exits by (simp add: sample_main_def)
  qed (use sample_side_exits in simp_all)
  moreover have "length sample_guest = 12" by (simp add: sample_guest_def)
  ultimately show ?thesis by (simp add: const_defs)
qed


text \<open>
  C11. On hardware that keeps its laws the handler does what the decision says, and reports it: the
  stub gets the decision's value, the statics hold the decision's state, and the VMCS and the guest's registers are
  what the resume plan makes of them (the instruction skipped, the event queued, the NMI window switched, the
  instruction executed for the guest), or untouched when the guest is stopped.
\<close>

theorem handler_on_lawful_hardware:
  assumes "exit_hardware hw field supported"
    and "decide (load_state (w_exits w)) (exit_info_of (field (w_machine w)) (w_ept w) frame) = (ev, st)"
  shows "\<exists>frame' w'. vmexit_handler hw frame w =
      (Ok (stub_return (event_action ev) (EXIT_COUNT (w_exits w) + 1) (ucast (field (w_machine w) VM_EXIT_REASON)), frame'), w') \<and>
    load_state (w_exits w') = st \<and> EXIT_COUNT (w_exits w') = EXIT_COUNT (w_exits w) + 1 \<and>
    (case event_action ev of
       Resume plan \<Rightarrow> field (w_machine w') = plan_fields plan (field (w_machine w)) \<and>
         (case emulate plan of None \<Rightarrow> frame' = frame
          | Some e \<Rightarrow> \<exists>did m'. execute hw e frame (w_machine w) = (Ok (did, frame'), m'))
     | _ \<Rightarrow> w_machine w' = w_machine w \<and> frame' = frame)"
  by (rule exit_hardware.vmexit_handler_ok [OF assms])

definition sample_cpuid_world :: "machine world" where
  "sample_cpuid_world = sample_world\<lparr>w_machine := fst (hd sample_guest)\<rparr>"

lemma sample_cpuid_decision:
  "decide (load_state (w_exits sample_cpuid_world))
     (exit_info_of (rm_vmcs (w_machine sample_cpuid_world)) (w_ept sample_cpuid_world) (snd (hd sample_guest)))
   = (Emulated (Cpuid 1 0), default_ExitState\<lparr>emulated := (emulated default_ExitState)\<lparr>n_cpuid := 1\<rparr>\<rparr>)"
  by (simp add: sample_cpuid_world_def sample_guest_def sample_world_def exit_info_of_def from_raw_def is_ept_exit_def
      protected_page_def decode_invept_def is_valid_def field_defs decide_eval load_state_def initial_ExitStatics_def
      default_ExitState_def)

theorem handler_on_lawful_hardware_witness:
  "\<exists>frame' w'. vmexit_handler rm_hw (snd (hd sample_guest)) sample_cpuid_world = (Ok (0, frame'), w') \<and>
     n_cpuid (emulated (load_state (w_exits w'))) = 1 \<and> rm_vmcs (w_machine w') GUEST_RIP = 0x4002 \<and> \<not> bit (reg_rcx frame') 5"
proof -
  have ecx: "\<not> bit (reg_rcx frame') 5"
    if "execute rm_hw (Cpuid 1 0) (snd (hd sample_guest)) m = (Ok (did, frame'), m')" for frame' did m m'
    using that by (auto simp: execute_def and_then_def rm_hw_def cpuid_policy_def const_defs Let_def)
  have rip: "rm_vmcs (w_machine sample_cpuid_world) GUEST_RIP = 0x4000"
    "rm_vmcs (w_machine sample_cpuid_world) VM_EXIT_INSTRUCTION_LEN = 2"
    by (simp_all add: sample_cpuid_world_def sample_guest_def field_defs)
  show ?thesis
    using handler_on_lawful_hardware [OF rm_exits.exit_hardware_axioms sample_cpuid_decision] ecx rip
    by (auto simp: RESUME_GUEST_def plan_defs plan_fields_def)
qed

text \<open>
  C12. While the guest runs, the NMI-window-exiting control (bit 22 of the primary controls) is set
  exactly while an NMI is waiting: the handler keeps this invariant at every exit it resumes from, so a deferred NMI
  always gets its window and no window opens without one.
\<close>

theorem nmi_window_matches_pending:
  assumes "exit_hardware hw field supported"
    and "bit (field (w_machine w) PRIMARY_VM_EXEC_CONTROL) 22 \<longleftrightarrow> nmi_pending (load_state (w_exits w))"
    and "vmexit_handler hw frame w = (Ok (0, frame'), w')"
  shows "bit (field (w_machine w') PRIMARY_VM_EXEC_CONTROL) 22 \<longleftrightarrow> nmi_pending (load_state (w_exits w'))"
proof -
  obtain ev st where d: "decide (load_state (w_exits w)) (exit_info_of (field (w_machine w)) (w_ept w) frame) = (ev, st)"
    by fastforce
  have st: "st = event_effect ev (load_state (w_exits w))"
    using decide_effect [of "load_state (w_exits w)" "exit_info_of (field (w_machine w)) (w_ept w) frame"] d by simp
  have h: "stub_return (event_action ev) (EXIT_COUNT (w_exits w) + 1) (ucast (field (w_machine w) VM_EXIT_REASON)) = 0"
    "load_state (w_exits w') = st"
    "\<And>plan. event_action ev = Resume plan \<Longrightarrow> field (w_machine w') = plan_fields plan (field (w_machine w))"
    using exit_hardware.vmexit_handler_ok [OF assms(1) d] assms(3) by auto
  from h(1) obtain plan where "event_action ev = Resume plan" by (auto simp: stub_return_zero)
  then show ?thesis
    using assms(2) h(2) h(3) [of plan] st
    by (cases ev) (auto simp: plan_fields_def plan_defs nmi_window_bit field_defs Let_def)
qed

definition sample_nmi_world :: "machine world" where
  "sample_nmi_world = sample_world\<lparr>w_machine := rm_init\<lparr>rm_vmcs := (\<lambda>_. 0)(VM_EXIT_INTERRUPTION_INFO := 0x80000202,
     GUEST_INTERRUPTIBILITY_STATE := 8)\<rparr>\<rparr>"

lemma sample_nmi_decision:
  "decide (load_state (w_exits sample_nmi_world))
     (exit_info_of (rm_vmcs (w_machine sample_nmi_world)) (w_ept sample_nmi_world) frame)
   = (NmiDeferred, default_ExitState\<lparr>nmi_pending := True\<rparr>)"
  by (simp add: sample_nmi_world_def sample_world_def exit_info_of_def from_raw_def is_ept_exit_def
      protected_page_def decode_invept_def is_valid_def is_nmi_def vector_def field_defs decide_eval load_state_def
      initial_ExitStatics_def default_ExitState_def)

theorem nmi_window_matches_pending_witness:
  "\<exists>frame' w'. vmexit_handler rm_hw (snd (hd sample_guest)) sample_nmi_world = (Ok (0, frame'), w') \<and>
     nmi_pending (load_state (w_exits w')) \<and> bit (rm_vmcs (w_machine w') PRIMARY_VM_EXEC_CONTROL) 22"
proof -
  obtain frame' w' where h: "vmexit_handler rm_hw (snd (hd sample_guest)) sample_nmi_world = (Ok (0, frame'), w')"
    "load_state (w_exits w') = default_ExitState\<lparr>nmi_pending := True\<rparr>"
    using rm_exits.vmexit_handler_ok [OF sample_nmi_decision, of "snd (hd sample_guest)"] by (auto simp: RESUME_GUEST_def)
  have "bit (rm_vmcs (w_machine sample_nmi_world) PRIMARY_VM_EXEC_CONTROL) 22
      \<longleftrightarrow> nmi_pending (load_state (w_exits sample_nmi_world))"
    by (simp add: sample_nmi_world_def sample_world_def load_state_def initial_ExitStatics_def field_defs)
  from nmi_window_matches_pending [OF rm_exits.exit_hardware_axioms this h(1)] h show ?thesis by auto
qed

text \<open>
  C25. The bitmaps and the decision agree: an RDMSR or WRMSR that exits under the bitmaps the hypervisor
  fills is never an exit the decision does not know, in any state.
\<close>

theorem msr_exits_are_decided:
  assumes "fill (replicate PAGE_SIZE 0) (replicate PAGE_SIZE 0) (replicate PAGE_SIZE 0) = Some (msr, io_a, io_b)"
    and "cpu_msr_exits msr access (ucast (ei_guest_rcx x))" and "plain_exit x (case access of Read \<Rightarrow> 31 | Write \<Rightarrow> 32)"
  shows "event_action (fst (decide st x)) \<noteq> UnexpectedStop"
proof -
  obtain msr' io_a' io_b' where
    "fill (replicate PAGE_SIZE 0) (replicate PAGE_SIZE 0) (replicate PAGE_SIZE 0) = Some (msr', io_a', io_b')"
    "\<And>m access. cpu_msr_exits msr' access m \<longleftrightarrow> m \<in> set INTERCEPTED_MSRS \<or> \<not> msr_in_bitmap m"
    by (rule fill_zeroed) blast
  with assms(1,2) have "ucast (ei_guest_rcx x) \<in> set INTERCEPTED_MSRS \<or> \<not> msr_in_bitmap (ucast (ei_guest_rcx x))" by simp
  then show ?thesis using assms(3)
    by (cases access) (auto simp: decide_dispatch rdmsr_exit_def wrmsr_exit_def Let_def route_unfold intercepted_in_bitmap)
qed

theorem msr_exits_are_decided_witness:
  "event_action (fst (decide default_ExitState (sample_exit 31 0 0xC0000102 0 0))) \<noteq> UnexpectedStop"
proof -
  obtain msr io_a io_b where f:
    "fill (replicate PAGE_SIZE 0) (replicate PAGE_SIZE 0) (replicate PAGE_SIZE 0) = Some (msr, io_a, io_b)"
    "\<And>m access. cpu_msr_exits msr access m \<longleftrightarrow> m \<in> set INTERCEPTED_MSRS \<or> \<not> msr_in_bitmap m"
    by (rule fill_zeroed) blast
  show ?thesis
    by (rule msr_exits_are_decided [OF f(1), where access = Read])
      (simp_all add: f(2) sample_exit_def plain_exit_def INTERCEPTED_MSRS_def const_defs)
qed

text \<open>
  C7. A successful EPT build maps guest-physical memory onto itself: with the tables it leaves in memory
  the processor translates every address below the end of the map to itself, readable, writable and executable
  everywhere except on the protected page, which can only be read, and as write-back memory; no entry on the way is
  misconfigured and VM entry accepts the pointer. An address above the end (up to the 48 bits of the walk) is not mapped. The boot services only have to hand out pages that overlap nothing handed out before.
\<close>

theorem build_identity_map:
  assumes "page_allocator hw taken" and "build hw prot invept (m, s) = (Ok ept, (m', s'))" and "unat gpa < 2 ^ 48"
  shows "ept_walk (\<lambda>a. load64 hw a m') (ept_eptp ept) gpa =
    (if gpa < ept_end ept then Some (identity_translation prot EPT_READ gpa) else None)"
proof -
  obtain pml4 pdpt pds pt gibs where b: "ept_eptp ept = eptp_new pml4" "unat (ept_end ept) = gibs * 2 ^ 30" "gibs \<le> 512"
    "unat prot < gibs * 2 ^ 30" "unat prot mod 4096 = 0" "tables_placed pml4 pdpt pds pt gibs"
    "identity_tables (\<lambda>a. load64 hw a m') pml4 pdpt pds pt gibs prot EPT_READ"
    using page_allocator.build_OkD [OF assms(1,2)] by metis
  have "bit EPT_READ 0" by (simp add: const_defs)
  then show ?thesis
    using identity_walk [OF b(7,6,3-5)] identity_walk_outside [OF b(7,6)] assms(3) b(1,2)
    by (simp add: word_less_nat_alt not_less)
qed

lemma sample_build:
  "\<exists>ept m' s'. build rm_hw 0x5000 SingleContext (rm_init, initial_EptStatics) = (Ok ept, (m', s')) \<and> ept_end ept = 0x40000000"
proof (rule rm_build_ok)
  show "identity_map_end (rm_map rm_init) = Ok 0x40000000"
    by (simp add: identity_map_end_iff rm_init_def memory_end_def region_end_def round_up_gib_def)
qed (simp_all add: rm_init_def)

theorem build_identity_map_witness:
  "\<exists>ept m' s'. build rm_hw 0x5000 SingleContext (rm_init, initial_EptStatics) = (Ok ept, (m', s')) \<and>
     ept_walk (\<lambda>a. load64 rm_hw a m') (ept_eptp ept) 0x5123 =
       Some \<lparr>hpa = 0x5123, can_read = True, can_write = False, can_execute = False, page_memory_type = 6\<rparr> \<and>
     ept_walk (\<lambda>a. load64 rm_hw a m') (ept_eptp ept) 0x3FFFFFFF =
       Some \<lparr>hpa = 0x3FFFFFFF, can_read = True, can_write = True, can_execute = True, page_memory_type = 6\<rparr> \<and>
     ept_walk (\<lambda>a. load64 rm_hw a m') (ept_eptp ept) 0x40000000 = None"
proof -
  obtain ept m' s' where b: "build rm_hw 0x5000 SingleContext (rm_init, initial_EptStatics) = (Ok ept, (m', s'))"
    "ept_end ept = 0x40000000" using sample_build by blast
  note w = build_identity_map [OF rm_alloc.page_allocator_axioms b(1)]
  show ?thesis
    using b w [of "0x5123"] w [of "0x3FFFFFFF"] w [of "0x40000000"]
    by (simp add: identity_translation_def const_defs)
qed

text \<open>
  C8. Granting the write changes the translation of one page: after \<open>grant_write\<close> on the page
  the build published, whether or not INVEPT succeeds, the protected page can be read and written but not
  executed, and every other address translates as before.
\<close>

theorem grant_write_only_protected_page:
  assumes "page_allocator hw taken" and "invept_memory hw"
    and "build hw prot invept (m, s) = (Ok ept, (m', s'))" and "protected_page s' = Some page"
    and "grant_write hw page m' = (r, m'')" and "unat gpa < 2 ^ 48"
  shows "ept_walk (\<lambda>a. load64 hw a m'') (ept_eptp ept) gpa =
    (if gpa < ept_end ept then Some (identity_translation prot (EPT_READ OR EPT_WRITE) gpa) else None)"
proof -
  obtain pml4 pdpt pds pt gibs where b: "ept_eptp ept = eptp_new pml4" "unat (ept_end ept) = gibs * 2 ^ 30" "gibs \<le> 512"
    "unat prot < gibs * 2 ^ 30" "unat prot mod 4096 = 0" "tables_placed pml4 pdpt pds pt gibs"
    "tables_apart pml4 pdpt pds pt gibs" "identity_tables (\<lambda>a. load64 hw a m') pml4 pdpt pds pt gibs prot EPT_READ"
    "protected_page s' = Some \<lparr>pp_gpa = prot, pp_entry = pt + 8 * of_nat (unat prot div 4096 mod 512),
       pp_eptp = eptp_new pml4, pp_invept = invept\<rparr>"
    using page_allocator.build_OkD [OF assms(1,3)] by metis
  have "pp_entry page = pt + 8 * of_nat (unat prot div 4096 mod 512)" using assms(4) b(9) by auto
  from invept_memory.grant_write_tables [OF assms(2,5) this b(8,6,7)]
  have t: "identity_tables (\<lambda>a. load64 hw a m'') pml4 pdpt pds pt gibs prot (EPT_READ OR EPT_WRITE)" .
  have "bit (EPT_READ OR EPT_WRITE) 0" by (simp add: const_defs)
  then show ?thesis
    using identity_walk [OF t b(6,3-5)] identity_walk_outside [OF t b(6)] assms(6) b(1,2)
    by (simp add: word_less_nat_alt not_less)
qed

theorem grant_write_only_protected_page_witness:
  "\<exists>(ept :: Ept) m' m'' (page :: ProtectedPage). grant_write rm_hw page m' = (Ok SingleContext, m'') \<and>
     ept_walk (\<lambda>a. load64 rm_hw a m'') (ept_eptp ept) 0x5123 =
       Some \<lparr>hpa = 0x5123, can_read = True, can_write = True, can_execute = False, page_memory_type = 6\<rparr> \<and>
     ept_walk (\<lambda>a. load64 rm_hw a m'') (ept_eptp ept) 0x6000 =
       Some \<lparr>hpa = 0x6000, can_read = True, can_write = True, can_execute = True, page_memory_type = 6\<rparr>"
proof -
  obtain ept m' s' where b: "build rm_hw 0x5000 SingleContext (rm_init, initial_EptStatics) = (Ok ept, (m', s'))"
    "ept_end ept = 0x40000000" using sample_build by blast
  obtain page where p: "protected_page s' = Some page" "pp_invept page = SingleContext"
    using rm_alloc.build_OkD [OF b(1)] by (metis ProtectedPage.select_convs(4))
  obtain m'' where g: "grant_write rm_hw page m' = (Ok SingleContext, m'')"
    using rm_exits.grant_write_ok [of page m'] p(2) by auto
  note w = grant_write_only_protected_page [OF rm_alloc.page_allocator_axioms rm_invept.invept_memory_axioms b(1) p(1) g]
  have "identity_translation 0x5000 (EPT_READ OR EPT_WRITE) 0x5123
      = \<lparr>hpa = 0x5123, can_read = True, can_write = True, can_execute = False, page_memory_type = 6\<rparr>"
    "identity_translation 0x5000 (EPT_READ OR EPT_WRITE) 0x6000
      = \<lparr>hpa = 0x6000, can_read = True, can_write = True, can_execute = True, page_memory_type = 6\<rparr>"
    by (simp_all add: identity_translation_def const_defs)
  then show ?thesis using g b(2) w [of "0x5123"] w [of "0x6000"]
    by (intro exI [of _ ept] exI [of _ m'] exI [of _ m''] exI [of _ page]) simp
qed

text \<open>
  C18. After the controls are written, every control field of the VMCS holds a value the processor
  accepts, with the secondary controls activated when any is asked for; the fields no part of the program uses are
  0, every exception exits, and the NMI-window control the exit handler relies on is one the processor allows.
\<close>

theorem configure_controls_legal:
  assumes "current_vmcs hw field" and "configure_controls hw caps desired m = (Ok (), m')"
  shows "legal_control (pinbased caps) (ucast (field m' PIN_BASED_VM_EXEC_CONTROL)) \<and>
    legal_control (primary caps) (ucast (field m' PRIMARY_VM_EXEC_CONTROL)) \<and>
    legal_control (exit_cap caps) (ucast (field m' VM_EXIT_CONTROLS)) \<and>
    legal_control (entry_cap caps) (ucast (field m' VM_ENTRY_CONTROLS)) \<and>
    (dc_secondary desired \<noteq> 0 \<longrightarrow> legal_control (secondary caps) (ucast (field m' SECONDARY_VM_EXEC_CONTROL)) \<and>
       bit (field m' PRIMARY_VM_EXEC_CONTROL) 31) \<and>
    bit (allowed (primary caps)) 22 \<and> field m' EXCEPTION_BITMAP = 0xFFFFFFFF \<and>
    list_all (\<lambda>f. field m' f = 0) ZEROED_FIELDS"
proof -
  from assms(2) obtain c where c: "choose_controls caps desired = Ok c" and w: "write_fields hw (control_writes c) m = (Ok (), m')"
    unfolding configure_controls_def by (auto elim!: and_then_OkE)
  note f = current_vmcs.write_fields_OkD [OF assms(1) w control_writes_distinct]
  note ch = choose_controls_OkD [OF c]
  have fields: "field m' PIN_BASED_VM_EXEC_CONTROL = ucast (ch_pin c)" "field m' PRIMARY_VM_EXEC_CONTROL = ucast (ch_primary c)"
    "field m' VM_EXIT_CONTROLS = ucast (ch_exit c)" "field m' VM_ENTRY_CONTROLS = ucast (ch_entry c)"
    "ch_secondary c = Some v \<Longrightarrow> field m' SECONDARY_VM_EXEC_CONTROL = ucast v"
    "field m' EXCEPTION_BITMAP = 0xFFFFFFFF" "list_all (\<lambda>f. field m' f = 0) ZEROED_FIELDS" for v
    using control_writes_zeroed [of c] by (simp_all add: f control_writes_map control_writes_exceptions list_all_iff)
  have "bit (ucast (ch_primary c) :: u64) 31" if "dc_secondary desired \<noteq> 0"
  proof -
    have "ch_primary c = (dc_primary desired OR CPU_BASED_ACTIVATE_SECONDARY_CONTROLS) OR required (primary caps)"
      using choose_control_OkD(1) [OF ch(2)] that by (simp add: primary_request_def)
    then show ?thesis by (simp add: bit_simps CPU_BASED_ACTIVATE_SECONDARY_CONTROLS_def)
  qed
  moreover have "bit (allowed (primary caps)) 22"
    using ch(7) unfolding allows_iff CPU_BASED_NMI_WINDOW_EXITING_def bit_push_bit_1 by simp
  ultimately show ?thesis
    using fields ch(5) choose_control_OkD(2) [OF ch(1)] choose_control_OkD(2) [OF ch(2)] choose_control_OkD(2) [OF ch(3)]
      choose_control_OkD(2) [OF ch(4)] choose_control_OkD(2)
    by fastforce
qed

definition sample_caps :: VmcsControlMsrs where
  "sample_caps = \<lparr>basic = 0, pinbased = 0xFFFFFFFF00000016, primary = 0xFFFFFFFF0401E172, exit_cap = 0xFFFFFFFF00036DFF,
     entry_cap = 0xFFFFFFFF000011FF, secondary = 0xFFFFFFFF00000000, ept_vpid_cap = 0\<rparr>"

lemma sample_configure:
  "\<exists>m'. configure_controls rm_hw sample_caps minimal_64_bit_guest rm_init = (Ok (), m')"
proof -
  obtain c where c: "choose_controls sample_caps minimal_64_bit_guest = Ok c"
    by (simp add: choose_controls_def choose_control_def allows_def allowed_def required_def sample_caps_def
        minimal_64_bit_guest_def primary_request_def const_defs)
  have "\<exists>m'. write_fields rm_hw (control_writes c) rm_init = (Ok (), m')"
    by (rule rm_vmcs.write_fields_ok) (cases "ch_secondary c";
      auto simp: control_writes_def ZEROED_FIELDS_def EXCEPTION_BITMAP_ALL_def field_defs field_type_of_def field_bits_def
        field_width_of_def)
  then show ?thesis by (simp add: configure_controls_def and_then_def c)
qed

theorem configure_controls_legal_witness:
  "\<exists>m'. configure_controls rm_hw sample_caps minimal_64_bit_guest rm_init = (Ok (), m') \<and>
     legal_control (primary sample_caps) (ucast (rm_vmcs m' PRIMARY_VM_EXEC_CONTROL)) \<and> rm_vmcs m' EXCEPTION_BITMAP = 0xFFFFFFFF"
proof -
  obtain m' where m': "configure_controls rm_hw sample_caps minimal_64_bit_guest rm_init = (Ok (), m')"
    using sample_configure by blast
  from configure_controls_legal [OF rm_vmcs.current_vmcs_axioms m'] m' show ?thesis by blast
qed

text \<open>
  C10. Once the host tables are active, every way bring-up returns leaves the firmware's own GDT loaded: after a
  failure before VMXON, and after teardown on every path behind it, whatever the guest did to the machine. (A panic
  halts the CPU instead of returning.)
\<close>

theorem bring_up_restores:
  assumes "teardown_registers hw" and "activate_host_tables hw b = (Ok tables, b1)"
    and "run hw img entry_rip vmx_launch b = (r, b')" and "r \<noteq> Panic"
  shows "read_gdtr hw (machine_of b') = read_gdtr hw (machine_of b)"
  by (rule teardown_registers.run_restores [OF assms])

definition sample_boot :: "machine bring_up" where
  "sample_boot = \<lparr>b_world = \<lparr>w_machine = rm_init, w_ept = initial_EptStatics, w_exits = initial_ExitStatics, PHASE = 0, w_serial = []\<rparr>,
     b_log = []\<rparr>"

definition oversized_image :: guest_image where
  "oversized_image = \<lparr>guest_code = replicate 4097 0x90, nmi_handler_offset = 0\<rparr>"

lemma sample_boot_tables:
  "\<exists>tables b'. activate_host_tables rm_hw sample_boot = (Ok tables, b') \<and> rm_next (machine_of b') = 0x102000"
proof -
  have "firmware_tables (machine_of sample_boot)" "rm_next (machine_of sample_boot) = 0x100000"
    by (simp_all add: sample_boot_def rm_init_def firmware_tables_def)
  from rm_activate_host_tables [OF this] obtain tables b' m where "activate_host_tables rm_hw sample_boot = (Ok tables, b')"
    "rm_next m = 0x102000" "b_world b' = (b_world sample_boot)\<lparr>w_machine := i_ltr rm_hw 0x48 (load_gdtr rm_hw host_gdtr m)\<rparr>" by blast
  moreover have "rm_next (i_ltr rm_hw 0x48 (load_gdtr rm_hw host_gdtr m)) = rm_next m" by (simp add: load_gdtr_def rm_hw_def)
  ultimately show ?thesis by simp
qed

lemma rm_report_segment_state:
  "\<exists>b'. (report_segment_state rm_hw :: (machine bring_up, BringUpError, unit) action) b = (Ok (), b') \<and> machine_of b' = machine_of b"
  by (simp add: report_segment_state_def and_then_run on_cpu_run read_all_def read_fs_base_def read_gs_base_def rm_rdmsr log_line_def)

theorem bring_up_restores_witness:
  "\<exists>r b'. run rm_hw oversized_image 0 (\<lambda>w. (0, w)) sample_boot = (r, b') \<and> r = Err (BGuestMemory CodeTooLarge) \<and>
     read_gdtr rm_hw (machine_of b') = \<lparr>base = 0x2000, limit = 0x47\<rparr>"
proof -
  obtain tables b1 where a: "activate_host_tables rm_hw sample_boot = (Ok tables, b1)" "rm_next (machine_of b1) = 0x102000"
    using sample_boot_tables by blast
  obtain b2 where s: "(report_segment_state rm_hw :: (machine bring_up, BringUpError, unit) action) b1 = (Ok (), b2)"
    "machine_of b2 = machine_of b1"
    using rm_report_segment_state by blast
  have st: "rm_next (machine_of b2) + 4 * 4096 \<le> 2 ^ 52" "4096 dvd rm_next (machine_of b2)" using s(2) a(2) by simp_all
  obtain m3 where al: "allocate_zeroed_pages rm_hw 4 StackAllocationFailed (machine_of b2) = (Ok 0x102000, m3)"
    using rm_allocate [OF st, of StackAllocationFailed] s(2) a(2) by auto
  obtain b' where r: "run rm_hw oversized_image 0 (\<lambda>w. (0, w)) sample_boot = (Err (BGuestMemory CodeTooLarge), b')"
    using a s al
    by (simp add: run_def and_then_run enter_vmx_def on_cpu_run map_err_run allocate_exit_stack_def VM_EXIT_STACK_PAGES_def
        exit_stack_top_def stack_top_def VM_EXIT_STACK_SIZE_def PAGE_SIZE_def log_line_def allocate_guest_def oversized_image_def)
  from bring_up_restores [OF rm_teardown.teardown_registers_axioms a(1) r]
  have "read_gdtr rm_hw (machine_of b') = read_gdtr rm_hw (machine_of sample_boot)" by simp
  also have "\<dots> = \<lparr>base = 0x2000, limit = 0x47\<rparr>" by (simp add: sample_boot_def rm_init_def rm_hw_def read_gdtr_def)
  finally show ?thesis using r by simp
qed

lemma rm_instructions: "i_vmclear rm_hw p m = (RFLAGS_SUCCESS, m)" "i_vmxoff rm_hw m = (RFLAGS_SUCCESS, m)"
  "i_vmxon rm_hw p m = (RFLAGS_SUCCESS, m)"
  by (simp_all add: rm_hw_def)

text \<open>
  C21. Teardown never panics and always hands firmware its GDT and IDT and the boot-services output phase; when it
  reports success, VMXOFF succeeded and CR0 and CR4 have their values from before VMXON.
\<close>

theorem teardown_restores:
  assumes "teardown_registers hw" and "teardown hw operation vmcs firmware b = (r, b')"
  shows "r \<noteq> Panic \<and> read_gdtr hw (machine_of b') = fw_gdtr firmware \<and> read_idtr hw (machine_of b') = fw_idtr firmware \<and>
    PHASE (b_world b') = phase_value BootServices \<and>
    (r = Ok () \<longrightarrow> i_read_cr0 hw (machine_of b') = original_cr0 operation \<and> i_read_cr4 hw (machine_of b') = original_cr4 operation)"
  using teardown_registers.teardown_run [OF assms] by simp

theorem teardown_restores_witness:
  "let operation = \<lparr>op_region = \<lparr>phys_addr = 0x5000\<rparr>, original_cr0 = 0x80010033, original_cr4 = 0x668\<rparr>;
       firmware = \<lparr>fw_gdtr = \<lparr>base = 0x2000, limit = 0x47\<rparr>, fw_idtr = \<lparr>base = 0x3000, limit = 0xFFF\<rparr>, fw_interrupts_enabled = True\<rparr>
   in \<exists>b'. teardown rm_hw operation (Some \<lparr>phys_addr = 0x6000\<rparr>) firmware sample_boot = (Ok (), b') \<and>
      read_gdtr rm_hw (machine_of b') = fw_gdtr firmware \<and> rm_cr4 (machine_of b') = 0x668"
proof -
  let ?op = "\<lparr>op_region = \<lparr>phys_addr = 0x5000\<rparr>, original_cr0 = 0x80010033, original_cr4 = 0x668\<rparr>"
  let ?fw = "\<lparr>fw_gdtr = \<lparr>base = 0x2000, limit = 0x47\<rparr>, fw_idtr = \<lparr>base = 0x3000, limit = 0xFFF\<rparr>, fw_interrupts_enabled = True\<rparr>"
  obtain b' where t: "teardown rm_hw ?op (Some \<lparr>phys_addr = 0x6000\<rparr>) ?fw sample_boot = (Ok (), b')"
    by (simp add: teardown_def and_then_run on_cpu_run catch_error_run map_err_run vmclear_def leave_def vmxoff_def vmx_asm_def
        log_failure_def log_line_def teardown_report_def on_world_def split_beta rm_instructions)
  from teardown_restores [OF rm_teardown.teardown_registers_axioms t] t show ?thesis by (simp add: rm_hw_def)
qed

text \<open>
  C14. Activating the host tables on a CPU whose active GDT lies in owned memory: afterwards the CPU uses the
  recorded copy, TR names the TSS descriptor and its base is the TSS, and every selector of the firmware's table
  reads the same descriptor through the new one. The firmware's GDTR is recorded for teardown.
\<close>

theorem host_tables_switched:
  assumes "descriptor_registers hw taken" and "table_within (taken (machine_of b)) (read_gdtr hw (machine_of b))"
    and "activate_host_tables hw b = (Ok tables, b')"
  shows "read_gdtr hw (machine_of b') = ht_gdtr tables \<and> i_str hw (machine_of b') = ht_tr tables \<and>
    segment_base_from_gdt hw (ht_gdtr tables) (ht_tr tables) (machine_of b') = ht_tss_base tables \<and>
    ht_firmware_gdtr tables = read_gdtr hw (machine_of b) \<and>
    (\<forall>s k. descriptor_offset (ht_firmware_gdtr tables) s 8 = Some k \<longrightarrow>
       read_descriptor hw (ht_gdtr tables) s (machine_of b') = read_descriptor hw (ht_firmware_gdtr tables) s (machine_of b))"
proof -
  from activate_host_tables_OkD [OF assms(3)] obtain tss m1 region m2 region' m3 where
    tss: "tss_allocate hw (machine_of b) = (Ok tss, m1)" and copy: "copy_active hw m1 = (Ok region, m2)"
    and app: "append_tss_descriptor hw region tss m2 = (Ok (ht_tr tables, region'), m3)"
    and act: "activate hw region' tss m3 = (Ok (), machine_of b')"
    and tab: "prepared_gdtr region' = Some (ht_gdtr tables)" "ht_tss_base tables = tss_base tss" .
  note f = activate_records_gdtr [OF assms(3)]
  note s = descriptor_registers.switched_tables [OF assms(1) tss copy app act assms(2)]
  have g: "ht_gdtr tables = read_gdtr hw (machine_of b')" using tab(1) s(1,2) by simp
  show ?thesis using s(3,4,5) tab(2) g f by simp
qed

theorem host_tables_switched_witness:
  "\<exists>tables b'. activate_host_tables rm_hw sample_boot = (Ok tables, b') \<and> rm_tr (machine_of b') = ht_tr tables \<and>
     read_descriptor rm_hw (ht_gdtr tables) 0x38 (machine_of b')
       = read_descriptor rm_hw \<lparr>base = 0x2000, limit = 0x47\<rparr> 0x38 (machine_of sample_boot)"
proof -
  obtain tables b' where a: "activate_host_tables rm_hw sample_boot = (Ok tables, b')" using sample_boot_tables by blast
  have g: "read_gdtr rm_hw (machine_of sample_boot) = \<lparr>base = 0x2000, limit = 0x47\<rparr>"
    by (simp add: sample_boot_def rm_init_def rm_hw_def read_gdtr_def)
  have w: "table_within {..<rm_next (machine_of sample_boot)} (read_gdtr rm_hw (machine_of sample_boot))"
    unfolding g by (auto simp: table_within_def sample_boot_def rm_init_def)
  have "descriptor_offset \<lparr>base = 0x2000, limit = 0x47\<rparr> 0x38 8 = Some 0x38" by (simp add: descriptor_offset_def const_defs)
  then show ?thesis
    using host_tables_switched [OF rm_tables.descriptor_registers_axioms w a] a g by (simp add: rm_hw_def)
qed

text \<open>
  C30. Activation of a prepared table refuses, with nothing loaded, exactly when a check fails, and names the
  first: the TSS descriptor, the active CS and SS, the IDT. Otherwise it loads GDTR and TR and its own check of the
  result passes.
\<close>

theorem activation_outcome:
  assumes "descriptor_registers hw taken" and "prepared_gdtr region = Some gdtr" and "tss_selector region = Some selector"
  shows "activate hw region tss m =
    (case activation_refusal hw region tss m of
       Some e \<Rightarrow> (Err e, m)
     | None \<Rightarrow> (Ok (), i_ltr hw selector (load_gdtr hw gdtr m)))"
  using descriptor_registers.activate_loads [OF assms(1) _ assms(2,3)] activate_refused by (auto split: option.split)

theorem activation_outcome_witness:
  "let region = \<lparr>gdt_page = 0x101000, original_length = 0x48, tss_selector = Some 0x48\<rparr>
   in activate rm_hw region \<lparr>tss_page = 0x100000\<rparr> rm_init = (Err TssVerificationFailed, rm_init)"
proof -
  let ?region = "\<lparr>gdt_page = 0x101000, original_length = 0x48, tss_selector = Some 0x48\<rparr>"
  have "load_bytes rm_hw 0x101048 16 rm_init ! 5 = 0" by (simp add: load_bytes_def rm_hw_def rm_init_def)
  then have "\<not> verify_tss_descriptor rm_hw ?region \<lparr>tss_page = 0x100000\<rparr> rm_init"
    by (simp add: verify_tss_descriptor_def Let_def const_defs)
  then have "activation_refusal rm_hw ?region \<lparr>tss_page = 0x100000\<rparr> rm_init = Some TssVerificationFailed"
    by (simp add: activation_refusal_def)
  then show ?thesis
    using activation_outcome [OF rm_tables.descriptor_registers_axioms, of ?region]
    by (simp add: prepared_gdtr_def)
qed

text \<open>
  C20. Entering VMX operation and leaving it again gives back the control registers. When entering fails, CR0 and
  CR4 are as before; when it succeeds they hold the bits the processor fixes, with VMXE set, and the values from
  before are remembered; a later leave that succeeds, whatever happened in between, puts those back.
\<close>

theorem vmxon_registers:
  assumes "control_registers hw vmx_msr" and "enter_vmx_root_operation hw m = (r, m1)"
  shows "case r of
      Ok operation \<Rightarrow>
        i_read_cr0 hw m1 = (i_read_cr0 hw m OR vmx_msr IA32_VMX_CR0_FIXED0) AND vmx_msr IA32_VMX_CR0_FIXED1 \<and>
        i_read_cr4 hw m1 = (i_read_cr4 hw m OR CR4_VMXE OR vmx_msr IA32_VMX_CR4_FIXED0) AND vmx_msr IA32_VMX_CR4_FIXED1 \<and>
        (\<forall>m2 m3. leave hw operation m2 = (Ok (), m3) \<longrightarrow>
           i_read_cr0 hw m3 = i_read_cr0 hw m \<and> i_read_cr4 hw m3 = i_read_cr4 hw m)
    | _ \<Rightarrow> i_read_cr0 hw m1 = i_read_cr0 hw m \<and> i_read_cr4 hw m1 = i_read_cr4 hw m"
  using control_registers.enter_cr [OF assms] control_registers.leave_cr [OF assms(1)]
  by (cases r)
    (simp_all add: control_registers.fixed_cr0_def [OF assms(1)] control_registers.fixed_cr4_def [OF assms(1)] or.assoc)

theorem vmxon_registers_witness:
  "\<exists>operation m1 m2. enter_vmx_root_operation rm_hw rm_init = (Ok operation, m1) \<and> bit (rm_cr4 m1) 13 \<and>
     leave rm_hw operation m1 = (Ok (), m2) \<and> rm_cr4 m2 = 0x668"
proof -
  have z: "rm_next rm_init + 1 * 4096 \<le> 2 ^ 52" "4096 dvd rm_next rm_init" by (simp_all add: rm_init_def)
  obtain m' where a: "allocate_zeroed_page rm_hw VmxOnAllocationFailed rm_init = (Ok (of_nat (rm_next rm_init)), m')"
    by (rule rm_allocate [OF z, of VmxOnAllocationFailed]) (simp add: allocate_zeroed_page_def)
  obtain operation m1 where e: "enter_vmx_root_operation rm_hw rm_init = (Ok operation, m1)"
    by (simp add: enter_vmx_root_operation_def and_then_run rm_rdmsr rm_caps_def const_defs allocate_region_def a vmcs_revision_id_def
        apply_fixed_bits_def vmxon_or_restore_def vmxon_def map_err_run vmx_asm_def rm_instructions split_beta)
  note v = vmxon_registers [OF rm_control.control_registers_axioms e, simplified]
  obtain m2 where l: "leave rm_hw operation m1 = (Ok (), m2)"
    by (simp add: leave_def vmxoff_def vmx_asm_def and_then_run rm_instructions)
  have "rm_cr4 m1 = 0x2668" "rm_cr4 m2 = 0x668"
    using v l by (simp_all add: rm_hw_def rm_init_def rm_caps_def const_defs)
  then show ?thesis using e l by auto
qed

text \<open>
  C22. A successful allocation of the guest's memory gives page-aligned pages with the data page right behind the
  code page; the code page holds the assembled code, the data page starts with the seed, and the gate of vector 2 in
  the guest's IDT is a present interrupt gate without IST to the copied NMI handler, through the current CS.
\<close>

theorem guest_pages_hold:
  assumes "guest_allocation hw taken" and "allocate_guest hw img m = (Ok memory, m')"
  defines "gate \<equiv> load_bytes hw (idt_page memory + 32) 16 m'"
  shows "page_aligned (code_page memory) \<and> page_aligned (stack_page memory) \<and> page_aligned (idt_page memory) \<and>
    page_aligned (data_page memory) \<and> unat (data_page memory) = unat (code_page memory) + 4096 \<and>
    load_bytes hw (code_page memory) (length (guest_code img)) m' = guest_code img \<and>
    load_bytes hw (data_page memory) 4 m' = to_le_bytes GUEST_DATA_SEED \<and>
    gate_handler gate = nmi_handler img memory \<and> gate_selector gate = i_cs hw m \<and> gate ! 4 = 0 \<and> gate ! 5 = 0x8E"
  unfolding gate_def
  using guest_allocation.allocate_guest_OkD [OF assms(1,2)] by (simp add: interrupt_gate_fields)

definition small_image :: guest_image where
  "small_image = \<lparr>guest_code = [0x0F, 0x01, 0xC1, 0x0F, 0x0B], nmi_handler_offset = 3\<rparr>"

lemma rm_allocate_guest:
  assumes "rm_next m = 0x100000"
  shows "\<exists>m'. allocate_guest rm_hw small_image m = (Ok \<lparr>code_page = 0x100000, stack_page = 0x102000, idt_page = 0x103000\<rparr>, m')"
proof -
  obtain m1 where m1: "allocate_zeroed_pages_of_type rm_hw 2 LOADER_CODE CodeAllocationFailed m = (Ok 0x100000, m1)" "rm_next m1 = 0x102000"
    using rm_allocate_of_type [of m 2 LOADER_CODE CodeAllocationFailed] assms by auto
  obtain m2 where m2: "allocate_zeroed_pages_of_type rm_hw 1 LOADER_DATA GuestStackAllocationFailed m1 = (Ok 0x102000, m2)" "rm_next m2 = 0x103000"
    using rm_allocate_of_type [of m1 1 LOADER_DATA GuestStackAllocationFailed] m1(2) by auto
  obtain m3 where m3: "allocate_zeroed_pages_of_type rm_hw 1 LOADER_DATA IdtAllocationFailed m2 = (Ok 0x103000, m3)"
    using rm_allocate_of_type [of m2 1 LOADER_DATA IdtAllocationFailed] m2(2) by auto
  show ?thesis by (simp add: allocate_guest_def and_then_run m1 m2 m3 small_image_def PAGE_SIZE_def Let_def
        del: One_nat_def)
qed

theorem guest_pages_hold_witness:
  "\<exists>memory m'. allocate_guest rm_hw small_image rm_init = (Ok memory, m') \<and>
     load_bytes rm_hw (code_page memory) (length (guest_code small_image)) m' = guest_code small_image \<and>
     gate_handler (load_bytes rm_hw (idt_page memory + 32) 16 m') = code_page memory + 3"
proof -
  obtain memory m' where a: "allocate_guest rm_hw small_image rm_init = (Ok memory, m')"
    using rm_allocate_guest [of rm_init] by (auto simp: rm_init_def)
  from guest_pages_hold [OF rm_guest.guest_allocation_axioms a] a show ?thesis
    by (auto simp: nmi_handler_def code_base_def) (simp add: small_image_def)
qed

text \<open>
  C24. After a successful \<open>init\<close>, sending a text puts exactly its bytes on the wire, each newline as CR LF, and nothing
  of the setup or the loopback probe: on the UART's registers, whatever they held before, the port writes of both
  calls replay to 115200 8N1 out of loopback with that text transmitted.
\<close>

theorem serial_wire:
  fixes hw :: "'m platform" and r :: "('e, unit) result"
  assumes "port_trace hw trace" and "init hw s = (Ok (), s1)" and "write_str hw chars s1 = (r, s2)"
  shows "\<exists>ws. trace (s_machine s2) = trace (s_machine s) @ ws \<and>
    uart_replay ws u = (programmed u)\<lparr>u_wire := u_wire u @ crlf chars\<rparr>"
proof -
  have i: "READY s1" "trace (s_machine s1) = trace (s_machine s) @ init_writes"
    using port_trace.init_run [OF assms(1), of s] assms(2) by simp_all
  have "trace (s_machine s2) = trace (s_machine s) @ init_writes @ map (Pair COM1) (crlf chars)"
  proof -
    have "s2 = snd (write_str hw chars s1 :: ('e, unit) result \<times> _)" using assms(3) by simp
    then show ?thesis using i by (simp add: port_trace.write_str_run [OF assms(1)])
  qed
  moreover have "\<not> bit (u_line (programmed u)) 7" "\<not> bit (u_modem (programmed u)) 4"
    by (simp_all add: programmed_def)
  then have "uart_replay (init_writes @ map (Pair COM1) (crlf chars)) u = (programmed u)\<lparr>u_wire := u_wire u @ crlf chars\<rparr>"
    by (simp add: uart_replay_append replay_init replay_data) (simp add: programmed_def)
  ultimately show ?thesis by blast
qed

theorem serial_wire_witness:
  "\<exists>s1 s2. init rm_hw \<lparr>s_machine = rm_init, READY = False\<rparr> = (Ok (), s1) \<and>
     (write_str rm_hw [0x48, 0x0A] s1 :: (unit, unit) result \<times> _) = (Ok (), s2) \<and>
     (\<exists>ws. map (\<lambda>(p, v). (p, ucast v)) (rm_out (s_machine s2)) = ws \<and>
       u_wire (uart_replay ws \<lparr>u_divisor = 12, u_interrupts = 1, u_fifo = 0, u_line = 3, u_modem = 0, u_wire = []\<rparr>) = [0x48, 0x0D, 0x0A])"
proof -
  let ?s = "\<lparr>s_machine = rm_init, READY = False\<rparr>" and ?u = "\<lparr>u_divisor = 12, u_interrupts = 1, u_fifo = 0, u_line = 3, u_modem = 0, u_wire = []\<rparr>"
  obtain s1 where s1: "init rm_hw ?s = (Ok (), s1)" using rm_init_serial by blast
  obtain s2 where s2: "(write_str rm_hw [0x48, 0x0A] s1 :: (unit, unit) result \<times> _) = (Ok (), s2)"
    using rm_ports.write_str_run [of "[0x48, 0x0A]" s1] by (metis prod.collapse)
  from serial_wire [OF rm_ports.port_trace_axioms s1 s2, of ?u] s1 s2 show ?thesis
    by (auto simp: rm_init_def)
qed

text \<open>
  C16. The guest starts as the processor is. The captured state is the processor's own: its control registers,
  GDTR, SYSENTER MSRs, and PAT and EFER when VM entry loads them; its segment registers with the contents of their
  descriptors (accessed bit set, null selectors and the LDTR unusable); with the given RIP, RSP and IDT and RFLAGS 2. CS is 64-bit
  code and TR a busy 64-bit TSS. On a processor that has the guest-state fields, writing it succeeds; then each
  field of the guest area, by its name, holds its part of the state (with DR7 0x400, no VMCS link and no pending event),
  and no other field changed.
\<close>

theorem guest_state_loaded:
  assumes "setup_hardware hw field supported msr" and "list_all supported guest_state_fields"
    and "from_current hw rip rsp idtr m = (Ok s, m1)"
  shows "m1 = m \<and> captured_state hw msr m (field m VM_ENTRY_CONTROLS) rip rsp idtr s \<and> entry_segments s \<and>
    (\<exists>m'. write_guest_state hw s m = (Ok (), m') \<and> holds_guest_state (field m') s \<and>
       (g_pat s = None \<longrightarrow> field m' GUEST_IA32_PAT = field m GUEST_IA32_PAT) \<and>
       (g_efer s = None \<longrightarrow> field m' GUEST_IA32_EFER = field m GUEST_IA32_EFER) \<and>
       (\<forall>f. f \<notin> set guest_state_fields \<longrightarrow> field m' f = field m f))"
proof -
  note c = setup_hardware.from_current_captured [OF assms(1,3)] and e = from_current_OkD(5) [OF assms(3)]
  note fit = guest_writes_fit [OF from_current_sysenter [OF assms(3)]]
  have v: "supported_vmcs hw field supported" using assms(1) by (rule setup_hardware.axioms)
  have "\<exists>m'. write_fields hw (guest_writes s) m = (Ok (), m')"
    using assms(2) fit guest_writes_fields [of s]
    by (intro supported_vmcs.write_fields_ok [OF v]) (force simp: list_all_iff)
  then obtain m' where w: "write_guest_state hw s m = (Ok (), m')"
    by (auto simp: write_guest_state_run write_field_for_each)
  note h = setup_hardware.write_guest_state_writes [OF assms(1) w]
  show ?thesis using c e w h(1,3,4) changes_onlyD(2) [OF h(2)] by (intro conjI exI [of _ m'] allI impI) simp_all
qed

text \<open>Firmware with a 64-bit code segment at 0x38 and a busy TSS at 0x40, and the bytes of their descriptors.\<close>

definition sample_firmware :: machine where
  "sample_firmware = rm_init\<lparr>rm_tr := 0x40, rm_mem := (\<lambda>_. 0)(0x203D := 0x9B, 0x203E := 0xAF, 0x2045 := 0x8B)\<rparr>"

lemma load64_nonzero_bytes:
  "load64 hw a m = from_le_bytes [i_load8 hw a m, i_load8 hw (a + 1) m, i_load8 hw (a + 2) m, i_load8 hw (a + 3) m,
     i_load8 hw (a + 4) m, i_load8 hw (a + 5) m, i_load8 hw (a + 6) m, i_load8 hw (a + 7) m]"
proof -
  have "[0..<8] = [0, 1, 2, 3, 4, 5, 6, 7 :: nat]" by (simp add: upt_rec)
  then show ?thesis by (simp add: load64_def load_bytes_def)
qed

lemma sample_segments:
  "read_descriptor rm_hw \<lparr>base = 0x2000, limit = 0x47\<rparr> 0x38 sample_firmware = Some 0x00AF9B0000000000"
  "read_descriptor rm_hw \<lparr>base = 0x2000, limit = 0x47\<rparr> 0x30 sample_firmware = Some 0"
  "read_descriptor rm_hw \<lparr>base = 0x2000, limit = 0x47\<rparr> 0x40 sample_firmware = Some 0x00008B0000000000"
proof -
  have o: "descriptor_offset \<lparr>base = 0x2000, limit = 0x47\<rparr> 0x38 8 = Some 0x38"
    "descriptor_offset \<lparr>base = 0x2000, limit = 0x47\<rparr> 0x30 8 = Some 0x30"
    "descriptor_offset \<lparr>base = 0x2000, limit = 0x47\<rparr> 0x40 8 = Some 0x40" by (simp_all add: descriptor_offset_def const_defs)
  show "read_descriptor rm_hw \<lparr>base = 0x2000, limit = 0x47\<rparr> 0x38 sample_firmware = Some 0x00AF9B0000000000"
    "read_descriptor rm_hw \<lparr>base = 0x2000, limit = 0x47\<rparr> 0x30 sample_firmware = Some 0"
    "read_descriptor rm_hw \<lparr>base = 0x2000, limit = 0x47\<rparr> 0x40 sample_firmware = Some 0x00008B0000000000"
    by (simp_all add: read_descriptor_def o load64_nonzero_bytes rm_hw_def sample_firmware_def)
qed

lemma sample_from_current:
  "\<exists>s. from_current rm_hw 0x100000 0x103000 \<lparr>base = 0x103000, limit = 0x2F\<rparr> sample_firmware = (Ok s, sample_firmware) \<and>
     gs_access_rights (g_cs s) = 0xA09B"
proof -
  have regs: "read_gdtr rm_hw sample_firmware = \<lparr>base = 0x2000, limit = 0x47\<rparr>" "i_str rm_hw sample_firmware = 0x40"
    "i_cs rm_hw sample_firmware = 0x38" "i_ss rm_hw sample_firmware = 0x30" "i_ds rm_hw sample_firmware = 0x30"
    "i_es rm_hw sample_firmware = 0x30" "i_fs rm_hw sample_firmware = 0x30" "i_gs rm_hw sample_firmware = 0x30"
    "vmread rm_hw VM_ENTRY_CONTROLS sample_firmware = (Ok 0, sample_firmware)"
    by (simp_all add: read_gdtr_def rm_hw_def sample_firmware_def rm_init_def vmread_def)
  show ?thesis
    by (simp add: from_current_def and_then_run read_all_def read_fs_base_def read_gs_base_def rm_rdmsr regs map_err_run
        segment_from_gdt_def sample_segments SELECTOR_RPL_def rdmsr_if_def check_segments_def from_descriptor_def
        is_usable_def access_rights_def Let_def const_defs)
qed

theorem guest_state_loaded_witness:
  "\<exists>s m'. from_current rm_hw 0x100000 0x103000 \<lparr>base = 0x103000, limit = 0x2F\<rparr> sample_firmware = (Ok s, sample_firmware) \<and>
     write_guest_state rm_hw s sample_firmware = (Ok (), m') \<and> rm_vmcs m' GUEST_RIP = 0x100000 \<and>
     rm_vmcs m' GUEST_CS_ACCESS_RIGHTS = 0xA09B \<and> rm_vmcs m' GUEST_CR0 = 0x80010033 \<and> rm_vmcs m' GUEST_CR3 = 0x1000 \<and>
     rm_vmcs m' GUEST_GDTR_BASE = 0x2000 \<and> rm_vmcs m' GUEST_IDTR_BASE = 0x103000"
proof -
  obtain s where s: "from_current rm_hw 0x100000 0x103000 \<lparr>base = 0x103000, limit = 0x2F\<rparr> sample_firmware = (Ok s, sample_firmware)"
    "gs_access_rights (g_cs s) = 0xA09B"
    using sample_from_current by blast
  have all: "list_all (\<lambda>_. True) guest_state_fields" by (simp add: list_all_iff)
  have regs: "i_read_cr0 rm_hw sample_firmware = 0x80010033" "i_read_cr3 rm_hw sample_firmware = 0x1000"
    "read_gdtr rm_hw sample_firmware = \<lparr>base = 0x2000, limit = 0x47\<rparr>"
    by (simp_all add: read_gdtr_def rm_hw_def sample_firmware_def rm_init_def)
  from guest_state_loaded [OF rm_setup.setup_hardware_axioms all s(1)] obtain m' where
    m': "write_guest_state rm_hw s sample_firmware = (Ok (), m')" "holds_guest_state (rm_vmcs m') s"
    and c: "g_rip s = 0x100000" "g_cr0 s = 0x80010033" "g_cr3 s = 0x1000" "base (g_gdtr s) = 0x2000" "base (g_idtr s) = 0x103000"
    unfolding captured_state_def regs by auto
  show ?thesis
    using s m' c by (intro exI [of _ s] exI [of _ m'] conjI) (simp_all add: holds_guest_state_def holds_segment_def)
qed

text \<open>
  C33. What the VMCS holds when bring-up has prepared it for the first entry, after all of its steps: NMI exiting and
  virtual NMIs, the I/O and MSR bitmaps, EPT, a 64-bit host and a 64-bit guest are on and every exception exits; the EPT
  pointer is that of the tables built, the bitmap addresses those of the bitmaps filled; the host state is the
  processor's own, with PAT and EFER where VM exits load them, and exits arrive at the entry stub on top of the exit
  stack; the guest state is the processor's too, starting at the guest's code on top of its stack with its own IDT. The
  setup changes no register of the processor, no MSR and no memory.
\<close>

theorem prepared_vmcs:
  assumes "setup_hardware hw field supported msr"
    and "prepare_vmcs hw entry_rip controls stack guest ept bitmaps b = (Ok (), b')"
  shows "let fld = field (machine_of b'); m = machine_of b in
    cpu_state hw msr (machine_of b') = cpu_state hw msr m \<and> holds_controls fld \<and> fld EPT_POINTER = ept_eptp ept \<and>
    fld MSR_BITMAP = bm_msr bitmaps \<and> fld IO_BITMAP_A = bm_io_a bitmaps \<and> fld IO_BITMAP_B = bm_io_b bitmaps \<and>
    holds_host_state hw msr m fld \<and> fld HOST_RSP = stack_base stack + 0x4000 \<and> fld HOST_RIP = entry_rip \<and>
    (\<exists>s. captured_state hw msr m (fld VM_ENTRY_CONTROLS) (code_base guest) (stack_page guest + 0x1000)
        \<lparr>base = idt_page guest, limit = 0x2F\<rparr> s \<and> entry_segments s \<and> holds_guest_state fld s)"
  using setup_hardware.prepare_vmcs_fields [OF assms] unfolding Let_def by blast

theorem prepared_vmcs_witness:
  "\<exists>tables b b'. activate_host_tables rm_hw (sample_boot\<lparr>b_world := (b_world sample_boot)\<lparr>w_machine := booting []\<rparr>\<rparr>) = (Ok tables, b) \<and>
     prepare_vmcs rm_hw 0x200000 boot_controls \<lparr>stack_base = 0x102000\<rparr> boot_guest
       \<lparr>ept_eptp = 0x10D01E, ept_end = 0x40000000, ept_table_pages = 5\<rparr> \<lparr>bm_msr = 0x10A000, bm_io_a = 0x10B000, bm_io_b = 0x10C000\<rparr> b
       = (Ok (), b') \<and>
     rm_vmcs (machine_of b') EPT_POINTER = 0x10D01E \<and> rm_vmcs (machine_of b') MSR_BITMAP = 0x10A000 \<and>
     rm_vmcs (machine_of b') HOST_RIP = 0x200000 \<and> rm_vmcs (machine_of b') HOST_RSP = 0x106000 \<and>
     rm_vmcs (machine_of b') HOST_CR3 = 0x1000 \<and> rm_vmcs (machine_of b') HOST_TR_SELECTOR = 0x48 \<and>
     rm_vmcs (machine_of b') GUEST_RSP = 0x109000"
proof -
  let ?b0 = "sample_boot\<lparr>b_world := (b_world sample_boot)\<lparr>w_machine := booting []\<rparr>\<rparr>"
  have "machine_of ?b0 = booting []" by simp
  then obtain tables b where b: "activate_host_tables rm_hw ?b0 = (Ok tables, b)" "booted (machine_of b)"
    by (rule boot_activate)
  obtain b' where b': "prepare_vmcs rm_hw 0x200000 boot_controls \<lparr>stack_base = 0x102000\<rparr> boot_guest
      \<lparr>ept_eptp = 0x10D01E, ept_end = 0x40000000, ept_table_pages = 5\<rparr> \<lparr>bm_msr = 0x10A000, bm_io_a = 0x10B000, bm_io_b = 0x10C000\<rparr> b
      = (Ok (), b')"
    using boot_prepare_vmcs [OF b(2), of "0x200000"] by fastforce
  have "i_read_cr3 rm_hw (machine_of b) = 0x1000" "i_str rm_hw (machine_of b) = 0x48"
    using b(2) by (simp_all add: booted_def rm_hw_def)
  with prepared_vmcs [OF rm_setup.setup_hardware_axioms b'] b(1) b' show ?thesis
    by (auto simp: Let_def holds_host_state_def captured_state_def holds_guest_state_def boot_guest_def
        intro!: exI [of _ tables] exI [of _ b] exI [of _ b'])
qed

text \<open>
  C5. The test guest always reaches its end. Run under the hypervisor with any finite number of NMIs, arriving
  whenever they like, it passes its own checks of the emulated instructions, makes the write to the protected page and
  both main VMCALLs, and is stopped as finished; the MSR and the port it wrote have their values back. The exits it
  makes on the way are a run of the exit machine.
\<close>

theorem test_guest_finishes:
  assumes "passthrough_devices hw kernel_gs scratch" and "is_canonical_48 (kernel_gs m)"
    and "data_address code AND NOT 0xFFF = data_address code" and "data_address code \<noteq> 0" and "finite {t. nmis t}"
  shows "\<exists>n xs. let s = run_guest hw code nmis n (guest_start code frame m)
    in vm_run s = run_exits start_run xs \<and> r_stopped (vm_run s) = Some Finished \<and>
       kernel_gs (vm_machine s) = kernel_gs m \<and> scratch (vm_machine s) = scratch m"
proof -
  obtain n where n: "let s = run_guest hw code nmis n (guest_start code frame m)
    in r_stopped (vm_run s) = Some Finished \<and> kernel_gs (vm_machine s) = kernel_gs m \<and> scratch (vm_machine s) = scratch m"
    using passthrough_devices.guest_always_finishes [OF assms] by blast
  obtain xs where "vm_run (run_guest hw code nmis n (guest_start code frame m)) = run_exits start_run xs"
    using run_guest_run [of "guest_start code frame m" hw code nmis n] by (auto simp: guest_start_def more_exits_def)
  then show ?thesis using n by (intro exI [of _ n] exI [of _ xs]) (simp add: Let_def)
qed

definition blank_frame :: RegisterFrame where
  "blank_frame = \<lparr>reg_rax = 0, reg_rbx = 0, reg_rcx = 0, reg_rdx = 0, reg_rsi = 0, reg_rdi = 0, reg_rbp = 0, reg_r8 = 0,
     reg_r9 = 0, reg_r10 = 0, reg_r11 = 0, reg_r12 = 0, reg_r13 = 0, reg_r14 = 0, reg_r15 = 0\<rparr>"

theorem test_guest_finishes_witness:
  "\<exists>n. let s = run_guest rm_hw 0x100000 (\<lambda>t. t \<in> {3, 60, 62}) n (guest_start 0x100000 blank_frame rm_init)
    in r_stopped (vm_run s) = Some Finished \<and> rm_msr (vm_machine s) IA32_KERNEL_GS_BASE = 0"
proof -
  have gs: "rm_msr rm_init IA32_KERNEL_GS_BASE = 0" by (simp add: rm_init_def)
  have canonical: "is_canonical_48 (rm_msr rm_init IA32_KERNEL_GS_BASE)" by (simp add: gs is_canonical_48_def)
  have page: "data_address 0x100000 AND NOT 0xFFF = data_address 0x100000" "data_address 0x100000 \<noteq> 0"
    by (simp_all add: data_address_def)
  have nmis: "finite {t :: nat. t \<in> {3, 60, 62}}" by simp
  show ?thesis
    using test_guest_finishes [OF rm_devices.passthrough_devices_axioms canonical page nmis, of blank_frame] gs
    unfolding Let_def by metis
qed

text \<open>
  C9. The assembly stubs implement the launch: \<open>vmx_launch\<close> comes back to its caller's return address
  with the caller's stack pointer and callee-saved registers and the stop value in RAX, whatever the guest and the
  exit handler did to the registers in between, and every exit hands the guest's registers to the handler and the
  handler's back to the guest. No call breaks the stack alignment, and the only outcomes are a stop value or a guest
  that is still running after \<open>n\<close> exits.
\<close>

theorem vmx_launch_like_setjmp:
  assumes "stack_top stack = Some hsp" and "unat (stack_base stack) + VM_EXIT_STACK_SIZE < 2 ^ 64"
    and "launch_stack (stack_base stack) hsp (h_rsp c)"
  shows "map_option (map_prod (map_result id launch_view) id)
       (vmx_launch_stub n hw vmlaunch vmresume guest (stack_base stack) hsp clobber c w) =
     map_option (map_prod (map_result id (\<lambda>v. (v, h_mem c (h_rsp c), h_rsp c + 8, callee_saved (h_regs c)))) id)
       (launch_run n hw vmlaunch vmresume guest (h_regs c) w) \<and>
     fst ` set_option (launch_run n hw vmlaunch vmresume guest (h_regs c) w) \<subseteq> range Ok"
  using vmx_launch_stub_refines [OF assms] launch_run_Ok by fastforce

definition sample_cpu :: host_cpu where
  "sample_cpu =
     \<lparr>h_regs = \<lparr>reg_rax = 1, reg_rbx = 2, reg_rcx = 3, reg_rdx = 4, reg_rsi = 5, reg_rdi = 6, reg_rbp = 7, reg_r8 = 8,
        reg_r9 = 9, reg_r10 = 10, reg_r11 = 11, reg_r12 = 12, reg_r13 = 13, reg_r14 = 14, reg_r15 = 15\<rparr>,
      h_rsp = 0x9008, h_rflags = 2, h_rip = 0, h_mem = (\<lambda>_. 0)(0x9008 := 0x4321), h_launch_rsp = 0\<rparr>"

lemma sample_stacks:
  "stack_top \<lparr>stack_base = 0x100000\<rparr> = Some 0x104000"
  "unat (stack_base \<lparr>stack_base = 0x100000\<rparr>) + VM_EXIT_STACK_SIZE < 2 ^ 64"
  "launch_stack (stack_base \<lparr>stack_base = 0x100000\<rparr>) 0x104000 (h_rsp sample_cpu)"
  by (simp_all add: stack_top_def launch_stack_def sample_cpu_def const_defs)

theorem vmx_launch_like_setjmp_witness:
  "\<exists>v k w'. map_option (map_prod (map_result id launch_view) id)
      (vmx_launch_stub 12 rm_hw (\<lambda>_. Pair None) (\<lambda>_. Pair None) sample_script 0x100000 0x104000 id sample_cpu sample_world)
    = Some (Ok (v, 0x4321, 0x9010, [15, 14, 13, 12, 5, 6, 7, 2]), w') \<and> decode v = GuestFinished k"
  using vmx_launch_like_setjmp [OF sample_stacks, of 12 rm_hw "\<lambda>_. Pair None" "\<lambda>_. Pair None" sample_script id sample_world]
    sample_launch [of "h_regs sample_cpu"]
  by (auto simp: callee_saved_def sample_cpu_def)





end
